(* ===== verification/Prelude.thy ===== *)
theory Prelude
  imports Main "HOL-Library.List_Lexorder" "HOL-Library.Char_ord"
begin

text \<open>
  What every component shares: results (\<open>Result\<close> of the sources, \<open>Inl\<close> the error),
  transactions over an explicit state (a closure passed to
  \<open>ControlStore::immediate_transaction\<close>), checked machine arithmetic, the byte classes of
  \<open>u8\<close>, and the lemmas on lists and on rows of a table that the component proofs rest on.

  Conventions: an \<open>i64\<close> is an \<open>int\<close>, a \<open>u64\<close>, \<open>u32\<close>, \<open>u16\<close> or \<open>u8\<close> a \<open>nat\<close>, and every
  checked operation of the sources is written with its range test; a Rust \<open>String\<close> is a list of
  bytes (\<open>char\<close>), so that lengths and orders are those of the UTF-8 encoding.
\<close>

named_theorems res_simps \<open>evaluation of results\<close>
named_theorems tx_simps \<open>evaluation of transactions\<close>
named_theorems tx_rules \<open>postcondition rules for transactions\<close>
named_theorems keep_rules \<open>invariants along the structure of a transaction\<close>


section \<open>Results\<close>

definition bind_res :: "'e + 'a \<Rightarrow> ('a \<Rightarrow> 'e + 'b) \<Rightarrow> 'e + 'b" where
  "bind_res r f = (case r of Inl e \<Rightarrow> Inl e | Inr x \<Rightarrow> f x)"

definition ensure :: "bool \<Rightarrow> 'e \<Rightarrow> 'e + unit" where
  "ensure b e = (if b then Inr () else Inl e)"

definition ok_or :: "'a option \<Rightarrow> 'e \<Rightarrow> 'e + 'a" where
  "ok_or x e = (case x of None \<Rightarrow> Inl e | Some v \<Rightarrow> Inr v)"

definition map_err :: "('e \<Rightarrow> 'f) \<Rightarrow> 'e + 'a \<Rightarrow> 'f + 'a" where
  "map_err g r = (case r of Inl e \<Rightarrow> Inl (g e) | Inr x \<Rightarrow> Inr x)"

definition is_ok :: "'e + 'a \<Rightarrow> bool" where
  "is_ok r = (case r of Inl _ \<Rightarrow> False | Inr _ \<Rightarrow> True)"

text \<open>A \<open>for\<close> loop whose body may return early with an error.\<close>

fun each_res :: "('a \<Rightarrow> 'e + unit) \<Rightarrow> 'a list \<Rightarrow> 'e + unit" where
  "each_res f [] = Inr ()"
| "each_res f (x # xs) = bind_res (f x) (\<lambda>_. each_res f xs)"

text \<open>\<open>collect::<Result<Vec<_>, _>>()\<close>: the first error, or all the values in order.\<close>

fun collect_res :: "('a \<Rightarrow> 'e + 'b) \<Rightarrow> 'a list \<Rightarrow> 'e + 'b list" where
  "collect_res f [] = Inr []"
| "collect_res f (x # xs) =
     bind_res (f x) (\<lambda>y. bind_res (collect_res f xs) (\<lambda>ys. Inr (y # ys)))"

text \<open>\<open>try_fold\<close>.\<close>

fun fold_res :: "('a \<Rightarrow> 's \<Rightarrow> 'e + 's) \<Rightarrow> 'a list \<Rightarrow> 's \<Rightarrow> 'e + 's" where
  "fold_res f [] s = Inr s"
| "fold_res f (x # xs) s = bind_res (f x s) (fold_res f xs)"

lemma bind_res_simps [simp, res_simps]:
  "bind_res (Inl e) f = Inl e" "bind_res (Inr x) f = f x"
  by (simp_all add: bind_res_def)

lemma bind_res_Inr_iff:
  "bind_res r f = Inr y \<longleftrightarrow> (\<exists>x. r = Inr x \<and> f x = Inr y)"
  by (cases r) auto

lemma bind_res_InrE [elim!]:
  assumes "bind_res r f = Inr y"
  obtains x where "r = Inr x" "f x = Inr y"
  using assms by (cases r) auto

lemma ensure_simps [simp, res_simps]:
  "ensure True e = Inr ()" "ensure False e = Inl e"
  by (simp_all add: ensure_def)

lemma ensure_Inr_iff [simp]: "ensure b e = Inr u \<longleftrightarrow> b"
  by (simp add: ensure_def)

lemma ensure_Inl_iff [simp]: "ensure b e = Inl e' \<longleftrightarrow> \<not> b \<and> e' = e"
  by (auto simp: ensure_def)

lemma ok_or_simps [simp, res_simps]:
  "ok_or None e = Inl e" "ok_or (Some v) e = Inr v"
  by (simp_all add: ok_or_def)

lemma ok_or_Inr_iff [simp]: "ok_or x e = Inr v \<longleftrightarrow> x = Some v"
  by (cases x) auto

lemma map_err_simps [simp, res_simps]:
  "map_err g (Inl e) = Inl (g e)" "map_err g (Inr x) = Inr x"
  by (simp_all add: map_err_def)

lemma map_err_Inr_iff [simp]: "map_err g r = Inr x \<longleftrightarrow> r = Inr x"
  by (cases r) auto

lemma is_ok_simps [simp, res_simps]: "is_ok (Inr x)" "\<not> is_ok (Inl e)"
  by (simp_all add: is_ok_def)

lemma is_ok_iff: "is_ok r \<longleftrightarrow> (\<exists>x. r = Inr x)"
  by (cases r) auto

lemma is_ok_unit_iff: "is_ok r \<longleftrightarrow> r = Inr ()"
  for r :: "'e + unit"
  by (cases r) auto

lemma each_res_Inr_iff: "each_res f xs = Inr u \<longleftrightarrow> (\<forall>x\<in>set xs. f x = Inr ())"
  by (induction xs) (auto simp: bind_res_Inr_iff)

lemma collect_res_Inr_iff:
  "collect_res f xs = Inr ys \<longleftrightarrow> list_all2 (\<lambda>x y. f x = Inr y) xs ys"
  by (induction xs arbitrary: ys) (auto simp: bind_res_Inr_iff list_all2_Cons1)

lemma collect_res_length: "collect_res f xs = Inr ys \<Longrightarrow> length ys = length xs"
  by (auto simp: collect_res_Inr_iff dest: list_all2_lengthD)


section \<open>Transactions\<close>

text \<open>
  The body of a transaction reads and writes the state and ends with an error or with a value
  and the state it leaves.
\<close>

type_synonym ('s, 'e, 'a) tx = "'s \<Rightarrow> 'e + 'a \<times> 's"

definition tx_return :: "'a \<Rightarrow> ('s, 'e, 'a) tx" where
  "tx_return x s = Inr (x, s)"

definition tx_bind :: "('s, 'e, 'a) tx \<Rightarrow> ('a \<Rightarrow> ('s, 'e, 'b) tx) \<Rightarrow> ('s, 'e, 'b) tx" where
  "tx_bind m f s = (case m s of Inl e \<Rightarrow> Inl e | Inr (x, s') \<Rightarrow> f x s')"

definition tx_lift :: "'e + 'a \<Rightarrow> ('s, 'e, 'a) tx" where
  "tx_lift r s = (case r of Inl e \<Rightarrow> Inl e | Inr x \<Rightarrow> Inr (x, s))"

definition tx_query :: "('s \<Rightarrow> 'a) \<Rightarrow> ('s, 'e, 'a) tx" where
  "tx_query q s = Inr (q s, s)"

definition tx_try :: "('s \<Rightarrow> 'e + 'a) \<Rightarrow> ('s, 'e, 'a) tx" where
  "tx_try q s = (case q s of Inl e \<Rightarrow> Inl e | Inr x \<Rightarrow> Inr (x, s))"

definition tx_ensure :: "bool \<Rightarrow> 'e \<Rightarrow> ('s, 'e, unit) tx" where
  "tx_ensure b e s = (if b then Inr ((), s) else Inl e)"

definition tx_fail :: "'e \<Rightarrow> ('s, 'e, 'a) tx" where
  "tx_fail e s = Inl e"

definition tx_when :: "bool \<Rightarrow> ('s, 'e, unit) tx \<Rightarrow> ('s, 'e, unit) tx" where
  "tx_when b m = (if b then m else tx_return ())"

fun tx_each :: "('a \<Rightarrow> ('s, 'e, unit) tx) \<Rightarrow> 'a list \<Rightarrow> ('s, 'e, unit) tx" where
  "tx_each f [] = tx_return ()"
| "tx_each f (x # xs) = tx_bind (f x) (\<lambda>_. tx_each f xs)"

text \<open>
  \<open>holds_after m P s\<close>: if the transaction succeeds from \<open>s\<close>, its value and final state satisfy
  \<open>P\<close>. An error discards the state, so nothing is asked of it.
\<close>

definition holds_after :: "('s, 'e, 'a) tx \<Rightarrow> ('a \<Rightarrow> 's \<Rightarrow> bool) \<Rightarrow> 's \<Rightarrow> bool" where
  "holds_after m P s = (\<forall>x s'. m s = Inr (x, s') \<longrightarrow> P x s')"

lemma tx_return_simps [simp, tx_simps]: "tx_return x s = Inr (x, s)"
  by (simp add: tx_return_def)

lemma tx_lift_simps [simp, tx_simps]:
  "tx_lift (Inl e) s = Inl e" "tx_lift (Inr x) s = Inr (x, s)"
  by (simp_all add: tx_lift_def)

lemma tx_query_simps [simp, tx_simps]: "tx_query q s = Inr (q s, s)"
  by (simp add: tx_query_def)

lemma tx_fail_simps [simp, tx_simps]: "tx_fail e s = Inl e"
  by (simp add: tx_fail_def)

lemma tx_ensure_simps [tx_simps]:
  "tx_ensure b e s = (if b then Inr ((), s) else Inl e)"
  by (simp add: tx_ensure_def)

lemma tx_when_simps [simp, tx_simps]: "tx_when True m = m" "tx_when False m = tx_return ()"
  by (simp_all add: tx_when_def)

lemma tx_lift_Inr_iff [simp]: "tx_lift r s = Inr (x, s') \<longleftrightarrow> r = Inr x \<and> s' = s"
  by (cases r) auto

lemma tx_try_Inr_iff [simp]: "tx_try q s = Inr (x, s') \<longleftrightarrow> q s = Inr x \<and> s' = s"
  by (auto simp: tx_try_def split: sum.splits)

lemma tx_ensure_Inr_iff [simp]: "tx_ensure b e s = Inr (u, s') \<longleftrightarrow> b \<and> s' = s"
  by (auto simp: tx_ensure_def)

lemma tx_bind_Inr_iff:
  "tx_bind m f s = Inr (y, s') \<longleftrightarrow> (\<exists>x t. m s = Inr (x, t) \<and> f x t = Inr (y, s'))"
  by (auto simp: tx_bind_def split: sum.splits)

lemma tx_bind_InrE [elim!]:
  assumes "tx_bind m f s = Inr (y, s')"
  obtains x t where "m s = Inr (x, t)" "f x t = Inr (y, s')"
  using assms by (auto simp: tx_bind_Inr_iff)

lemma holds_afterI [intro?]:
  "(\<And>x s'. m s = Inr (x, s') \<Longrightarrow> P x s') \<Longrightarrow> holds_after m P s"
  by (simp add: holds_after_def)

lemma holds_afterD: "holds_after m P s \<Longrightarrow> m s = Inr (x, s') \<Longrightarrow> P x s'"
  by (simp add: holds_after_def)

lemma holds_after_weaken:
  "holds_after m P s \<Longrightarrow> (\<And>x s'. P x s' \<Longrightarrow> Q x s') \<Longrightarrow> holds_after m Q s"
  by (simp add: holds_after_def)

lemma holds_after_bind [tx_rules]:
  "holds_after m (\<lambda>x. holds_after (f x) P) s \<Longrightarrow> holds_after (tx_bind m f) P s"
  by (auto simp: holds_after_def)

lemma holds_after_simps [simp, tx_rules]:
  "holds_after (tx_return x) P s \<longleftrightarrow> P x s"
  "holds_after (tx_fail e) P s"
  "holds_after (tx_query q) P s \<longleftrightarrow> P (q s) s"
  "holds_after (tx_ensure b e) Q s \<longleftrightarrow> (b \<longrightarrow> Q () s)"
  by (auto simp: holds_after_def)

lemma holds_after_lift [simp, tx_rules]:
  "holds_after (tx_lift r) P s \<longleftrightarrow> (\<forall>x. r = Inr x \<longrightarrow> P x s)"
  by (auto simp: holds_after_def)

lemma holds_after_try [simp, tx_rules]:
  "holds_after (tx_try q) P s \<longleftrightarrow> (\<forall>x. q s = Inr x \<longrightarrow> P x s)"
  by (auto simp: holds_after_def)

text \<open>A loop keeps what every iteration keeps.\<close>

lemma tx_each_invariant:
  assumes step: "\<And>x s s'. x \<in> set xs \<Longrightarrow> I s \<Longrightarrow> f x s = Inr ((), s') \<Longrightarrow> I s'"
    and "I s" and "tx_each f xs s = Inr (u, s')"
  shows "I s'"
  using assms
proof (induction xs arbitrary: s)
  case Nil
  then show ?case by simp
next
  case (Cons x xs)
  from Cons.prems(3) obtain t where t: "f x s = Inr ((), t)" "tx_each f xs t = Inr (u, s')"
    by auto
  with Cons.prems(1,2) have "I t" by (meson list.set_intros(1))
  with t(2) show ?case
    by (intro Cons.IH [of t]) (auto intro: Cons.prems(1))
qed


text \<open>
  \<open>preserves I m\<close>: a successful run of \<open>m\<close> keeps \<open>I\<close>. The rules compose it along the structure of a
  transaction; a component adds the rules of its own steps to \<open>keep_rules\<close>.
\<close>

definition preserves :: "('s \<Rightarrow> bool) \<Rightarrow> ('s, 'e, 'a) tx \<Rightarrow> bool" where
  "preserves I m \<longleftrightarrow> (\<forall>s x s'. I s \<longrightarrow> m s = Inr (x, s') \<longrightarrow> I s')"

lemma preservesI: "(\<And>s x s'. I s \<Longrightarrow> m s = Inr (x, s') \<Longrightarrow> I s') \<Longrightarrow> preserves I m"
  by (simp add: preserves_def)

lemma preservesD: "preserves I m \<Longrightarrow> I s \<Longrightarrow> m s = Inr (x, s') \<Longrightarrow> I s'"
  by (simp add: preserves_def)

lemma preserves_bind [keep_rules]:
  assumes "preserves I m" "\<And>x. preserves I (f x)"
  shows "preserves I (tx_bind m f)"
proof (rule preservesI)
  fix s y s'
  assume "I s" "tx_bind m f s = Inr (y, s')"
  then obtain x t where "m s = Inr (x, t)" "f x t = Inr (y, s')" by (elim tx_bind_InrE)
  with assms \<open>I s\<close> show "I s'" by (blast dest: preservesD)
qed

lemma preserves_simple [keep_rules]:
  "preserves I (tx_return x)" "preserves I (tx_fail e)" "preserves I (tx_query q)"
  "preserves I (tx_ensure b e)" "preserves I (tx_lift r)" "preserves I (tx_try g)"
  by (rule preservesI, simp)+

lemma preserves_when [keep_rules]: "preserves I m \<Longrightarrow> preserves I (tx_when b m)"
  by (cases b) (simp_all add: preserves_simple)

lemma preserves_if [keep_rules]:
  "(b \<Longrightarrow> preserves I m) \<Longrightarrow> (\<not> b \<Longrightarrow> preserves I m') \<Longrightarrow> preserves I (if b then m else m')"
  by simp

lemma preserves_option [keep_rules]:
  "preserves I m \<Longrightarrow> (\<And>x. preserves I (f x)) \<Longrightarrow> preserves I (case y of None \<Rightarrow> m | Some x \<Rightarrow> f x)"
  by (cases y) simp_all

lemma preserves_prod [keep_rules]:
  "(\<And>a b. preserves I (f a b)) \<Longrightarrow> preserves I (case p of (a, b) \<Rightarrow> f a b)"
  by (cases p) simp

lemma preserves_let [keep_rules]: "preserves I (f v) \<Longrightarrow> preserves I (let x = v in f x)"
  by simp

lemma preserves_each_mem:
  "(\<And>x. x \<in> set xs \<Longrightarrow> preserves I (f x)) \<Longrightarrow> preserves I (tx_each f xs)"
  by (induction xs) (simp_all add: preserves_simple(1) preserves_bind)

lemma preserves_each [keep_rules]: "(\<And>x. preserves I (f x)) \<Longrightarrow> preserves I (tx_each f xs)"
  by (rule preserves_each_mem)

text \<open>The same rules, with what a read of the state established for the rest of the transaction.\<close>

lemma preserves_bind_fact:
  assumes "preserves I m" "\<And>s x s'. I s \<Longrightarrow> m s = Inr (x, s') \<Longrightarrow> preserves I (f x)"
  shows "preserves I (tx_bind m f)"
proof (rule preservesI)
  fix s y s'
  assume "I s" "tx_bind m f s = Inr (y, s')"
  then obtain x t where "m s = Inr (x, t)" "f x t = Inr (y, s')" by (elim tx_bind_InrE)
  with assms \<open>I s\<close> show "I s'" by (blast dest: preservesD)
qed

lemma preserves_try_bind:
  "(\<And>s x. I s \<Longrightarrow> q s = Inr x \<Longrightarrow> preserves I (f x)) \<Longrightarrow> preserves I (tx_bind (tx_try q) f)"
  by (rule preserves_bind_fact) (simp_all add: preserves_simple)

lemma preserves_lift_bind:
  "(\<And>x. r = Inr x \<Longrightarrow> preserves I (f x)) \<Longrightarrow> preserves I (tx_bind (tx_lift r) f)"
  by (rule preserves_bind_fact) (simp_all add: preserves_simple)

lemma preserves_ensure_bind:
  "(b \<Longrightarrow> preserves I (f ())) \<Longrightarrow> preserves I (tx_bind (tx_ensure b e) f)"
  by (rule preserves_bind_fact) (simp_all add: preserves_simple)

text \<open>
  A read whose result is used against the state it was read from: what it says there (\<open>F\<close>) is part of
  the invariant for the rest of the transaction.
\<close>

lemma preserves_query_bind:
  assumes "\<And>s. I s \<Longrightarrow> F (q s) s" "\<And>x. preserves (\<lambda>s. I s \<and> F x s) (f x)"
  shows "preserves I (tx_bind (tx_query q) f)"
proof (rule preservesI)
  fix s y s'
  assume "I s" and m: "tx_bind (tx_query q) f s = Inr (y, s')"
  then have "f (q s) s = Inr (y, s')" by auto
  from preservesD [OF assms(2) _ this] assms(1) \<open>I s\<close> show "I s'" by blast
qed

lemma preserves_try_fact:
  assumes "\<And>s x. I s \<Longrightarrow> q s = Inr x \<Longrightarrow> F x s" "\<And>x. preserves (\<lambda>s. I s \<and> F x s) (f x)"
  shows "preserves I (tx_bind (tx_try q) f)"
proof (rule preservesI)
  fix s y s'
  assume "I s" and m: "tx_bind (tx_try q) f s = Inr (y, s')"
  then obtain x where "q s = Inr x" "f x s = Inr (y, s')" by auto
  with preservesD [OF assms(2) _ this(2)] assms(1) \<open>I s\<close> show "I s'" by blast
qed

text \<open>
  \<open>carries P m Q\<close>: from \<open>P\<close>, a successful run ends in \<open>Q\<close>; for the steps between which an invariant is
  suspended.
\<close>

definition carries :: "('s \<Rightarrow> bool) \<Rightarrow> ('s, 'e, 'a) tx \<Rightarrow> ('s \<Rightarrow> bool) \<Rightarrow> bool" where
  "carries P m Q \<longleftrightarrow> (\<forall>s x s'. P s \<longrightarrow> m s = Inr (x, s') \<longrightarrow> Q s')"

lemma carriesI: "(\<And>s x s'. P s \<Longrightarrow> m s = Inr (x, s') \<Longrightarrow> Q s') \<Longrightarrow> carries P m Q"
  by (simp add: carries_def)

lemma carriesD: "carries P m Q \<Longrightarrow> P s \<Longrightarrow> m s = Inr (x, s') \<Longrightarrow> Q s'"
  by (simp add: carries_def)

lemma preserves_carries: "preserves I m \<longleftrightarrow> carries I m I"
  by (simp add: preserves_def carries_def)

lemma carries_bind:
  assumes "carries P m R" "\<And>x. carries R (f x) Q"
  shows "carries P (tx_bind m f) Q"
proof (rule carriesI)
  fix s y s'
  assume "P s" "tx_bind m f s = Inr (y, s')"
  then obtain x t where "m s = Inr (x, t)" "f x t = Inr (y, s')" by (elim tx_bind_InrE)
  with assms \<open>P s\<close> show "Q s'" by (blast dest: carriesD)
qed

lemma carries_bind_kept: "preserves P m \<Longrightarrow> (\<And>x. carries P (f x) Q) \<Longrightarrow> carries P (tx_bind m f) Q"
  unfolding preserves_carries by (rule carries_bind)

lemma carries_preserved: "preserves I m \<Longrightarrow> carries I m I"
  by (simp add: preserves_carries)

lemmas carries_reads = carries_bind_kept [OF preserves_simple(4)] carries_bind_kept [OF preserves_simple(5)]
  carries_bind_kept [OF preserves_simple(6)]

lemma carries_try_bind:
  assumes "\<And>s x. P s \<Longrightarrow> q s = Inr x \<Longrightarrow> F x s" "\<And>x. carries (\<lambda>s. P s \<and> F x s) (f x) Q"
  shows "carries P (tx_bind (tx_try q) f) Q"
proof (rule carriesI)
  fix s y s'
  assume "P s" "tx_bind (tx_try q) f s = Inr (y, s')"
  then obtain x where "q s = Inr x" "f x s = Inr (y, s')" by auto
  with carriesD [OF assms(2) _ this(2)] assms(1) \<open>P s\<close> show "Q s'" by blast
qed

lemma carries_lift_bind:
  assumes "\<And>x. r = Inr x \<Longrightarrow> carries P (f x) Q"
  shows "carries P (tx_bind (tx_lift r) f) Q"
  using assms by (auto simp: carries_def)

lemma carries_ensure_bind:
  assumes "b \<Longrightarrow> carries P (f ()) Q"
  shows "carries P (tx_bind (tx_ensure b e) f) Q"
  using assms by (auto simp: carries_def)

lemma carries_return: "(\<And>s. P s \<Longrightarrow> Q s) \<Longrightarrow> carries P (tx_return x) Q"
  by (simp add: carries_def)

lemma carries_if: "carries P m Q \<Longrightarrow> carries P m' Q \<Longrightarrow> carries P (if b then m else m') Q"
  by simp

lemma carries_option:
  "carries P m Q \<Longrightarrow> (\<And>x. carries P (f x) Q) \<Longrightarrow> carries P (case y of None \<Rightarrow> m | Some x \<Rightarrow> f x) Q"
  by (cases y) simp_all

lemma carries_let: "carries P (f v) Q \<Longrightarrow> carries P (let x = v in f x) Q"
  by simp

lemma carries_strengthen: "carries P m Q \<Longrightarrow> (\<And>s. P' s \<Longrightarrow> P s) \<Longrightarrow> carries P' m Q"
  unfolding carries_def by blast

lemma carries_conj: "carries P m Q \<Longrightarrow> carries P' m Q' \<Longrightarrow> carries (\<lambda>s. P s \<and> P' s) m (\<lambda>s. Q s \<and> Q' s)"
  unfolding carries_def by blast

lemma preserves_carries_conj:
  "preserves I m \<Longrightarrow> carries (\<lambda>s. I s \<and> J s) m J \<Longrightarrow> preserves (\<lambda>s. I s \<and> J s) m"
  unfolding preserves_def carries_def by blast

lemma carries_query_bind:
  assumes "\<And>s. P s \<Longrightarrow> F (q s) s" "\<And>x. carries (\<lambda>s. P s \<and> F x s) (f x) Q"
  shows "carries P (tx_bind (tx_query q) f) Q"
proof (rule carriesI)
  fix s y s'
  assume "P s" "tx_bind (tx_query q) f s = Inr (y, s')"
  then have "f (q s) s = Inr (y, s')" by auto
  with carriesD [OF assms(2) _ this] assms(1) \<open>P s\<close> show "Q s'" by blast
qed

text \<open>A postcondition that speaks of the result.\<close>

definition yields :: "('s \<Rightarrow> bool) \<Rightarrow> ('s, 'e, 'a) tx \<Rightarrow> ('a \<Rightarrow> 's \<Rightarrow> bool) \<Rightarrow> bool" where
  "yields P m Q \<longleftrightarrow> (\<forall>s x s'. P s \<longrightarrow> m s = Inr (x, s') \<longrightarrow> Q x s')"

lemma yieldsI: "(\<And>s x s'. P s \<Longrightarrow> m s = Inr (x, s') \<Longrightarrow> Q x s') \<Longrightarrow> yields P m Q"
  by (simp add: yields_def)

lemma carries_bind_yields:
  assumes "yields P m R" "\<And>x. carries (R x) (f x) Q"
  shows "carries P (tx_bind m f) Q"
proof (rule carriesI)
  fix s y s'
  assume "P s" "tx_bind m f s = Inr (y, s')"
  then obtain x t where "m s = Inr (x, t)" "f x t = Inr (y, s')" by (elim tx_bind_InrE)
  with assms \<open>P s\<close> show "Q s'" unfolding yields_def carries_def by blast
qed

lemma preserves_conj: "preserves I m \<Longrightarrow> preserves J m \<Longrightarrow> preserves (\<lambda>s. I s \<and> J s) m"
  unfolding preserves_def by blast


section \<open>Checked machine arithmetic\<close>

definition i64_max :: int where "i64_max = 9223372036854775807"
definition i64_min :: int where "i64_min = - 9223372036854775808"
definition u64_max :: nat where "u64_max = 18446744073709551615"
definition u32_max :: nat where "u32_max = 4294967295"

definition in_i64 :: "int \<Rightarrow> bool" where
  "in_i64 x \<longleftrightarrow> i64_min \<le> x \<and> x \<le> i64_max"

definition checked_add_i64 :: "int \<Rightarrow> int \<Rightarrow> int option" where
  "checked_add_i64 a b = (if in_i64 (a + b) then Some (a + b) else None)"

definition i64_of_u64 :: "nat \<Rightarrow> int option" where
  "i64_of_u64 n = (if int n \<le> i64_max then Some (int n) else None)"

definition u64_of_i64 :: "int \<Rightarrow> nat option" where
  "u64_of_i64 x = (if 0 \<le> x then Some (nat x) else None)"

definition checked_add_u64 :: "nat \<Rightarrow> nat \<Rightarrow> nat option" where
  "checked_add_u64 a b = (if a + b \<le> u64_max then Some (a + b) else None)"

definition checked_sub_u64 :: "nat \<Rightarrow> nat \<Rightarrow> nat option" where
  "checked_sub_u64 a b = (if b \<le> a then Some (a - b) else None)"

definition checked_add_u32 :: "nat \<Rightarrow> nat \<Rightarrow> nat option" where
  "checked_add_u32 a b = (if a + b \<le> u32_max then Some (a + b) else None)"

lemma checked_add_i64_Some [simp]:
  "checked_add_i64 a b = Some c \<longleftrightarrow> in_i64 (a + b) \<and> c = a + b"
  by (auto simp: checked_add_i64_def)

lemma i64_of_u64_Some [simp]: "i64_of_u64 n = Some x \<longleftrightarrow> int n \<le> i64_max \<and> x = int n"
  by (auto simp: i64_of_u64_def)

lemma u64_of_i64_Some [simp]: "u64_of_i64 x = Some n \<longleftrightarrow> 0 \<le> x \<and> n = nat x"
  by (auto simp: u64_of_i64_def)

lemma checked_add_u64_Some [simp]:
  "checked_add_u64 a b = Some c \<longleftrightarrow> a + b \<le> u64_max \<and> c = a + b"
  by (auto simp: checked_add_u64_def)

lemma checked_sub_u64_Some [simp]:
  "checked_sub_u64 a b = Some c \<longleftrightarrow> b \<le> a \<and> c = a - b"
  by (auto simp: checked_sub_u64_def)

lemma checked_add_u32_Some [simp]:
  "checked_add_u32 a b = Some c \<longleftrightarrow> a + b \<le> u32_max \<and> c = a + b"
  by (auto simp: checked_add_u32_def)


section \<open>Bytes and strings\<close>

definition byte :: "char \<Rightarrow> nat" where "byte c = of_char c"

definition is_ascii_lowercase :: "char \<Rightarrow> bool" where
  "is_ascii_lowercase c \<longleftrightarrow> 97 \<le> byte c \<and> byte c \<le> 122"

definition is_ascii_uppercase :: "char \<Rightarrow> bool" where
  "is_ascii_uppercase c \<longleftrightarrow> 65 \<le> byte c \<and> byte c \<le> 90"

definition is_ascii_digit :: "char \<Rightarrow> bool" where
  "is_ascii_digit c \<longleftrightarrow> 48 \<le> byte c \<and> byte c \<le> 57"

definition is_ascii_alphanumeric :: "char \<Rightarrow> bool" where
  "is_ascii_alphanumeric c \<longleftrightarrow> is_ascii_lowercase c \<or> is_ascii_uppercase c \<or> is_ascii_digit c"

definition is_ascii_graphic :: "char \<Rightarrow> bool" where
  "is_ascii_graphic c \<longleftrightarrow> 33 \<le> byte c \<and> byte c \<le> 126"

definition is_ascii_control :: "char \<Rightarrow> bool" where
  "is_ascii_control c \<longleftrightarrow> byte c < 32 \<or> byte c = 127"

definition is_lower_hex :: "char \<Rightarrow> bool" where
  "is_lower_hex c \<longleftrightarrow> is_ascii_digit c \<or> (97 \<le> byte c \<and> byte c \<le> 102)"

lemmas byte_classes = byte_def is_ascii_lowercase_def is_ascii_uppercase_def is_ascii_digit_def
  is_ascii_alphanumeric_def is_ascii_graphic_def is_ascii_control_def is_lower_hex_def

text \<open>\<open>bytes.first().is_some_and(p)\<close> and \<open>bytes.last().is_some_and(p)\<close>.\<close>

definition first_is :: "('a \<Rightarrow> bool) \<Rightarrow> 'a list \<Rightarrow> bool" where
  "first_is p xs = (case xs of [] \<Rightarrow> False | x # _ \<Rightarrow> p x)"

definition last_is :: "('a \<Rightarrow> bool) \<Rightarrow> 'a list \<Rightarrow> bool" where
  "last_is p xs = (xs \<noteq> [] \<and> p (last xs))"

definition strip_prefix :: "'a list \<Rightarrow> 'a list \<Rightarrow> 'a list option" where
  "strip_prefix p xs = (if take (length p) xs = p then Some (drop (length p) xs) else None)"

definition starts_with :: "'a list \<Rightarrow> 'a list \<Rightarrow> bool" where
  "starts_with p xs = (take (length p) xs = p)"

lemma strip_prefix_Some: "strip_prefix p xs = Some ys \<longleftrightarrow> xs = p @ ys"
  by (auto simp: strip_prefix_def) (metis append_take_drop_id)


section \<open>Lists\<close>

text \<open>\<open>slice::windows(2)\<close>.\<close>

definition windows2 :: "'a list \<Rightarrow> ('a \<times> 'a) list" where
  "windows2 xs = zip xs (tl xs)"

definition strictly_sorted_unique :: "'a::linorder list \<Rightarrow> bool" where
  "strictly_sorted_unique xs = list_all (\<lambda>(a, b). a < b) (windows2 xs)"

lemma windows2_simps [simp]:
  "windows2 [] = []" "windows2 [x] = []" "windows2 (x # y # xs) = (x, y) # windows2 (y # xs)"
  by (simp_all add: windows2_def)

lemma windows2_sorted_wrt:
  assumes "transp R"
  shows "list_all (\<lambda>(a, b). R a b) (windows2 xs) \<longleftrightarrow> sorted_wrt R xs"
proof (induction xs rule: induct_list012)
  case (3 x y zs)
  then show ?case using assms by (auto dest: transpD)
qed simp_all

lemma strictly_sorted_unique_iff: "strictly_sorted_unique xs \<longleftrightarrow> sorted_wrt (<) xs"
  by (simp add: strictly_sorted_unique_def windows2_sorted_wrt)

lemma strictly_sorted_unique_distinct: "strictly_sorted_unique xs \<Longrightarrow> distinct xs \<and> sorted xs"
  by (simp add: strictly_sorted_unique_iff strict_sorted_iff)

lemma strictly_sorted_unique_set_eq:
  "strictly_sorted_unique xs \<Longrightarrow> strictly_sorted_unique ys \<Longrightarrow> set xs = set ys \<Longrightarrow> xs = ys"
  by (metis strictly_sorted_unique_distinct sorted_distinct_set_unique)

lemma list_all2_ex1: "list_all2 P xs ys \<Longrightarrow> x \<in> set xs \<Longrightarrow> \<exists>y\<in>set ys. P x y"
  by (induction xs ys rule: list_all2_induct) auto

lemma list_all2_ex2: "list_all2 P xs ys \<Longrightarrow> y \<in> set ys \<Longrightarrow> \<exists>x\<in>set xs. P x y"
  by (induction xs ys rule: list_all2_induct) auto

text \<open>Rows of a table: the rows a predicate selects and an update of exactly those rows.\<close>

definition update_where :: "('r \<Rightarrow> bool) \<Rightarrow> ('r \<Rightarrow> 'r) \<Rightarrow> 'r list \<Rightarrow> 'r list" where
  "update_where p f rows = map (\<lambda>r. if p r then f r else r) rows"

definition count_where :: "('r \<Rightarrow> bool) \<Rightarrow> 'r list \<Rightarrow> nat" where
  "count_where p rows = length (filter p rows)"

lemma update_where_simps [simp]:
  "update_where p f [] = []"
  "update_where p f (r # rs) = (if p r then f r else r) # update_where p f rs"
  by (simp_all add: update_where_def)

lemma length_update_where [simp]: "length (update_where p f rows) = length rows"
  by (simp add: update_where_def)

lemma set_update_where:
  "set (update_where p f rows) = {f r | r. r \<in> set rows \<and> p r} \<union> {r \<in> set rows. \<not> p r}"
  by (auto simp: update_where_def)

lemma update_where_memE:
  assumes "r' \<in> set (update_where p f rows)"
  obtains r where "r \<in> set rows" "p r" "r' = f r" | "r' \<in> set rows" "\<not> p r'"
  using assms by (auto simp: set_update_where)

lemma update_where_memI: "r \<in> set rows \<Longrightarrow> (if p r then f r else r) \<in> set (update_where p f rows)"
  by (auto simp: update_where_def)

lemma ball_update_where [simp]:
  "(\<forall>r\<in>set (update_where p f rows). P r) \<longleftrightarrow> (\<forall>r\<in>set rows. P (if p r then f r else r))"
  unfolding update_where_def by (simp only: set_map ball_simps bex_simps)

lemma bex_update_where [simp]:
  "(\<exists>r\<in>set (update_where p f rows). P r) \<longleftrightarrow> (\<exists>r\<in>set rows. P (if p r then f r else r))"
  unfolding update_where_def by (simp only: set_map ball_simps bex_simps)

lemma map_update_where:
  "(\<And>r. p r \<Longrightarrow> k (f r) = k r) \<Longrightarrow> map k (update_where p f rows) = map k rows"
  by (auto simp: update_where_def)

lemma count_where_0 [simp]: "count_where p rows = 0 \<longleftrightarrow> (\<forall>r\<in>set rows. \<not> p r)"
  by (auto simp: count_where_def filter_empty_conv)

lemma count_where_pos: "0 < count_where p rows \<longleftrightarrow> (\<exists>r\<in>set rows. p r)"
  using count_where_0 [of p rows] by (simp only: neq0_conv [symmetric]) auto

lemma count_where_le: "count_where p rows \<le> length rows"
  by (simp add: count_where_def)

lemma count_where_1:
  assumes "count_where p rows = 1"
  obtains r where "r \<in> set rows" "p r" "\<And>r'. r' \<in> set rows \<Longrightarrow> p r' \<Longrightarrow> r' = r"
proof -
  from assms obtain r where "filter p rows = [r]"
    by (auto simp: count_where_def length_Suc_conv)
  then have "set (filter p rows) = {r}" by simp
  then show thesis using that [of r] by auto
qed

lemma pred_option_code [code]: "pred_option p x = (case x of None \<Rightarrow> True | Some y \<Rightarrow> p y)"
  by (cases x) simp_all

text \<open>A key column that identifies rows.\<close>

lemma distinct_map_unique:
  "distinct (map k rows) \<Longrightarrow> r \<in> set rows \<Longrightarrow> r' \<in> set rows \<Longrightarrow> k r = k r' \<Longrightarrow> r = r'"
  by (metis distinct_map inj_onD)

lemma find_Some_mem: "find p xs = Some x \<Longrightarrow> x \<in> set xs \<and> p x"
  by (auto simp: find_Some_iff)

lemma find_None_iff': "find p xs = None \<longleftrightarrow> (\<forall>x\<in>set xs. \<not> p x)"
  by (auto simp: find_None_iff)

lemma find_key_Some:
  assumes "distinct (map k rows)" "r \<in> set rows"
  shows "find (\<lambda>r'. k r' = k r) rows = Some r"
proof -
  have "find (\<lambda>r'. k r' = k r) rows \<noteq> None"
    using assms(2) by (auto simp: find_None_iff)
  then obtain r' where r': "find (\<lambda>r'. k r' = k r) rows = Some r'" by auto
  then have "r' \<in> set rows" "k r' = k r" by (auto dest: find_Some_mem)
  with assms have "r' = r" by (metis distinct_map_unique)
  with r' show ?thesis by simp
qed

end
