(* ===== verification/Identifiers.thy ===== *)
theory Identifiers
  imports Prelude
begin

text \<open>
  The validated identifiers of \<open>src/domain/identifiers.rs\<close>. A newtype such as \<open>ProjectId(String)\<close> is its string; what the type
  guarantees is that the string passed \<open>validate\<close>, which \<open>FromStr\<close> and \<open>Deserialize\<close> both run.
  The locale \<open>parsed_text\<close> is the contract of these \<open>FromStr\<close> implementations, interpreted for each.
\<close>

type_synonym project_id = string
type_synonym git_commit_id = string
type_synonym evidence_digest = string
type_synonym runbook_id = string

text \<open>A \<open>Uuid\<close> as its 128-bit value; the nil identifier is 0.\<close>

type_synonym uuid = nat

definition is_nil :: "uuid \<Rightarrow> bool" where
  "is_nil u \<longleftrightarrow> u = 0"

datatype identifier_error =
    InvalidProjectId
  | InvalidGitCommit
  | InvalidEvidenceDigest
  | InvalidRunbookId

definition max_application_schema_version_bytes :: nat where
  "max_application_schema_version_bytes = 96"

definition valid_application_schema_version :: "string \<Rightarrow> bool" where
  "valid_application_schema_version value \<longleftrightarrow>
     value \<noteq> [] \<and> length value \<le> max_application_schema_version_bytes \<and>
     list_all is_ascii_graphic value"

definition project_id_validate :: "string \<Rightarrow> bool" where
  "project_id_validate value \<longleftrightarrow>
     1 \<le> length value \<and> length value \<le> 64 \<and>
     first_is is_ascii_alphanumeric value \<and>
     last_is is_ascii_alphanumeric value \<and>
     list_all (\<lambda>b. is_ascii_lowercase b \<or> is_ascii_digit b \<or> b = CHR ''-'') value"

definition project_id_from_str :: "string \<Rightarrow> identifier_error + project_id" where
  "project_id_from_str value =
     (if project_id_validate value then Inr value else Inl InvalidProjectId)"

definition git_commit_id_validate :: "string \<Rightarrow> bool" where
  "git_commit_id_validate value \<longleftrightarrow>
     (length value = 40 \<or> length value = 64) \<and> list_all is_lower_hex value"

definition git_commit_id_from_str :: "string \<Rightarrow> identifier_error + git_commit_id" where
  "git_commit_id_from_str value =
     (if git_commit_id_validate value then Inr value else Inl InvalidGitCommit)"

definition evidence_digest_validate :: "string \<Rightarrow> bool" where
  "evidence_digest_validate value \<longleftrightarrow> length value = 64 \<and> list_all is_lower_hex value"

definition evidence_digest_from_str :: "string \<Rightarrow> identifier_error + evidence_digest" where
  "evidence_digest_from_str value =
     (if evidence_digest_validate value then Inr value else Inl InvalidEvidenceDigest)"

definition runbook_id_from_str :: "string \<Rightarrow> identifier_error + runbook_id" where
  "runbook_id_from_str value =
     (if project_id_validate value then Inr value else Inl InvalidRunbookId)"

text \<open>\<open>EvidenceDigest::sha256\<close> hex-encodes the 32 bytes of the hash.\<close>

definition hex_digit :: "nat \<Rightarrow> char" where
  "hex_digit n = (if n < 10 then char_of (48 + n) else char_of (87 + n))"

definition hex_byte :: "char \<Rightarrow> string" where
  "hex_byte b = [hex_digit (byte b div 16), hex_digit (byte b mod 16)]"

definition hex_encode :: "string \<Rightarrow> evidence_digest" where
  "hex_encode bytes = concat (map hex_byte bytes)"


section \<open>The contract of a validated text type\<close>

locale parsed_text =
  fixes valid :: "string \<Rightarrow> bool"
    and from_str :: "string \<Rightarrow> 'e + string"
  assumes accepts: "valid s \<Longrightarrow> from_str s = Inr s"
    and rejects: "\<not> valid s \<Longrightarrow> \<exists>e. from_str s = Inl e"
begin

lemma from_str_Inr_iff: "from_str s = Inr t \<longleftrightarrow> valid s \<and> t = s"
  using accepts [of s] rejects [of s] by (cases "valid s") auto

lemma reparse: "from_str s = Inr t \<Longrightarrow> from_str t = Inr t"
  by (simp add: from_str_Inr_iff)

lemma is_ok_from_str: "is_ok (from_str s) \<longleftrightarrow> valid s"
  by (auto simp: is_ok_iff from_str_Inr_iff)

end

interpretation project_ids: parsed_text project_id_validate project_id_from_str
  by unfold_locales (simp_all add: project_id_from_str_def)

interpretation git_commits: parsed_text git_commit_id_validate git_commit_id_from_str
  by unfold_locales (simp_all add: git_commit_id_from_str_def)

interpretation evidence_digests: parsed_text evidence_digest_validate evidence_digest_from_str
  by unfold_locales (simp_all add: evidence_digest_from_str_def)

interpretation runbook_ids: parsed_text project_id_validate runbook_id_from_str
  by unfold_locales (simp_all add: runbook_id_from_str_def)


section \<open>Hexadecimal digests\<close>

lemma byte_hex_digit: "n < 16 \<Longrightarrow> byte (hex_digit n) = (if n < 10 then 48 + n else 87 + n)"
  by (simp add: hex_digit_def byte_def)

lemma hex_digit_lower_hex: "n < 16 \<Longrightarrow> is_lower_hex (hex_digit n)"
  by (simp add: is_lower_hex_def is_ascii_digit_def byte_hex_digit)

lemma byte_less: "byte c < 256"
  by (simp add: byte_def)

lemma byte_inj: "byte c = byte d \<longleftrightarrow> c = d"
  by (simp add: byte_def)

lemma hex_digit_inj:
  assumes "m < 16" "n < 16" "hex_digit m = hex_digit n"
  shows "m = n"
proof -
  from assms(3) have "byte (hex_digit m) = byte (hex_digit n)" by simp
  with assms(1,2) show ?thesis by (auto simp: byte_hex_digit split: if_splits)
qed

lemma hex_byte_inj: "hex_byte b = hex_byte c \<Longrightarrow> b = c"
proof -
  assume "hex_byte b = hex_byte c"
  then have "hex_digit (byte b div 16) = hex_digit (byte c div 16)"
    and "hex_digit (byte b mod 16) = hex_digit (byte c mod 16)"
    by (simp_all add: hex_byte_def)
  moreover have "byte b div 16 < 16" "byte c div 16 < 16"
    using byte_less [of b] byte_less [of c] by auto
  ultimately have "byte b div 16 = byte c div 16" "byte b mod 16 = byte c mod 16"
    by (auto intro: hex_digit_inj)
  then have "byte b = byte c" by (metis div_mult_mod_eq)
  then show "b = c" by (simp add: byte_inj)
qed

lemma length_hex_encode [simp]: "length (hex_encode bs) = 2 * length bs"
  by (induction bs) (simp_all add: hex_encode_def hex_byte_def)

lemma hex_encode_simps [simp]:
  "hex_encode [] = []" "hex_encode (b # bs) = hex_byte b @ hex_encode bs"
  by (simp_all add: hex_encode_def)

lemma hex_encode_lower_hex: "list_all is_lower_hex (hex_encode bs)"
proof (induction bs)
  case (Cons b bs)
  have "byte b div 16 < 16" using byte_less [of b] by auto
  with Cons show ?case by (simp add: hex_byte_def hex_digit_lower_hex)
qed simp

lemma hex_encode_inj: "hex_encode bs = hex_encode cs \<Longrightarrow> bs = cs"
proof (induction bs arbitrary: cs)
  case Nil
  then have "length (hex_encode cs) = 0" by (metis length_hex_encode list.size(3) mult_0_right)
  then show ?case by simp
next
  case (Cons b bs)
  then obtain c cs' where cs: "cs = c # cs'" by (cases cs) (auto simp: hex_byte_def)
  with Cons.prems have "hex_byte b = hex_byte c" "hex_encode bs = hex_encode cs'"
    by (auto simp: hex_byte_def)
  with cs Cons.IH show ?case by (auto dest: hex_byte_inj)
qed

end
