(* ===== verification/Sealed_Documents.thy ===== *)
theory Sealed_Documents
  imports Identifiers
begin

text \<open>
  Documents that carry a digest of their own canonical encoding (leases, receipts, reductions,
  fence receipts). The contract is stated once, as two locales: \<open>sealed_document\<close> (the digest field
  is the digest of everything else) and \<open>canonical_document\<close> (the stored bytes are exactly the
  canonical encoding of a valid document). The components interpret them for their documents.

  Third-party code enters as arguments: \<open>serde_jcs::to_vec\<close> (\<open>jcs\<close>), \<open>serde_json::from_slice\<close>
  (\<open>json\<close>) and SHA-256 (\<open>sha\<close>); the encoded bytes are an opaque type \<open>'j\<close>. The encoder may fail.
  What the proofs use of them are the named hypotheses \<open>jcs_injective\<close>, \<open>reads_back\<close> and
  \<open>no_collision\<close>.
\<close>

datatype serde_error = Serde_error

text \<open>\<open>EvidenceDigest::sha256(bytes)\<close>.\<close>

definition evidence_digest_sha256 :: "('j \<Rightarrow> string) \<Rightarrow> 'j \<Rightarrow> evidence_digest" where
  "evidence_digest_sha256 sha bytes = hex_encode (sha bytes)"

text \<open>\<open>EvidenceDigest::sha256(serde_jcs::to_vec(&payload)?)\<close>, the body of every \<open>calculate_digest\<close>.\<close>

definition seal ::
  "('p \<Rightarrow> serde_error + 'j) \<Rightarrow> ('j \<Rightarrow> string) \<Rightarrow> 'p \<Rightarrow> serde_error + evidence_digest" where
  "seal jcs sha p = bind_res (jcs p) (\<lambda>bytes. Inr (evidence_digest_sha256 sha bytes))"

text \<open>Hypotheses on the third-party encoders.\<close>

definition jcs_injective :: "('p \<Rightarrow> serde_error + 'j) \<Rightarrow> bool" where
  "jcs_injective jcs \<longleftrightarrow> (\<forall>p q bytes. jcs p = Inr bytes \<longrightarrow> jcs q = Inr bytes \<longrightarrow> p = q)"

definition reads_back ::
  "('j \<Rightarrow> serde_error + 'd) \<Rightarrow> ('d \<Rightarrow> serde_error + 'j) \<Rightarrow> bool" where
  "reads_back json jcs \<longleftrightarrow> (\<forall>d bytes. jcs d = Inr bytes \<longrightarrow> json bytes = Inr d)"

text \<open>The hash separates the encodings of the two payloads at hand.\<close>

definition no_collision ::
  "('p \<Rightarrow> serde_error + 'j) \<Rightarrow> ('j \<Rightarrow> string) \<Rightarrow> 'p \<Rightarrow> 'p \<Rightarrow> bool" where
  "no_collision jcs sha p q \<longleftrightarrow>
     (\<forall>a b. jcs p = Inr a \<longrightarrow> jcs q = Inr b \<longrightarrow> sha a = sha b \<longrightarrow> a = b)"

lemma seal_Inr_iff:
  "seal jcs sha p = Inr g \<longleftrightarrow> (\<exists>bytes. jcs p = Inr bytes \<and> g = evidence_digest_sha256 sha bytes)"
  by (auto simp: seal_def bind_res_Inr_iff)

lemma evidence_digest_sha256_inj:
  "evidence_digest_sha256 sha a = evidence_digest_sha256 sha b \<Longrightarrow> sha a = sha b"
  unfolding evidence_digest_sha256_def by (rule hex_encode_inj)

lemma evidence_digest_sha256_valid:
  "length (sha bytes) = 32 \<Longrightarrow> evidence_digest_validate (evidence_digest_sha256 sha bytes)"
  by (simp add: evidence_digest_validate_def evidence_digest_sha256_def hex_encode_lower_hex)

lemma seal_injective:
  assumes "seal jcs sha p = Inr g" "seal jcs sha q = Inr g"
    and "jcs_injective jcs" "no_collision jcs sha p q"
  shows "p = q"
proof -
  from assms(1,2) obtain a b where ab: "jcs p = Inr a" "jcs q = Inr b"
    and "evidence_digest_sha256 sha a = evidence_digest_sha256 sha b"
    by (auto simp: seal_Inr_iff)
  then have "sha a = sha b" by (blast dest: evidence_digest_sha256_inj)
  with ab assms(4) have "a = b" by (simp add: no_collision_def)
  with ab assms(3) show ?thesis by (auto simp: jcs_injective_def)
qed

lemma reads_back_injective: "reads_back json jcs \<Longrightarrow> jcs_injective jcs"
  unfolding reads_back_def jcs_injective_def by (metis sum.inject(2))


section \<open>The contract of a sealed document\<close>

locale sealed_document =
  fixes payload :: "'d \<Rightarrow> 'p"
    and sealed :: "'d \<Rightarrow> evidence_digest"
    and jcs :: "'p \<Rightarrow> serde_error + 'j"
    and sha :: "'j \<Rightarrow> string"
    and valid :: "'d \<Rightarrow> bool"
  assumes valid_digest: "valid d \<Longrightarrow> seal jcs sha (payload d) = Inr (sealed d)"
    and determined: "payload d = payload d' \<Longrightarrow> sealed d = sealed d' \<Longrightarrow> d = d'"
begin

text \<open>The digest identifies the document.\<close>

lemma same_digest_same_document:
  assumes "valid d" "valid d'" "sealed d = sealed d'"
    and "jcs_injective jcs" "no_collision jcs sha (payload d) (payload d')"
  shows "d = d'"
proof -
  have "payload d = payload d'"
    by (rule seal_injective [OF _ _ assms(4,5)])
      (use assms(1-3) valid_digest in auto)
  then show ?thesis using assms(3) by (rule determined)
qed

text \<open>A document is determined by what it says: nothing else can hide in the digest.\<close>

lemma same_payload_same_document:
  assumes "valid d" "valid d'" "payload d = payload d'"
  shows "d = d'"
proof -
  have "Inr (sealed d) = (Inr (sealed d') :: serde_error + evidence_digest)"
    using assms valid_digest by metis
  with assms(3) show ?thesis by (simp add: determined)
qed

end

locale canonical_document = sealed_document +
  fixes doc_jcs :: "'d \<Rightarrow> serde_error + 'j"
    and doc_json :: "'j \<Rightarrow> serde_error + 'd"
    and canonical_bytes :: "'d \<Rightarrow> 'e + 'j"
    and decode_canonical :: "'j \<Rightarrow> 'e + 'd"
  assumes encodes: "canonical_bytes d = Inr bytes \<longleftrightarrow> valid d \<and> doc_jcs d = Inr bytes"
    and decodes: "decode_canonical bytes = Inr d \<longleftrightarrow>
      doc_json bytes = Inr d \<and> doc_jcs d = Inr bytes \<and> valid d"
begin

text \<open>What is accepted from the wire is written back to the same bytes; no hypothesis is needed.\<close>

lemma encode_decoded: "decode_canonical bytes = Inr d \<Longrightarrow> canonical_bytes d = Inr bytes"
  by (simp add: decodes encodes)

lemma decode_encoded:
  "reads_back doc_json doc_jcs \<Longrightarrow> canonical_bytes d = Inr bytes \<Longrightarrow>
   decode_canonical bytes = Inr d"
  by (auto simp: decodes encodes reads_back_def)

lemma decoded_valid: "decode_canonical bytes = Inr d \<Longrightarrow> valid d"
  by (simp add: decodes)

end

end
