(* ===== verification/Operations.thy ===== *)
theory Operations
  imports Sealed_Documents
begin

text \<open>
  The operation contract of \<open>src/domain/states.rs\<close> and \<open>src/domain/operation.rs\<close>: phases and
  results, the phase plan of every operation kind and release class, the consistency of an
  operation state, the typed evidence a phase receipt may and must carry, and the two documents
  sealed by a digest of their canonical encoding (phase receipts and fence receipts).

  The canonical encoder \<open>serde_jcs\<close>, the JSON parser and SHA-256 are third-party code: they are
  the arguments \<open>jcs\<close>, \<open>json\<close> and \<open>sha\<close> of the definitions that call them.
\<close>


section \<open>Phases, results and blocking reasons\<close>

datatype operation_phase =
    Queued | SyncingSource | VerifyingSource | Testing | Building | Preflight | BackingUp
  | Draining | CutoverSnapshotting | Migrating | Deploying | HealthChecking | Soaking
  | Rollback | Reconciliation

datatype operation_result =
    Running | Succeeded | Failed | RolledBack | RollbackFailed | Cancelled | Superseded
  | ManualRecoveryRequired

datatype blocking_reason =
    Unblocked | DiskReserve | SourceDivergence | SourceBrokerUnavailable | SourceHeadSuperseded
  | SourceAttestationInvalid | PolicyUnavailable | PolicyInvalid | PolicyStale
  | SecurityStateInvalid | BackupPolicy | StaleTelemetry | ClockUnsynchronized
  | MaintenanceConflict | OperatorHold

datatype retryability = Automatic | AfterExternalRecovery | OperatorRunbook

fun crosses_mutation_boundary :: "operation_phase \<Rightarrow> bool" where
  "crosses_mutation_boundary BackingUp = True"
| "crosses_mutation_boundary Draining = True"
| "crosses_mutation_boundary CutoverSnapshotting = True"
| "crosses_mutation_boundary Migrating = True"
| "crosses_mutation_boundary Deploying = True"
| "crosses_mutation_boundary HealthChecking = True"
| "crosses_mutation_boundary Soaking = True"
| "crosses_mutation_boundary Rollback = True"
| "crosses_mutation_boundary Reconciliation = True"
| "crosses_mutation_boundary _ = False"

definition retryability_of :: "blocking_reason \<Rightarrow> retryability option" where
  "retryability_of reason =
     (if reason = Unblocked then None
      else if reason \<in> {SourceBrokerUnavailable, SourceHeadSuperseded, StaleTelemetry}
        then Some Automatic
      else if reason \<in> {PolicyUnavailable, ClockUnsynchronized, BackupPolicy, DiskReserve}
        then Some AfterExternalRecovery
      else Some OperatorRunbook)"


section \<open>Operation kinds, release classes and their phase plans\<close>

datatype operation_kind = Deploy | CodeRollback | BackupOnly

datatype release_class =
    CodeOnlyCompatible | StatefulCompatible | StatefulBreaking | Rollback_class

datatype operation_contract_error = ReleaseClassMismatch

definition requires_commit :: "operation_kind \<Rightarrow> bool" where
  "requires_commit kind \<longleftrightarrow> kind = Deploy \<or> kind = CodeRollback"

definition code_only_phases :: "operation_phase list" where
  "code_only_phases =
     [Queued, SyncingSource, VerifyingSource, Testing, Building, Preflight, Deploying,
      HealthChecking, Soaking]"

definition stateful_phases :: "operation_phase list" where
  "stateful_phases =
     [Queued, SyncingSource, VerifyingSource, Testing, Building, Preflight, BackingUp, Draining,
      CutoverSnapshotting, Migrating, Deploying, HealthChecking, Soaking]"

definition rollback_phases :: "operation_phase list" where
  "rollback_phases = [Queued, Preflight, Rollback, HealthChecking, Soaking]"

definition backup_only_phases :: "operation_phase list" where
  "backup_only_phases = [Queued, Preflight, BackingUp]"

lemmas phase_plans = code_only_phases_def stateful_phases_def rollback_phases_def
  backup_only_phases_def

text \<open>\<open>ReleaseClass::required_phases\<close> and \<open>ReleaseClass::permits_transition\<close>.\<close>

fun class_required_phases :: "release_class \<Rightarrow> operation_phase list" where
  "class_required_phases CodeOnlyCompatible = code_only_phases"
| "class_required_phases StatefulCompatible = stateful_phases"
| "class_required_phases StatefulBreaking = stateful_phases"
| "class_required_phases Rollback_class = rollback_phases"

definition class_permits_transition ::
  "release_class \<Rightarrow> operation_phase \<Rightarrow> operation_phase \<Rightarrow> bool" where
  "class_permits_transition class current nxt =
     (if nxt = Reconciliation then True
      else if nxt = Rollback then crosses_mutation_boundary current
      else list_ex (\<lambda>pair. pair = (current, nxt)) (windows2 (class_required_phases class)))"

text \<open>\<open>OperationKind::required_phases\<close> and \<open>OperationKind::permits_transition\<close>.\<close>

fun required_phases ::
  "operation_kind \<Rightarrow> release_class option \<Rightarrow> operation_contract_error + operation_phase list" where
  "required_phases Deploy (Some CodeOnlyCompatible) = Inr (class_required_phases CodeOnlyCompatible)"
| "required_phases Deploy (Some StatefulCompatible) = Inr (class_required_phases StatefulCompatible)"
| "required_phases Deploy (Some StatefulBreaking) = Inr (class_required_phases StatefulBreaking)"
| "required_phases CodeRollback (Some Rollback_class) = Inr rollback_phases"
| "required_phases BackupOnly None = Inr backup_only_phases"
| "required_phases _ _ = Inl ReleaseClassMismatch"

definition permits_transition ::
  "operation_kind \<Rightarrow> release_class option \<Rightarrow> operation_phase \<Rightarrow> operation_phase \<Rightarrow>
   operation_contract_error + bool" where
  "permits_transition kind release_class current nxt =
     (if nxt = Reconciliation then Inr True
      else if nxt = Rollback then Inr (crosses_mutation_boundary current)
      else bind_res (required_phases kind release_class)
             (\<lambda>phases. Inr (list_ex (\<lambda>pair. pair = (current, nxt)) (windows2 phases))))"


section \<open>The state of an operation\<close>

record operation_state =
  os_phase :: operation_phase
  os_result :: operation_result
  os_blocking_reason :: blocking_reason

datatype operation_state_error =
    TerminalOperationBlocked
  | ManualRecoveryOutsideReconciliation
  | RolledBackOutsideRollback
  | RollbackFailureOutsideRecovery

definition operation_state_validate :: "operation_state \<Rightarrow> operation_state_error + unit" where
  "operation_state_validate s =
     (if os_result s \<noteq> Running \<and> os_blocking_reason s \<noteq> Unblocked
        then Inl TerminalOperationBlocked
      else if os_result s = ManualRecoveryRequired \<and> os_phase s \<noteq> Reconciliation
        then Inl ManualRecoveryOutsideReconciliation
      else if os_result s = RolledBack \<and> \<not> (os_phase s = Rollback \<or> os_phase s = Soaking)
        then Inl RolledBackOutsideRollback
      else if os_result s = RollbackFailed \<and>
          \<not> (os_phase s = Rollback \<or> os_phase s = Reconciliation)
        then Inl RollbackFailureOutsideRecovery
      else Inr ())"


section \<open>Typed evidence of a phase\<close>

record phase_artifacts =
  pa_authorized_phase_spec_digest :: "evidence_digest option"
  pa_source_gate_proof_digest :: "evidence_digest option"
  pa_drain_evidence_digest :: "evidence_digest option"
  pa_source_export_digest :: "evidence_digest option"
  pa_prefetch_evidence_digest :: "evidence_digest option"
  pa_ci_evidence_digest :: "evidence_digest option"
  pa_build_plan_digest :: "evidence_digest option"
  pa_deployment_plan_digest :: "evidence_digest option"
  pa_release_bundle_digest :: "evidence_digest option"
  pa_resource_reservation_digest :: "evidence_digest option"
  pa_build_context_digest :: "evidence_digest option"
  pa_generated_output_digests :: "evidence_digest list"
  pa_image_digest :: "evidence_digest option"
  pa_image_id_digest :: "evidence_digest option"
  pa_base_image_digests :: "evidence_digest list"
  pa_schema_version :: "string option"
  pa_backup_id :: "uuid option"
  pa_backup_set_id :: "uuid option"
  pa_base_backup_id :: "uuid option"
  pa_base_backup_manifest_digest :: "evidence_digest option"
  pa_base_backup_evidence_digest :: "evidence_digest option"
  pa_base_backup_offsite_evidence_digest :: "evidence_digest option"
  pa_base_backup_verification_digest :: "evidence_digest option"
  pa_cutover_backup_id :: "uuid option"
  pa_cutover_backup_manifest_digest :: "evidence_digest option"
  pa_cutover_backup_evidence_digest :: "evidence_digest option"
  pa_cutover_backup_verification_digest :: "evidence_digest option"
  pa_previous_release_bundle_digest :: "evidence_digest option"
  pa_health_evidence_digest :: "evidence_digest option"
  pa_fencing_epoch :: "nat option"

text \<open>\<open>PhaseArtifacts::default()\<close>.\<close>

definition default_artifacts :: phase_artifacts where
  "default_artifacts = \<lparr>
     pa_authorized_phase_spec_digest = None, pa_source_gate_proof_digest = None,
     pa_drain_evidence_digest = None, pa_source_export_digest = None,
     pa_prefetch_evidence_digest = None, pa_ci_evidence_digest = None,
     pa_build_plan_digest = None, pa_deployment_plan_digest = None,
     pa_release_bundle_digest = None, pa_resource_reservation_digest = None,
     pa_build_context_digest = None, pa_generated_output_digests = [],
     pa_image_digest = None, pa_image_id_digest = None, pa_base_image_digests = [],
     pa_schema_version = None, pa_backup_id = None, pa_backup_set_id = None,
     pa_base_backup_id = None, pa_base_backup_manifest_digest = None,
     pa_base_backup_evidence_digest = None, pa_base_backup_offsite_evidence_digest = None,
     pa_base_backup_verification_digest = None, pa_cutover_backup_id = None,
     pa_cutover_backup_manifest_digest = None, pa_cutover_backup_evidence_digest = None,
     pa_cutover_backup_verification_digest = None, pa_previous_release_bundle_digest = None,
     pa_health_evidence_digest = None, pa_fencing_epoch = None \<rparr>"

datatype artifact_contract_error =
    MissingRequiredEvidence operation_phase
  | UnexpectedEvidence operation_phase

fun required_evidence :: "phase_artifacts \<Rightarrow> operation_phase \<Rightarrow> bool" where
  "required_evidence a Testing \<longleftrightarrow>
     pa_source_export_digest a \<noteq> None \<and> pa_prefetch_evidence_digest a \<noteq> None \<and>
     pa_ci_evidence_digest a \<noteq> None \<and> pa_build_context_digest a \<noteq> None \<and>
     pa_resource_reservation_digest a \<noteq> None \<and> pa_base_image_digests a \<noteq> []"
| "required_evidence a Building \<longleftrightarrow>
     pa_build_context_digest a \<noteq> None \<and> pa_build_plan_digest a \<noteq> None \<and>
     pa_image_digest a \<noteq> None \<and> pa_image_id_digest a \<noteq> None \<and>
     pa_base_image_digests a \<noteq> []"
| "required_evidence a Preflight \<longleftrightarrow> pa_resource_reservation_digest a \<noteq> None"
| "required_evidence a Draining \<longleftrightarrow>
     pa_source_gate_proof_digest a \<noteq> None \<and> pa_drain_evidence_digest a \<noteq> None"
| "required_evidence a Deploying \<longleftrightarrow>
     pa_deployment_plan_digest a \<noteq> None \<and> pa_release_bundle_digest a \<noteq> None"
| "required_evidence a BackingUp \<longleftrightarrow>
     pa_backup_set_id a \<noteq> None \<and> pa_base_backup_id a \<noteq> None \<and>
     pa_base_backup_manifest_digest a \<noteq> None \<and> pa_base_backup_evidence_digest a \<noteq> None \<and>
     pa_base_backup_offsite_evidence_digest a \<noteq> None \<and>
     pa_base_backup_verification_digest a \<noteq> None"
| "required_evidence a CutoverSnapshotting \<longleftrightarrow>
     pa_backup_set_id a \<noteq> None \<and> pa_cutover_backup_id a \<noteq> None \<and>
     pa_cutover_backup_manifest_digest a \<noteq> None \<and>
     pa_cutover_backup_evidence_digest a \<noteq> None \<and>
     pa_cutover_backup_verification_digest a \<noteq> None \<and> pa_fencing_epoch a \<noteq> None"
| "required_evidence a Migrating \<longleftrightarrow> pa_schema_version a \<noteq> None"
| "required_evidence a HealthChecking \<longleftrightarrow> pa_health_evidence_digest a \<noteq> None"
| "required_evidence a _ \<longleftrightarrow> True"

text \<open>The clone from which the evidence of the phase is removed.\<close>

fun without_phase_evidence :: "operation_phase \<Rightarrow> phase_artifacts \<Rightarrow> phase_artifacts" where
  "without_phase_evidence Testing a = a\<lparr>
     pa_source_export_digest := None, pa_prefetch_evidence_digest := None,
     pa_ci_evidence_digest := None, pa_resource_reservation_digest := None,
     pa_build_context_digest := None, pa_generated_output_digests := [],
     pa_base_image_digests := []\<rparr>"
| "without_phase_evidence Building a = a\<lparr>
     pa_build_context_digest := None, pa_build_plan_digest := None, pa_image_digest := None,
     pa_image_id_digest := None, pa_base_image_digests := []\<rparr>"
| "without_phase_evidence Preflight a = a\<lparr>pa_resource_reservation_digest := None\<rparr>"
| "without_phase_evidence BackingUp a = a\<lparr>
     pa_source_gate_proof_digest := None, pa_backup_set_id := None, pa_base_backup_id := None,
     pa_base_backup_manifest_digest := None, pa_base_backup_evidence_digest := None,
     pa_base_backup_offsite_evidence_digest := None,
     pa_base_backup_verification_digest := None\<rparr>"
| "without_phase_evidence Draining a = a\<lparr>
     pa_source_gate_proof_digest := None, pa_drain_evidence_digest := None\<rparr>"
| "without_phase_evidence CutoverSnapshotting a = a\<lparr>
     pa_backup_set_id := None, pa_cutover_backup_id := None,
     pa_cutover_backup_manifest_digest := None, pa_cutover_backup_evidence_digest := None,
     pa_cutover_backup_verification_digest := None, pa_fencing_epoch := None\<rparr>"
| "without_phase_evidence Migrating a = a\<lparr>pa_schema_version := None\<rparr>"
| "without_phase_evidence Deploying a = a\<lparr>
     pa_source_gate_proof_digest := None, pa_deployment_plan_digest := None,
     pa_release_bundle_digest := None, pa_previous_release_bundle_digest := None\<rparr>"
| "without_phase_evidence HealthChecking a = a\<lparr>pa_health_evidence_digest := None\<rparr>"
| "without_phase_evidence Soaking a = a\<lparr>pa_health_evidence_digest := None\<rparr>"
| "without_phase_evidence Rollback a = a\<lparr>pa_previous_release_bundle_digest := None\<rparr>"
| "without_phase_evidence _ a = a"

definition contains_only_phase_artifacts :: "phase_artifacts \<Rightarrow> operation_phase \<Rightarrow> bool" where
  "contains_only_phase_artifacts a phase \<longleftrightarrow>
     without_phase_evidence phase (a\<lparr>pa_authorized_phase_spec_digest := None\<rparr>)
       = default_artifacts"

definition validate_for_phase ::
  "phase_artifacts \<Rightarrow> operation_phase \<Rightarrow> artifact_contract_error + unit" where
  "validate_for_phase a phase =
     (if required_evidence a phase \<and> contains_only_phase_artifacts a phase then Inr ()
      else if required_evidence a phase then Inl (UnexpectedEvidence phase)
      else Inl (MissingRequiredEvidence phase))"


section \<open>Phase receipts\<close>

datatype executor_phase_branch = Primary | RollbackRecovery

text \<open>\<open>ReceiptDigestPayload\<close> is the receipt without its digest.\<close>

record phase_receipt_body =
  pr_attempt_id :: uuid
  pr_phase :: operation_phase
  pr_branch :: executor_phase_branch
  pr_intent_digest :: evidence_digest
  pr_observation_digest :: evidence_digest
  pr_artifacts :: phase_artifacts
  pr_committed_at_ms :: int

record phase_receipt = phase_receipt_body +
  pr_receipt_digest :: evidence_digest

text \<open>The codec of the operation documents: the encoders of the payloads and SHA-256.\<close>

record 'j operation_codec =
  receipt_payload_jcs :: "phase_receipt_body \<Rightarrow> serde_error + 'j"
  op_sha256 :: "'j \<Rightarrow> string"

definition receipt_payload :: "phase_receipt \<Rightarrow> phase_receipt_body" where
  "receipt_payload r = phase_receipt_body.truncate r"

definition receipt_digest :: "'j operation_codec \<Rightarrow> phase_receipt_body \<Rightarrow> serde_error + evidence_digest" where
  "receipt_digest E p = seal (receipt_payload_jcs E) (op_sha256 E) p"

definition phase_receipt_new :: "'j operation_codec \<Rightarrow> phase_receipt_body \<Rightarrow> serde_error + phase_receipt" where
  "phase_receipt_new E p =
     bind_res (receipt_digest E p)
       (\<lambda>digest. Inr (phase_receipt_body.extend p (phase_receipt.fields digest)))"

definition phase_receipt_has_valid_digest :: "'j operation_codec \<Rightarrow> phase_receipt \<Rightarrow> serde_error + bool" where
  "phase_receipt_has_valid_digest E r =
     bind_res (receipt_digest E (receipt_payload r))
       (\<lambda>digest. Inr (pr_receipt_digest r = digest))"


section \<open>Fence acquisition receipts\<close>

definition fence_acquisition_receipt_schema_version :: nat where
  "fence_acquisition_receipt_schema_version = 1"

record fence_receipt_body =
  fr_schema_version :: nat
  fr_project_id :: project_id
  fr_attempt_id :: uuid
  fr_epoch :: nat
  fr_lease_digest :: evidence_digest
  fr_acquired_at_ms :: int

record fence_receipt = fence_receipt_body +
  fr_receipt_digest :: evidence_digest

datatype fence_receipt_payload = Fence_receipt_payload (purpose: string) (body: fence_receipt_body)

datatype fence_receipt_error =
    Fence_InvalidDocument | Fence_DigestMismatch | Fence_CanonicalEncoding serde_error

record 'j fence_codec =
  fence_payload_jcs :: "fence_receipt_payload \<Rightarrow> serde_error + 'j"
  fence_jcs :: "fence_receipt \<Rightarrow> serde_error + 'j"
  fence_json :: "'j \<Rightarrow> serde_error + fence_receipt"
  fence_sha256 :: "'j \<Rightarrow> string"

definition fence_payload :: "fence_receipt \<Rightarrow> fence_receipt_payload" where
  "fence_payload r =
     Fence_receipt_payload ''rdashboard.fence-acquisition-receipt.v1'' (fence_receipt_body.truncate r)"

definition fence_calculate_digest :: "'j fence_codec \<Rightarrow> fence_receipt \<Rightarrow> fence_receipt_error + evidence_digest" where
  "fence_calculate_digest E r =
     map_err Fence_CanonicalEncoding (seal (fence_payload_jcs E) (fence_sha256 E) (fence_payload r))"

definition fence_receipt_new ::
  "'j fence_codec \<Rightarrow> project_id \<Rightarrow> uuid \<Rightarrow> nat \<Rightarrow> evidence_digest \<Rightarrow> int \<Rightarrow>
   fence_receipt_error + fence_receipt" where
  "fence_receipt_new E project_id attempt_id epoch lease_digest acquired_at_ms =
     (if is_nil attempt_id \<or> epoch = 0 \<or> acquired_at_ms < 0 then Inl Fence_InvalidDocument
      else
        let receipt = \<lparr> fr_schema_version = fence_acquisition_receipt_schema_version,
              fr_project_id = project_id, fr_attempt_id = attempt_id, fr_epoch = epoch,
              fr_lease_digest = lease_digest, fr_acquired_at_ms = acquired_at_ms,
              fr_receipt_digest = [] \<rparr>
        in bind_res (fence_calculate_digest E receipt)
             (\<lambda>digest. Inr (receipt\<lparr>fr_receipt_digest := digest\<rparr>)))"

definition fence_has_valid_digest :: "'j fence_codec \<Rightarrow> fence_receipt \<Rightarrow> fence_receipt_error + bool" where
  "fence_has_valid_digest E r =
     (if fr_schema_version r \<noteq> fence_acquisition_receipt_schema_version \<or>
         is_nil (fr_attempt_id r) \<or> fr_epoch r = 0 \<or> fr_acquired_at_ms r < 0
      then Inr False
      else bind_res (fence_calculate_digest E r) (\<lambda>digest. Inr (fr_receipt_digest r = digest)))"

definition fence_canonical_bytes :: "'j fence_codec \<Rightarrow> fence_receipt \<Rightarrow> fence_receipt_error + 'j" where
  "fence_canonical_bytes E r =
     bind_res (fence_has_valid_digest E r) (\<lambda>ok.
       if \<not> ok then Inl Fence_DigestMismatch
       else map_err Fence_CanonicalEncoding (fence_jcs E r))"

definition fence_decode_canonical :: "'j fence_codec \<Rightarrow> 'j \<Rightarrow> fence_receipt_error + fence_receipt" where
  "fence_decode_canonical E bytes =
     bind_res (map_err Fence_CanonicalEncoding (fence_json E bytes)) (\<lambda>receipt.
     bind_res (map_err Fence_CanonicalEncoding (fence_jcs E receipt)) (\<lambda>encoded.
       if encoded \<noteq> bytes then Inl Fence_InvalidDocument
       else bind_res (fence_has_valid_digest E receipt) (\<lambda>ok.
         if \<not> ok then Inl Fence_DigestMismatch else Inr receipt)))"


section \<open>The documents meet their contracts\<close>

interpretation phase_receipts: sealed_document receipt_payload pr_receipt_digest
  "receipt_payload_jcs E" "op_sha256 E" "\<lambda>r. phase_receipt_has_valid_digest E r = Inr True"
  for E :: "'j operation_codec"
proof unfold_locales
  fix r
  assume "phase_receipt_has_valid_digest E r = Inr True"
  then show "seal (receipt_payload_jcs E) (op_sha256 E) (receipt_payload r) = Inr (pr_receipt_digest r)"
    by (auto simp: phase_receipt_has_valid_digest_def receipt_digest_def)
next
  fix r r' :: phase_receipt
  assume "receipt_payload r = receipt_payload r'" "pr_receipt_digest r = pr_receipt_digest r'"
  then show "r = r'"
    by (cases r, cases r') (simp add: receipt_payload_def phase_receipt_body.truncate_def)
qed

lemma fence_valid_iff:
  "fence_has_valid_digest E r = Inr True \<longleftrightarrow>
     fr_schema_version r = fence_acquisition_receipt_schema_version \<and> \<not> is_nil (fr_attempt_id r) \<and>
     0 < fr_epoch r \<and> 0 \<le> fr_acquired_at_ms r \<and>
     seal (fence_payload_jcs E) (fence_sha256 E) (fence_payload r) = Inr (fr_receipt_digest r)"
  by (auto simp: fence_has_valid_digest_def fence_calculate_digest_def bind_res_Inr_iff)

interpretation fence_receipts: canonical_document fence_payload fr_receipt_digest
  "fence_payload_jcs E" "fence_sha256 E" "\<lambda>r. fence_has_valid_digest E r = Inr True"
  "fence_jcs E" "fence_json E" "fence_canonical_bytes E" "fence_decode_canonical E"
  for E :: "'j fence_codec"
proof unfold_locales
  fix r r' :: fence_receipt
  assume "fence_payload r = fence_payload r'" "fr_receipt_digest r = fr_receipt_digest r'"
  then show "r = r'"
    by (cases r, cases r') (simp add: fence_payload_def fence_receipt_body.truncate_def)
next
  fix r bytes
  show "fence_canonical_bytes E r = Inr bytes \<longleftrightarrow>
      fence_has_valid_digest E r = Inr True \<and> fence_jcs E r = Inr bytes"
    by (auto simp: fence_canonical_bytes_def bind_res_Inr_iff)
next
  fix r bytes
  show "fence_decode_canonical E bytes = Inr r \<longleftrightarrow>
      fence_json E bytes = Inr r \<and> fence_jcs E r = Inr bytes \<and> fence_has_valid_digest E r = Inr True"
    by (auto simp: fence_decode_canonical_def bind_res_Inr_iff)
qed (simp add: fence_valid_iff)


section \<open>Which phase owns which evidence\<close>

text \<open>
  The specification of \<open>validate_for_phase\<close>: a table of the evidence every phase must and may
  carry.
\<close>

datatype evidence_field =
    F_authorized_phase_spec_digest | F_source_gate_proof_digest | F_drain_evidence_digest
  | F_source_export_digest | F_prefetch_evidence_digest | F_ci_evidence_digest
  | F_build_plan_digest | F_deployment_plan_digest | F_release_bundle_digest
  | F_resource_reservation_digest | F_build_context_digest | F_generated_output_digests
  | F_image_digest | F_image_id_digest | F_base_image_digests | F_schema_version | F_backup_id
  | F_backup_set_id | F_base_backup_id | F_base_backup_manifest_digest
  | F_base_backup_evidence_digest | F_base_backup_offsite_evidence_digest
  | F_base_backup_verification_digest | F_cutover_backup_id | F_cutover_backup_manifest_digest
  | F_cutover_backup_evidence_digest | F_cutover_backup_verification_digest
  | F_previous_release_bundle_digest | F_health_evidence_digest | F_fencing_epoch

fun present :: "phase_artifacts \<Rightarrow> evidence_field \<Rightarrow> bool" where
  "present a F_authorized_phase_spec_digest \<longleftrightarrow> pa_authorized_phase_spec_digest a \<noteq> None"
| "present a F_source_gate_proof_digest \<longleftrightarrow> pa_source_gate_proof_digest a \<noteq> None"
| "present a F_drain_evidence_digest \<longleftrightarrow> pa_drain_evidence_digest a \<noteq> None"
| "present a F_source_export_digest \<longleftrightarrow> pa_source_export_digest a \<noteq> None"
| "present a F_prefetch_evidence_digest \<longleftrightarrow> pa_prefetch_evidence_digest a \<noteq> None"
| "present a F_ci_evidence_digest \<longleftrightarrow> pa_ci_evidence_digest a \<noteq> None"
| "present a F_build_plan_digest \<longleftrightarrow> pa_build_plan_digest a \<noteq> None"
| "present a F_deployment_plan_digest \<longleftrightarrow> pa_deployment_plan_digest a \<noteq> None"
| "present a F_release_bundle_digest \<longleftrightarrow> pa_release_bundle_digest a \<noteq> None"
| "present a F_resource_reservation_digest \<longleftrightarrow> pa_resource_reservation_digest a \<noteq> None"
| "present a F_build_context_digest \<longleftrightarrow> pa_build_context_digest a \<noteq> None"
| "present a F_generated_output_digests \<longleftrightarrow> pa_generated_output_digests a \<noteq> []"
| "present a F_image_digest \<longleftrightarrow> pa_image_digest a \<noteq> None"
| "present a F_image_id_digest \<longleftrightarrow> pa_image_id_digest a \<noteq> None"
| "present a F_base_image_digests \<longleftrightarrow> pa_base_image_digests a \<noteq> []"
| "present a F_schema_version \<longleftrightarrow> pa_schema_version a \<noteq> None"
| "present a F_backup_id \<longleftrightarrow> pa_backup_id a \<noteq> None"
| "present a F_backup_set_id \<longleftrightarrow> pa_backup_set_id a \<noteq> None"
| "present a F_base_backup_id \<longleftrightarrow> pa_base_backup_id a \<noteq> None"
| "present a F_base_backup_manifest_digest \<longleftrightarrow> pa_base_backup_manifest_digest a \<noteq> None"
| "present a F_base_backup_evidence_digest \<longleftrightarrow> pa_base_backup_evidence_digest a \<noteq> None"
| "present a F_base_backup_offsite_evidence_digest \<longleftrightarrow> pa_base_backup_offsite_evidence_digest a \<noteq> None"
| "present a F_base_backup_verification_digest \<longleftrightarrow> pa_base_backup_verification_digest a \<noteq> None"
| "present a F_cutover_backup_id \<longleftrightarrow> pa_cutover_backup_id a \<noteq> None"
| "present a F_cutover_backup_manifest_digest \<longleftrightarrow> pa_cutover_backup_manifest_digest a \<noteq> None"
| "present a F_cutover_backup_evidence_digest \<longleftrightarrow> pa_cutover_backup_evidence_digest a \<noteq> None"
| "present a F_cutover_backup_verification_digest \<longleftrightarrow> pa_cutover_backup_verification_digest a \<noteq> None"
| "present a F_previous_release_bundle_digest \<longleftrightarrow> pa_previous_release_bundle_digest a \<noteq> None"
| "present a F_health_evidence_digest \<longleftrightarrow> pa_health_evidence_digest a \<noteq> None"
| "present a F_fencing_epoch \<longleftrightarrow> pa_fencing_epoch a \<noteq> None"

fun must_carry :: "operation_phase \<Rightarrow> evidence_field set" where
  "must_carry Testing = {F_source_export_digest, F_prefetch_evidence_digest, F_ci_evidence_digest,
     F_build_context_digest, F_resource_reservation_digest, F_base_image_digests}"
| "must_carry Building = {F_build_context_digest, F_build_plan_digest, F_image_digest,
     F_image_id_digest, F_base_image_digests}"
| "must_carry Preflight = {F_resource_reservation_digest}"
| "must_carry BackingUp = {F_backup_set_id, F_base_backup_id, F_base_backup_manifest_digest,
     F_base_backup_evidence_digest, F_base_backup_offsite_evidence_digest,
     F_base_backup_verification_digest}"
| "must_carry Draining = {F_source_gate_proof_digest, F_drain_evidence_digest}"
| "must_carry CutoverSnapshotting = {F_backup_set_id, F_cutover_backup_id,
     F_cutover_backup_manifest_digest, F_cutover_backup_evidence_digest,
     F_cutover_backup_verification_digest, F_fencing_epoch}"
| "must_carry Migrating = {F_schema_version}"
| "must_carry Deploying = {F_deployment_plan_digest, F_release_bundle_digest}"
| "must_carry HealthChecking = {F_health_evidence_digest}"
| "must_carry _ = {}"

fun may_also_carry :: "operation_phase \<Rightarrow> evidence_field set" where
  "may_also_carry Testing = {F_generated_output_digests}"
| "may_also_carry BackingUp = {F_source_gate_proof_digest}"
| "may_also_carry Deploying = {F_source_gate_proof_digest, F_previous_release_bundle_digest}"
| "may_also_carry Soaking = {F_health_evidence_digest}"
| "may_also_carry Rollback = {F_previous_release_bundle_digest}"
| "may_also_carry _ = {}"

definition carried :: "phase_artifacts \<Rightarrow> evidence_field set" where
  "carried a = {f. present a f}"

lemma required_evidence_iff: "required_evidence a phase \<longleftrightarrow> must_carry phase \<subseteq> carried a"
  by (cases phase) (simp_all add: carried_def)

text \<open>A set of fields is small when every field outside of it is absent.\<close>

lemma all_evidence_fields:
  "(\<forall>f. P f) \<longleftrightarrow>
     P F_authorized_phase_spec_digest \<and> P F_source_gate_proof_digest
     \<and> P F_drain_evidence_digest \<and> P F_source_export_digest
     \<and> P F_prefetch_evidence_digest \<and> P F_ci_evidence_digest \<and> P F_build_plan_digest
     \<and> P F_deployment_plan_digest \<and> P F_release_bundle_digest
     \<and> P F_resource_reservation_digest \<and> P F_build_context_digest
     \<and> P F_generated_output_digests \<and> P F_image_digest \<and> P F_image_id_digest
     \<and> P F_base_image_digests \<and> P F_schema_version \<and> P F_backup_id \<and> P F_backup_set_id
     \<and> P F_base_backup_id \<and> P F_base_backup_manifest_digest
     \<and> P F_base_backup_evidence_digest \<and> P F_base_backup_offsite_evidence_digest
     \<and> P F_base_backup_verification_digest \<and> P F_cutover_backup_id
     \<and> P F_cutover_backup_manifest_digest \<and> P F_cutover_backup_evidence_digest
     \<and> P F_cutover_backup_verification_digest \<and> P F_previous_release_bundle_digest
     \<and> P F_health_evidence_digest \<and> P F_fencing_epoch"
  by (rule iffI, blast, rule allI, case_tac f, simp_all)

lemma carried_subset_iff:
  "carried a \<subseteq> F \<longleftrightarrow> (\<forall>f. f \<notin> F \<longrightarrow> \<not> present a f)"
  by (auto simp: carried_def)

lemma contains_only_iff:
  "contains_only_phase_artifacts a phase \<longleftrightarrow>
     carried a \<subseteq> insert F_authorized_phase_spec_digest (must_carry phase \<union> may_also_carry phase)"
  unfolding carried_subset_iff all_evidence_fields
  by (cases a; cases phase)
    (simp_all add: contains_only_phase_artifacts_def default_artifacts_def)



section \<open>Phase plans\<close>

text \<open>Every plan is one of four lists.\<close>

lemma required_phases_cases:
  assumes "required_phases kind class = Inr phases"
  obtains "kind = Deploy" "phases = code_only_phases"
  | "kind = Deploy" "phases = stateful_phases"
  | "kind = CodeRollback" "phases = rollback_phases"
  | "kind = BackupOnly" "phases = backup_only_phases"
  using assms by (cases "(kind, class)" rule: required_phases.cases) auto

lemma plan_distinct: "required_phases kind class = Inr phases \<Longrightarrow> distinct phases"
  by (erule required_phases_cases) (simp_all add: phase_plans)

lemma plan_first: "required_phases kind class = Inr phases \<Longrightarrow> phases \<noteq> [] \<and> hd phases = Queued"
  by (erule required_phases_cases) (simp_all add: phase_plans)

lemma plan_no_reconciliation:
  "required_phases kind class = Inr phases \<Longrightarrow> Reconciliation \<notin> set phases"
  by (erule required_phases_cases) (simp_all add: phase_plans)

text \<open>
  The mutation boundary is crossed once: after a phase that may mutate, every later phase of the
  plan is one too.
\<close>

lemma plan_boundary_upward:
  assumes "required_phases kind class = Inr phases"
  shows "sorted_wrt (\<lambda>p q. crosses_mutation_boundary p \<longrightarrow> crosses_mutation_boundary q) phases"
  using assms by (rule required_phases_cases) (simp_all add: phase_plans)

text \<open>
  The step from \<open>Preflight\<close> to \<open>Rollback\<close> in the plan of a code rollback is the only required step
  that \<open>permits_transition\<close> refuses.
\<close>

lemma plan_step_permitted_iff:
  assumes "required_phases kind class = Inr phases" "(p, q) \<in> set (windows2 phases)"
  shows "permits_transition kind class p q = Inr (\<not> (p = Preflight \<and> q = Rollback))"
  using assms(1)
  by (rule required_phases_cases)
    (use assms in \<open>auto simp: permits_transition_def phase_plans\<close>)

end
