(* ===== verification/Std_Text.thy ===== *)
theory Std_Text
  imports Prelude
begin

text \<open>
  The parts of \<open>std::str\<close> and \<open>std::path\<close> that the file names and the frames rely on, on strings
  as lists of bytes.
\<close>

section \<open>UTF-8\<close>

definition is_continuation :: "char \<Rightarrow> bool" where
  "is_continuation c \<longleftrightarrow> 0x80 \<le> byte c \<and> byte c \<le> 0xBF"

text \<open>What \<open>std::str::from_utf8\<close> accepts: the well-formed sequences of one to four bytes.\<close>

fun is_utf8 :: "string \<Rightarrow> bool" where
  "is_utf8 [] = True"
| "is_utf8 (b # bs) =
     (if byte b < 0x80 then is_utf8 bs
      else if 0xC2 \<le> byte b \<and> byte b \<le> 0xDF then
        (case bs of c # cs \<Rightarrow> is_continuation c \<and> is_utf8 cs | _ \<Rightarrow> False)
      else if 0xE0 \<le> byte b \<and> byte b \<le> 0xEF then
        (case bs of c # d # cs \<Rightarrow>
             (if byte b = 0xE0 then 0xA0 \<le> byte c \<and> byte c \<le> 0xBF
              else if byte b = 0xED then 0x80 \<le> byte c \<and> byte c \<le> 0x9F
              else is_continuation c) \<and> is_continuation d \<and> is_utf8 cs
         | _ \<Rightarrow> False)
      else if 0xF0 \<le> byte b \<and> byte b \<le> 0xF4 then
        (case bs of c # d # e # cs \<Rightarrow>
             (if byte b = 0xF0 then 0x90 \<le> byte c \<and> byte c \<le> 0xBF
              else if byte b = 0xF4 then 0x80 \<le> byte c \<and> byte c \<le> 0x8F
              else is_continuation c) \<and> is_continuation d \<and> is_continuation e \<and> is_utf8 cs
         | _ \<Rightarrow> False)
      else False)"

lemma ascii_is_utf8: "list_all (\<lambda>c. byte c < 0x80) s \<Longrightarrow> is_utf8 s"
  by (induction s) simp_all


section \<open>Names\<close>

definition strip_suffix :: "'a list \<Rightarrow> 'a list \<Rightarrow> 'a list option" where
  "strip_suffix t xs =
     (if length t \<le> length xs \<and> drop (length xs - length t) xs = t
      then Some (take (length xs - length t) xs) else None)"

text \<open>\<open>Path::extension\<close> of a file name: what follows the last dot, unless that dot comes first.\<close>

definition path_extension :: "string \<Rightarrow> string option" where
  "path_extension name =
     (let after = takeWhile (\<lambda>c. c \<noteq> CHR ''.'') (rev name);
          before = drop (length after + 1) (rev name)
      in if CHR ''.'' \<in> set name \<and> before \<noteq> [] then Some (rev after) else None)"

definition ascii_lower :: "char \<Rightarrow> char" where
  "ascii_lower c = (if is_ascii_uppercase c then char_of (byte c + 32) else c)"

definition eq_ignore_ascii_case :: "string \<Rightarrow> string \<Rightarrow> bool" where
  "eq_ignore_ascii_case s t \<longleftrightarrow> map ascii_lower s = map ascii_lower t"

lemma strip_suffix_Some: "strip_suffix t xs = Some ys \<longleftrightarrow> xs = ys @ t"
  by (auto simp: strip_suffix_def) (metis append_take_drop_id)

lemma strip_suffix_append [simp]: "strip_suffix t (ys @ t) = Some ys"
  by (simp add: strip_suffix_Some)

lemma path_extension_append:
  assumes "CHR ''.'' \<notin> set e" "p \<noteq> []"
  shows "path_extension (p @ CHR ''.'' # e) = Some e"
  using assms by (simp add: path_extension_def takeWhile_append)

end
