(* ===== verification/Protocol_Frames.thy ===== *)
theory Protocol_Frames
  imports Std_Text Sealed_Documents "HOL-Library.Word"
begin

text \<open>
  The frames of the local sockets, \<open>src/protocol/frame.rs\<close>: a big-endian length of 32 bits and a JSON
  payload. The JSON encoder is a parameter. A reader is the list of bytes still to come, and
  \<open>read_exact\<close> fails when fewer are left; a writer is the list of bytes written so far and the
  number of bytes its peer takes before the transport fails.
\<close>

datatype frame_error =
    IncompleteHeader
  | IncompletePayload nat nat
  | LengthOverflow
  | TrailingBytes nat
  | Frame_Oversized nat nat
  | Frame_Utf8
  | Frame_Json
  | Frame_Io

definition normal_frame_max_bytes :: nat where "normal_frame_max_bytes = 64 * 1024"

definition observation_frame_max_bytes :: nat where "observation_frame_max_bytes = 512 * 1024"

text \<open>\<open>u32::to_be_bytes\<close> and \<open>u32::from_be_bytes\<close>.\<close>

definition to_be_bytes :: "32 word \<Rightarrow> string" where
  "to_be_bytes w = map (\<lambda>i. char_of (unat (take_bit 8 (drop_bit i w)))) [24, 16, 8, 0]"

fun from_be_bytes :: "string \<Rightarrow> 32 word" where
  "from_be_bytes bytes =
     fold (\<lambda>b w. push_bit 8 w + of_nat (of_char b)) bytes 0"

definition u32_try_from :: "nat \<Rightarrow> 32 word option" where
  "u32_try_from n = (if n < 2 ^ 32 then Some (of_nat n) else None)"

definition usize_checked_add :: "nat \<Rightarrow> nat \<Rightarrow> nat option" where
  "usize_checked_add a b = (if a + b < 2 ^ 64 then Some (a + b) else None)"

definition encode_frame :: "('v \<Rightarrow> serde_error + string) \<Rightarrow> 'v \<Rightarrow> nat \<Rightarrow> frame_error + string" where
  "encode_frame to_vec value max_bytes =
     bind_res (map_err (\<lambda>_. Frame_Json) (to_vec value)) (\<lambda>payload.
     if max_bytes < length payload then Inl (Frame_Oversized (length payload) max_bytes)
     else
       bind_res (ok_or (u32_try_from (length payload)) (Frame_Oversized (length payload) max_bytes)) (\<lambda>n.
       Inr (to_be_bytes n @ payload)))"

definition decode_single_frame ::
  "(string \<Rightarrow> serde_error + 'v) \<Rightarrow> string \<Rightarrow> nat \<Rightarrow> frame_error + 'v" where
  "decode_single_frame from_str frame max_bytes =
     (if length frame < 4 then Inl IncompleteHeader
      else
        (let declared = unat (from_be_bytes (take 4 frame)) in
         if max_bytes < declared then Inl (Frame_Oversized declared max_bytes)
         else
           bind_res (ok_or (usize_checked_add declared 4) LengthOverflow) (\<lambda>expected.
           if length frame < expected then Inl (IncompletePayload declared (length frame - 4))
           else if expected < length frame then Inl (TrailingBytes (length frame - expected))
           else if \<not> is_utf8 (drop 4 frame) then Inl Frame_Utf8
           else map_err (\<lambda>_. Frame_Json) (from_str (drop 4 frame)))))"

text \<open>\<open>AsyncReadExt::read_exact\<close> on the bytes still to come.\<close>

definition read_exact :: "nat \<Rightarrow> string \<Rightarrow> (frame_error + string) \<times> string" where
  "read_exact n input = (if length input < n then (Inl Frame_Io, []) else (Inr (take n input), drop n input))"

definition read_frame ::
  "(string \<Rightarrow> serde_error + 'v) \<Rightarrow> nat \<Rightarrow> string \<Rightarrow> (frame_error + 'v) \<times> string" where
  "read_frame from_str max_bytes input =
     (case read_exact 4 input of
        (Inl e, rest) \<Rightarrow> (Inl e, rest)
      | (Inr header, rest) \<Rightarrow>
          (let declared = unat (from_be_bytes header) in
           if max_bytes < declared then (Inl (Frame_Oversized declared max_bytes), rest)
           else
             (case read_exact declared rest of
                (Inl e, rest) \<Rightarrow> (Inl e, rest)
              | (Inr payload, rest) \<Rightarrow> (decode_single_frame from_str (header @ payload) max_bytes, rest))))"

text \<open>\<open>AsyncWriteExt::write_all\<close>: the bytes the peer no longer takes are lost.\<close>

fun write_all :: "string \<Rightarrow> string \<times> nat \<Rightarrow> (frame_error + unit) \<times> (string \<times> nat)" where
  "write_all bytes (sent, room) =
     (if length bytes \<le> room then (Inr (), (sent @ bytes, room - length bytes))
      else (Inl Frame_Io, (sent @ take room bytes, 0)))"

definition write_frame ::
  "('v \<Rightarrow> serde_error + string) \<Rightarrow> 'v \<Rightarrow> nat \<Rightarrow> string \<times> nat \<Rightarrow> (frame_error + unit) \<times> (string \<times> nat)" where
  "write_frame to_vec value max_bytes writer =
     (case encode_frame to_vec value max_bytes of
        Inl e \<Rightarrow> (Inl e, writer)
      | Inr frame \<Rightarrow> write_all frame writer)"


section \<open>Lengths\<close>

lemma unat_byte:
  "of_char (char_of (unat (take_bit 8 (drop_bit i (w :: 32 word)))) :: char) = unat w div 2 ^ i mod 256"
proof -
  have "unat w < 2 ^ 32" using unsigned_less [of w, where ?'a = nat] by simp
  then have "unat (take_bit 8 (drop_bit i w)) = unat w div 2 ^ i mod 2 ^ 8"
    by (simp only: unsigned_take_bit_eq unsigned_drop_bit_eq)
      (simp add: take_bit_eq_mod drop_bit_eq_div)
  then show ?thesis by simp
qed

lemma four_bytes: "n < 2 ^ 32 \<Longrightarrow>
  (((n div 2 ^ 24 mod 256) * 256 + n div 2 ^ 16 mod 256) * 256 + n div 2 ^ 8 mod 256) * 256 + n mod 256 = (n :: nat)"
proof -
  assume n: "n < 2 ^ 32"
  have "n div 2 ^ 24 < 256" using n by (simp add: div_less_iff_less_mult)
  moreover have "n div 2 ^ 24 = n div 256 div 256 div 256" "n div 2 ^ 16 = n div 256 div 256" "n div 2 ^ 8 = n div 256"
    by (simp_all add: div_mult2_eq [symmetric])
  ultimately show ?thesis by (simp add: mult.commute [of _ 256])
qed

lemma from_to_be_bytes: "from_be_bytes (to_be_bytes w) = w"
proof -
  have "from_be_bytes (to_be_bytes w) = of_nat ((((unat w div 2 ^ 24 mod 256) * 256 + unat w div 2 ^ 16 mod 256) * 256 +
      unat w div 2 ^ 8 mod 256) * 256 + unat w mod 256)"
    using unat_byte [of 24 w] unat_byte [of 16 w] unat_byte [of 8 w] unat_byte [of 0 w]
    by (simp add: to_be_bytes_def push_bit_eq_mult algebra_simps)
  also have "\<dots> = of_nat (unat w)"
    using unsigned_less [of w, where ?'a = nat] by (subst four_bytes) simp_all
  finally show ?thesis by simp
qed

lemma four_digits:
  fixes a b c d :: nat
  assumes "a < 256" "b < 256" "c < 256" "d < 256"
  shows "(((a * 256 + b) * 256 + c) * 256 + d) div 2 ^ 24 mod 256 = a"
    "(((a * 256 + b) * 256 + c) * 256 + d) div 2 ^ 16 mod 256 = b"
    "(((a * 256 + b) * 256 + c) * 256 + d) div 2 ^ 8 mod 256 = c"
    "(((a * 256 + b) * 256 + c) * 256 + d) div 2 ^ 0 mod 256 = d"
    "((a * 256 + b) * 256 + c) * 256 + d < 2 ^ 32"
proof -
  let ?n = "((a * 256 + b) * 256 + c) * 256 + d"
  have quotient: "(x * 256 + y) div 256 = x" if "y < 256" for x y :: nat using that by simp
  have remainder: "(x * 256 + y) mod 256 = y" if "y < 256" for x y :: nat using that by simp
  have "?n div 2 ^ 24 = ?n div 256 div 256 div 256" "?n div 2 ^ 16 = ?n div 256 div 256" "?n div 2 ^ 8 = ?n div 256"
    by (simp_all only: div_mult2_eq [symmetric]) simp_all
  then show "?n div 2 ^ 24 mod 256 = a" "?n div 2 ^ 16 mod 256 = b" "?n div 2 ^ 8 mod 256 = c"
    using assms by (simp_all only: quotient remainder) simp
  show "?n div 2 ^ 0 mod 256 = d" using assms by (simp only: power_0 div_by_1 remainder)
  show "?n < 2 ^ 32" using assms by simp
qed

lemma unat_from_be_bytes:
  "unat (from_be_bytes [a, b, c, d]) =
     ((of_char a * 256 + of_char b) * 256 + of_char c) * 256 + of_char d"
proof -
  let ?n = "((of_char a * 256 + of_char b) * 256 + of_char c) * 256 + of_char d :: nat"
  have small: "of_char x < (256 :: nat)" for x :: char by simp
  have "?n < 2 ^ 32" by (rule four_digits(5) [OF small small small small])
  moreover have "from_be_bytes [a, b, c, d] = of_nat ?n"
    by (simp add: push_bit_eq_mult algebra_simps)
  ultimately show ?thesis by (simp only: unsigned_of_nat take_bit_nat_eq_self_iff) (simp add: take_bit_eq_mod)
qed

lemma to_from_be_bytes:
  assumes "length header = 4"
  shows "to_be_bytes (from_be_bytes header) = header"
proof -
  obtain a b c d where header: "header = [a, b, c, d]"
    using assms by (auto simp: length_Suc_conv eval_nat_numeral)
  note n = unat_from_be_bytes [of a b c d]
  have small: "of_char x < (256 :: nat)" for x :: char by simp
  note digits = four_digits(1-4) [OF small [of a] small [of b] small [of c] small [of d], folded n, folded header]
  have "char_of (unat (take_bit 8 (drop_bit i (from_be_bytes header)))) = x"
    if "unat (from_be_bytes header) div 2 ^ i mod 256 = of_char x" for i and x :: char
    using unat_byte [of i "from_be_bytes header"] that by (metis of_char_eq_iff)
  note this [OF digits(1)] this [OF digits(2)] this [OF digits(3)] this [OF digits(4)]
  then show ?thesis by (simp only: to_be_bytes_def list.map) (simp only: header)
qed

lemma length_to_be_bytes [simp]: "length (to_be_bytes w) = 4"
  by (simp add: to_be_bytes_def)

lemma unat_from_to_length:
  "n < 2 ^ 32 \<Longrightarrow> unat (from_be_bytes (to_be_bytes (of_nat n))) = n"
  by (simp only: from_to_be_bytes) (simp add: unsigned_of_nat take_bit_eq_mod)

declare from_be_bytes.simps [simp del]


section \<open>Round trips\<close>

text \<open>What the frames rely on: a value reads back from its JSON text, which is UTF-8.\<close>

definition frame_codec_laws :: "('v \<Rightarrow> serde_error + string) \<Rightarrow> (string \<Rightarrow> serde_error + 'v) \<Rightarrow> bool" where
  "frame_codec_laws to_vec from_str \<longleftrightarrow>
     reads_back from_str to_vec \<and> (\<forall>v bytes. to_vec v = Inr bytes \<longrightarrow> is_utf8 bytes)"

lemma encode_frame_Inr:
  "encode_frame to_vec v max_bytes = Inr frame \<longleftrightarrow>
     (\<exists>payload. to_vec v = Inr payload \<and> length payload \<le> max_bytes \<and> length payload < 2 ^ 32 \<and>
        frame = to_be_bytes (of_nat (length payload)) @ payload)"
  by (auto simp: encode_frame_def bind_res_def map_err_def u32_try_from_def ok_or_def
      split: sum.splits if_splits)

lemma decode_encoded_frame:
  assumes "frame_codec_laws to_vec from_str" "encode_frame to_vec v max_bytes = Inr frame"
  shows "decode_single_frame from_str frame max_bytes = Inr v"
proof -
  obtain payload where p: "to_vec v = Inr payload" "length payload \<le> max_bytes" "length payload < 2 ^ 32"
    "frame = to_be_bytes (of_nat (length payload)) @ payload"
    using assms(2) by (auto simp: encode_frame_Inr)
  have "from_str payload = Inr v" "is_utf8 payload"
    using assms(1) p(1) by (auto simp: frame_codec_laws_def reads_back_def)
  then show ?thesis
    using p by (simp add: decode_single_frame_def unat_from_to_length usize_checked_add_def ok_or_def
        bind_res_def map_err_def)
qed

lemma read_encoded:
  assumes "frame_codec_laws to_vec from_str" "encode_frame to_vec v max_bytes = Inr frame"
  shows "read_frame from_str max_bytes (frame @ rest) = (Inr v, rest)"
proof -
  obtain payload where p: "length payload \<le> max_bytes" "length payload < 2 ^ 32"
    "frame = to_be_bytes (of_nat (length payload)) @ payload"
    using assms(2) by (auto simp: encode_frame_Inr)
  show ?thesis
    using p decode_encoded_frame [OF assms]
    by (simp add: read_frame_def read_exact_def unat_from_to_length)
qed

text \<open>Messages written one after the other, and read back one after the other.\<close>

fun write_frames ::
  "('v \<Rightarrow> serde_error + string) \<Rightarrow> nat \<Rightarrow> 'v list \<Rightarrow> string \<times> nat \<Rightarrow> (frame_error + unit) \<times> (string \<times> nat)" where
  "write_frames to_vec max_bytes [] writer = (Inr (), writer)"
| "write_frames to_vec max_bytes (v # vs) writer =
     (case write_frame to_vec v max_bytes writer of
        (Inl e, writer) \<Rightarrow> (Inl e, writer)
      | (Inr _, writer) \<Rightarrow> write_frames to_vec max_bytes vs writer)"

fun read_frames :: "(string \<Rightarrow> serde_error + 'v) \<Rightarrow> nat \<Rightarrow> nat \<Rightarrow> string \<Rightarrow> (frame_error + 'v list) \<times> string" where
  "read_frames from_str max_bytes 0 input = (Inr [], input)"
| "read_frames from_str max_bytes (Suc n) input =
     (case read_frame from_str max_bytes input of
        (Inl e, rest) \<Rightarrow> (Inl e, rest)
      | (Inr v, rest) \<Rightarrow>
          (case read_frames from_str max_bytes n rest of
             (Inl e, rest) \<Rightarrow> (Inl e, rest)
           | (Inr vs, rest) \<Rightarrow> (Inr (v # vs), rest)))"

lemma write_frame_Inr:
  "write_frame to_vec v max_bytes (sent, room) = (Inr u, writer) \<longleftrightarrow>
     (\<exists>frame. encode_frame to_vec v max_bytes = Inr frame \<and> length frame \<le> room \<and>
        writer = (sent @ frame, room - length frame))"
  by (auto simp: write_frame_def split: sum.splits if_splits)

lemma written_frames_read_back:
  assumes "frame_codec_laws to_vec from_str"
    and "write_frames to_vec max_bytes vs (sent, room) = (Inr u, (sent', room'))"
  shows "\<exists>frames. sent' = sent @ frames \<and>
    read_frames from_str max_bytes (length vs) (frames @ rest) = (Inr vs, rest)"
  using assms(2)
proof (induction vs arbitrary: sent room)
  case (Cons v vs)
  then obtain frame where frame: "encode_frame to_vec v max_bytes = Inr frame"
    and "write_frames to_vec max_bytes vs (sent @ frame, room - length frame) = (Inr u, (sent', room'))"
    by (auto simp: write_frame_Inr split: prod.splits sum.splits)
  then obtain frames where "sent' = (sent @ frame) @ frames"
    "read_frames from_str max_bytes (length vs) (frames @ rest) = (Inr vs, rest)"
    using Cons.IH by blast
  then show ?case using read_encoded [OF assms(1) frame] by (auto intro!: exI [of _ "frame @ frames"])
qed simp

text \<open>
  C13: A stream of frames is read back message by message. When a sequence of messages has been
  written to a fresh connection, reading as many frames at the other side gives exactly those
  messages in order and leaves exactly the bytes that follow them.
\<close>

theorem frame_stream_round_trip:
  assumes "frame_codec_laws to_vec from_str"
    and "write_frames to_vec max_bytes vs ([], room) = (Inr (), (sent, room'))"
  shows "read_frames from_str max_bytes (length vs) (sent @ rest) = (Inr vs, rest)"
  using written_frames_read_back [OF assms] by auto

theorem frame_stream_round_trip_witness:
  "read_frames Inr normal_frame_max_bytes 2
     (fst (snd (write_frames (\<lambda>v. if is_utf8 v then Inr v else Inl Serde_error) normal_frame_max_bytes [''{}'', ''[]''] ([], 100))) @ ''x'') =
     (Inr [''{}'', ''[]''], ''x'')"
proof -
  let ?to_vec = "\<lambda>v. if is_utf8 v then Inr v else Inl Serde_error"
  have "frame_codec_laws ?to_vec Inr"
    by (simp add: frame_codec_laws_def reads_back_def split: if_splits)
  moreover have "write_frames ?to_vec normal_frame_max_bytes [''{}'', ''[]''] ([], 100) =
      (Inr (), (to_be_bytes 2 @ ''{}'' @ to_be_bytes 2 @ ''[]'', 88))"
    by (simp add: write_frame_def encode_frame_def bind_res_def map_err_def u32_try_from_def ok_or_def byte_def
        length_to_be_bytes normal_frame_max_bytes_def)
  ultimately show ?thesis
    using frame_stream_round_trip [of ?to_vec Inr normal_frame_max_bytes "[''{}'', ''[]'']" 100 _ _ "''x''"]
    by (simp add: numeral_2_eq_2 del: read_frames.simps write_frames.simps)
qed

lemma read_frame_front:
  assumes "length header = 4" "length payload = unat (from_be_bytes header)" "length payload \<le> max_bytes"
  shows "read_frame from_str max_bytes (header @ payload @ rest) =
    (decode_single_frame from_str (header @ payload) max_bytes, rest)"
  using assms by (simp add: read_frame_def read_exact_def Let_def)

lemma decode_single_frame_Inr:
  assumes "decode_single_frame from_str (header @ payload) max_bytes = Inr v" "length header = 4"
  shows "is_utf8 payload \<and> from_str payload = Inr v"
  using assms
  by (auto simp: decode_single_frame_def bind_res_def map_err_def ok_or_def Let_def split: sum.splits if_splits)

text \<open>
  C17: A reader takes one frame, whole and within its bound, and never more. What it accepts is the
  unique frame at the front of the input: the length of the payload in four bytes and a UTF-8
  payload no longer than the bound. When it refuses, it has consumed no more than a frame of that
  bound, whatever length the peer declared.
\<close>

theorem read_frame_is_bounded:
  "case read_frame from_str max_bytes input of
     (Inr v, rest) \<Rightarrow>
       \<exists>payload. input = to_be_bytes (of_nat (length payload)) @ payload @ rest \<and>
         length payload \<le> max_bytes \<and> is_utf8 payload \<and> from_str payload = Inr v
   | (Inl _, rest) \<Rightarrow> \<exists>consumed. input = consumed @ rest \<and> length consumed \<le> 4 + max_bytes"
proof -
  let ?header = "take 4 input" and ?rest = "drop 4 input"
  let ?n = "unat (from_be_bytes ?header)"
  consider "length input < 4" | "4 \<le> length input" "max_bytes < ?n"
    | "4 \<le> length input" "?n \<le> max_bytes" "length ?rest < ?n"
    | "4 \<le> length input" "?n \<le> max_bytes" "?n \<le> length ?rest"
    by linarith
  then show ?thesis
  proof cases
    case 4
    obtain header payload rest where input: "input = header @ payload @ rest"
      and header: "length header = 4" "length payload = unat (from_be_bytes header)"
      and bound: "length payload \<le> max_bytes"
    proof
      show "input = ?header @ take ?n ?rest @ drop ?n ?rest" by (simp only: append_take_drop_id)
    qed (use 4 in simp_all)
    have "to_be_bytes (of_nat (length payload)) = header" using to_from_be_bytes [of header] header by simp
    then show ?thesis
      using read_frame_front [OF header bound, of from_str rest] decode_single_frame_Inr [OF _ header(1), of from_str payload max_bytes] bound header(1)
      by (cases "decode_single_frame from_str (header @ payload) max_bytes")
        (auto simp: input intro: exI [of _ payload] exI [of _ "header @ payload"])
  next
    case 1
    then show ?thesis by (simp add: read_frame_def read_exact_def)
  next
    case 2
    then show ?thesis
      by (auto simp: read_frame_def read_exact_def Let_def intro!: exI [of _ ?header])
  next
    case 3
    then show ?thesis by (simp add: read_frame_def read_exact_def Let_def)
  qed
qed

end
