(* ===== verification/Workflow_Policy.thy ===== *)
theory Workflow_Policy
  imports Sealed_Documents "HOL-Library.Product_Lexorder" "HOL-Library.Multiset"
begin

text \<open>
  The workflow policy of \<open>src/domain/workflow.rs\<close>: node kinds, execution profiles, the host
  preparation policy, and the validation of a policy graph (local node rules, artifact contracts,
  topology, and the fixed shapes of the executor-mutation and self-update graphs). What validation
  establishes is proved in \<open>Workflow_Graph\<close>.

  A \<open>BTreeMap<&WorkflowNodeId, &WorkflowNodeV1>\<close> is the list of its values in key order.
\<close>

section \<open>Tokens\<close>

definition max_identity_bytes :: nat where "max_identity_bytes = 96"

definition valid_workflow_token :: "string \<Rightarrow> nat \<Rightarrow> bool" where
  "valid_workflow_token value maximum \<longleftrightarrow>
     1 \<le> length value \<and> length value \<le> maximum \<and>
     first_is is_ascii_alphanumeric value \<and>
     last_is is_ascii_alphanumeric value \<and>
     list_all (\<lambda>b. is_ascii_lowercase b \<or> is_ascii_digit b \<or> b \<in> set ''-._'') value"

definition valid_workflow_identity :: "string \<Rightarrow> bool" where
  "valid_workflow_identity value = valid_workflow_token value max_identity_bytes"

type_synonym node_id = string
type_synonym profile_id = string


section \<open>Node kinds and execution profiles\<close>

datatype node_kind =
    SourceAdmission | HostPrepare | Verification | ReleaseBuild | DeterministicReduce
  | ResourceReservation | Backup | Migration | CandidateHealth | Cutover | ReleasedObservation
  | Rollback_node

datatype node_activation = Always | OnMutationFailure

datatype adapter_id =
    ControllerSourceAdmissionV1 | WorkerHostPrepareV1 | WorkerBareBinCiV1
  | WorkerNativeReleaseBuildV1 | WorkerOciReleaseBuildV1 | ControllerReduceV1
  | ExecutorResourceReserveV1 | ExecutorBackupV1 | ExecutorMigrationV1
  | ExecutorCandidateHealthV1 | ExecutorCutoverV1 | ExecutorReleasedObserveV1
  | ExecutorRollbackV1

datatype worker_pool = Controller | VpsRequired | BuildCompute | PrivilegedExecutor

datatype network_class = Offline | DependencyEgress | LocalHealthOnly

datatype cache_class = Cache_None | Dependency | PreparedRun

datatype delivery_mode = ExecutorMutation | SelfUpdateHandoff

datatype host_preparation_adapter = CargoCratesIoV1 | SourceTreeV1

datatype artifact_kind =
    SourceSnapshot | PreparedRun_artifact | VerificationReceipt | ReleaseBuildResult
  | ReleaseBundle | ReductionReceipt | ResourceReservation_artifact | BackupReceipt
  | MigrationReceipt | CandidateHealthReceipt | CutoverReceipt | ReleasedObservationReceipt
  | RollbackReceipt

text \<open>The derived \<open>Ord\<close> of the artifact kinds is the order of declaration.\<close>

fun artifact_rank :: "artifact_kind \<Rightarrow> nat" where
  "artifact_rank SourceSnapshot = 0"
| "artifact_rank PreparedRun_artifact = 1"
| "artifact_rank VerificationReceipt = 2"
| "artifact_rank ReleaseBuildResult = 3"
| "artifact_rank ReleaseBundle = 4"
| "artifact_rank ReductionReceipt = 5"
| "artifact_rank ResourceReservation_artifact = 6"
| "artifact_rank BackupReceipt = 7"
| "artifact_rank MigrationReceipt = 8"
| "artifact_rank CandidateHealthReceipt = 9"
| "artifact_rank CutoverReceipt = 10"
| "artifact_rank ReleasedObservationReceipt = 11"
| "artifact_rank RollbackReceipt = 12"

lemma artifact_rank_inj: "artifact_rank a = artifact_rank b \<longleftrightarrow> a = b"
  by (cases a; cases b) simp_all

instantiation artifact_kind :: linorder
begin

definition less_eq_artifact_kind :: "artifact_kind \<Rightarrow> artifact_kind \<Rightarrow> bool" where
  "less_eq_artifact_kind a b \<longleftrightarrow> artifact_rank a \<le> artifact_rank b"

definition less_artifact_kind :: "artifact_kind \<Rightarrow> artifact_kind \<Rightarrow> bool" where
  "less_artifact_kind a b \<longleftrightarrow> artifact_rank a < artifact_rank b"

instance
  by standard (auto simp: less_eq_artifact_kind_def less_artifact_kind_def artifact_rank_inj)

end

definition is_mutation :: "node_kind \<Rightarrow> bool" where
  "is_mutation kind \<longleftrightarrow>
     kind \<in> {Backup, Migration, CandidateHealth, Cutover, ReleasedObservation, Rollback_node}"

definition is_controller_managed :: "node_kind \<Rightarrow> bool" where
  "is_controller_managed kind \<longleftrightarrow> kind = SourceAdmission \<or> kind = DeterministicReduce"

fun expected_output :: "node_kind \<Rightarrow> artifact_kind" where
  "expected_output SourceAdmission = SourceSnapshot"
| "expected_output HostPrepare = PreparedRun_artifact"
| "expected_output Verification = VerificationReceipt"
| "expected_output ReleaseBuild = ReleaseBuildResult"
| "expected_output DeterministicReduce = ReductionReceipt"
| "expected_output ResourceReservation = ResourceReservation_artifact"
| "expected_output Backup = BackupReceipt"
| "expected_output Migration = MigrationReceipt"
| "expected_output CandidateHealth = CandidateHealthReceipt"
| "expected_output Cutover = CutoverReceipt"
| "expected_output ReleasedObservation = ReleasedObservationReceipt"
| "expected_output Rollback_node = RollbackReceipt"

fun expected_adapter :: "node_kind \<Rightarrow> adapter_id list" where
  "expected_adapter SourceAdmission = [ControllerSourceAdmissionV1]"
| "expected_adapter HostPrepare = [WorkerHostPrepareV1]"
| "expected_adapter Verification = [WorkerBareBinCiV1]"
| "expected_adapter ReleaseBuild = [WorkerNativeReleaseBuildV1, WorkerOciReleaseBuildV1]"
| "expected_adapter DeterministicReduce = [ControllerReduceV1]"
| "expected_adapter ResourceReservation = [ExecutorResourceReserveV1]"
| "expected_adapter Backup = [ExecutorBackupV1]"
| "expected_adapter Migration = [ExecutorMigrationV1]"
| "expected_adapter CandidateHealth = [ExecutorCandidateHealthV1]"
| "expected_adapter Cutover = [ExecutorCutoverV1]"
| "expected_adapter ReleasedObservation = [ExecutorReleasedObserveV1]"
| "expected_adapter Rollback_node = [ExecutorRollbackV1]"

fun expected_pool :: "node_kind \<Rightarrow> worker_pool" where
  "expected_pool SourceAdmission = Controller"
| "expected_pool DeterministicReduce = Controller"
| "expected_pool HostPrepare = VpsRequired"
| "expected_pool ReleaseBuild = VpsRequired"
| "expected_pool Verification = BuildCompute"
| "expected_pool _ = PrivilegedExecutor"


section \<open>Errors\<close>

datatype workflow_contract_error =
    UnsupportedSchemaVersion nat
  | InvalidIdentifier string
  | InvalidDisplayName
  | InvalidWorkflowBounds
  | DuplicateProfile profile_id
  | MissingProfile profile_id
  | DuplicateNode node_id
  | MissingDependency node_id node_id
  | InvalidDependencies node_id
  | CyclicGraph
  | InvalidNodeCardinality node_kind
  | ProfileKindMismatch node_id
  | ArtifactContractMismatch node_id
  | InvalidActivation node_id
  | InvalidTimeout
  | InvalidExecutionProfile
  | InvalidResourceEnvelope
  | InvalidHostPreparationPolicy
  | InvalidOperationState
  | InvalidLease
  | MissingLeaseSourceIdentity
  | MissingLeaseInputArtifacts
  | InvalidNodeReceipt
  | InvalidCleanupReceipt
  | InvalidReductionReceipt
  | NoncanonicalDocument
  | CanonicalEncoding serde_error

text \<open>The \<open>FromStr\<close> of the two token types generated by \<open>workflow_token!\<close>.\<close>

definition node_id_from_str :: "string \<Rightarrow> workflow_contract_error + node_id" where
  "node_id_from_str value =
     (if valid_workflow_token value 64 then Inr value
      else Inl (InvalidIdentifier ''workflow node ID''))"

definition profile_id_from_str :: "string \<Rightarrow> workflow_contract_error + profile_id" where
  "profile_id_from_str value =
     (if valid_workflow_token value 64 then Inr value
      else Inl (InvalidIdentifier ''workflow profile ID''))"

interpretation node_ids: parsed_text "\<lambda>s. valid_workflow_token s 64" node_id_from_str
  by unfold_locales (simp_all add: node_id_from_str_def)

interpretation profile_ids: parsed_text "\<lambda>s. valid_workflow_token s 64" profile_id_from_str
  by unfold_locales (simp_all add: profile_id_from_str_def)


section \<open>OCI bases and the host preparation policy\<close>

text \<open>\<open>WorkflowOciDigest::validate\<close>.\<close>

definition oci_digest_validate :: "string \<Rightarrow> bool" where
  "oci_digest_validate value =
     (case strip_prefix ''sha256:'' value of
        None \<Rightarrow> False
      | Some hex \<Rightarrow> length hex = 64 \<and> list_all is_lower_hex hex)"

definition oci_digest_from_str :: "string \<Rightarrow> workflow_contract_error + string" where
  "oci_digest_from_str value =
     (if oci_digest_validate value then Inr value else Inl InvalidHostPreparationPolicy)"

interpretation oci_digests: parsed_text oci_digest_validate oci_digest_from_str
  by unfold_locales (simp_all add: oci_digest_from_str_def)

text \<open>\<open>str::rsplit_once\<close>, \<open>str::rfind\<close> and \<open>str::split\<close> for an ASCII delimiter.\<close>

definition rfind :: "char \<Rightarrow> string \<Rightarrow> nat option" where
  "rfind c s =
     (if c \<in> set s then Some (length s - 1 - length (takeWhile (\<lambda>x. x \<noteq> c) (rev s))) else None)"

definition rsplit_once :: "char \<Rightarrow> string \<Rightarrow> (string \<times> string) option" where
  "rsplit_once c s = map_option (\<lambda>i. (take i s, drop (Suc i) s)) (rfind c s)"

fun split_on :: "char \<Rightarrow> string \<Rightarrow> string list" where
  "split_on c [] = [[]]"
| "split_on c (x # xs) =
     (if x = c then [] # split_on c xs
      else case split_on c xs of [] \<Rightarrow> [[x]] | y # ys \<Rightarrow> (x # y) # ys)"

record oci_base_input =
  oci_source :: string
  oci_layout_name :: string
  oci_manifest_digest :: string

definition valid_docker_hub_repository_reference :: "string \<Rightarrow> bool" where
  "valid_docker_hub_repository_reference value =
     (if value = [] \<or> length value > 255 \<or> list_ex is_ascii_control value then False
      else
        let last_slash = (case rfind CHR ''/'' value of None \<Rightarrow> 0 | Some i \<Rightarrow> i + 1);
            (repository, tag) =
              (case rfind CHR '':'' (drop last_slash value) of
                 Some i \<Rightarrow> (take (last_slash + i) value, Some (drop (last_slash + i + 1) value))
               | None \<Rightarrow> (value, None))
        in repository \<noteq> [] \<and>
           list_all (\<lambda>component.
               component \<noteq> [] \<and> length component \<le> 128 \<and>
               first_is is_ascii_alphanumeric component \<and>
               last_is is_ascii_alphanumeric component \<and>
               list_all (\<lambda>b. is_ascii_lowercase b \<or> is_ascii_digit b \<or> b \<in> set ''._-'') component)
             (split_on CHR ''/'' repository) \<and>
           (case tag of None \<Rightarrow> True
            | Some tag \<Rightarrow> tag \<noteq> [] \<and> length tag \<le> 128 \<and>
                list_all (\<lambda>b. is_ascii_alphanumeric b \<or> b \<in> set ''._-'') tag))"

definition oci_base_validate :: "oci_base_input \<Rightarrow> workflow_contract_error + unit" where
  "oci_base_validate base =
     (case rsplit_once CHR ''@'' (oci_source base) of
        None \<Rightarrow> Inl InvalidHostPreparationPolicy
      | Some (reference, digest) \<Rightarrow>
          (case strip_prefix ''docker.io/'' reference of
             None \<Rightarrow> Inl InvalidHostPreparationPolicy
           | Some repository_reference \<Rightarrow>
               if digest \<noteq> oci_manifest_digest base \<or>
                  \<not> valid_workflow_token (oci_layout_name base) 64 \<or>
                  \<not> valid_docker_hub_repository_reference repository_reference
               then Inl InvalidHostPreparationPolicy
               else Inr ()))"

record host_preparation_policy =
  hp_schema_version :: nat
  hp_adapter_id :: host_preparation_adapter
  hp_platform :: string
  hp_cpu_baseline :: string
  hp_abi :: string
  hp_toolchain_root :: string
  hp_toolchain_interface :: string
  hp_build_environment :: "(string \<times> string) list"
  hp_oci_bases :: "oci_base_input list"

definition valid_build_environment_name :: "string \<Rightarrow> bool" where
  "valid_build_environment_name value \<longleftrightarrow>
     value \<noteq> [] \<and> length value \<le> 64 \<and>
     list_all (\<lambda>b. is_ascii_uppercase b \<or> is_ascii_digit b \<or> b = CHR ''_'') value \<and>
     is_ascii_uppercase (value ! 0)"

definition reserved_build_environment_name :: "string \<Rightarrow> bool" where
  "reserved_build_environment_name value \<longleftrightarrow>
     value \<in> {''PATH'', ''HOME'', ''TMPDIR'', ''CARGO_HOME'', ''CARGO_TARGET_DIR'', ''CCACHE_DIR'',
       ''CCACHE_TEMPDIR'', ''ZIG_GLOBAL_CACHE_DIR'', ''ZIG_LOCAL_CACHE_DIR'', ''LD_PRELOAD'',
       ''LD_LIBRARY_PATH''} \<or>
     starts_with ''RDASHBOARD_'' value"

definition workflow_host_preparation_schema_version :: nat where
  "workflow_host_preparation_schema_version = 2"

definition oci_base_key :: "oci_base_input \<Rightarrow> string \<times> string \<times> string" where
  "oci_base_key base = (oci_source base, oci_layout_name base, oci_manifest_digest base)"

definition host_preparation_validate ::
  "host_preparation_policy \<Rightarrow> workflow_contract_error + unit" where
  "host_preparation_validate p =
     (if hp_schema_version p \<noteq> workflow_host_preparation_schema_version \<or>
         \<not> valid_workflow_token (hp_platform p) 64 \<or>
         \<not> valid_workflow_token (hp_cpu_baseline p) 64 \<or>
         \<not> valid_workflow_token (hp_abi p) 64 \<or>
         \<not> valid_workflow_token (hp_toolchain_root p) 128 \<or>
         \<not> valid_workflow_token (hp_toolchain_interface p) 128 \<or>
         length (hp_build_environment p) > 32 \<or>
         list_ex (\<lambda>(name, value). \<not> valid_build_environment_name name \<or>
             reserved_build_environment_name name \<or> value = [] \<or> length value > 4096 \<or>
             CHR 0x00 \<in> set value) (hp_build_environment p) \<or>
         length (hp_oci_bases p) > 16 \<or>
         \<not> strictly_sorted_unique (map oci_base_key (hp_oci_bases p)) \<or>
         list_ex (\<lambda>base. \<not> is_ok (oci_base_validate base)) (hp_oci_bases p) \<or>
         card (set (map oci_source (hp_oci_bases p))) \<noteq> length (hp_oci_bases p) \<or>
         card (set (map oci_layout_name (hp_oci_bases p))) \<noteq> length (hp_oci_bases p) \<or>
         (hp_adapter_id p = SourceTreeV1 \<and> hp_oci_bases p \<noteq> [])
      then Inl InvalidHostPreparationPolicy
      else Inr ())"

fun required_network_class :: "host_preparation_adapter \<Rightarrow> network_class" where
  "required_network_class CargoCratesIoV1 = DependencyEgress"
| "required_network_class SourceTreeV1 = Offline"



section \<open>Profiles and nodes\<close>

record resource_envelope =
  re_cpu_millicores :: nat
  re_memory_max_bytes :: nat
  re_tasks_max :: nat
  re_scratch_max_bytes :: nat
  re_scratch_max_inodes :: nat
  re_output_max_bytes :: nat

definition min_memory_bytes :: nat where "min_memory_bytes = 64 * 1024 * 1024"
definition max_memory_bytes :: nat where "max_memory_bytes = 64 * 1024 * 1024 * 1024"
definition max_scratch_bytes :: nat where "max_scratch_bytes = 1024 * 1024 * 1024 * 1024"
definition max_output_bytes :: nat where "max_output_bytes = 64 * 1024 * 1024 * 1024"

definition in_range :: "nat \<Rightarrow> nat \<Rightarrow> nat \<Rightarrow> bool" where
  "in_range lo hi x \<longleftrightarrow> lo \<le> x \<and> x \<le> hi"

definition resource_envelope_validate :: "resource_envelope \<Rightarrow> workflow_contract_error + unit" where
  "resource_envelope_validate r =
     (if \<not> in_range 100 32000 (re_cpu_millicores r) \<or>
         \<not> in_range min_memory_bytes max_memory_bytes (re_memory_max_bytes r) \<or>
         \<not> in_range 8 4096 (re_tasks_max r) \<or>
         \<not> in_range (1024 * 1024) max_scratch_bytes (re_scratch_max_bytes r) \<or>
         \<not> in_range 1024 100000000 (re_scratch_max_inodes r) \<or>
         \<not> in_range 1024 max_output_bytes (re_output_max_bytes r)
      then Inl InvalidResourceEnvelope else Inr ())"

record execution_profile =
  p_profile_id :: profile_id
  p_adapter_id :: adapter_id
  p_worker_pool :: worker_pool
  p_network_class :: network_class
  p_cache_class :: cache_class
  p_timeout_ms :: nat
  p_resources :: "resource_envelope option"

definition execution_profile_validate :: "execution_profile \<Rightarrow> workflow_contract_error + unit" where
  "execution_profile_validate p =
     (if \<not> in_range 100 10800000 (p_timeout_ms p) then Inl InvalidTimeout
      else if p_worker_pool p = Controller then
        (if p_resources p \<noteq> None \<or> p_network_class p \<noteq> Offline \<or> p_cache_class p \<noteq> Cache_None
         then Inl InvalidExecutionProfile else Inr ())
      else bind_res (ok_or (p_resources p) InvalidResourceEnvelope) resource_envelope_validate)"

fun profile_matches_kind :: "execution_profile \<Rightarrow> node_kind \<Rightarrow> bool" where
  "profile_matches_kind p HostPrepare \<longleftrightarrow>
     (p_network_class p = Offline \<or> p_network_class p = DependencyEgress) \<and>
     p_cache_class p = Dependency"
| "profile_matches_kind p Verification \<longleftrightarrow>
     p_network_class p = Offline \<and> p_cache_class p = PreparedRun"
| "profile_matches_kind p ReleaseBuild \<longleftrightarrow>
     p_network_class p = Offline \<and> p_cache_class p = PreparedRun"
| "profile_matches_kind p CandidateHealth \<longleftrightarrow>
     p_network_class p = LocalHealthOnly \<and> p_cache_class p = Cache_None"
| "profile_matches_kind p ReleasedObservation \<longleftrightarrow>
     p_network_class p = LocalHealthOnly \<and> p_cache_class p = Cache_None"
| "profile_matches_kind p _ \<longleftrightarrow> p_network_class p = Offline \<and> p_cache_class p = Cache_None"

record workflow_node =
  n_node_id :: node_id
  n_display_name :: string
  n_kind :: node_kind
  n_activation :: node_activation
  n_profile_id :: profile_id
  n_depends_on :: "node_id list"
  n_input_contracts :: "artifact_kind list"
  n_output_contract :: artifact_kind

text \<open>
  \<open>str::trim\<close>: the UTF-8 encodings of the code points with the Unicode property \<open>White_Space\<close>,
  stripped at both ends.
\<close>

definition white_space :: "string list" where
  "white_space =
    [[CHR 0x09], [CHR 0x0A], [CHR 0x0B], [CHR 0x0C], [CHR 0x0D], [CHR 0x20],
     [CHR 0xC2, CHR 0x85], [CHR 0xC2, CHR 0xA0], [CHR 0xE1, CHR 0x9A, CHR 0x80],
     [CHR 0xE2, CHR 0x80, CHR 0x80], [CHR 0xE2, CHR 0x80, CHR 0x81],
     [CHR 0xE2, CHR 0x80, CHR 0x82], [CHR 0xE2, CHR 0x80, CHR 0x83],
     [CHR 0xE2, CHR 0x80, CHR 0x84], [CHR 0xE2, CHR 0x80, CHR 0x85],
     [CHR 0xE2, CHR 0x80, CHR 0x86], [CHR 0xE2, CHR 0x80, CHR 0x87],
     [CHR 0xE2, CHR 0x80, CHR 0x88], [CHR 0xE2, CHR 0x80, CHR 0x89],
     [CHR 0xE2, CHR 0x80, CHR 0x8A], [CHR 0xE2, CHR 0x80, CHR 0xA8],
     [CHR 0xE2, CHR 0x80, CHR 0xA9], [CHR 0xE2, CHR 0x80, CHR 0xAF],
     [CHR 0xE2, CHR 0x81, CHR 0x9F], [CHR 0xE3, CHR 0x80, CHR 0x80]]"

function strip_front :: "string list \<Rightarrow> string \<Rightarrow> string" where
  "strip_front ws s =
     (case find (\<lambda>w. w \<noteq> [] \<and> starts_with w s) ws of
        None \<Rightarrow> s
      | Some w \<Rightarrow> if s = [] then [] else strip_front ws (drop (length w) s))"
  by pat_completeness auto

termination strip_front
  by (relation "measure (\<lambda>(ws, s). length s)") (auto dest!: find_Some_mem)

declare strip_front.simps [simp del]

definition trim :: "string \<Rightarrow> string" where
  "trim s = rev (strip_front (map rev white_space) (rev (strip_front white_space s)))"

definition validate_local :: "workflow_node \<Rightarrow> workflow_contract_error + unit" where
  "validate_local n =
     (let display_name = trim (n_display_name n) in
      if display_name = [] \<or> length display_name > 96 then Inl InvalidDisplayName
      else if n_output_contract n \<noteq> expected_output (n_kind n)
        then Inl (ArtifactContractMismatch (n_node_id n))
      else if n_kind n = Rollback_node \<and> n_activation n \<noteq> OnMutationFailure
        then Inl (InvalidActivation (n_node_id n))
      else if n_kind n \<noteq> Rollback_node \<and> n_activation n \<noteq> Always
        then Inl (InvalidActivation (n_node_id n))
      else if \<not> strictly_sorted_unique (n_depends_on n) \<or>
          n_node_id n \<in> set (n_depends_on n) \<or>
          \<not> strictly_sorted_unique (n_input_contracts n)
        then Inl (InvalidDependencies (n_node_id n))
      else Inr ())"


section \<open>The policy graph\<close>

record workflow_policy =
  wp_schema_version :: nat
  wp_fairness_weight :: nat
  wp_delivery_mode :: delivery_mode
  wp_execution_profiles :: "execution_profile list"
  wp_nodes :: "workflow_node list"

definition workflow_policy_schema_version :: nat where "workflow_policy_schema_version = 1"
definition max_workflow_nodes :: nat where "max_workflow_nodes = 64"
definition max_workflow_profiles :: nat where "max_workflow_profiles = 32"

text \<open>\<open>WorkflowPolicyV1::node\<close> and \<open>WorkflowPolicyV1::profile\<close>; the same lookups serve the maps.\<close>

definition find_node :: "node_id \<Rightarrow> workflow_node list \<Rightarrow> workflow_node option" where
  "find_node node_id nodes = find (\<lambda>n. n_node_id n = node_id) nodes"

definition find_profile :: "profile_id \<Rightarrow> execution_profile list \<Rightarrow> execution_profile option" where
  "find_profile profile_id profiles = find (\<lambda>p. p_profile_id p = profile_id) profiles"

definition policy_node :: "workflow_policy \<Rightarrow> node_id \<Rightarrow> workflow_node option" where
  "policy_node policy node_id = find_node node_id (wp_nodes policy)"

definition policy_profile :: "workflow_policy \<Rightarrow> profile_id \<Rightarrow> execution_profile option" where
  "policy_profile policy profile_id = find_profile profile_id (wp_execution_profiles policy)"

definition btree_nodes :: "workflow_node list \<Rightarrow> workflow_node list" where
  "btree_nodes nodes = sort_key n_node_id nodes"

text \<open>The first loop of \<open>validate\<close>: profiles are checked and entered into the map.\<close>

definition insert_profile ::
  "execution_profile \<Rightarrow> execution_profile list \<Rightarrow> workflow_contract_error + execution_profile list" where
  "insert_profile p profiles =
     bind_res (execution_profile_validate p) (\<lambda>_.
       if find_profile (p_profile_id p) profiles \<noteq> None
       then Inl (DuplicateProfile (p_profile_id p))
       else Inr (profiles @ [p]))"

text \<open>The second loop: nodes are checked against their profile and entered into the map.\<close>

definition insert_node ::
  "execution_profile list \<Rightarrow> workflow_node \<Rightarrow> workflow_node list \<Rightarrow>
   workflow_contract_error + workflow_node list" where
  "insert_node profiles n nodes =
     bind_res (validate_local n) (\<lambda>_.
     bind_res (ok_or (find_profile (n_profile_id n) profiles) (MissingProfile (n_profile_id n)))
       (\<lambda>profile.
       if p_adapter_id profile \<notin> set (expected_adapter (n_kind n)) \<or>
          expected_pool (n_kind n) \<noteq> p_worker_pool profile \<or>
          \<not> profile_matches_kind profile (n_kind n)
       then Inl (ProfileKindMismatch (n_node_id n))
       else if find_node (n_node_id n) nodes \<noteq> None then Inl (DuplicateNode (n_node_id n))
       else Inr (nodes @ [n])))"

text \<open>The third loop: dependencies exist and the input contracts are what they produce.\<close>

definition check_inputs ::
  "workflow_node list \<Rightarrow> workflow_node \<Rightarrow> workflow_contract_error + unit" where
  "check_inputs nodes n =
     bind_res (collect_res (\<lambda>d. ok_or (find_node d nodes) (MissingDependency (n_node_id n) d))
         (n_depends_on n))
       (\<lambda>dependencies.
         if set (n_input_contracts n) \<noteq> set (map n_output_contract dependencies)
         then Inl (ArtifactContractMismatch (n_node_id n))
         else Inr ())"

text \<open>\<open>validate_topology\<close>: one pass of the inner loop, and the outer loop.\<close>

definition emit_ready :: "workflow_node \<Rightarrow> node_id list \<Rightarrow> node_id list" where
  "emit_ready n emitted =
     (if n_node_id n \<notin> set emitted \<and> list_all (\<lambda>d. d \<in> set emitted) (n_depends_on n)
      then emitted @ [n_node_id n] else emitted)"

definition topology_pass :: "workflow_node list \<Rightarrow> node_id list \<Rightarrow> node_id list" where
  "topology_pass nodes emitted = fold emit_ready nodes emitted"

lemma topology_pass_length: "length emitted \<le> length (topology_pass nodes emitted)"
  unfolding topology_pass_def
proof (induction nodes arbitrary: emitted)
  case (Cons n nodes)
  have "length emitted \<le> length (emit_ready n emitted)" by (simp add: emit_ready_def)
  also have "\<dots> \<le> length (fold emit_ready nodes (emit_ready n emitted))" by (rule Cons.IH)
  finally show ?case by simp
qed simp

function topology_loop ::
  "workflow_node list \<Rightarrow> node_id list \<Rightarrow> workflow_contract_error + unit" where
  "topology_loop nodes emitted =
     (if length emitted < length nodes then
        (let emitted' = topology_pass nodes emitted in
         if length emitted' = length emitted then Inl CyclicGraph
         else topology_loop nodes emitted')
      else Inr ())"
  by pat_completeness auto

termination topology_loop
proof (relation "measure (\<lambda>(nodes, emitted). length nodes - length emitted)", goal_cases)
  case (2 nodes emitted emitted')
  then show ?case using topology_pass_length [of emitted nodes] by simp
qed simp

declare topology_loop.simps [simp del]

definition validate_topology :: "workflow_node list \<Rightarrow> workflow_contract_error + unit" where
  "validate_topology nodes = topology_loop nodes []"


definition require_dependencies ::
  "workflow_node \<Rightarrow> node_id list \<Rightarrow> workflow_contract_error + unit" where
  "require_dependencies n dependencies =
     (if n_depends_on n = dependencies then Inr () else Inl (InvalidDependencies (n_node_id n)))"

definition by_kind :: "workflow_node list \<Rightarrow> node_kind \<Rightarrow> workflow_node list" where
  "by_kind nodes kind = filter (\<lambda>n. n_kind n = kind) nodes"

definition exactly_one ::
  "workflow_node list \<Rightarrow> node_kind \<Rightarrow> workflow_contract_error + workflow_node" where
  "exactly_one nodes kind =
     (case by_kind nodes kind of [n] \<Rightarrow> Inr n | _ \<Rightarrow> Inl (InvalidNodeCardinality kind))"

definition validate_release_dependencies ::
  "workflow_node \<Rightarrow> execution_profile \<Rightarrow> workflow_node \<Rightarrow> workflow_node list \<Rightarrow>
   workflow_contract_error + unit" where
  "validate_release_dependencies build build_profile prepare verification =
     (if p_adapter_id build_profile = WorkerOciReleaseBuildV1 then
        (let parallel = [n_node_id prepare];
             serial = (case verification of
                 [v] \<Rightarrow> Some (sort [n_node_id prepare, n_node_id v]) | _ \<Rightarrow> None)
         in if n_depends_on build \<noteq> parallel \<and> serial \<noteq> Some (n_depends_on build)
            then Inl (InvalidDependencies (n_node_id build)) else Inr ())
      else if p_adapter_id build_profile = WorkerNativeReleaseBuildV1 then
        (case verification of
           [v] \<Rightarrow> require_dependencies build (sort [n_node_id prepare, n_node_id v])
         | _ \<Rightarrow> Inl (InvalidNodeCardinality Verification))
      else Inl (ProfileKindMismatch (n_node_id build)))"

text \<open>\<open>if let Some(n) = nodes.first() { require_dependencies(n, previous)?; previous = n; }\<close>.\<close>

definition chain_first ::
  "workflow_node list \<Rightarrow> workflow_node \<Rightarrow> workflow_contract_error + workflow_node" where
  "chain_first ns previous =
     (case ns of
        [] \<Rightarrow> Inr previous
      | n # _ \<Rightarrow> bind_res (require_dependencies n [n_node_id previous]) (\<lambda>_. Inr n))"

definition validate_executor_mutation_graph ::
  "workflow_node list \<Rightarrow> execution_profile list \<Rightarrow> workflow_contract_error + unit" where
  "validate_executor_mutation_graph nodes profiles =
     bind_res (exactly_one nodes SourceAdmission) (\<lambda>source.
     bind_res (exactly_one nodes HostPrepare) (\<lambda>prepare.
     bind_res (exactly_one nodes ReleaseBuild) (\<lambda>build.
     bind_res (exactly_one nodes DeterministicReduce) (\<lambda>reduce.
     bind_res (exactly_one nodes ResourceReservation) (\<lambda>reserve.
     bind_res (exactly_one nodes CandidateHealth) (\<lambda>candidate.
     bind_res (exactly_one nodes Cutover) (\<lambda>cutover.
     bind_res (exactly_one nodes ReleasedObservation) (\<lambda>observe.
     bind_res (exactly_one nodes Rollback_node) (\<lambda>rollback.
     let verification = by_kind nodes Verification in
     bind_res (ensure (verification \<noteq> []) (InvalidNodeCardinality Verification)) (\<lambda>_.
     bind_res (require_dependencies source []) (\<lambda>_.
     bind_res (require_dependencies prepare [n_node_id source]) (\<lambda>_.
     bind_res (each_res (\<lambda>n. require_dependencies n [n_node_id prepare]) verification) (\<lambda>_.
     bind_res (ok_or (find_profile (n_profile_id build) profiles)
         (MissingProfile (n_profile_id build))) (\<lambda>build_profile.
     bind_res (validate_release_dependencies build build_profile prepare verification) (\<lambda>_.
     bind_res (require_dependencies reduce
         (sort (map n_node_id verification @ [n_node_id build]))) (\<lambda>_.
     bind_res (require_dependencies reserve [n_node_id reduce]) (\<lambda>_.
     let backup = by_kind nodes Backup in
     bind_res (ensure (length backup \<le> 1) (InvalidNodeCardinality Backup)) (\<lambda>_.
     let migration = by_kind nodes Migration in
     bind_res (ensure (length migration \<le> 1) (InvalidNodeCardinality Migration)) (\<lambda>_.
     bind_res (chain_first backup reserve) (\<lambda>previous.
     bind_res (chain_first migration previous) (\<lambda>previous.
     bind_res (require_dependencies candidate [n_node_id previous]) (\<lambda>_.
     bind_res (require_dependencies cutover [n_node_id candidate]) (\<lambda>_.
     bind_res (require_dependencies observe [n_node_id cutover]) (\<lambda>_.
     require_dependencies rollback [n_node_id cutover]))))))))))))))))))))))))"

definition validate_self_update_handoff_graph ::
  "workflow_node list \<Rightarrow> execution_profile list \<Rightarrow> workflow_contract_error + unit" where
  "validate_self_update_handoff_graph nodes profiles =
     bind_res (ensure (length nodes = 5) InvalidWorkflowBounds) (\<lambda>_.
     bind_res (exactly_one nodes SourceAdmission) (\<lambda>source.
     bind_res (exactly_one nodes HostPrepare) (\<lambda>prepare.
     bind_res (exactly_one nodes Verification) (\<lambda>verification.
     bind_res (exactly_one nodes ReleaseBuild) (\<lambda>build.
     bind_res (exactly_one nodes DeterministicReduce) (\<lambda>reduce.
     bind_res (ok_or (find_profile (n_profile_id build) profiles)
         (MissingProfile (n_profile_id build))) (\<lambda>build_profile.
     bind_res (ensure (p_adapter_id build_profile = WorkerNativeReleaseBuildV1)
         (ProfileKindMismatch (n_node_id build))) (\<lambda>_.
     bind_res (require_dependencies source []) (\<lambda>_.
     bind_res (require_dependencies prepare [n_node_id source]) (\<lambda>_.
     bind_res (require_dependencies verification [n_node_id prepare]) (\<lambda>_.
     bind_res (require_dependencies build
         (sort [n_node_id prepare, n_node_id verification])) (\<lambda>_.
     require_dependencies reduce (sort [n_node_id build, n_node_id verification])))))))))))))"

definition policy_validate :: "workflow_policy \<Rightarrow> workflow_contract_error + unit" where
  "policy_validate policy =
     (if wp_schema_version policy \<noteq> workflow_policy_schema_version
        then Inl (UnsupportedSchemaVersion (wp_schema_version policy))
      else if \<not> in_range 1 16 (wp_fairness_weight policy) \<or>
          wp_execution_profiles policy = [] \<or>
          length (wp_execution_profiles policy) > max_workflow_profiles \<or>
          wp_nodes policy = [] \<or>
          length (wp_nodes policy) > max_workflow_nodes
        then Inl InvalidWorkflowBounds
      else
        bind_res (fold_res insert_profile (wp_execution_profiles policy) []) (\<lambda>profiles.
        bind_res (fold_res (insert_node profiles) (wp_nodes policy) []) (\<lambda>nodes.
        bind_res (each_res (check_inputs nodes) (wp_nodes policy)) (\<lambda>_.
        bind_res (validate_topology (btree_nodes nodes)) (\<lambda>_.
        case wp_delivery_mode policy of
          ExecutorMutation \<Rightarrow> validate_executor_mutation_graph (btree_nodes nodes) profiles
        | SelfUpdateHandoff \<Rightarrow> validate_self_update_handoff_graph (btree_nodes nodes) profiles)))))"

text \<open>The loop of \<open>ordered_nodes\<close>: the first node in key order whose dependencies are emitted.\<close>

definition next_ready :: "workflow_node list \<Rightarrow> workflow_node list \<Rightarrow> workflow_node option" where
  "next_ready nodes ordered =
     find (\<lambda>n. n_node_id n \<notin> n_node_id ` set ordered \<and>
               list_all (\<lambda>d. d \<in> n_node_id ` set ordered) (n_depends_on n)) nodes"

function order_loop ::
  "workflow_node list \<Rightarrow> workflow_node list \<Rightarrow> workflow_contract_error + workflow_node list" where
  "order_loop nodes ordered =
     (if length ordered < length nodes then
        (case next_ready nodes ordered of
           None \<Rightarrow> Inl CyclicGraph
         | Some n \<Rightarrow> order_loop nodes (ordered @ [n]))
      else Inr ordered)"
  by pat_completeness auto

termination order_loop
  by (relation "measure (\<lambda>(nodes, ordered). length nodes - length ordered)") auto

declare order_loop.simps [simp del]

definition ordered_nodes :: "workflow_policy \<Rightarrow> workflow_contract_error + workflow_node list" where
  "ordered_nodes policy =
     bind_res (policy_validate policy) (\<lambda>_. order_loop (btree_nodes (wp_nodes policy)) [])"

end
