(* ===== verification/Workflow_Documents.thy ===== *)
theory Workflow_Documents
  imports Workflow_Policy
begin

text \<open>
  The documents of \<open>src/domain/workflow.rs\<close> that the scheduler exchanges with its workers: the
  operation-owned state contract, leases, node receipts, cleanup receipts and reduction receipts,
  with their construction, validation, renewal and canonical encoding. The digest payload of a
  document is the document without its digest, together with a purpose string.

  \<open>wf_codec\<close> holds the third-party encoders: \<open>serde_jcs::to_vec\<close> and \<open>serde_json::from_slice\<close> at
  every document type, and SHA-256.
\<close>

definition workflow_lease_schema_version :: nat where "workflow_lease_schema_version = 1"
definition workflow_node_receipt_schema_version :: nat where
  "workflow_node_receipt_schema_version = 1"
definition workflow_cleanup_receipt_schema_version :: nat where
  "workflow_cleanup_receipt_schema_version = 1"
definition workflow_reduction_receipt_schema_version :: nat where
  "workflow_reduction_receipt_schema_version = 1"
definition workflow_operation_state_schema_version :: nat where
  "workflow_operation_state_schema_version = 1"
definition max_operation_state_bytes :: nat where
  "max_operation_state_bytes = 8 * 1024 * 1024 * 1024"
definition max_operation_state_inodes :: nat where "max_operation_state_inodes = 1000000"

lemmas schema_versions = workflow_lease_schema_version_def workflow_node_receipt_schema_version_def
  workflow_cleanup_receipt_schema_version_def workflow_reduction_receipt_schema_version_def
  workflow_operation_state_schema_version_def


section \<open>The documents\<close>

record source_identity =
  si_sequence :: nat
  si_attestation_digest :: evidence_digest

record lease_input =
  li_node_id :: node_id
  li_artifact_kind :: artifact_kind
  li_output_digest :: evidence_digest

record wf_operation_state =
  ws_schema_version :: nat
  ws_state_key :: evidence_digest
  ws_consumer_nodes :: "node_id list"
  ws_max_bytes :: nat
  ws_max_inodes :: nat

text \<open>The arguments that bind an operation state to an attempt and to a worker.\<close>

record state_scope =
  sc_attempt_id :: uuid
  sc_project_id :: project_id
  sc_source_sha :: git_commit_id
  sc_workflow_policy_digest :: evidence_digest
  sc_preparation_key :: evidence_digest
  sc_worker_id :: string
  sc_host_id :: string

datatype state_key_payload = State_key_payload
  (sk_purpose: string) (sk_schema_version: nat) (sk_scope: state_scope)
  (sk_consumer_nodes: "node_id list") (sk_max_bytes: nat) (sk_max_inodes: nat)

record lease_body =
  ls_schema_version :: nat
  ls_lease_id :: uuid
  ls_lease_generation :: nat
  ls_request_id :: uuid
  ls_attempt_id :: uuid
  ls_project_id :: project_id
  ls_source_sha :: git_commit_id
  ls_source_identity :: "source_identity option"
  ls_workflow_policy_digest :: evidence_digest
  ls_preparation_key :: evidence_digest
  ls_node_id :: node_id
  ls_node_kind :: node_kind
  ls_profile_id :: profile_id
  ls_adapter_id :: adapter_id
  ls_worker_pool :: worker_pool
  ls_network_class :: network_class
  ls_cache_class :: cache_class
  ls_timeout_ms :: nat
  ls_resources :: "resource_envelope option"
  ls_host_preparation :: "host_preparation_policy option"
  ls_operation_state :: "wf_operation_state option"
  ls_input_contracts :: "artifact_kind list"
  ls_input_artifacts :: "lease_input list"
  ls_output_contract :: artifact_kind
  ls_expected_input_digest :: evidence_digest
  ls_worker_id :: string
  ls_host_id :: string
  ls_leased_at_ms :: int
  ls_expires_at_ms :: int

record lease = lease_body +
  ls_lease_digest :: evidence_digest

datatype lease_payload = Lease_payload (lp_purpose: string) (lp_body: lease_body)

datatype node_outcome = Outcome_Succeeded | Outcome_Failed

datatype cleanup_result = Complete | Pending

record node_receipt_body =
  nr_schema_version :: nat
  nr_lease_digest :: evidence_digest
  nr_lease_id :: uuid
  nr_lease_generation :: nat
  nr_request_id :: uuid
  nr_attempt_id :: uuid
  nr_project_id :: project_id
  nr_source_sha :: git_commit_id
  nr_workflow_policy_digest :: evidence_digest
  nr_preparation_key :: evidence_digest
  nr_node_id :: node_id
  nr_node_kind :: node_kind
  nr_worker_id :: string
  nr_host_id :: string
  nr_expected_input_digest :: evidence_digest
  nr_outcome :: node_outcome
  nr_output_digest :: "evidence_digest option"
  nr_output_size_bytes :: "nat option"
  nr_execution_receipt_digest :: evidence_digest
  nr_cleanup_receipt_digest :: evidence_digest
  nr_cleanup_result :: cleanup_result
  nr_completed_at_ms :: int

record node_receipt = node_receipt_body +
  nr_receipt_digest :: evidence_digest

datatype node_receipt_payload =
  Node_receipt_payload (np_purpose: string) (np_body: node_receipt_body)

record cleanup_receipt_body =
  cr_schema_version :: nat
  cr_lease_digest :: evidence_digest
  cr_lease_id :: uuid
  cr_lease_generation :: nat
  cr_attempt_id :: uuid
  cr_project_id :: project_id
  cr_node_id :: node_id
  cr_worker_id :: string
  cr_host_id :: string
  cr_terminal_receipt_digest :: "evidence_digest option"
  cr_cleanup_evidence_digest :: evidence_digest
  cr_completed_at_ms :: int

record cleanup_receipt = cleanup_receipt_body +
  cr_receipt_digest :: evidence_digest

datatype cleanup_receipt_payload =
  Cleanup_receipt_payload (cp_purpose: string) (cp_body: cleanup_receipt_body)

record reduction_input =
  ri_node_id :: node_id
  ri_node_kind :: node_kind
  ri_receipt_digest :: evidence_digest
  ri_output_digest :: evidence_digest

record reduction_receipt_body =
  rd_schema_version :: nat
  rd_request_id :: uuid
  rd_attempt_id :: uuid
  rd_project_id :: project_id
  rd_source_sha :: git_commit_id
  rd_workflow_policy_digest :: evidence_digest
  rd_preparation_key :: evidence_digest
  rd_reduce_node_id :: node_id
  rd_inputs :: "reduction_input list"
  rd_reduced_at_ms :: int

record reduction_receipt = reduction_receipt_body +
  rd_receipt_digest :: evidence_digest

datatype reduction_payload =
  Reduction_payload (rp_purpose: string) (rp_body: reduction_receipt_body)

record 'j wf_codec =
  wf_sha256 :: "'j \<Rightarrow> string"
  state_key_jcs :: "state_key_payload \<Rightarrow> serde_error + 'j"
  lease_payload_jcs :: "lease_payload \<Rightarrow> serde_error + 'j"
  lease_jcs :: "lease \<Rightarrow> serde_error + 'j"
  lease_json :: "'j \<Rightarrow> serde_error + lease"
  node_receipt_payload_jcs :: "node_receipt_payload \<Rightarrow> serde_error + 'j"
  node_receipt_jcs :: "node_receipt \<Rightarrow> serde_error + 'j"
  node_receipt_json :: "'j \<Rightarrow> serde_error + node_receipt"
  cleanup_receipt_payload_jcs :: "cleanup_receipt_payload \<Rightarrow> serde_error + 'j"
  cleanup_receipt_jcs :: "cleanup_receipt \<Rightarrow> serde_error + 'j"
  cleanup_receipt_json :: "'j \<Rightarrow> serde_error + cleanup_receipt"
  reduction_payload_jcs :: "reduction_payload \<Rightarrow> serde_error + 'j"
  reduction_jcs :: "reduction_receipt \<Rightarrow> serde_error + 'j"
  reduction_json :: "'j \<Rightarrow> serde_error + reduction_receipt"


section \<open>Operation-owned state\<close>

definition state_key_payload_of :: "wf_operation_state \<Rightarrow> state_scope \<Rightarrow> state_key_payload" where
  "state_key_payload_of state scope =
     State_key_payload ''rdashboard.workflow-operation-state.v1'' (ws_schema_version state) scope
       (ws_consumer_nodes state) (ws_max_bytes state) (ws_max_inodes state)"

definition state_calculate_key ::
  "('j, 'x) wf_codec_scheme \<Rightarrow> wf_operation_state \<Rightarrow> state_scope \<Rightarrow>
   workflow_contract_error + evidence_digest" where
  "state_calculate_key E state scope =
     map_err CanonicalEncoding
       (seal (state_key_jcs E) (wf_sha256 E) (state_key_payload_of state scope))"

definition state_validate_for ::
  "('j, 'x) wf_codec_scheme \<Rightarrow> wf_operation_state \<Rightarrow> state_scope \<Rightarrow> workflow_contract_error + unit" where
  "state_validate_for E state scope =
     (if ws_schema_version state \<noteq> workflow_operation_state_schema_version \<or>
         is_nil (sc_attempt_id scope) \<or>
         \<not> valid_workflow_identity (sc_worker_id scope) \<or>
         \<not> valid_workflow_identity (sc_host_id scope) \<or>
         ws_consumer_nodes state = [] \<or>
         length (ws_consumer_nodes state) > max_workflow_nodes \<or>
         \<not> strictly_sorted_unique (ws_consumer_nodes state) \<or>
         \<not> in_range (1024 * 1024) max_operation_state_bytes (ws_max_bytes state) \<or>
         \<not> in_range 1024 max_operation_state_inodes (ws_max_inodes state)
      then Inl InvalidOperationState
      else bind_res (state_calculate_key E state scope) (\<lambda>key.
        if ws_state_key state \<noteq> key then Inl InvalidOperationState else Inr ()))"

definition wf_operation_state_new ::
  "('j, 'x) wf_codec_scheme \<Rightarrow> state_scope \<Rightarrow> node_id list \<Rightarrow> nat \<Rightarrow> nat \<Rightarrow>
   workflow_contract_error + wf_operation_state" where
  "wf_operation_state_new E scope consumer_nodes max_bytes max_inodes =
     (let state = \<lparr> ws_schema_version = workflow_operation_state_schema_version,
            ws_state_key = [], ws_consumer_nodes = sort consumer_nodes,
            ws_max_bytes = max_bytes, ws_max_inodes = max_inodes \<rparr> in
      bind_res (state_calculate_key E state scope) (\<lambda>key.
      let state = state\<lparr>ws_state_key := key\<rparr> in
      bind_res (state_validate_for E state scope) (\<lambda>_. Inr state)))"


section \<open>Leases\<close>

definition lease_payload_of :: "lease \<Rightarrow> lease_payload" where
  "lease_payload_of l = Lease_payload ''rdashboard.workflow-lease.v1'' (lease_body.truncate l)"

definition lease_calculate_digest ::
  "('j, 'x) wf_codec_scheme \<Rightarrow> lease \<Rightarrow> workflow_contract_error + evidence_digest" where
  "lease_calculate_digest E l =
     map_err CanonicalEncoding (seal (lease_payload_jcs E) (wf_sha256 E) (lease_payload_of l))"

definition source_identity_validate :: "source_identity \<Rightarrow> workflow_contract_error + unit" where
  "source_identity_validate s = (if si_sequence s = 0 then Inl InvalidLease else Inr ())"

definition lease_profile :: "lease \<Rightarrow> execution_profile" where
  "lease_profile l = \<lparr> p_profile_id = ls_profile_id l, p_adapter_id = ls_adapter_id l,
     p_worker_pool = ls_worker_pool l, p_network_class = ls_network_class l,
     p_cache_class = ls_cache_class l, p_timeout_ms = ls_timeout_ms l,
     p_resources = ls_resources l \<rparr>"

definition lease_scope :: "lease \<Rightarrow> state_scope" where
  "lease_scope l = \<lparr> sc_attempt_id = ls_attempt_id l, sc_project_id = ls_project_id l,
     sc_source_sha = ls_source_sha l, sc_workflow_policy_digest = ls_workflow_policy_digest l,
     sc_preparation_key = ls_preparation_key l, sc_worker_id = ls_worker_id l,
     sc_host_id = ls_host_id l \<rparr>"

definition lease_input_key :: "lease_input \<Rightarrow> node_id \<times> artifact_kind \<times> evidence_digest" where
  "lease_input_key i = (li_node_id i, li_artifact_kind i, li_output_digest i)"

text \<open>The disjuncts of \<open>WorkflowLeaseV1::validate\<close> before the digest, negated, in their order.\<close>

definition lease_identity_ok :: "lease \<Rightarrow> bool" where
  "lease_identity_ok l \<longleftrightarrow>
     ls_schema_version l = workflow_lease_schema_version \<and>
     \<not> is_nil (ls_lease_id l) \<and> \<not> is_nil (ls_request_id l) \<and> \<not> is_nil (ls_attempt_id l) \<and>
     ls_lease_generation l \<noteq> 0 \<and> 0 \<le> ls_leased_at_ms l \<and>
     ls_leased_at_ms l < ls_expires_at_ms l \<and>
     valid_workflow_identity (ls_worker_id l) \<and> valid_workflow_identity (ls_host_id l) \<and>
     (case ls_source_identity l of None \<Rightarrow> True | Some s \<Rightarrow> is_ok (source_identity_validate s))"

definition lease_profile_ok :: "lease \<Rightarrow> bool" where
  "lease_profile_ok l \<longleftrightarrow>
     \<not> is_controller_managed (ls_node_kind l) \<and>
     ls_adapter_id l \<in> set (expected_adapter (ls_node_kind l)) \<and>
     expected_pool (ls_node_kind l) = ls_worker_pool l \<and>
     profile_matches_kind (lease_profile l) (ls_node_kind l) \<and>
     is_ok (execution_profile_validate (lease_profile l))"

definition lease_host_preparation_ok :: "lease \<Rightarrow> bool" where
  "lease_host_preparation_ok l \<longleftrightarrow>
     (case ls_host_preparation l of
        None \<Rightarrow> True
      | Some policy \<Rightarrow>
          ls_node_kind l \<in> {HostPrepare, Verification, ReleaseBuild} \<and>
          is_ok (host_preparation_validate policy) \<and>
          (ls_node_kind l = HostPrepare \<longrightarrow>
             ls_network_class l = required_network_class (hp_adapter_id policy)))"

definition lease_operation_state_ok :: "('j, 'x) wf_codec_scheme \<Rightarrow> lease \<Rightarrow> bool" where
  "lease_operation_state_ok E l \<longleftrightarrow>
     (case ls_operation_state l of
        None \<Rightarrow> True
      | Some state \<Rightarrow>
          ls_node_kind l \<in> {Verification, ReleaseBuild} \<and>
          ls_cache_class l = PreparedRun \<and>
          ls_node_id l \<in> set (ws_consumer_nodes state) \<and>
          is_ok (state_validate_for E state (lease_scope l)))"

definition lease_inputs_ok :: "lease \<Rightarrow> bool" where
  "lease_inputs_ok l \<longleftrightarrow>
     strictly_sorted_unique (ls_input_contracts l) \<and>
     strictly_sorted_unique (map lease_input_key (ls_input_artifacts l)) \<and>
     \<not> list_ex (\<lambda>(a, b). li_node_id a \<ge> li_node_id b) (windows2 (ls_input_artifacts l)) \<and>
     (ls_input_artifacts l \<noteq> [] \<longrightarrow>
        length (ls_input_artifacts l) = length (ls_input_contracts l) \<and>
        set (map li_artifact_kind (ls_input_artifacts l)) = set (ls_input_contracts l)) \<and>
     ls_output_contract l = expected_output (ls_node_kind l)"

definition lease_validate :: "('j, 'x) wf_codec_scheme \<Rightarrow> lease \<Rightarrow> workflow_contract_error + unit" where
  "lease_validate E l =
     (if \<not> (lease_identity_ok l \<and> lease_profile_ok l \<and> lease_host_preparation_ok l \<and>
            lease_operation_state_ok E l \<and> lease_inputs_ok l)
      then Inl InvalidLease
      else bind_res (lease_calculate_digest E l) (\<lambda>digest.
        if ls_lease_digest l \<noteq> digest then Inl InvalidLease else Inr ()))"

text \<open>A digest is calculated and stored, and the sealed lease is validated.\<close>

definition lease_reseal ::
  "('j, 'x) wf_codec_scheme \<Rightarrow> lease \<Rightarrow> workflow_contract_error + lease" where
  "lease_reseal E l =
     bind_res (lease_calculate_digest E l) (\<lambda>digest.
     let l = l\<lparr>ls_lease_digest := digest\<rparr> in
     bind_res (lease_validate E l) (\<lambda>_. Inr l))"

definition lease_new ::
  "('j, 'x) wf_codec_scheme \<Rightarrow> uuid \<Rightarrow> nat \<Rightarrow> uuid \<Rightarrow> uuid \<Rightarrow> project_id \<Rightarrow> git_commit_id \<Rightarrow> nat \<Rightarrow>
   evidence_digest \<Rightarrow> evidence_digest \<Rightarrow> evidence_digest \<Rightarrow> workflow_node \<Rightarrow> execution_profile \<Rightarrow>
   host_preparation_policy option \<Rightarrow> lease_input list \<Rightarrow> evidence_digest \<Rightarrow> string \<Rightarrow> string \<Rightarrow>
   int \<Rightarrow> int \<Rightarrow> workflow_contract_error + lease" where
  "lease_new E lease_id lease_generation request_id attempt_id project_id source_sha source_sequence
     source_attestation_digest workflow_policy_digest preparation_key node profile host_preparation
     input_artifacts expected_input_digest worker_id host_id leased_at_ms expires_at_ms =
     lease_reseal E \<lparr>
       ls_schema_version = workflow_lease_schema_version, ls_lease_id = lease_id,
       ls_lease_generation = lease_generation, ls_request_id = request_id,
       ls_attempt_id = attempt_id, ls_project_id = project_id, ls_source_sha = source_sha,
       ls_source_identity = Some \<lparr> si_sequence = source_sequence,
         si_attestation_digest = source_attestation_digest \<rparr>,
       ls_workflow_policy_digest = workflow_policy_digest, ls_preparation_key = preparation_key,
       ls_node_id = n_node_id node, ls_node_kind = n_kind node,
       ls_profile_id = p_profile_id profile, ls_adapter_id = p_adapter_id profile,
       ls_worker_pool = p_worker_pool profile, ls_network_class = p_network_class profile,
       ls_cache_class = p_cache_class profile, ls_timeout_ms = p_timeout_ms profile,
       ls_resources = p_resources profile, ls_host_preparation = host_preparation,
       ls_operation_state = None, ls_input_contracts = n_input_contracts node,
       ls_input_artifacts = input_artifacts, ls_output_contract = n_output_contract node,
       ls_expected_input_digest = expected_input_digest, ls_worker_id = worker_id,
       ls_host_id = host_id, ls_leased_at_ms = leased_at_ms, ls_expires_at_ms = expires_at_ms,
       ls_lease_digest = [] \<rparr>"

definition lease_canonical_bytes ::
  "('j, 'x) wf_codec_scheme \<Rightarrow> lease \<Rightarrow> workflow_contract_error + 'j" where
  "lease_canonical_bytes E l =
     bind_res (lease_validate E l) (\<lambda>_. map_err CanonicalEncoding (lease_jcs E l))"

definition lease_decode_canonical ::
  "('j, 'x) wf_codec_scheme \<Rightarrow> 'j \<Rightarrow> workflow_contract_error + lease" where
  "lease_decode_canonical E bytes =
     bind_res (map_err CanonicalEncoding (lease_json E bytes)) (\<lambda>l.
     bind_res (map_err CanonicalEncoding (lease_jcs E l)) (\<lambda>encoded.
     if encoded \<noteq> bytes then Inl NoncanonicalDocument
     else bind_res (lease_validate E l) (\<lambda>_. Inr l)))"

definition lease_required_source_identity ::
  "('j, 'x) wf_codec_scheme \<Rightarrow> lease \<Rightarrow> workflow_contract_error + source_identity" where
  "lease_required_source_identity E l =
     bind_res (lease_validate E l) (\<lambda>_. ok_or (ls_source_identity l) MissingLeaseSourceIdentity)"

definition lease_required_input_artifacts ::
  "('j, 'x) wf_codec_scheme \<Rightarrow> lease \<Rightarrow> workflow_contract_error + lease_input list" where
  "lease_required_input_artifacts E l =
     bind_res (lease_validate E l) (\<lambda>_.
       if ls_input_contracts l = [] \<or> length (ls_input_artifacts l) = length (ls_input_contracts l)
       then Inr (ls_input_artifacts l) else Inl MissingLeaseInputArtifacts)"

definition lease_renewed ::
  "('j, 'x) wf_codec_scheme \<Rightarrow> lease \<Rightarrow> int \<Rightarrow> workflow_contract_error + lease" where
  "lease_renewed E l expires_at_ms =
     bind_res (lease_validate E l) (\<lambda>_.
       if expires_at_ms \<le> ls_expires_at_ms l then Inl InvalidLease
       else lease_reseal E (l\<lparr>ls_expires_at_ms := expires_at_ms\<rparr>))"

definition lease_with_operation_state ::
  "('j, 'x) wf_codec_scheme \<Rightarrow> lease \<Rightarrow> wf_operation_state \<Rightarrow> workflow_contract_error + lease" where
  "lease_with_operation_state E l state = lease_reseal E (l\<lparr>ls_operation_state := Some state\<rparr>)"

definition lease_same_execution_as ::
  "('j, 'x) wf_codec_scheme \<Rightarrow> lease \<Rightarrow> lease \<Rightarrow> workflow_contract_error + bool" where
  "lease_same_execution_as E l other =
     bind_res (lease_validate E l) (\<lambda>_.
     bind_res (lease_validate E other) (\<lambda>_.
       Inr (l\<lparr>ls_expires_at_ms := ls_expires_at_ms other,
              ls_lease_digest := ls_lease_digest other\<rparr> = other)))"



section \<open>Node receipts\<close>

definition node_receipt_payload_of :: "node_receipt \<Rightarrow> node_receipt_payload" where
  "node_receipt_payload_of r =
     Node_receipt_payload ''rdashboard.workflow-node-receipt.v1'' (node_receipt_body.truncate r)"

definition node_receipt_calculate_digest ::
  "('j, 'x) wf_codec_scheme \<Rightarrow> node_receipt \<Rightarrow> workflow_contract_error + evidence_digest" where
  "node_receipt_calculate_digest E r =
     map_err CanonicalEncoding
       (seal (node_receipt_payload_jcs E) (wf_sha256 E) (node_receipt_payload_of r))"

definition node_receipt_output_ok :: "node_receipt \<Rightarrow> bool" where
  "node_receipt_output_ok r \<longleftrightarrow>
     (case nr_outcome r of
        Outcome_Succeeded \<Rightarrow> nr_output_digest r \<noteq> None
      | Outcome_Failed \<Rightarrow> nr_output_digest r = None \<and> nr_output_size_bytes r = None) \<and>
     (case nr_output_size_bytes r of
        None \<Rightarrow> True
      | Some output_size \<Rightarrow> output_size > 0 \<and> nr_outcome r = Outcome_Succeeded \<and> nr_node_kind r = ReleaseBuild) \<and>
     (nr_outcome r \<noteq> Outcome_Succeeded \<or> nr_cleanup_result r = Complete)"

definition node_receipt_validate ::
  "('j, 'x) wf_codec_scheme \<Rightarrow> node_receipt \<Rightarrow> workflow_contract_error + unit" where
  "node_receipt_validate E r =
     (if nr_schema_version r \<noteq> workflow_node_receipt_schema_version \<or>
         is_nil (nr_lease_id r) \<or> is_nil (nr_request_id r) \<or> is_nil (nr_attempt_id r) \<or>
         nr_lease_generation r = 0 \<or> nr_completed_at_ms r < 0 \<or>
         \<not> valid_workflow_identity (nr_worker_id r) \<or>
         \<not> valid_workflow_identity (nr_host_id r) \<or>
         \<not> node_receipt_output_ok r
      then Inl InvalidNodeReceipt
      else bind_res (node_receipt_calculate_digest E r) (\<lambda>digest.
        if nr_receipt_digest r \<noteq> digest then Inl InvalidNodeReceipt else Inr ()))"

definition node_receipt_reseal ::
  "('j, 'x) wf_codec_scheme \<Rightarrow> node_receipt \<Rightarrow> workflow_contract_error + node_receipt" where
  "node_receipt_reseal E r =
     bind_res (node_receipt_calculate_digest E r) (\<lambda>digest.
     let r = r\<lparr>nr_receipt_digest := digest\<rparr> in
     bind_res (node_receipt_validate E r) (\<lambda>_. Inr r))"

definition node_receipt_new ::
  "('j, 'x) wf_codec_scheme \<Rightarrow> lease \<Rightarrow> node_outcome \<Rightarrow> evidence_digest option \<Rightarrow> evidence_digest \<Rightarrow>
   evidence_digest \<Rightarrow> cleanup_result \<Rightarrow> int \<Rightarrow> workflow_contract_error + node_receipt" where
  "node_receipt_new E l outcome output_digest execution_receipt_digest cleanup_receipt_digest
     cleanup_result completed_at_ms =
     bind_res (lease_validate E l) (\<lambda>_. node_receipt_reseal E \<lparr>
       nr_schema_version = workflow_node_receipt_schema_version,
       nr_lease_digest = ls_lease_digest l, nr_lease_id = ls_lease_id l,
       nr_lease_generation = ls_lease_generation l, nr_request_id = ls_request_id l,
       nr_attempt_id = ls_attempt_id l, nr_project_id = ls_project_id l,
       nr_source_sha = ls_source_sha l, nr_workflow_policy_digest = ls_workflow_policy_digest l,
       nr_preparation_key = ls_preparation_key l, nr_node_id = ls_node_id l,
       nr_node_kind = ls_node_kind l, nr_worker_id = ls_worker_id l, nr_host_id = ls_host_id l,
       nr_expected_input_digest = ls_expected_input_digest l, nr_outcome = outcome,
       nr_output_digest = output_digest, nr_output_size_bytes = None,
       nr_execution_receipt_digest = execution_receipt_digest,
       nr_cleanup_receipt_digest = cleanup_receipt_digest, nr_cleanup_result = cleanup_result,
       nr_completed_at_ms = completed_at_ms, nr_receipt_digest = [] \<rparr>)"

definition node_receipt_with_output_size ::
  "('j, 'x) wf_codec_scheme \<Rightarrow> node_receipt \<Rightarrow> nat \<Rightarrow> workflow_contract_error + node_receipt" where
  "node_receipt_with_output_size E r output_size_bytes =
     node_receipt_reseal E (r\<lparr>nr_output_size_bytes := Some output_size_bytes\<rparr>)"

definition node_receipt_canonical_bytes ::
  "('j, 'x) wf_codec_scheme \<Rightarrow> node_receipt \<Rightarrow> workflow_contract_error + 'j" where
  "node_receipt_canonical_bytes E r =
     bind_res (node_receipt_validate E r) (\<lambda>_. map_err CanonicalEncoding (node_receipt_jcs E r))"

definition node_receipt_decode_canonical ::
  "('j, 'x) wf_codec_scheme \<Rightarrow> 'j \<Rightarrow> workflow_contract_error + node_receipt" where
  "node_receipt_decode_canonical E bytes =
     bind_res (map_err CanonicalEncoding (node_receipt_json E bytes)) (\<lambda>r.
     bind_res (map_err CanonicalEncoding (node_receipt_jcs E r)) (\<lambda>encoded.
     if encoded \<noteq> bytes then Inl NoncanonicalDocument
     else bind_res (node_receipt_validate E r) (\<lambda>_. Inr r)))"

definition node_receipt_matches_lease :: "node_receipt \<Rightarrow> lease \<Rightarrow> bool" where
  "node_receipt_matches_lease r l \<longleftrightarrow>
     nr_lease_digest r = ls_lease_digest l \<and> nr_lease_id r = ls_lease_id l \<and>
     nr_lease_generation r = ls_lease_generation l \<and> nr_request_id r = ls_request_id l \<and>
     nr_attempt_id r = ls_attempt_id l \<and> nr_project_id r = ls_project_id l \<and>
     nr_source_sha r = ls_source_sha l \<and>
     nr_workflow_policy_digest r = ls_workflow_policy_digest l \<and>
     nr_preparation_key r = ls_preparation_key l \<and> nr_node_id r = ls_node_id l \<and>
     nr_node_kind r = ls_node_kind l \<and> nr_worker_id r = ls_worker_id l \<and>
     nr_host_id r = ls_host_id l \<and> nr_expected_input_digest r = ls_expected_input_digest l"


section \<open>Cleanup receipts\<close>

definition cleanup_receipt_payload_of :: "cleanup_receipt \<Rightarrow> cleanup_receipt_payload" where
  "cleanup_receipt_payload_of r =
     Cleanup_receipt_payload ''rdashboard.workflow-cleanup-receipt.v1''
       (cleanup_receipt_body.truncate r)"

definition cleanup_receipt_calculate_digest ::
  "('j, 'x) wf_codec_scheme \<Rightarrow> cleanup_receipt \<Rightarrow> workflow_contract_error + evidence_digest" where
  "cleanup_receipt_calculate_digest E r =
     map_err CanonicalEncoding
       (seal (cleanup_receipt_payload_jcs E) (wf_sha256 E) (cleanup_receipt_payload_of r))"

definition cleanup_receipt_validate ::
  "('j, 'x) wf_codec_scheme \<Rightarrow> cleanup_receipt \<Rightarrow> workflow_contract_error + unit" where
  "cleanup_receipt_validate E r =
     (if cr_schema_version r \<noteq> workflow_cleanup_receipt_schema_version \<or>
         is_nil (cr_lease_id r) \<or> is_nil (cr_attempt_id r) \<or> cr_lease_generation r = 0 \<or>
         cr_completed_at_ms r < 0 \<or> \<not> valid_workflow_identity (cr_worker_id r) \<or>
         \<not> valid_workflow_identity (cr_host_id r)
      then Inl InvalidCleanupReceipt
      else bind_res (cleanup_receipt_calculate_digest E r) (\<lambda>digest.
        if cr_receipt_digest r \<noteq> digest then Inl InvalidCleanupReceipt else Inr ()))"

definition cleanup_receipt_new ::
  "('j, 'x) wf_codec_scheme \<Rightarrow> lease \<Rightarrow> node_receipt option \<Rightarrow> evidence_digest \<Rightarrow> int \<Rightarrow>
   workflow_contract_error + cleanup_receipt" where
  "cleanup_receipt_new E l terminal_receipt cleanup_evidence_digest completed_at_ms =
     bind_res (lease_validate E l) (\<lambda>_.
     bind_res (case terminal_receipt of
         None \<Rightarrow> Inr ()
       | Some receipt \<Rightarrow> bind_res (node_receipt_validate E receipt) (\<lambda>_.
           if nr_cleanup_result receipt \<noteq> Pending \<or> \<not> node_receipt_matches_lease receipt l
           then Inl InvalidCleanupReceipt else Inr ())) (\<lambda>_.
     let r = \<lparr> cr_schema_version = workflow_cleanup_receipt_schema_version,
       cr_lease_digest = ls_lease_digest l, cr_lease_id = ls_lease_id l,
       cr_lease_generation = ls_lease_generation l, cr_attempt_id = ls_attempt_id l,
       cr_project_id = ls_project_id l, cr_node_id = ls_node_id l, cr_worker_id = ls_worker_id l,
       cr_host_id = ls_host_id l,
       cr_terminal_receipt_digest = map_option nr_receipt_digest terminal_receipt,
       cr_cleanup_evidence_digest = cleanup_evidence_digest,
       cr_completed_at_ms = completed_at_ms, cr_receipt_digest = [] \<rparr> in
     bind_res (cleanup_receipt_calculate_digest E r) (\<lambda>digest.
     let r = r\<lparr>cr_receipt_digest := digest\<rparr> in
     bind_res (cleanup_receipt_validate E r) (\<lambda>_.
     if cr_completed_at_ms r < ls_leased_at_ms l \<or>
        (case terminal_receipt of None \<Rightarrow> False
         | Some terminal \<Rightarrow> cr_completed_at_ms r < nr_completed_at_ms terminal)
     then Inl InvalidCleanupReceipt else Inr r))))"

definition cleanup_receipt_canonical_bytes ::
  "('j, 'x) wf_codec_scheme \<Rightarrow> cleanup_receipt \<Rightarrow> workflow_contract_error + 'j" where
  "cleanup_receipt_canonical_bytes E r =
     bind_res (cleanup_receipt_validate E r) (\<lambda>_.
       map_err CanonicalEncoding (cleanup_receipt_jcs E r))"

definition cleanup_receipt_decode_canonical ::
  "('j, 'x) wf_codec_scheme \<Rightarrow> 'j \<Rightarrow> workflow_contract_error + cleanup_receipt" where
  "cleanup_receipt_decode_canonical E bytes =
     bind_res (map_err CanonicalEncoding (cleanup_receipt_json E bytes)) (\<lambda>r.
     bind_res (map_err CanonicalEncoding (cleanup_receipt_jcs E r)) (\<lambda>encoded.
     if encoded \<noteq> bytes then Inl NoncanonicalDocument
     else bind_res (cleanup_receipt_validate E r) (\<lambda>_. Inr r)))"


section \<open>Reduction receipts\<close>

definition reduction_payload_of :: "reduction_receipt \<Rightarrow> reduction_payload" where
  "reduction_payload_of r =
     Reduction_payload ''rdashboard.workflow-reduction-receipt.v1''
       (reduction_receipt_body.truncate r)"

definition reduction_calculate_digest ::
  "('j, 'x) wf_codec_scheme \<Rightarrow> reduction_receipt \<Rightarrow> workflow_contract_error + evidence_digest" where
  "reduction_calculate_digest E r =
     map_err CanonicalEncoding
       (seal (reduction_payload_jcs E) (wf_sha256 E) (reduction_payload_of r))"

definition reduction_validate ::
  "('j, 'x) wf_codec_scheme \<Rightarrow> reduction_receipt \<Rightarrow> workflow_contract_error + unit" where
  "reduction_validate E r =
     (if rd_schema_version r \<noteq> workflow_reduction_receipt_schema_version \<or>
         is_nil (rd_request_id r) \<or> is_nil (rd_attempt_id r) \<or> rd_reduced_at_ms r < 0 \<or>
         rd_inputs r = [] \<or>
         \<not> list_all (\<lambda>(a, b). ri_node_id a < ri_node_id b) (windows2 (rd_inputs r))
      then Inl InvalidReductionReceipt
      else bind_res (reduction_calculate_digest E r) (\<lambda>digest.
        if rd_receipt_digest r \<noteq> digest then Inl InvalidReductionReceipt else Inr ()))"

definition reduction_new ::
  "('j, 'x) wf_codec_scheme \<Rightarrow> uuid \<Rightarrow> uuid \<Rightarrow> project_id \<Rightarrow> git_commit_id \<Rightarrow> evidence_digest \<Rightarrow>
   evidence_digest \<Rightarrow> node_id \<Rightarrow> reduction_input list \<Rightarrow> int \<Rightarrow>
   workflow_contract_error + reduction_receipt" where
  "reduction_new E request_id attempt_id project_id source_sha workflow_policy_digest
     preparation_key reduce_node_id inputs reduced_at_ms =
     (let r = \<lparr> rd_schema_version = workflow_reduction_receipt_schema_version,
       rd_request_id = request_id, rd_attempt_id = attempt_id, rd_project_id = project_id,
       rd_source_sha = source_sha, rd_workflow_policy_digest = workflow_policy_digest,
       rd_preparation_key = preparation_key, rd_reduce_node_id = reduce_node_id,
       rd_inputs = sort_key ri_node_id inputs, rd_reduced_at_ms = reduced_at_ms,
       rd_receipt_digest = [] \<rparr> in
      bind_res (reduction_calculate_digest E r) (\<lambda>digest.
      let r = r\<lparr>rd_receipt_digest := digest\<rparr> in
      bind_res (reduction_validate E r) (\<lambda>_. Inr r)))"

definition reduction_canonical_bytes ::
  "('j, 'x) wf_codec_scheme \<Rightarrow> reduction_receipt \<Rightarrow> workflow_contract_error + 'j" where
  "reduction_canonical_bytes E r =
     bind_res (reduction_validate E r) (\<lambda>_. map_err CanonicalEncoding (reduction_jcs E r))"

definition reduction_decode_canonical ::
  "('j, 'x) wf_codec_scheme \<Rightarrow> 'j \<Rightarrow> workflow_contract_error + reduction_receipt" where
  "reduction_decode_canonical E bytes =
     bind_res (map_err CanonicalEncoding (reduction_json E bytes)) (\<lambda>r.
     bind_res (map_err CanonicalEncoding (reduction_jcs E r)) (\<lambda>encoded.
     if encoded \<noteq> bytes then Inl NoncanonicalDocument
     else bind_res (reduction_validate E r) (\<lambda>_. Inr r)))"


section \<open>The documents meet their contracts\<close>

lemma lease_validate_Inr:
  "lease_validate E l = Inr u \<longleftrightarrow>
     lease_identity_ok l \<and> lease_profile_ok l \<and> lease_host_preparation_ok l \<and>
     lease_operation_state_ok E l \<and> lease_inputs_ok l \<and>
     seal (lease_payload_jcs E) (wf_sha256 E) (lease_payload_of l) = Inr (ls_lease_digest l)"
  by (auto simp: lease_validate_def lease_calculate_digest_def bind_res_Inr_iff)

lemma node_receipt_validate_seal:
  "node_receipt_validate E r = Inr u \<Longrightarrow>
   seal (node_receipt_payload_jcs E) (wf_sha256 E) (node_receipt_payload_of r) = Inr (nr_receipt_digest r)"
  by (auto simp: node_receipt_validate_def node_receipt_calculate_digest_def split: if_splits)

lemma cleanup_receipt_validate_seal:
  "cleanup_receipt_validate E r = Inr u \<Longrightarrow>
   seal (cleanup_receipt_payload_jcs E) (wf_sha256 E) (cleanup_receipt_payload_of r) =
     Inr (cr_receipt_digest r)"
  by (auto simp: cleanup_receipt_validate_def cleanup_receipt_calculate_digest_def split: if_splits)

lemma reduction_validate_seal:
  "reduction_validate E r = Inr u \<Longrightarrow>
   seal (reduction_payload_jcs E) (wf_sha256 E) (reduction_payload_of r) = Inr (rd_receipt_digest r)"
  by (auto simp: reduction_validate_def reduction_calculate_digest_def split: if_splits)

interpretation leases: canonical_document lease_payload_of ls_lease_digest
  "lease_payload_jcs E" "wf_sha256 E" "\<lambda>l. lease_validate E l = Inr ()"
  "lease_jcs E" "lease_json E" "lease_canonical_bytes E" "lease_decode_canonical E"
  for E :: "('j, 'x) wf_codec_scheme"
proof unfold_locales
  fix l l' :: lease
  assume "lease_payload_of l = lease_payload_of l'" "ls_lease_digest l = ls_lease_digest l'"
  then show "l = l'"
    by (cases l, cases l') (simp add: lease_payload_of_def lease_body.truncate_def)
qed (auto simp: lease_validate_Inr lease_canonical_bytes_def lease_decode_canonical_def
    bind_res_Inr_iff)

interpretation node_receipts: canonical_document node_receipt_payload_of nr_receipt_digest
  "node_receipt_payload_jcs E" "wf_sha256 E" "\<lambda>r. node_receipt_validate E r = Inr ()"
  "node_receipt_jcs E" "node_receipt_json E"
  "node_receipt_canonical_bytes E" "node_receipt_decode_canonical E"
  for E :: "('j, 'x) wf_codec_scheme"
proof unfold_locales
  fix r r' :: node_receipt
  assume "node_receipt_payload_of r = node_receipt_payload_of r'"
    "nr_receipt_digest r = nr_receipt_digest r'"
  then show "r = r'"
    by (cases r, cases r') (simp add: node_receipt_payload_of_def node_receipt_body.truncate_def)
qed (auto simp: node_receipt_validate_seal node_receipt_canonical_bytes_def
    node_receipt_decode_canonical_def bind_res_Inr_iff)

interpretation cleanup_receipts: canonical_document cleanup_receipt_payload_of cr_receipt_digest
  "cleanup_receipt_payload_jcs E" "wf_sha256 E" "\<lambda>r. cleanup_receipt_validate E r = Inr ()"
  "cleanup_receipt_jcs E" "cleanup_receipt_json E"
  "cleanup_receipt_canonical_bytes E" "cleanup_receipt_decode_canonical E"
  for E :: "('j, 'x) wf_codec_scheme"
proof unfold_locales
  fix r r' :: cleanup_receipt
  assume "cleanup_receipt_payload_of r = cleanup_receipt_payload_of r'"
    "cr_receipt_digest r = cr_receipt_digest r'"
  then show "r = r'"
    by (cases r, cases r')
      (simp add: cleanup_receipt_payload_of_def cleanup_receipt_body.truncate_def)
qed (auto simp: cleanup_receipt_validate_seal cleanup_receipt_canonical_bytes_def
    cleanup_receipt_decode_canonical_def bind_res_Inr_iff)

interpretation reductions: canonical_document reduction_payload_of rd_receipt_digest
  "reduction_payload_jcs E" "wf_sha256 E" "\<lambda>r. reduction_validate E r = Inr ()"
  "reduction_jcs E" "reduction_json E" "reduction_canonical_bytes E" "reduction_decode_canonical E"
  for E :: "('j, 'x) wf_codec_scheme"
proof unfold_locales
  fix r r' :: reduction_receipt
  assume "reduction_payload_of r = reduction_payload_of r'"
    "rd_receipt_digest r = rd_receipt_digest r'"
  then show "r = r'"
    by (cases r, cases r')
      (simp add: reduction_payload_of_def reduction_receipt_body.truncate_def)
qed (auto simp: reduction_validate_seal reduction_canonical_bytes_def
    reduction_decode_canonical_def bind_res_Inr_iff)

end
