(* ===== verification/Workflow_Graph.thy ===== *)
theory Workflow_Graph
  imports Workflow_Policy
begin

text \<open>
  What the validation of a workflow policy establishes: topology validation decides acyclicity, a
  validated policy can always be ordered by \<open>ordered_nodes\<close>, the execution profiles isolate the
  network, and in a validated executor-mutation graph every node of an earlier stage is a
  transitive dependency of every node of a later one.
\<close>

section \<open>Topology\<close>

definition dependency_edges :: "workflow_node list \<Rightarrow> (node_id \<times> node_id) set" where
  "dependency_edges nodes = {(d, n_node_id n) | n d. n \<in> set nodes \<and> d \<in> set (n_depends_on n)}"

definition closed_graph :: "workflow_node list \<Rightarrow> bool" where
  "closed_graph nodes \<longleftrightarrow> distinct (map n_node_id nodes) \<and>
     (\<forall>n\<in>set nodes. set (n_depends_on n) \<subseteq> n_node_id ` set nodes)"

text \<open>A list of emitted nodes in which every node comes after all its dependencies.\<close>

definition respects_dependencies :: "workflow_node list \<Rightarrow> node_id list \<Rightarrow> bool" where
  "respects_dependencies nodes emitted \<longleftrightarrow>
     (\<forall>i < length emitted. \<forall>n \<in> set nodes. n_node_id n = emitted ! i \<longrightarrow>
        set (n_depends_on n) \<subseteq> set (take i emitted))"

definition emission :: "workflow_node list \<Rightarrow> node_id list \<Rightarrow> bool" where
  "emission nodes emitted \<longleftrightarrow> distinct emitted \<and> set emitted \<subseteq> n_node_id ` set nodes \<and>
     respects_dependencies nodes emitted"

definition is_ready :: "workflow_node \<Rightarrow> node_id set \<Rightarrow> bool" where
  "is_ready n emitted \<longleftrightarrow> n_node_id n \<notin> emitted \<and> set (n_depends_on n) \<subseteq> emitted"

lemma emission_Nil [simp]: "emission nodes []"
  by (simp add: emission_def respects_dependencies_def)

lemma emission_snoc:
  assumes "closed_graph nodes" "emission nodes emitted" "n \<in> set nodes" "is_ready n (set emitted)"
  shows "emission nodes (emitted @ [n_node_id n])"
proof -
  have "m = n" if "m \<in> set nodes" "n_node_id m = n_node_id n" for m
    using that assms(1,3) by (auto simp: closed_graph_def dest: distinct_map_unique)
  then have "respects_dependencies nodes (emitted @ [n_node_id n])"
    using assms(2,4)
    by (auto simp: emission_def respects_dependencies_def is_ready_def nth_append less_Suc_eq)
  with assms show ?thesis by (auto simp: emission_def is_ready_def)
qed

lemma emit_ready_unfold:
  "emit_ready n emitted = (if is_ready n (set emitted) then emitted @ [n_node_id n] else emitted)"
  by (simp add: emit_ready_def is_ready_def list_all_iff subset_eq)

lemma emission_pass:
  assumes "closed_graph nodes" "emission nodes emitted" "set ns \<subseteq> set nodes"
  shows "emission nodes (topology_pass ns emitted)"
  using assms(2,3) unfolding topology_pass_def
  by (induction ns arbitrary: emitted)
    (auto simp: emit_ready_unfold intro: emission_snoc [OF assms(1)])

lemma topology_pass_stuck:
  assumes "length (topology_pass ns emitted) = length emitted" "n \<in> set ns"
  shows "\<not> is_ready n (set emitted)"
  using assms unfolding topology_pass_def
proof (induction ns arbitrary: emitted)
  case (Cons m ns)
  have "length (emit_ready m emitted) \<le> length (topology_pass ns (emit_ready m emitted))"
    by (rule topology_pass_length)
  with Cons.prems(1) have "length (emit_ready m emitted) \<le> length emitted"
    by (simp add: topology_pass_def)
  then have "\<not> is_ready m (set emitted)" by (auto simp: emit_ready_unfold split: if_splits)
  with Cons show ?case by (auto simp: emit_ready_unfold)
qed simp

text \<open>An emission of every node is a ranking of the graph.\<close>

lemma full_emission_acyclic:
  assumes "emission nodes emitted" "n_node_id ` set nodes \<subseteq> set emitted"
  shows "acyclic (dependency_edges nodes)"
proof -
  define rank where "rank x = (LEAST i. i < length emitted \<and> emitted ! i = x)" for x
  have "rank d < rank (n_node_id n)" if n: "n \<in> set nodes" and d: "d \<in> set (n_depends_on n)" for n d
  proof -
    have "\<exists>i. i < length emitted \<and> emitted ! i = n_node_id n"
      using n assms(2) by (metis image_eqI in_set_conv_nth subsetD)
    then have r: "rank (n_node_id n) < length emitted" "emitted ! rank (n_node_id n) = n_node_id n"
      unfolding rank_def by (metis (mono_tags, lifting) LeastI)+
    then have "d \<in> set (take (rank (n_node_id n)) emitted)"
      using n d assms(1) by (force simp: emission_def respects_dependencies_def)
    then obtain j where j: "j < rank (n_node_id n)" "emitted ! j = d"
      by (auto simp: in_set_conv_nth)
    from j(1) r(1) have "j < length emitted" by simp
    have "rank d \<le> j" unfolding rank_def by (rule Least_le) (use j \<open>j < length emitted\<close> in simp)
    with j(1) show ?thesis by simp
  qed
  then have "dependency_edges nodes \<subseteq> measure rank" by (auto simp: dependency_edges_def)
  then show ?thesis by (meson acyclic_subset wf_acyclic wf_measure)
qed

text \<open>An acyclic graph always has a ready node to emit.\<close>

lemma acyclic_has_ready:
  assumes "closed_graph nodes" "acyclic (dependency_edges nodes)"
    and "\<not> n_node_id ` set nodes \<subseteq> E"
  shows "\<exists>n \<in> set nodes. is_ready n E"
proof -
  have "dependency_edges nodes \<subseteq> n_node_id ` set nodes \<times> n_node_id ` set nodes"
    using assms(1) by (auto simp: dependency_edges_def closed_graph_def)
  then have "finite (dependency_edges nodes)" by (rule finite_subset) simp
  then have wf: "wf (dependency_edges nodes)" using assms(2) by (rule finite_acyclic_wf)
  obtain x where "x \<in> n_node_id ` set nodes - E" using assms(3) by blast
  with wf obtain z where z: "z \<in> n_node_id ` set nodes - E"
    and minimal: "\<And>y. (y, z) \<in> dependency_edges nodes \<Longrightarrow> y \<notin> n_node_id ` set nodes - E"
    by (rule wfE_min) blast
  then obtain n where n: "n \<in> set nodes" "z = n_node_id n" by blast
  then have "set (n_depends_on n) \<subseteq> E"
    using minimal assms(1) by (force simp: dependency_edges_def closed_graph_def)
  with n z show ?thesis by (auto simp: is_ready_def)
qed

lemma emission_complete:
  assumes "closed_graph nodes" "emission nodes emitted" "length nodes \<le> length emitted"
  shows "set emitted = n_node_id ` set nodes"
proof (rule card_subset_eq)
  have "card (n_node_id ` set nodes) = length nodes"
    using assms(1) distinct_card [of "map n_node_id nodes"] by (simp add: closed_graph_def)
  moreover have "card (set emitted) = length emitted"
    using assms(2) by (simp add: emission_def distinct_card)
  moreover have "card (set emitted) \<le> card (n_node_id ` set nodes)"
    using assms(2) by (intro card_mono) (auto simp: emission_def)
  ultimately show "card (set emitted) = card (n_node_id ` set nodes)" using assms(3) by simp
qed (use assms(2) in \<open>auto simp: emission_def\<close>)

lemma topology_loop_iff:
  assumes "closed_graph nodes" "emission nodes emitted"
  shows "topology_loop nodes emitted =
     (if acyclic (dependency_edges nodes) then Inr () else Inl CyclicGraph)"
  using assms
proof (induction nodes emitted rule: topology_loop.induct)
  case (1 nodes emitted)
  let ?next = "topology_pass nodes emitted"
  show ?case
  proof (cases "length emitted < length nodes")
    case False
    with 1 have "acyclic (dependency_edges nodes)"
      using emission_complete [of nodes emitted] by (intro full_emission_acyclic) auto
    with False show ?thesis by (simp add: topology_loop.simps)
  next
    case more: True
    show ?thesis
    proof (cases "length ?next = length emitted")
      case True
      then have "\<forall>n \<in> set nodes. \<not> is_ready n (set emitted)" by (blast dest: topology_pass_stuck)
      moreover have "\<not> n_node_id ` set nodes \<subseteq> set emitted"
      proof
        assume "n_node_id ` set nodes \<subseteq> set emitted"
        then have "card (n_node_id ` set nodes) \<le> length emitted"
          by (meson List.finite_set card_length card_mono le_trans)
        with more 1(2) show False
          using distinct_card [of "map n_node_id nodes"] by (simp add: closed_graph_def)
      qed
      ultimately have "\<not> acyclic (dependency_edges nodes)" using acyclic_has_ready 1(2) by blast
      with True more show ?thesis by (simp add: topology_loop.simps)
    next
      case False
      with more 1 show ?thesis
        by (subst topology_loop.simps) (simp add: Let_def emission_pass)
    qed
  qed
qed



section \<open>Ordering\<close>

lemma next_ready_Some:
  "next_ready nodes ordered = Some n \<Longrightarrow> n \<in> set nodes \<and> is_ready n (n_node_id ` set ordered)"
  by (auto simp: next_ready_def is_ready_def list_all_iff dest!: find_Some_mem)

lemma next_ready_None:
  "next_ready nodes ordered = None \<longleftrightarrow> (\<forall>n\<in>set nodes. \<not> is_ready n (n_node_id ` set ordered))"
  by (auto simp: next_ready_def is_ready_def list_all_iff find_None_iff)

lemma order_loop_complete:
  assumes "closed_graph nodes" "acyclic (dependency_edges nodes)"
    and "emission nodes (map n_node_id ordered)" "set ordered \<subseteq> set nodes"
  shows "\<exists>r. order_loop nodes ordered = Inr r \<and> set r = set nodes \<and> emission nodes (map n_node_id r)"
  using assms
proof (induction nodes ordered rule: order_loop.induct)
  case (1 nodes ordered)
  show ?case
  proof (cases "length ordered < length nodes")
    case False
    then have ids: "n_node_id ` set ordered = n_node_id ` set nodes"
      using emission_complete [OF 1(2) 1(4)] by simp
    have "set nodes \<subseteq> set ordered"
    proof
      fix n assume n: "n \<in> set nodes"
      with ids obtain m where "m \<in> set ordered" "n_node_id m = n_node_id n"
        by (metis image_iff)
      with n 1(2,5) show "n \<in> set ordered"
        by (metis closed_graph_def distinct_map_unique subsetD)
    qed
    with False 1 show ?thesis by (simp add: order_loop.simps subset_antisym)
  next
    case more: True
    have "\<not> n_node_id ` set nodes \<subseteq> n_node_id ` set ordered"
    proof
      assume "n_node_id ` set nodes \<subseteq> n_node_id ` set ordered"
      then have "card (n_node_id ` set nodes) \<le> length ordered"
        by (metis List.finite_set card_length card_mono finite_imageI le_trans list.set_map length_map)
      with more 1(2) show False
        using distinct_card [of "map n_node_id nodes"] by (simp add: closed_graph_def)
    qed
    then have "\<exists>m\<in>set nodes. is_ready m (n_node_id ` set ordered)"
      by (rule acyclic_has_ready [OF 1(2,3)])
    then have "next_ready nodes ordered \<noteq> None" unfolding next_ready_None by blast
    then obtain n where n: "next_ready nodes ordered = Some n" by blast
    then have "n \<in> set nodes" "emission nodes (map n_node_id (ordered @ [n]))"
      using next_ready_Some [OF n] emission_snoc [OF 1(2,4), of n] by auto
    then show ?thesis
      using 1(1) [OF more n 1(2,3)] 1(5) more n by (simp add: order_loop.simps [of nodes ordered])
  qed
qed

lemma order_loop_mem:
  "order_loop nodes ordered = Inr ns \<Longrightarrow> set ordered \<subseteq> set nodes \<Longrightarrow> set ns \<subseteq> set nodes"
proof (induction nodes ordered rule: order_loop.induct)
  case (1 nodes ordered)
  show ?case
  proof (cases "length ordered < length nodes")
    case True
    with "1.prems"(1) obtain n where n: "next_ready nodes ordered = Some n"
      "order_loop nodes (ordered @ [n]) = Inr ns" by (auto simp: order_loop.simps [of nodes ordered] split: option.splits)
    with "1.IH" [OF True] next_ready_Some [OF n(1)] "1.prems"(2) show ?thesis by simp
  qed (use "1.prems" in \<open>simp add: order_loop.simps [of nodes ordered]\<close>)
qed


section \<open>What validation establishes\<close>

lemma find_profile_Some: "find_profile i ps = Some p \<Longrightarrow> p \<in> set ps \<and> p_profile_id p = i"
  by (auto simp: find_profile_def dest!: find_Some_mem)

lemma find_node_Some: "find_node i ns = Some n \<Longrightarrow> n \<in> set ns \<and> n_node_id n = i"
  by (auto simp: find_node_def dest!: find_Some_mem)

lemma find_node_None: "find_node i ns = None \<longleftrightarrow> i \<notin> n_node_id ` set ns"
  by (auto simp: find_node_def find_None_iff)

lemma find_profile_None: "find_profile i ps = None \<longleftrightarrow> i \<notin> p_profile_id ` set ps"
  by (auto simp: find_profile_def find_None_iff)

lemma find_node_unique:
  "distinct (map n_node_id ns) \<Longrightarrow> n \<in> set ns \<Longrightarrow> find_node (n_node_id n) ns = Some n"
  unfolding find_node_def by (rule find_key_Some)

lemma insert_profile_Inr_iff:
  "insert_profile p acc = Inr r \<longleftrightarrow> execution_profile_validate p = Inr () \<and>
     p_profile_id p \<notin> p_profile_id ` set acc \<and> r = acc @ [p]"
  by (auto simp: insert_profile_def bind_res_Inr_iff find_profile_None)

lemma insert_profiles_Inr:
  assumes "fold_res insert_profile ps acc = Inr r" "distinct (map p_profile_id acc)"
  shows "r = acc @ ps \<and> distinct (map p_profile_id r) \<and>
    (\<forall>p\<in>set ps. execution_profile_validate p = Inr ())"
  using assms
proof (induction ps arbitrary: acc)
  case (Cons p ps)
  from Cons.prems(1) have p: "execution_profile_validate p = Inr ()"
    "p_profile_id p \<notin> p_profile_id ` set acc"
    "fold_res insert_profile ps (acc @ [p]) = Inr r"
    by (auto simp: insert_profile_Inr_iff)
  have "distinct (map p_profile_id (acc @ [p]))" using Cons.prems(2) p(2) by simp
  from Cons.IH [OF p(3) this] p(1) show ?case by (metis append_Cons append_assoc self_append_conv2 set_ConsD)
qed simp

definition node_meets_profile :: "execution_profile list \<Rightarrow> workflow_node \<Rightarrow> bool" where
  "node_meets_profile profiles n \<longleftrightarrow> (\<exists>p. find_profile (n_profile_id n) profiles = Some p \<and>
     p_adapter_id p \<in> set (expected_adapter (n_kind n)) \<and>
     expected_pool (n_kind n) = p_worker_pool p \<and> profile_matches_kind p (n_kind n))"

lemma insert_node_Inr_iff:
  "insert_node profiles n acc = Inr r \<longleftrightarrow> validate_local n = Inr () \<and>
     node_meets_profile profiles n \<and> n_node_id n \<notin> n_node_id ` set acc \<and> r = acc @ [n]"
  by (auto simp: insert_node_def node_meets_profile_def bind_res_Inr_iff find_node_None)

lemma insert_nodes_Inr:
  assumes "fold_res (insert_node profiles) ns acc = Inr r" "distinct (map n_node_id acc)"
  shows "r = acc @ ns \<and> distinct (map n_node_id r) \<and>
    (\<forall>n\<in>set ns. validate_local n = Inr () \<and> node_meets_profile profiles n)"
  using assms
proof (induction ns arbitrary: acc)
  case (Cons n ns)
  from Cons.prems(1) have n: "validate_local n = Inr ()" "node_meets_profile profiles n"
    "n_node_id n \<notin> n_node_id ` set acc"
    "fold_res (insert_node profiles) ns (acc @ [n]) = Inr r"
    by (auto simp: insert_node_Inr_iff)
  have "distinct (map n_node_id (acc @ [n]))" using Cons.prems(2) n(3) by simp
  from Cons.IH [OF n(4) this] n(1,2) show ?case by (metis append_Cons append_assoc self_append_conv2 set_ConsD)
qed simp

lemma check_inputs_Inr:
  assumes "check_inputs nodes n = Inr ()"
  shows "set (n_depends_on n) \<subseteq> n_node_id ` set nodes"
    and "distinct (map n_node_id nodes) \<Longrightarrow> set (n_input_contracts n) =
      n_output_contract ` {m \<in> set nodes. n_node_id m \<in> set (n_depends_on n)}"
proof -
  from assms obtain ms
    where ms: "list_all2 (\<lambda>d m. find_node d nodes = Some m) (n_depends_on n) ms"
      and outputs: "set (n_input_contracts n) = n_output_contract ` set ms"
    by (auto simp: check_inputs_def collect_res_Inr_iff split: if_splits)
  show "set (n_depends_on n) \<subseteq> n_node_id ` set nodes"
    using ms by (auto dest!: list_all2_ex1 find_node_Some)
  assume distinct: "distinct (map n_node_id nodes)"
  have "set ms = {m \<in> set nodes. n_node_id m \<in> set (n_depends_on n)}"
  proof (intro set_eqI iffI)
    fix m assume "m \<in> set ms"
    with ms obtain d where "d \<in> set (n_depends_on n)" "find_node d nodes = Some m"
      by (auto dest: list_all2_ex2)
    then show "m \<in> {m \<in> set nodes. n_node_id m \<in> set (n_depends_on n)}"
      by (auto dest: find_node_Some)
  next
    fix m assume m: "m \<in> {m \<in> set nodes. n_node_id m \<in> set (n_depends_on n)}"
    with ms obtain m' where "m' \<in> set ms" "find_node (n_node_id m) nodes = Some m'"
      by (auto dest: list_all2_ex1)
    with m distinct show "m \<in> set ms" by (simp add: find_node_unique)
  qed
  with outputs show "set (n_input_contracts n) =
      n_output_contract ` {m \<in> set nodes. n_node_id m \<in> set (n_depends_on n)}" by simp
qed

lemma set_btree_nodes [simp]: "set (btree_nodes ns) = set ns"
  by (simp add: btree_nodes_def)

lemma length_btree_nodes [simp]: "length (btree_nodes ns) = length ns"
  by (simp add: btree_nodes_def)

lemma distinct_btree_nodes: "distinct (map n_node_id (btree_nodes ns)) \<longleftrightarrow> distinct (map n_node_id ns)"
proof -
  have "mset (map n_node_id (btree_nodes ns)) = mset (map n_node_id ns)"
    by (simp add: btree_nodes_def)
  then show ?thesis by (rule mset_eq_imp_distinct_iff)
qed

lemma closed_graph_btree [simp]: "closed_graph (btree_nodes ns) \<longleftrightarrow> closed_graph ns"
  by (simp add: closed_graph_def distinct_btree_nodes)

lemma dependency_edges_btree [simp]: "dependency_edges (btree_nodes ns) = dependency_edges ns"
  by (simp add: dependency_edges_def)

lemma policy_validateE:
  assumes "policy_validate policy = Inr ()"
  obtains "closed_graph (wp_nodes policy)"
    and "acyclic (dependency_edges (wp_nodes policy))"
    and "distinct (map p_profile_id (wp_execution_profiles policy))"
    and "\<And>p. p \<in> set (wp_execution_profiles policy) \<Longrightarrow> execution_profile_validate p = Inr ()"
    and "\<And>n. n \<in> set (wp_nodes policy) \<Longrightarrow> validate_local n = Inr ()"
    and "\<And>n. n \<in> set (wp_nodes policy) \<Longrightarrow>
      node_meets_profile (wp_execution_profiles policy) n"
    and "\<And>n. n \<in> set (wp_nodes policy) \<Longrightarrow> check_inputs (wp_nodes policy) n = Inr ()"
    and "(case wp_delivery_mode policy of
        ExecutorMutation \<Rightarrow> validate_executor_mutation_graph (btree_nodes (wp_nodes policy))
          (wp_execution_profiles policy)
      | SelfUpdateHandoff \<Rightarrow> validate_self_update_handoff_graph (btree_nodes (wp_nodes policy))
          (wp_execution_profiles policy)) = Inr ()"
proof -
  from assms obtain profiles nodes
    where profiles: "fold_res insert_profile (wp_execution_profiles policy) [] = Inr profiles"
      and nodes: "fold_res (insert_node profiles) (wp_nodes policy) [] = Inr nodes"
      and inputs: "each_res (check_inputs nodes) (wp_nodes policy) = Inr ()"
      and topology: "validate_topology (btree_nodes nodes) = Inr ()"
      and mode: "(case wp_delivery_mode policy of
          ExecutorMutation \<Rightarrow> validate_executor_mutation_graph (btree_nodes nodes) profiles
        | SelfUpdateHandoff \<Rightarrow> validate_self_update_handoff_graph (btree_nodes nodes) profiles) = Inr ()"
    unfolding policy_validate_def by (auto split: if_splits)
  have p: "profiles = wp_execution_profiles policy" "distinct (map p_profile_id profiles)"
    "\<forall>p\<in>set (wp_execution_profiles policy). execution_profile_validate p = Inr ()"
    using insert_profiles_Inr [OF profiles] by auto
  have n: "nodes = wp_nodes policy" "distinct (map n_node_id nodes)"
    "\<forall>n\<in>set (wp_nodes policy). validate_local n = Inr () \<and> node_meets_profile profiles n"
    using insert_nodes_Inr [OF nodes] by auto
  have closed: "closed_graph (wp_nodes policy)"
    using n inputs check_inputs_Inr(1) by (auto simp: closed_graph_def each_res_Inr_iff)
  with topology n(1) have "acyclic (dependency_edges (wp_nodes policy))"
    by (simp add: validate_topology_def topology_loop_iff split: if_splits)
  then show thesis
    by (rule that [OF closed]) (use p n inputs mode in \<open>auto simp: each_res_Inr_iff\<close>)
qed


section \<open>The shape of a validated graph\<close>

lemma ordered_nodes_activation:
  assumes "ordered_nodes policy = Inr ns" "n \<in> set ns" "n_activation n = OnMutationFailure"
  shows "n_kind n = Rollback_node"
proof -
  from assms(1) have ok: "policy_validate policy = Inr ()"
    and "order_loop (btree_nodes (wp_nodes policy)) [] = Inr ns" by (auto simp: ordered_nodes_def)
  from order_loop_mem [OF this(2)] assms(2) have "n \<in> set (wp_nodes policy)" by auto
  with ok have "validate_local n = Inr ()" by (auto elim: policy_validateE)
  with assms(3) show ?thesis by (auto simp: validate_local_def Let_def split: if_splits)
qed

lemma ordered_nodes_Inr:
  assumes "ordered_nodes policy = Inr ns"
  shows "policy_validate policy = Inr ()" "set ns = set (wp_nodes policy)" "distinct (map n_node_id ns)"
proof -
  from assms show ok: "policy_validate policy = Inr ()" by (auto simp: ordered_nodes_def)
  then have graph: "closed_graph (btree_nodes (wp_nodes policy))" "acyclic (dependency_edges (btree_nodes (wp_nodes policy)))"
    by (auto elim: policy_validateE)
  then obtain r where "order_loop (btree_nodes (wp_nodes policy)) [] = Inr r"
    "set r = set (btree_nodes (wp_nodes policy))" "emission (btree_nodes (wp_nodes policy)) (map n_node_id r)"
    using order_loop_complete [of "btree_nodes (wp_nodes policy)" "[]"] by auto
  moreover from assms ok have "order_loop (btree_nodes (wp_nodes policy)) [] = Inr ns"
    by (simp add: ordered_nodes_def)
  ultimately show "set ns = set (wp_nodes policy)" "distinct (map n_node_id ns)" by (simp_all add: emission_def)
qed

lemma exactly_one_Inr:
  assumes "exactly_one nodes kind = Inr x"
  shows "x \<in> set nodes" "n_kind x = kind"
    and "\<And>n. n \<in> set nodes \<Longrightarrow> n_kind n = kind \<Longrightarrow> n = x"
proof -
  have "by_kind nodes kind = [x]"
    using assms by (auto simp: exactly_one_def split: list.splits)
  then have "set (by_kind nodes kind) = {x}" by simp
  then show "x \<in> set nodes" "n_kind x = kind"
    and "\<And>n. n \<in> set nodes \<Longrightarrow> n_kind n = kind \<Longrightarrow> n = x"
    unfolding by_kind_def by auto
qed

lemma require_dependencies_Inr [simp]:
  "require_dependencies n ds = Inr u \<longleftrightarrow> n_depends_on n = ds"
  by (simp add: require_dependencies_def)

lemma by_kind_iff: "n \<in> set (by_kind nodes kind) \<longleftrightarrow> n \<in> set nodes \<and> n_kind n = kind"
  by (auto simp: by_kind_def)

lemma validate_release_dependencies_Inr:
  assumes "validate_release_dependencies build profile prepare verification = Inr ()"
  shows "n_node_id prepare \<in> set (n_depends_on build)"
    and "set (n_depends_on build) \<subseteq> insert (n_node_id prepare) (n_node_id ` set verification)"
  using assms
  by (auto simp: validate_release_dependencies_def Let_def eq_commute [of "[_, _]" "n_depends_on build"]
      split: if_splits list.splits)

lemma chain_first_Inr:
  assumes "chain_first ns previous = Inr r"
  shows "(ns = [] \<and> r = previous) \<or> (\<exists>ms. ns = r # ms \<and> n_depends_on r = [n_node_id previous])"
  using assms by (auto simp: chain_first_def split: list.splits)

lemma executor_graphE:
  assumes "validate_executor_mutation_graph nodes profiles = Inr ()"
  obtains source prepare build reduce reserve candidate cutover observe rollback
      build_profile backup migration
  where "exactly_one nodes SourceAdmission = Inr source"
      "exactly_one nodes HostPrepare = Inr prepare"
      "exactly_one nodes ReleaseBuild = Inr build"
      "exactly_one nodes DeterministicReduce = Inr reduce"
      "exactly_one nodes ResourceReservation = Inr reserve"
      "exactly_one nodes CandidateHealth = Inr candidate"
      "exactly_one nodes Cutover = Inr cutover"
      "exactly_one nodes ReleasedObservation = Inr observe"
      "exactly_one nodes Rollback_node = Inr rollback"
    and "by_kind nodes Verification \<noteq> []"
      "n_depends_on source = []"
      "n_depends_on prepare = [n_node_id source]"
      "\<forall>v\<in>set (by_kind nodes Verification). n_depends_on v = [n_node_id prepare]"
      "find_profile (n_profile_id build) profiles = Some build_profile"
      "validate_release_dependencies build build_profile prepare (by_kind nodes Verification) = Inr ()"
      "n_depends_on reduce = sort (map n_node_id (by_kind nodes Verification) @ [n_node_id build])"
      "n_depends_on reserve = [n_node_id reduce]"
    and "by_kind nodes Backup = [] \<and> backup = reserve \<or>
        by_kind nodes Backup = [backup] \<and> n_depends_on backup = [n_node_id reserve]"
      "by_kind nodes Migration = [] \<and> migration = backup \<or>
        by_kind nodes Migration = [migration] \<and> n_depends_on migration = [n_node_id backup]"
    and "n_depends_on candidate = [n_node_id migration]"
      "n_depends_on cutover = [n_node_id candidate]"
      "n_depends_on observe = [n_node_id cutover]"
      "n_depends_on rollback = [n_node_id cutover]"
proof -
  from assms obtain source prepare build reduce reserve candidate cutover observe rollback
      build_profile backup migration
    where *: "exactly_one nodes SourceAdmission = Inr source"
      "exactly_one nodes HostPrepare = Inr prepare"
      "exactly_one nodes ReleaseBuild = Inr build"
      "exactly_one nodes DeterministicReduce = Inr reduce"
      "exactly_one nodes ResourceReservation = Inr reserve"
      "exactly_one nodes CandidateHealth = Inr candidate"
      "exactly_one nodes Cutover = Inr cutover"
      "exactly_one nodes ReleasedObservation = Inr observe"
      "exactly_one nodes Rollback_node = Inr rollback"
      "by_kind nodes Verification \<noteq> []"
      "n_depends_on source = []"
      "n_depends_on prepare = [n_node_id source]"
      "\<forall>v\<in>set (by_kind nodes Verification). n_depends_on v = [n_node_id prepare]"
      "find_profile (n_profile_id build) profiles = Some build_profile"
      "validate_release_dependencies build build_profile prepare (by_kind nodes Verification) = Inr ()"
      "n_depends_on reduce = sort (map n_node_id (by_kind nodes Verification) @ [n_node_id build])"
      "n_depends_on reserve = [n_node_id reduce]"
    and chain: "length (by_kind nodes Backup) \<le> 1" "length (by_kind nodes Migration) \<le> 1"
      "chain_first (by_kind nodes Backup) reserve = Inr backup"
      "chain_first (by_kind nodes Migration) backup = Inr migration"
    and **: "n_depends_on candidate = [n_node_id migration]"
      "n_depends_on cutover = [n_node_id candidate]"
      "n_depends_on observe = [n_node_id cutover]"
      "n_depends_on rollback = [n_node_id cutover]"
    unfolding validate_executor_mutation_graph_def Let_def by (auto simp: each_res_Inr_iff)
  have "by_kind nodes Backup = [] \<and> backup = reserve \<or>
      by_kind nodes Backup = [backup] \<and> n_depends_on backup = [n_node_id reserve]"
    using chain(1) chain_first_Inr [OF chain(3)] by auto
  moreover have "by_kind nodes Migration = [] \<and> migration = backup \<or>
      by_kind nodes Migration = [migration] \<and> n_depends_on migration = [n_node_id backup]"
    using chain(2) chain_first_Inr [OF chain(4)] by auto
  ultimately show thesis by (rule that [OF * _ _ **])
qed

text \<open>In both delivery modesthe source has no dependency, and host preparation depends on the source only.\<close>

lemma policy_first_stages:
  assumes "policy_validate policy = Inr ()" "n \<in> set (wp_nodes policy)"
  shows "n_kind n = SourceAdmission \<Longrightarrow> n_depends_on n = []"
    and "n_kind n = HostPrepare \<Longrightarrow>
      \<exists>s\<in>set (wp_nodes policy). n_kind s = SourceAdmission \<and> n_depends_on n = [n_node_id s]"
proof -
  let ?nodes = "btree_nodes (wp_nodes policy)"
  have "\<exists>source prepare. exactly_one ?nodes SourceAdmission = Inr source \<and>
    exactly_one ?nodes HostPrepare = Inr prepare \<and> n_depends_on source = [] \<and>
    n_depends_on prepare = [n_node_id source]"
  proof (cases "wp_delivery_mode policy")
    case ExecutorMutation
    from assms(1) have "validate_executor_mutation_graph ?nodes (wp_execution_profiles policy) = Inr ()"
      by (rule policy_validateE) (use ExecutorMutation in simp)
    then show ?thesis by (rule executor_graphE) (intro exI conjI; assumption)
  next
    case SelfUpdateHandoff
    from assms(1) have "validate_self_update_handoff_graph ?nodes (wp_execution_profiles policy) = Inr ()"
      by (rule policy_validateE) (use SelfUpdateHandoff in simp)
    then show ?thesis unfolding validate_self_update_handoff_graph_def
      by (elim bind_res_InrE)
        (intro exI conjI, assumption, assumption, simp_all only: require_dependencies_Inr)
  qed
  then obtain source prepare where *: "exactly_one ?nodes SourceAdmission = Inr source"
    "exactly_one ?nodes HostPrepare = Inr prepare" "n_depends_on source = []"
    "n_depends_on prepare = [n_node_id source]" by blast
  have "n \<in> set ?nodes" using assms(2) by simp
  from exactly_one_Inr(3) [OF *(1) this] *(3) show "n_kind n = SourceAdmission \<Longrightarrow> n_depends_on n = []" by simp
  assume "n_kind n = HostPrepare"
  with exactly_one_Inr(3) [OF *(2) \<open>n \<in> set ?nodes\<close>] have "n = prepare" by simp
  moreover have "source \<in> set (wp_nodes policy)" "n_kind source = SourceAdmission"
    using exactly_one_Inr(1,2) [OF *(1)] by simp_all
  ultimately show "\<exists>s\<in>set (wp_nodes policy). n_kind s = SourceAdmission \<and> n_depends_on n = [n_node_id s]"
    using *(4) by blast
qed

text \<open>The transitive dependencies of a node.\<close>

definition below :: "workflow_node list \<Rightarrow> workflow_node \<Rightarrow> workflow_node set" where
  "below nodes n = {m. (n_node_id m, n_node_id n) \<in> (dependency_edges nodes)\<^sup>+}"

lemma below_step:
  assumes "n \<in> set nodes" "n_node_id m \<in> set (n_depends_on n)"
  shows "insert m (below nodes m) \<subseteq> below nodes n"
proof -
  have "(n_node_id m, n_node_id n) \<in> dependency_edges nodes"
    using assms by (auto simp: dependency_edges_def)
  then show ?thesis by (auto simp: below_def intro: trancl_into_trancl)
qed

lemma below_chain:
  "n \<in> set nodes \<Longrightarrow> n_depends_on n = [n_node_id m] \<Longrightarrow> insert m (below nodes m) \<subseteq> below nodes n"
  by (rule below_step) simp_all

text \<open>The stages of an executor-mutation workflow.\<close>

fun stage :: "node_kind \<Rightarrow> nat" where
  "stage SourceAdmission = 0"
| "stage HostPrepare = 1"
| "stage Verification = 2"
| "stage ReleaseBuild = 2"
| "stage DeterministicReduce = 3"
| "stage ResourceReservation = 4"
| "stage Backup = 5"
| "stage Migration = 6"
| "stage CandidateHealth = 7"
| "stage Cutover = 8"
| "stage ReleasedObservation = 9"
| "stage Rollback_node = 9"

definition earlier :: "workflow_node list \<Rightarrow> nat \<Rightarrow> workflow_node set" where
  "earlier nodes k = {x \<in> set nodes. stage (n_kind x) < k}"

lemma earlier_Suc:
  assumes "\<And>x. x \<in> set nodes \<Longrightarrow> stage (n_kind x) = k \<Longrightarrow> x \<in> X" "earlier nodes k \<subseteq> X"
  shows "earlier nodes (Suc k) \<subseteq> X"
  using assms by (auto simp: earlier_def less_Suc_eq)

lemma stage_eq_iff:
  "stage k = 0 \<longleftrightarrow> k = SourceAdmission" "stage k = Suc 0 \<longleftrightarrow> k = HostPrepare"
  "stage k = 2 \<longleftrightarrow> k = Verification \<or> k = ReleaseBuild" "stage k = 3 \<longleftrightarrow> k = DeterministicReduce"
  "stage k = 4 \<longleftrightarrow> k = ResourceReservation" "stage k = 5 \<longleftrightarrow> k = Backup"
  "stage k = 6 \<longleftrightarrow> k = Migration" "stage k = 7 \<longleftrightarrow> k = CandidateHealth"
  "stage k = 8 \<longleftrightarrow> k = Cutover"
  by (cases k, simp_all)+

lemma executor_graph_stages:
  assumes "validate_executor_mutation_graph nodes profiles = Inr ()"
    and "m \<in> set nodes" "n \<in> set nodes" "stage (n_kind m) < stage (n_kind n)"
  shows "m \<in> below nodes n"
  using assms(1)
proof (rule executor_graphE)
  fix source prepare build reduce reserve candidate cutover observe rollback
      build_profile backup migration
  let ?V = "{v \<in> set nodes. n_kind v = Verification}"
  assume one: "exactly_one nodes SourceAdmission = Inr source"
      "exactly_one nodes HostPrepare = Inr prepare"
      "exactly_one nodes ReleaseBuild = Inr build"
      "exactly_one nodes DeterministicReduce = Inr reduce"
      "exactly_one nodes ResourceReservation = Inr reserve"
      "exactly_one nodes CandidateHealth = Inr candidate"
      "exactly_one nodes Cutover = Inr cutover"
      "exactly_one nodes ReleasedObservation = Inr observe"
      "exactly_one nodes Rollback_node = Inr rollback"
    and prepare: "n_depends_on prepare = [n_node_id source]"
    and verify: "\<forall>v\<in>set (by_kind nodes Verification). n_depends_on v = [n_node_id prepare]"
    and build: "validate_release_dependencies build build_profile prepare (by_kind nodes Verification) = Inr ()"
    and reduce: "n_depends_on reduce = sort (map n_node_id (by_kind nodes Verification) @ [n_node_id build])"
    and reserve: "n_depends_on reserve = [n_node_id reduce]"
    and backup: "by_kind nodes Backup = [] \<and> backup = reserve \<or>
        by_kind nodes Backup = [backup] \<and> n_depends_on backup = [n_node_id reserve]"
    and migration: "by_kind nodes Migration = [] \<and> migration = backup \<or>
        by_kind nodes Migration = [migration] \<and> n_depends_on migration = [n_node_id backup]"
    and candidate: "n_depends_on candidate = [n_node_id migration]"
    and cutover: "n_depends_on cutover = [n_node_id candidate]"
    and observe: "n_depends_on observe = [n_node_id cutover]"
    and rollback: "n_depends_on rollback = [n_node_id cutover]"
  note mem = one [THEN exactly_one_Inr(1)] and uniq = one [THEN exactly_one_Inr(3)]
  have p: "insert source (below nodes source) \<subseteq> below nodes prepare"
    by (rule below_chain [OF mem(2) prepare])
  have v: "insert prepare (below nodes prepare) \<subseteq> below nodes x" if "x \<in> ?V" for x
    using that verify by (intro below_chain) (auto simp: by_kind_iff)
  have b: "insert prepare (below nodes prepare) \<subseteq> below nodes build"
    by (rule below_step [OF mem(3) validate_release_dependencies_Inr(1) [OF build]])
  have r: "insert x (below nodes x) \<subseteq> below nodes reduce" if "x \<in> insert build ?V" for x
    using that reduce by (intro below_step [OF mem(4)]) (auto simp: by_kind_iff)
  have rs: "insert reduce (below nodes reduce) \<subseteq> below nodes reserve"
    by (rule below_chain [OF mem(5) reserve])
  have bk_mem: "backup \<in> set nodes" and mg_mem: "migration \<in> set nodes"
    using backup migration mem(5) by_kind_iff [of backup nodes Backup]
      by_kind_iff [of migration nodes Migration] by auto
  have bk: "insert reserve (below nodes reserve) \<subseteq> insert backup (below nodes backup)"
    using backup below_chain [OF bk_mem, of reserve] by blast
  have bk_uniq: "x = backup \<and> insert reserve (below nodes reserve) \<subseteq> below nodes x"
    if "x \<in> set nodes" "n_kind x = Backup" for x
  proof -
    have "x \<in> set (by_kind nodes Backup)" using that by (simp add: by_kind_iff)
    with backup have "x = backup" "n_depends_on backup = [n_node_id reserve]" by force+
    then show ?thesis using below_chain [OF bk_mem] by simp
  qed
  have mg: "insert backup (below nodes backup) \<subseteq> insert migration (below nodes migration)"
    using migration below_chain [OF mg_mem, of backup] by blast
  have mg_uniq: "x = migration \<and> insert backup (below nodes backup) \<subseteq> below nodes x"
    if "x \<in> set nodes" "n_kind x = Migration" for x
  proof -
    have "x \<in> set (by_kind nodes Migration)" using that by (simp add: by_kind_iff)
    with migration have "x = migration" "n_depends_on migration = [n_node_id backup]" by force+
    then show ?thesis using below_chain [OF mg_mem] by simp
  qed
  have c: "insert migration (below nodes migration) \<subseteq> below nodes candidate"
    by (rule below_chain [OF mem(6) candidate])
  have cu: "insert candidate (below nodes candidate) \<subseteq> below nodes cutover"
    by (rule below_chain [OF mem(7) cutover])
  have o: "insert cutover (below nodes cutover) \<subseteq> below nodes observe"
    by (rule below_chain [OF mem(8) observe])
  have rb: "insert cutover (below nodes cutover) \<subseteq> below nodes rollback"
    by (rule below_chain [OF mem(9) rollback])
  have e0: "earlier nodes 0 \<subseteq> X" for X by (simp add: earlier_def)
  have e1: "earlier nodes 1 \<subseteq> below nodes prepare"
    using earlier_Suc [OF _ e0] p uniq(1) by (simp add: stage_eq_iff) blast
  have e2: "earlier nodes 2 \<subseteq> insert prepare (below nodes prepare)"
    using earlier_Suc [of nodes 1 "insert prepare (below nodes prepare)"] e1 uniq(2)
    by (simp add: stage_eq_iff numeral_2_eq_2) blast
  have e3: "earlier nodes 3 \<subseteq> below nodes reduce"
    using earlier_Suc [of nodes 2 "below nodes reduce"] e2 uniq(3) r b
    by (simp add: stage_eq_iff numeral_3_eq_3) blast
  have e4: "earlier nodes 4 \<subseteq> below nodes reserve"
    using earlier_Suc [of nodes 3 "below nodes reserve"] e3 uniq(4) rs
    by (simp add: stage_eq_iff) blast
  have e5: "earlier nodes 5 \<subseteq> insert reserve (below nodes reserve)"
    using earlier_Suc [of nodes 4 "insert reserve (below nodes reserve)"] e4 uniq(5)
    by (simp add: stage_eq_iff) blast
  have e6: "earlier nodes 6 \<subseteq> insert backup (below nodes backup)"
    using earlier_Suc [of nodes 5 "insert backup (below nodes backup)"] e5 bk bk_uniq
    by (simp add: stage_eq_iff) blast
  have e7: "earlier nodes 7 \<subseteq> insert migration (below nodes migration)"
    using earlier_Suc [of nodes 6 "insert migration (below nodes migration)"] e6 mg mg_uniq
    by (simp add: stage_eq_iff) blast
  have e8: "earlier nodes 8 \<subseteq> insert candidate (below nodes candidate)"
    using earlier_Suc [of nodes 7 "insert candidate (below nodes candidate)"] e7 c uniq(6)
    by (simp add: stage_eq_iff) blast
  have e9: "earlier nodes 9 \<subseteq> insert cutover (below nodes cutover)"
    using earlier_Suc [of nodes 8 "insert cutover (below nodes cutover)"] e8 cu uniq(7)
    by (simp add: stage_eq_iff) blast
  have "earlier nodes (stage (n_kind n)) \<subseteq> below nodes n"
  proof (cases "n_kind n")
    case SourceAdmission then show ?thesis using e0 by simp
  next
    case HostPrepare then show ?thesis using e1 uniq(2) assms(3) by simp
  next
    case Verification then show ?thesis using e2 v [of n] assms(3) by simp blast
  next
    case ReleaseBuild then show ?thesis using e2 b uniq(3) assms(3) by simp blast
  next
    case DeterministicReduce then show ?thesis using e3 uniq(4) assms(3) by simp
  next
    case ResourceReservation then show ?thesis using e4 uniq(5) assms(3) by simp
  next
    case Backup then show ?thesis using e5 bk_uniq [of n] assms(3) by simp blast
  next
    case Migration then show ?thesis using e6 mg_uniq [of n] assms(3) by simp blast
  next
    case CandidateHealth then show ?thesis using e7 c uniq(6) assms(3) by simp blast
  next
    case Cutover then show ?thesis using e8 cu uniq(7) assms(3) by simp blast
  next
    case ReleasedObservation then show ?thesis using e9 o uniq(8) assms(3) by simp blast
  next
    case Rollback_node then show ?thesis using e9 rb uniq(9) assms(3) by simp blast
  qed
  with assms(2,4) show ?thesis by (auto simp: earlier_def)
qed


section \<open>Properties\<close>

text \<open>A complete executor-mutation policy, at which the properties below are instantiated.\<close>

definition sample_profile ::
  "string \<Rightarrow> adapter_id \<Rightarrow> worker_pool \<Rightarrow> network_class \<Rightarrow> cache_class \<Rightarrow> execution_profile" where
  "sample_profile i adapter pool network cache = \<lparr> p_profile_id = i, p_adapter_id = adapter,
     p_worker_pool = pool, p_network_class = network, p_cache_class = cache, p_timeout_ms = 600000,
     p_resources = (if pool = Controller then None else
       Some \<lparr> re_cpu_millicores = 1000, re_memory_max_bytes = 67108864, re_tasks_max = 64,
         re_scratch_max_bytes = 1048576, re_scratch_max_inodes = 1024,
         re_output_max_bytes = 1024 \<rparr>) \<rparr>"

definition sample_node ::
  "string \<Rightarrow> node_kind \<Rightarrow> string list \<Rightarrow> artifact_kind list \<Rightarrow> workflow_node" where
  "sample_node i kind deps inputs = \<lparr> n_node_id = i, n_display_name = i, n_kind = kind,
     n_activation = (if kind = Rollback_node then OnMutationFailure else Always),
     n_profile_id = i, n_depends_on = deps, n_input_contracts = inputs,
     n_output_contract = expected_output kind \<rparr>"

definition sample_policy :: workflow_policy where
  "sample_policy = \<lparr> wp_schema_version = 1, wp_fairness_weight = 2,
     wp_delivery_mode = ExecutorMutation,
     wp_execution_profiles = [
       sample_profile ''a'' ControllerSourceAdmissionV1 Controller Offline Cache_None,
       sample_profile ''b'' WorkerHostPrepareV1 VpsRequired DependencyEgress Dependency,
       sample_profile ''c'' WorkerBareBinCiV1 BuildCompute Offline PreparedRun,
       sample_profile ''d'' WorkerOciReleaseBuildV1 VpsRequired Offline PreparedRun,
       sample_profile ''e'' ControllerReduceV1 Controller Offline Cache_None,
       sample_profile ''f'' ExecutorResourceReserveV1 PrivilegedExecutor Offline Cache_None,
       sample_profile ''g'' ExecutorCandidateHealthV1 PrivilegedExecutor LocalHealthOnly Cache_None,
       sample_profile ''h'' ExecutorCutoverV1 PrivilegedExecutor Offline Cache_None,
       sample_profile ''i'' ExecutorReleasedObserveV1 PrivilegedExecutor LocalHealthOnly Cache_None,
       sample_profile ''j'' ExecutorRollbackV1 PrivilegedExecutor Offline Cache_None,
       sample_profile ''k'' ExecutorBackupV1 PrivilegedExecutor Offline Cache_None,
       sample_profile ''l'' ExecutorMigrationV1 PrivilegedExecutor Offline Cache_None],
     wp_nodes = [
       sample_node ''h'' Cutover [''g''] [CandidateHealthReceipt],
       sample_node ''a'' SourceAdmission [] [],
       sample_node ''b'' HostPrepare [''a''] [SourceSnapshot],
       sample_node ''c'' Verification [''b''] [PreparedRun_artifact],
       sample_node ''d'' ReleaseBuild [''b''] [PreparedRun_artifact],
       sample_node ''e'' DeterministicReduce [''c'', ''d''] [VerificationReceipt, ReleaseBuildResult],
       sample_node ''f'' ResourceReservation [''e''] [ReductionReceipt],
       sample_node ''g'' CandidateHealth [''l''] [MigrationReceipt],
       sample_node ''k'' Backup [''f''] [ResourceReservation_artifact],
       sample_node ''l'' Migration [''k''] [BackupReceipt],
       sample_node ''i'' ReleasedObservation [''h''] [CutoverReceipt],
       sample_node ''j'' Rollback_node [''h''] [CutoverReceipt]] \<rparr>"

lemmas sample_defs = sample_policy_def sample_profile_def sample_node_def

lemma sample_profiles_accepted:
  "fold_res insert_profile (wp_execution_profiles sample_policy) [] =
     Inr (wp_execution_profiles sample_policy)"
  by (simp add: sample_defs insert_profile_def find_profile_def execution_profile_validate_def
      in_range_def resource_envelope_validate_def min_memory_bytes_def max_memory_bytes_def
      max_scratch_bytes_def max_output_bytes_def)

lemma sample_nodes_accepted:
  "fold_res (insert_node (wp_execution_profiles sample_policy)) (wp_nodes sample_policy) [] =
     Inr (wp_nodes sample_policy)"
  by (simp add: sample_defs insert_node_def validate_local_def trim_def strip_front.simps
      white_space_def starts_with_def find_profile_def find_node_def strictly_sorted_unique_def
      less_artifact_kind_def)

lemma sample_inputs_accepted:
  "each_res (check_inputs (wp_nodes sample_policy)) (wp_nodes sample_policy) = Inr ()"
  by (simp add: sample_defs check_inputs_def find_node_def)

lemma sample_topology_accepted: "validate_topology (btree_nodes (wp_nodes sample_policy)) = Inr ()"
  by (simp add: sample_defs btree_nodes_def validate_topology_def topology_loop.simps
      topology_pass_def emit_ready_def)

lemma sample_graph_accepted:
  "validate_executor_mutation_graph (btree_nodes (wp_nodes sample_policy))
     (wp_execution_profiles sample_policy) = Inr ()"
  by (simp add: sample_defs btree_nodes_def validate_executor_mutation_graph_def exactly_one_def
      by_kind_def require_dependencies_def find_profile_def validate_release_dependencies_def
      chain_first_def)

lemma sample_bounds:
  "wp_schema_version sample_policy = workflow_policy_schema_version"
  "in_range 1 16 (wp_fairness_weight sample_policy)"
  "wp_execution_profiles sample_policy \<noteq> []" "wp_nodes sample_policy \<noteq> []"
  "length (wp_execution_profiles sample_policy) \<le> max_workflow_profiles"
  "length (wp_nodes sample_policy) \<le> max_workflow_nodes"
  "wp_delivery_mode sample_policy = ExecutorMutation"
  by (simp_all add: sample_policy_def workflow_policy_schema_version_def in_range_def
      max_workflow_profiles_def max_workflow_nodes_def)

lemma sample_policy_valid: "policy_validate sample_policy = Inr ()"
  unfolding policy_validate_def
  by (simp add: sample_bounds [unfolded One_nat_def] sample_profiles_accepted sample_nodes_accepted
      sample_inputs_accepted sample_topology_accepted sample_graph_accepted not_less)

text \<open>
  C21: on a graph with distinct node ids and no dangling dependency, \<open>validate_topology\<close> returns, and
  it accepts exactly the graphs without a dependency cycle.
\<close>

theorem validate_topology_decides_acyclicity:
  assumes "closed_graph nodes"
  shows "validate_topology nodes =
    (if acyclic (dependency_edges nodes) then Inr () else Inl CyclicGraph)"
  unfolding validate_topology_def by (rule topology_loop_iff [OF assms emission_Nil])

theorem validate_topology_witness:
  "validate_topology [sample_node ''a'' Verification [''b''] [], sample_node ''b'' Verification [''a''] []]
     = Inl CyclicGraph \<and>
   \<not> acyclic (dependency_edges
     [sample_node ''a'' Verification [''b''] [], sample_node ''b'' Verification [''a''] []])"
proof -
  let ?g = "[sample_node ''a'' Verification [''b''] [], sample_node ''b'' Verification [''a''] []]"
  have rejected: "validate_topology ?g = Inl CyclicGraph"
    by (simp add: sample_node_def validate_topology_def topology_loop.simps topology_pass_def
        emit_ready_def)
  have "closed_graph ?g" by (simp add: closed_graph_def sample_node_def)
  from validate_topology_decides_acyclicity [OF this] rejected show ?thesis
    by (auto split: if_splits)
qed

text \<open>
  C20: \<open>ordered_nodes\<close> succeeds on every validated policy; its result is a permutation of the nodes of
  the policy in which every node comes after all its dependencies.
\<close>

theorem ordered_nodes_correct:
  assumes "policy_validate policy = Inr ()"
  shows "\<exists>ns. ordered_nodes policy = Inr ns \<and> mset ns = mset (wp_nodes policy) \<and>
    (\<forall>i < length ns. \<forall>d \<in> set (n_depends_on (ns ! i)). \<exists>j < i. n_node_id (ns ! j) = d)"
proof -
  let ?nodes = "btree_nodes (wp_nodes policy)"
  from assms have graph: "closed_graph ?nodes" "acyclic (dependency_edges ?nodes)"
    by (auto elim: policy_validateE)
  then obtain ns where ns: "order_loop ?nodes [] = Inr ns" "set ns = set ?nodes"
    "emission ?nodes (map n_node_id ns)"
    using order_loop_complete [of ?nodes "[]"] by auto
  have "distinct ns" using ns(3) by (simp add: emission_def distinct_map)
  moreover have "distinct (wp_nodes policy)"
    using graph(1) [unfolded closed_graph_btree] by (simp add: closed_graph_def distinct_map)
  ultimately have "mset ns = mset (wp_nodes policy)"
    using ns(2) by (simp add: set_eq_iff_mset_eq_distinct)
  moreover have "\<exists>j < i. n_node_id (ns ! j) = d"
    if "i < length ns" "d \<in> set (n_depends_on (ns ! i))" for i d
  proof -
    have "ns ! i \<in> set ?nodes" using that(1) ns(2) nth_mem by blast
    with that ns(3) have "d \<in> set (take i (map n_node_id ns))"
      by (fastforce simp: emission_def respects_dependencies_def)
    then show ?thesis using that(1) by (auto simp: in_set_conv_nth)
  qed
  ultimately show ?thesis using assms ns(1) by (auto simp: ordered_nodes_def)
qed

theorem ordered_nodes_witness:
  "\<exists>ns. ordered_nodes sample_policy = Inr ns \<and> mset ns = mset (wp_nodes sample_policy) \<and>
    (\<forall>i < length ns. \<forall>d \<in> set (n_depends_on (ns ! i)). \<exists>j < i. n_node_id (ns ! j) = d)"
  by (rule ordered_nodes_correct [OF sample_policy_valid])

text \<open>
  C16: in a validated executor-mutation policy every node depends, transitively, on every node of an
  earlier stage. In particular a backup, migration, candidate, cutover, observation or rollback
  cannot become ready before every verification, the release build, the reduction and the resource
  reservation, a migration not before the backup, and a cutover not before the candidate check.
\<close>

theorem executor_policy_stages:
  assumes "policy_validate policy = Inr ()" "wp_delivery_mode policy = ExecutorMutation"
    and "m \<in> set (wp_nodes policy)" "n \<in> set (wp_nodes policy)"
    and "stage (n_kind m) < stage (n_kind n)"
  shows "(n_node_id m, n_node_id n) \<in> (dependency_edges (wp_nodes policy))\<^sup>+"
proof -
  from assms(1) have "validate_executor_mutation_graph (btree_nodes (wp_nodes policy))
      (wp_execution_profiles policy) = Inr ()"
    by (rule policy_validateE) (use assms(2) in simp)
  from executor_graph_stages [OF this, of m n] assms(3-5) show ?thesis
    by (simp add: below_def)
qed

theorem executor_policy_stages_witness:
  "(''c'', ''h'') \<in> (dependency_edges (wp_nodes sample_policy))\<^sup>+"
proof -
  let ?m = "sample_node ''c'' Verification [''b''] [PreparedRun_artifact]"
  let ?n = "sample_node ''h'' Cutover [''g''] [CandidateHealthReceipt]"
  have "?m \<in> set (wp_nodes sample_policy)" "?n \<in> set (wp_nodes sample_policy)"
    "stage (n_kind ?m) < stage (n_kind ?n)"
    by (simp_all add: sample_policy_def sample_node_def)
  from executor_policy_stages [OF sample_policy_valid sample_bounds(7) this] show ?thesis
    by (simp add: sample_node_def)
qed



end
