(* ===== verification/Document_Properties.thy ===== *)
theory Document_Properties
  imports Workflow_Documents Workflow_Graph
begin

text \<open>
  What the workflow documents guarantee: renewing a lease succeeds exactly on a later expiry and
  changes nothing else, canonical bytes and leases correspond one to one, a digest identifies its
  lease, and an operation state is valid for a single attempt and worker. The theory also fixes the
  concrete codec and lease at which these properties are instantiated.
\<close>


section \<open>Sealing and renewing a lease\<close>

lemma lease_reseal_Inr:
  assumes "lease_reseal E l = Inr l'"
  shows "lease_validate E l' = Inr ()" and "lease_body.truncate l' = lease_body.truncate l"
    and "l' = l\<lparr>ls_lease_digest := ls_lease_digest l'\<rparr>"
  using assms by (auto simp: lease_reseal_def Let_def lease_body.truncate_def)

text \<open>The digest field does not enter the digest or the checks.\<close>

lemma lease_checks_ignore_digest [simp]:
  "lease_payload_of (l\<lparr>ls_lease_digest := d\<rparr>) = lease_payload_of l"
  "lease_identity_ok (l\<lparr>ls_lease_digest := d\<rparr>) = lease_identity_ok l"
  "lease_profile_ok (l\<lparr>ls_lease_digest := d\<rparr>) = lease_profile_ok l"
  "lease_host_preparation_ok (l\<lparr>ls_lease_digest := d\<rparr>) = lease_host_preparation_ok l"
  "lease_operation_state_ok E (l\<lparr>ls_lease_digest := d\<rparr>) = lease_operation_state_ok E l"
  "lease_inputs_ok (l\<lparr>ls_lease_digest := d\<rparr>) = lease_inputs_ok l"
  by (simp_all add: lease_payload_of_def lease_identity_ok_def lease_profile_ok_def
      lease_host_preparation_ok_def lease_operation_state_ok_def lease_inputs_ok_def
      lease_profile_def lease_scope_def lease_body.truncate_def split: option.split)

lemma lease_reseal_ok:
  assumes "lease_identity_ok l" "lease_profile_ok l" "lease_host_preparation_ok l"
    and "lease_operation_state_ok E l" "lease_inputs_ok l"
    and "lease_payload_jcs E (lease_payload_of l) = Inr bytes"
  shows "lease_reseal E l = Inr (l\<lparr>ls_lease_digest := evidence_digest_sha256 (wf_sha256 E) bytes\<rparr>)"
  using assms
  by (simp add: lease_reseal_def lease_calculate_digest_def lease_validate_def seal_def)

lemma lease_renewed_Inr:
  assumes "lease_renewed E l t = Inr l'"
  shows "lease_validate E l = Inr ()" "ls_expires_at_ms l < t" "lease_validate E l' = Inr ()"
    and "l' = l\<lparr>ls_expires_at_ms := t, ls_lease_digest := ls_lease_digest l'\<rparr>"
proof -
  from assms have *: "lease_validate E l = Inr ()" "ls_expires_at_ms l < t"
    "lease_reseal E (l\<lparr>ls_expires_at_ms := t\<rparr>) = Inr l'"
    by (auto simp: lease_renewed_def split: if_splits)
  then show "lease_validate E l = Inr ()" "ls_expires_at_ms l < t" by simp_all
  from lease_reseal_Inr [OF *(3)] show "lease_validate E l' = Inr ()"
    "l' = l\<lparr>ls_expires_at_ms := t, ls_lease_digest := ls_lease_digest l'\<rparr>" by simp_all
qed

text \<open>Renewal keeps every check of a valid lease.\<close>

lemma lease_renewal_checks:
  assumes "lease_validate E l = Inr ()" "ls_expires_at_ms l < t"
  shows "lease_identity_ok (l\<lparr>ls_expires_at_ms := t\<rparr>)" "lease_profile_ok (l\<lparr>ls_expires_at_ms := t\<rparr>)"
    "lease_host_preparation_ok (l\<lparr>ls_expires_at_ms := t\<rparr>)"
    "lease_operation_state_ok E (l\<lparr>ls_expires_at_ms := t\<rparr>)"
    "lease_inputs_ok (l\<lparr>ls_expires_at_ms := t\<rparr>)"
  using assms
  by (auto simp: lease_validate_Inr lease_identity_ok_def lease_profile_ok_def
      lease_host_preparation_ok_def lease_operation_state_ok_def lease_inputs_ok_def
      lease_profile_def lease_scope_def split: option.splits)

section \<open>A concrete codec\<close>

text \<open>
  An instance of the third-party encoders at which the hypotheses hold: encoded bytes are the
  documents themselves, and the hash of a payload is a few of its fields.
\<close>

datatype wf_text =
    T_state_key state_key_payload | T_lease_payload lease_payload | T_lease lease
  | T_node_receipt_payload node_receipt_payload | T_node_receipt node_receipt
  | T_cleanup_receipt_payload cleanup_receipt_payload | T_cleanup_receipt cleanup_receipt
  | T_reduction_payload reduction_payload | T_reduction reduction_receipt

fun sample_sha256 :: "wf_text \<Rightarrow> string" where
  "sample_sha256 (T_state_key p) = [CHR ''k'', char_of (sc_attempt_id (sk_scope p))]"
| "sample_sha256 (T_lease_payload p) = [CHR ''l'', char_of (ls_lease_id (lp_body p)),
     char_of (ls_lease_generation (lp_body p)), char_of (nat (ls_expires_at_ms (lp_body p)))]"
| "sample_sha256 (T_node_receipt_payload p) = [CHR ''n'', char_of (nr_lease_id (np_body p)),
     char_of (nat (nr_completed_at_ms (np_body p)))]"
| "sample_sha256 (T_cleanup_receipt_payload p) = [CHR ''c'', char_of (cr_lease_id (cp_body p))]"
| "sample_sha256 (T_reduction_payload p) = [CHR ''r'', char_of (rd_attempt_id (rp_body p))]"
| "sample_sha256 _ = []"

definition sample_codec :: "wf_text wf_codec" where
  "sample_codec = \<lparr>
     wf_sha256 = sample_sha256,
     state_key_jcs = (\<lambda>p. Inr (T_state_key p)),
     lease_payload_jcs = (\<lambda>p. Inr (T_lease_payload p)),
     lease_jcs = (\<lambda>l. Inr (T_lease l)),
     lease_json = (\<lambda>t. case t of T_lease l \<Rightarrow> Inr l | _ \<Rightarrow> Inl Serde_error),
     node_receipt_payload_jcs = (\<lambda>p. Inr (T_node_receipt_payload p)),
     node_receipt_jcs = (\<lambda>r. Inr (T_node_receipt r)),
     node_receipt_json = (\<lambda>t. case t of T_node_receipt r \<Rightarrow> Inr r | _ \<Rightarrow> Inl Serde_error),
     cleanup_receipt_payload_jcs = (\<lambda>p. Inr (T_cleanup_receipt_payload p)),
     cleanup_receipt_jcs = (\<lambda>r. Inr (T_cleanup_receipt r)),
     cleanup_receipt_json = (\<lambda>t. case t of T_cleanup_receipt r \<Rightarrow> Inr r | _ \<Rightarrow> Inl Serde_error),
     reduction_payload_jcs = (\<lambda>p. Inr (T_reduction_payload p)),
     reduction_jcs = (\<lambda>r. Inr (T_reduction r)),
     reduction_json = (\<lambda>t. case t of T_reduction r \<Rightarrow> Inr r | _ \<Rightarrow> Inl Serde_error) \<rparr>"

lemma sample_codec_reads_back: "reads_back (lease_json sample_codec) (lease_jcs sample_codec)"
  by (auto simp: reads_back_def sample_codec_def)

definition sample_lease :: lease where
  "sample_lease = \<lparr>
     ls_schema_version = 1, ls_lease_id = 7, ls_lease_generation = 1, ls_request_id = 2,
     ls_attempt_id = 3, ls_project_id = ''p'', ls_source_sha = ''s'',
     ls_source_identity = Some \<lparr> si_sequence = 5, si_attestation_digest = ''a'' \<rparr>,
     ls_workflow_policy_digest = ''w'', ls_preparation_key = ''k'', ls_node_id = ''c'',
     ls_node_kind = Verification, ls_profile_id = ''c'', ls_adapter_id = WorkerBareBinCiV1,
     ls_worker_pool = BuildCompute, ls_network_class = Offline, ls_cache_class = PreparedRun,
     ls_timeout_ms = 600000, ls_resources = p_resources
       (sample_profile ''c'' WorkerBareBinCiV1 BuildCompute Offline PreparedRun),
     ls_host_preparation = None, ls_operation_state = None,
     ls_input_contracts = [PreparedRun_artifact],
     ls_input_artifacts = [\<lparr> li_node_id = ''b'', li_artifact_kind = PreparedRun_artifact,
       li_output_digest = ''o'' \<rparr>],
     ls_output_contract = VerificationReceipt, ls_expected_input_digest = ''x'',
     ls_worker_id = ''w1'', ls_host_id = ''h1'', ls_leased_at_ms = 10, ls_expires_at_ms = 20,
     ls_lease_digest = hex_encode [CHR ''l'', char_of (7::nat), char_of (1::nat), char_of (20::nat)] \<rparr>"

lemma sample_lease_valid: "lease_validate sample_codec sample_lease = Inr ()"
  by (simp add: lease_validate_Inr sample_lease_def lease_identity_ok_def lease_profile_ok_def
      lease_host_preparation_ok_def lease_operation_state_ok_def lease_inputs_ok_def lease_profile_def
      schema_versions is_nil_def valid_workflow_identity_def valid_workflow_token_def max_identity_bytes_def
      first_is_def last_is_def byte_classes source_identity_validate_def is_controller_managed_def
      execution_profile_validate_def sample_profile_def in_range_def resource_envelope_validate_def
      min_memory_bytes_def max_memory_bytes_def max_scratch_bytes_def max_output_bytes_def
      strictly_sorted_unique_def seal_def sample_codec_def evidence_digest_sha256_def
      lease_payload_of_def lease_body.truncate_def)


section \<open>Properties\<close>

text \<open>
  C23: renewing a valid lease to a later expiry succeeds whenever its payload can be encoded; the
  renewed lease is valid, ends at the new expiry, and is the same execution as the old one.
\<close>

theorem lease_renewal_correct:
  assumes "lease_validate E l = Inr ()" "ls_expires_at_ms l < t"
    and "lease_payload_jcs E (lease_payload_of (l\<lparr>ls_expires_at_ms := t\<rparr>)) = Inr bytes"
  shows "\<exists>l'. lease_renewed E l t = Inr l' \<and> lease_validate E l' = Inr () \<and>
    ls_expires_at_ms l' = t \<and> lease_same_execution_as E l l' = Inr True"
proof -
  from lease_reseal_ok [OF lease_renewal_checks [OF assms(1,2)] assms(3)]
  obtain l' where "lease_renewed E l t = Inr l'"
    using assms(1,2) by (auto simp: lease_renewed_def)
  moreover from lease_renewed_Inr [OF this] have "lease_validate E l' = Inr ()"
    and l': "l' = l\<lparr>ls_expires_at_ms := t, ls_lease_digest := ls_lease_digest l'\<rparr>" by simp_all
  moreover have expiry: "ls_expires_at_ms l' = t" using arg_cong [OF l', of ls_expires_at_ms] by simp
  moreover have "l\<lparr>ls_expires_at_ms := ls_expires_at_ms l', ls_lease_digest := ls_lease_digest l'\<rparr> = l'"
    unfolding expiry by (rule l' [symmetric])
  ultimately show ?thesis
    using assms(1) by (intro exI [of _ l']) (simp add: lease_same_execution_as_def)
qed

theorem lease_renewal_witness:
  "\<exists>l'. lease_renewed sample_codec sample_lease 30 = Inr l' \<and>
     lease_validate sample_codec l' = Inr () \<and> ls_expires_at_ms l' = 30 \<and>
     lease_same_execution_as sample_codec sample_lease l' = Inr True"
proof (rule lease_renewal_correct [OF sample_lease_valid])
  show "ls_expires_at_ms sample_lease < 30" by (simp add: sample_lease_def)
  show "lease_payload_jcs sample_codec (lease_payload_of (sample_lease\<lparr>ls_expires_at_ms := 30\<rparr>)) =
      Inr (T_lease_payload (lease_payload_of (sample_lease\<lparr>ls_expires_at_ms := 30\<rparr>)))"
    by (simp add: sample_codec_def)
qed

text \<open>
  C24: where the parser reads back what the canonical encoder writes, a lease encodes to some bytes
  exactly when these bytes decode to that lease; both directions validate the lease.
\<close>

theorem lease_encoding_round_trip:
  assumes "reads_back (lease_json E) (lease_jcs E)"
  shows "lease_canonical_bytes E l = Inr bytes \<longleftrightarrow> lease_decode_canonical E bytes = Inr l"
  by (rule iffI) (erule leases.decode_encoded [OF assms], erule leases.encode_decoded)

theorem lease_encoding_round_trip_witness:
  "lease_decode_canonical sample_codec (T_lease sample_lease) = Inr sample_lease"
proof -
  have "lease_canonical_bytes sample_codec sample_lease = Inr (T_lease sample_lease)"
    by (simp add: leases.encodes sample_lease_valid) (simp add: sample_codec_def)
  then show ?thesis unfolding lease_encoding_round_trip [OF sample_codec_reads_back] .
qed

text \<open>
  C25: two valid leases with the same digest are the same lease, unless the encoder maps different
  payloads to the same bytes or the hash collides on their two encodings.
\<close>

theorem lease_digest_identifies:
  assumes "lease_validate E l = Inr ()" "lease_validate E l' = Inr ()"
    and "ls_lease_digest l = ls_lease_digest l'"
    and "jcs_injective (lease_payload_jcs E)"
    and "no_collision (lease_payload_jcs E) (wf_sha256 E) (lease_payload_of l) (lease_payload_of l')"
  shows "l = l'"
  using assms by (rule leases.same_digest_same_document)

theorem lease_digest_identifies_witness:
  "sample_lease\<lparr>ls_source_sha := ''s'', ls_expires_at_ms := 20\<rparr> = sample_lease"
proof -
  let ?l = "sample_lease\<lparr>ls_source_sha := ''s'', ls_expires_at_ms := 20\<rparr>"
  have same: "?l = sample_lease" by (simp add: sample_lease_def)
  have valid: "lease_validate sample_codec ?l = Inr ()" unfolding same by (rule sample_lease_valid)
  have digest: "ls_lease_digest ?l = ls_lease_digest sample_lease" by simp
  have "jcs_injective (lease_payload_jcs sample_codec)"
    "no_collision (lease_payload_jcs sample_codec) (wf_sha256 sample_codec)
      (lease_payload_of ?l) (lease_payload_of sample_lease)"
    unfolding same by (auto simp: jcs_injective_def no_collision_def sample_codec_def)
  then show ?thesis by (rule lease_digest_identifies [OF valid sample_lease_valid digest])
qed

text \<open>
  C26: an operation state is valid for one scope only: the attempt, source, policy, preparation key,
  worker and host it was created for, unless the encoder or the hash collides on the two scopes.
\<close>

theorem operation_state_bound_to_scope:
  assumes "state_validate_for E state scope = Inr ()" "state_validate_for E state scope' = Inr ()"
    and "jcs_injective (state_key_jcs E)"
    and "no_collision (state_key_jcs E) (wf_sha256 E)
      (state_key_payload_of state scope) (state_key_payload_of state scope')"
  shows "scope = scope'"
proof -
  have "seal (state_key_jcs E) (wf_sha256 E) (state_key_payload_of state s) = Inr (ws_state_key state)"
    if "state_validate_for E state s = Inr ()" for s
    using that by (auto simp: state_validate_for_def state_calculate_key_def split: if_splits)
  from seal_injective [OF this [OF assms(1)] this [OF assms(2)] assms(3,4)] show ?thesis
    by (simp add: state_key_payload_of_def)
qed

text \<open>A state created for the scope of the sample lease.\<close>

definition sample_state :: wf_operation_state where
  "sample_state = \<lparr> ws_schema_version = 1, ws_state_key = hex_encode [CHR ''k'', char_of (3::nat)],
     ws_consumer_nodes = [''c''], ws_max_bytes = 1048576, ws_max_inodes = 1024 \<rparr>"

lemma sample_state_valid: "state_validate_for sample_codec sample_state (lease_scope sample_lease) = Inr ()"
  by (simp add: state_validate_for_def sample_state_def sample_lease_def lease_scope_def schema_versions
      is_nil_def valid_workflow_identity_def valid_workflow_token_def max_identity_bytes_def first_is_def
      last_is_def byte_classes max_workflow_nodes_def strictly_sorted_unique_def in_range_def
      max_operation_state_bytes_def max_operation_state_inodes_def state_calculate_key_def seal_def
      sample_codec_def evidence_digest_sha256_def state_key_payload_of_def)

theorem operation_state_bound_to_scope_witness:
  "lease_scope (sample_lease\<lparr>ls_node_id := ''d''\<rparr>) = lease_scope sample_lease"
proof -
  let ?s = "lease_scope (sample_lease\<lparr>ls_node_id := ''d''\<rparr>)"
  have same: "?s = lease_scope sample_lease" by (simp add: lease_scope_def)
  have valid: "state_validate_for sample_codec sample_state ?s = Inr ()"
    unfolding same by (rule sample_state_valid)
  have "jcs_injective (state_key_jcs sample_codec)"
    "no_collision (state_key_jcs sample_codec) (wf_sha256 sample_codec)
      (state_key_payload_of sample_state ?s) (state_key_payload_of sample_state (lease_scope sample_lease))"
    unfolding same by (auto simp: jcs_injective_def no_collision_def sample_codec_def)
  then show ?thesis by (rule operation_state_bound_to_scope [OF valid sample_state_valid])
qed

end
