(* ===== verification/Project_Manifest.thy ===== *)
theory Project_Manifest
  imports Document_Properties
begin

text \<open>
  The project manifest of \<open>src/domain/manifest.rs\<close>: the policy documents of a project, their
  validation (version 1 and version 2), the digest of a version 2 manifest that identifies the
  workflow policy of a request, and its canonical encoding. URLs are validated by their own types when
  a manifest is parsed, with the third-party URL parser, and are plain strings here.
\<close>

section \<open>Policy paths\<close>

text \<open>\<open>std::path::Path::components\<close> on a Unix path, and the path they rebuild.\<close>

datatype path_component = RootDir | CurDir | ParentDir | Normal string

definition component_of :: "string \<Rightarrow> path_component" where
  "component_of c = (if c = ''..'' then ParentDir else Normal c)"

definition path_components :: "string \<Rightarrow> path_component list" where
  "path_components value =
     (let parts = split_on CHR ''/'' value;
          normal = map component_of (filter (\<lambda>c. c \<noteq> [] \<and> c \<noteq> ''.'') parts)
      in (if value \<noteq> [] \<and> hd value = CHR ''/'' then RootDir # normal
          else if parts \<noteq> [] \<and> hd parts = ''.'' then CurDir # normal
          else normal))"

fun component_text :: "path_component \<Rightarrow> string" where
  "component_text RootDir = []"
| "component_text CurDir = ''.''"
| "component_text ParentDir = ''..''"
| "component_text (Normal c) = c"

fun join_components :: "path_component list \<Rightarrow> string" where
  "join_components [] = []"
| "join_components [RootDir] = ''/''"
| "join_components [c] = component_text c"
| "join_components (c # cs) = component_text c @ ''/'' @ join_components cs"

definition file_name :: "string \<Rightarrow> string option" where
  "file_name value =
     (case rev (path_components value) of Normal c # _ \<Rightarrow> Some c | _ \<Rightarrow> None)"

datatype manifest_error =
    Manifest_UnsupportedSchemaVersion nat
  | Manifest_InvalidDisplayName
  | UnsupportedBranch
  | InvalidRemoteUrl
  | MissingHealthCheck
  | InvalidHealthCheckName
  | DuplicateHealthCheck string
  | InvalidHealthEndpoint
  | InvalidExpectedStatus
  | InvalidHealthTimeout
  | InvalidAbsolutePath
  | InvalidRelativePath
  | DuplicateDataPath string
  | UnsafeDataPath string
  | InvalidDockerfilePath
  | BuildWorkflowMismatch
  | SelfUpdateWorkflowMismatch
  | InvalidSoakDuration
  | WorkflowBackupMismatch
  | WorkflowMigrationMismatch
  | NoncanonicalManifest
  | WorkflowInvalid
  | InvalidManifestJson
  | Manifest_CanonicalEncoding

definition policy_path_valid :: "bool \<Rightarrow> string \<Rightarrow> bool" where
  "policy_path_valid absolute value \<longleftrightarrow>
     (value \<noteq> [] \<and> hd value = CHR ''/'') = absolute \<and>
     value \<noteq> [] \<and> length value \<le> 512 \<and> CHR 0x00 \<notin> set value \<and>
     join_components (path_components value) = value \<and>
     list_all (\<lambda>c. case c of RootDir \<Rightarrow> True | Normal _ \<Rightarrow> True | _ \<Rightarrow> False) (path_components value)"

definition absolute_policy_path_from_str :: "string \<Rightarrow> manifest_error + string" where
  "absolute_policy_path_from_str value =
     (if policy_path_valid True value then Inr value else Inl InvalidAbsolutePath)"

definition relative_policy_path_from_str :: "string \<Rightarrow> manifest_error + string" where
  "relative_policy_path_from_str value =
     (if policy_path_valid False value then Inr value else Inl InvalidRelativePath)"

interpretation absolute_policy_paths:
  parsed_text "policy_path_valid True" absolute_policy_path_from_str
  by unfold_locales (simp_all add: absolute_policy_path_from_str_def)

interpretation relative_policy_paths:
  parsed_text "policy_path_valid False" relative_policy_path_from_str
  by unfold_locales (simp_all add: relative_policy_path_from_str_def)


section \<open>The policies of a manifest\<close>

datatype canonical_branch = Main_branch

datatype ci_policy = BinCi

datatype build_kind = Oci | Native

datatype build_context = RepositoryRoot

datatype data_class = Stateful | Derived | Ephemeral

datatype migration_entrypoint = Migration_None | ApplicationMigrate

datatype write_fence_policy = Unsupported | ApplicationProtocolV1

datatype notification_route = TelegramDefault

record source_policy =
  sp_remote_url :: string
  sp_branch :: canonical_branch

record verified_oci_output_policy =
  vo_context_name :: string
  vo_directory :: string
  vo_max_bytes :: nat
  vo_max_files :: nat

record build_policy =
  bp_context :: build_context
  bp_kind :: build_kind
  bp_dockerfile :: "string option"
  bp_verified_output :: "verified_oci_output_policy option"

record health_check_policy =
  hc_name :: string
  hc_endpoint :: string
  hc_expected_status :: nat
  hc_timeout_seconds :: nat

record data_volume_policy =
  dv_path :: string
  dv_class :: data_class
  dv_backup_required :: bool

record migration_policy =
  mp_entrypoint :: migration_entrypoint
  mp_write_fence :: write_fence_policy

record rollback_policy =
  rb_code_rollback :: bool
  rb_soak_seconds :: nat

record notification_policy =
  np_route :: notification_route
  np_maintenance_suppression :: bool

record project_manifest_v1 =
  m1_schema_version :: nat
  m1_project_id :: project_id
  m1_display_name :: string
  m1_source :: source_policy
  m1_ci :: ci_policy
  m1_build :: build_policy
  m1_health_checks :: "health_check_policy list"
  m1_data_volumes :: "data_volume_policy list"
  m1_migration :: migration_policy
  m1_rollback :: rollback_policy
  m1_notifications :: notification_policy

record project_manifest =
  pm_schema_version :: nat
  pm_project_id :: project_id
  pm_display_name :: string
  pm_source :: source_policy
  pm_ci :: ci_policy
  pm_build :: build_policy
  pm_workflow :: workflow_policy
  pm_host_preparation :: "host_preparation_policy option"
  pm_health_checks :: "health_check_policy list"
  pm_data_volumes :: "data_volume_policy list"
  pm_migration :: migration_policy
  pm_rollback :: rollback_policy
  pm_notifications :: notification_policy

datatype manifest_digest_payload =
  Manifest_digest_payload (mdp_purpose: string) (mdp_manifest: project_manifest)

record 'j manifest_codec = "'j wf_codec" +
  manifest_payload_jcs :: "manifest_digest_payload \<Rightarrow> serde_error + 'j"
  manifest_jcs :: "project_manifest \<Rightarrow> serde_error + 'j"
  manifest_json :: "'j \<Rightarrow> serde_error + project_manifest"


section \<open>Validation\<close>

definition source_policy_validate :: "source_policy \<Rightarrow> manifest_error + unit" where
  "source_policy_validate s = (if sp_branch s \<noteq> Main_branch then Inl UnsupportedBranch else Inr ())"

definition valid_build_context_name :: "string \<Rightarrow> bool" where
  "valid_build_context_name value \<longleftrightarrow>
     1 \<le> length value \<and> length value \<le> 64 \<and>
     value \<notin> {''context'', ''dockerfile''} \<and>
     first_is is_ascii_lowercase value \<and>
     last_is is_ascii_alphanumeric value \<and>
     list_all (\<lambda>b. is_ascii_lowercase b \<or> is_ascii_digit b \<or> b = CHR ''-'') value"

definition verified_oci_output_validate :: "verified_oci_output_policy \<Rightarrow> bool" where
  "verified_oci_output_validate v \<longleftrightarrow>
     valid_build_context_name (vo_context_name v) \<and>
     in_range 1024 (512 * 1024 * 1024) (vo_max_bytes v) \<and> in_range 1 1024 (vo_max_files v)"

definition dockerfile_name_ok :: "string \<Rightarrow> bool" where
  "dockerfile_name_ok name \<longleftrightarrow>
     name = ''Dockerfile'' \<or>
     (case strip_prefix ''Dockerfile.'' name of
        None \<Rightarrow> False
      | Some variant \<Rightarrow> variant \<noteq> [] \<and>
          list_all (\<lambda>b. is_ascii_alphanumeric b \<or> b = CHR ''-'' \<or> b = CHR ''_'') variant)"

definition build_policy_validate :: "build_policy \<Rightarrow> manifest_error + unit" where
  "build_policy_validate b =
     (let valid = (case (bp_kind b, bp_dockerfile b, bp_verified_output b) of
            (Oci, Some dockerfile, verified_output) \<Rightarrow>
              (case file_name dockerfile of None \<Rightarrow> False | Some name \<Rightarrow> dockerfile_name_ok name) \<and>
              (case verified_output of None \<Rightarrow> True | Some v \<Rightarrow> verified_oci_output_validate v)
          | (Native, None, None) \<Rightarrow> True
          | _ \<Rightarrow> False)
      in if \<not> valid then Inl InvalidDockerfilePath else Inr ())"

definition health_check_validate :: "health_check_policy \<Rightarrow> manifest_error + unit" where
  "health_check_validate h =
     (let name = trim (hc_name h) in
      if name = [] \<or> length name > 64 then Inl InvalidHealthCheckName
      else if \<not> in_range 100 599 (hc_expected_status h) then Inl InvalidExpectedStatus
      else if \<not> in_range 1 120 (hc_timeout_seconds h) then Inl InvalidHealthTimeout
      else Inr ())"

text \<open>The two loops that collect names and paths into a \<open>HashSet\<close>.\<close>

definition insert_health_name :: "health_check_policy \<Rightarrow> string list \<Rightarrow> manifest_error + string list" where
  "insert_health_name check names =
     bind_res (health_check_validate check) (\<lambda>_.
       if hc_name check \<in> set names then Inl (DuplicateHealthCheck (hc_name check))
       else Inr (hc_name check # names))"

definition insert_volume_path :: "data_volume_policy \<Rightarrow> string list \<Rightarrow> manifest_error + string list" where
  "insert_volume_path volume paths =
     (if dv_path volume = ''/'' then Inl (UnsafeDataPath (dv_path volume))
      else if dv_path volume \<in> set paths then Inl (DuplicateDataPath (dv_path volume))
      else Inr (dv_path volume # paths))"

definition validate_common_manifest ::
  "string \<Rightarrow> source_policy \<Rightarrow> build_policy \<Rightarrow> health_check_policy list \<Rightarrow> data_volume_policy list \<Rightarrow>
   rollback_policy \<Rightarrow> manifest_error + unit" where
  "validate_common_manifest display_name source build health_checks data_volumes rollback =
     (let display_name = trim display_name in
      if display_name = [] \<or> length display_name > 96 then Inl Manifest_InvalidDisplayName
      else
        bind_res (source_policy_validate source) (\<lambda>_.
        bind_res (build_policy_validate build) (\<lambda>_.
        if health_checks = [] then Inl MissingHealthCheck
        else
          bind_res (fold_res insert_health_name health_checks []) (\<lambda>_.
          bind_res (fold_res insert_volume_path data_volumes []) (\<lambda>_.
          if \<not> in_range 10 86400 (rb_soak_seconds rollback) then Inl InvalidSoakDuration
          else Inr ())))))"

definition project_manifest_schema_version :: nat where "project_manifest_schema_version = 1"
definition project_manifest_v2_schema_version :: nat where "project_manifest_v2_schema_version = 2"

definition manifest_v1_validate :: "project_manifest_v1 \<Rightarrow> manifest_error + unit" where
  "manifest_v1_validate m =
     (if m1_schema_version m \<noteq> project_manifest_schema_version
        then Inl (Manifest_UnsupportedSchemaVersion (m1_schema_version m))
      else
        bind_res (validate_common_manifest (m1_display_name m) (m1_source m) (m1_build m)
            (m1_health_checks m) (m1_data_volumes m) (m1_rollback m)) (\<lambda>_.
        if bp_kind (m1_build m) \<noteq> Oci then Inl BuildWorkflowMismatch else Inr ()))"

definition first_of_kind :: "project_manifest \<Rightarrow> node_kind \<Rightarrow> workflow_node option" where
  "first_of_kind m kind = find (\<lambda>n. n_kind n = kind) (wp_nodes (pm_workflow m))"

definition profile_of_first ::
  "project_manifest \<Rightarrow> node_kind \<Rightarrow> execution_profile option" where
  "profile_of_first m kind =
     (case first_of_kind m kind of None \<Rightarrow> None
      | Some n \<Rightarrow> policy_profile (pm_workflow m) (n_profile_id n))"

definition has_kind :: "project_manifest \<Rightarrow> node_kind \<Rightarrow> bool" where
  "has_kind m kind \<longleftrightarrow> list_ex (\<lambda>n. n_kind n = kind) (wp_nodes (pm_workflow m))"

definition consumes_verified_oci_output :: "project_manifest \<Rightarrow> manifest_error + bool" where
  "consumes_verified_oci_output m =
     bind_res (ok_or (first_of_kind m ReleaseBuild) BuildWorkflowMismatch) (\<lambda>release.
     bind_res (ok_or (first_of_kind m Verification) BuildWorkflowMismatch) (\<lambda>verification.
     Inr (n_node_id verification \<in> set (n_depends_on release) \<and>
          VerificationReceipt \<in> set (n_input_contracts release))))"

definition self_update_contract_ok :: "project_manifest \<Rightarrow> bool" where
  "self_update_contract_ok m \<longleftrightarrow>
     pm_project_id m = ''rdashboard'' \<and> bp_kind (pm_build m) = Native \<and>
     pm_data_volumes m = [] \<and> mp_entrypoint (pm_migration m) = Migration_None \<and>
     mp_write_fence (pm_migration m) = Unsupported \<and> rb_code_rollback (pm_rollback m)"

definition manifest_validate :: "project_manifest \<Rightarrow> manifest_error + unit" where
  "manifest_validate m =
     (if pm_schema_version m \<noteq> project_manifest_v2_schema_version
        then Inl (Manifest_UnsupportedSchemaVersion (pm_schema_version m))
      else
        bind_res (validate_common_manifest (pm_display_name m) (pm_source m) (pm_build m)
            (pm_health_checks m) (pm_data_volumes m) (pm_rollback m)) (\<lambda>_.
        bind_res (map_err (\<lambda>_. WorkflowInvalid) (policy_validate (pm_workflow m))) (\<lambda>_.
        if wp_delivery_mode (pm_workflow m) = SelfUpdateHandoff \<and> \<not> self_update_contract_ok m
          then Inl SelfUpdateWorkflowMismatch
        else
          bind_res (ok_or (map_option p_adapter_id (profile_of_first m ReleaseBuild))
              BuildWorkflowMismatch) (\<lambda>release_adapter.
          if \<not> ((bp_kind (pm_build m), release_adapter) = (Oci, WorkerOciReleaseBuildV1) \<or>
                (bp_kind (pm_build m), release_adapter) = (Native, WorkerNativeReleaseBuildV1))
            then Inl BuildWorkflowMismatch
          else
            bind_res (if bp_kind (pm_build m) = Oci
                then bind_res (consumes_verified_oci_output m) (\<lambda>consumes.
                  ensure ((bp_verified_output (pm_build m) \<noteq> None) = consumes) BuildWorkflowMismatch)
                else Inr ()) (\<lambda>_.
            bind_res (case pm_host_preparation m of
                None \<Rightarrow> Inr ()
              | Some policy \<Rightarrow>
                  ensure (is_ok (host_preparation_validate policy) \<and>
                    (case profile_of_first m HostPrepare of
                       None \<Rightarrow> False
                     | Some profile \<Rightarrow>
                         p_network_class profile = required_network_class (hp_adapter_id policy)))
                    WorkflowInvalid) (\<lambda>_.
            if has_kind m Backup \<noteq> list_ex dv_backup_required (pm_data_volumes m)
              then Inl WorkflowBackupMismatch
            else if has_kind m Migration \<noteq> (mp_entrypoint (pm_migration m) \<noteq> Migration_None)
              then Inl WorkflowMigrationMismatch
            else Inr ()))))))"

definition workflow_policy_digest ::
  "('j, 'x) manifest_codec_scheme \<Rightarrow> project_manifest \<Rightarrow> manifest_error + evidence_digest" where
  "workflow_policy_digest E m =
     bind_res (manifest_validate m) (\<lambda>_.
       map_err (\<lambda>_. Manifest_CanonicalEncoding)
         (seal (manifest_payload_jcs E) (wf_sha256 E)
           (Manifest_digest_payload ''rdashboard.project-workflow-policy.v2'' m)))"

definition manifest_canonical_bytes ::
  "('j, 'x) manifest_codec_scheme \<Rightarrow> project_manifest \<Rightarrow> manifest_error + 'j" where
  "manifest_canonical_bytes E m =
     bind_res (manifest_validate m) (\<lambda>_. map_err (\<lambda>_. Manifest_CanonicalEncoding) (manifest_jcs E m))"

definition manifest_decode_canonical ::
  "('j, 'x) manifest_codec_scheme \<Rightarrow> 'j \<Rightarrow> manifest_error + project_manifest" where
  "manifest_decode_canonical E bytes =
     bind_res (map_err (\<lambda>_. InvalidManifestJson) (manifest_json E bytes)) (\<lambda>m.
     bind_res (map_err (\<lambda>_. Manifest_CanonicalEncoding) (manifest_jcs E m)) (\<lambda>encoded.
     if encoded \<noteq> bytes then Inl NoncanonicalManifest
     else bind_res (manifest_validate m) (\<lambda>_. Inr m)))"


section \<open>Accepted paths\<close>

lemma split_on_not_Nil [simp]: "split_on c s \<noteq> []"
  by (induction s) (auto split: list.split)

lemma split_on_Nil_seg: "hd (split_on c (x # s)) = [] \<longleftrightarrow> x = c"
  by (auto split: list.split)

text \<open>Splitting at the separator and joining with it.\<close>

fun join_segments :: "string list \<Rightarrow> string" where
  "join_segments [] = []"
| "join_segments [s] = s"
| "join_segments (s # t # ss) = s @ ''/'' @ join_segments (t # ss)"

lemma join_segments_Cons: "ss \<noteq> [] \<Longrightarrow> join_segments (s # ss) = s @ ''/'' @ join_segments ss"
  by (cases ss) auto

lemma join_split_on: "join_segments (split_on CHR ''/'' s) = s"
proof (induction s)
  case (Cons x s)
  obtain y ys where ys: "split_on CHR ''/'' s = y # ys"
    by (cases "split_on CHR ''/'' s") auto
  with Cons.IH show ?case by (cases ys) (auto simp: join_segments_Cons)
qed simp

lemma split_on_no_sep: "seg \<in> set (split_on c s) \<Longrightarrow> c \<notin> set seg"
proof (induction s arbitrary: seg)
  case (Cons x s)
  obtain y ys where ys: "split_on c s = y # ys" by (cases "split_on c s") auto
  with Cons.prems Cons.IH [of y] Cons.IH [of seg] show ?case by (auto split: if_splits)
qed simp

lemma split_on_no_sep_single: "c \<notin> set seg \<Longrightarrow> split_on c seg = [seg]"
  by (induction seg) auto

lemma split_on_append: "c \<notin> set seg \<Longrightarrow> split_on c (seg @ c # s) = seg # split_on c s"
  by (induction seg) auto

lemma split_join_segments:
  assumes "ss \<noteq> []" "\<And>s. s \<in> set ss \<Longrightarrow> CHR ''/'' \<notin> set s"
  shows "split_on CHR ''/'' (join_segments ss) = ss"
  using assms
proof (induction ss rule: join_segments.induct)
  case (3 s t ss)
  then have "split_on CHR ''/'' (join_segments (t # ss)) = t # ss" by simp
  moreover have "CHR ''/'' \<notin> set s" using 3 by simp
  ultimately show ?case by (simp add: split_on_append)
qed (simp_all add: split_on_no_sep_single)

text \<open>The path rebuilt from plain segments.\<close>

lemma join_components_normal:
  "join_components (map component_of ss) = join_segments ss"
  by (induction ss rule: join_segments.induct) (auto simp: component_of_def)

lemma join_components_root:
  "ss \<noteq> [] \<Longrightarrow> join_components (RootDir # map component_of ss) = CHR ''/'' # join_segments ss"
  using join_components_normal [of ss] by (cases ss) auto

definition plain_segment :: "string \<Rightarrow> bool" where
  "plain_segment s \<longleftrightarrow> s \<noteq> [] \<and> s \<noteq> ''.'' \<and> s \<noteq> ''..''"

lemma normal_segments_plain:
  "list_all (\<lambda>c. case c of RootDir \<Rightarrow> True | Normal _ \<Rightarrow> True | _ \<Rightarrow> False) (map component_of ss) \<longleftrightarrow>
     ''..'' \<notin> set ss"
  by (induction ss) (auto simp: component_of_def)

lemma filtered_segments_rebuild:
  "join_segments (filter f (split_on CHR ''/'' v)) = v \<longleftrightarrow>
     (\<forall>s\<in>set (split_on CHR ''/'' v). f s) \<or> v = [] \<and> \<not> f []"
proof
  let ?parts = "split_on CHR ''/'' v"
  assume rebuilt: "join_segments (filter f ?parts) = v"
  show "(\<forall>s\<in>set ?parts. f s) \<or> v = [] \<and> \<not> f []"
  proof (cases "filter f ?parts = []")
    case True
    with rebuilt have "v = []" by simp
    with True show ?thesis by (auto split: if_splits)
  next
    case False
    then have "split_on CHR ''/'' (join_segments (filter f ?parts)) = filter f ?parts"
      by (rule split_join_segments) (use split_on_no_sep in auto)
    with rebuilt have "filter f ?parts = ?parts" by simp
    then show ?thesis by (simp add: filter_id_conv)
  qed
qed (auto simp: filter_id_conv [THEN iffD2] join_split_on)

lemma relative_path_plain:
  "policy_path_valid False v \<longleftrightarrow>
     length v \<le> 512 \<and> CHR 0x00 \<notin> set v \<and> list_all plain_segment (split_on CHR ''/'' v)"
proof (cases "v = [] \<or> hd v = CHR ''/''")
  case True
  then have "\<not> list_all plain_segment (split_on CHR ''/'' v)"
    by (cases v) (auto simp: plain_segment_def)
  with True show ?thesis by (auto simp: policy_path_valid_def)
next
  case False
  let ?parts = "split_on CHR ''/'' v"
  let ?normal = "filter (\<lambda>c. c \<noteq> [] \<and> c \<noteq> ''.'') ?parts"
  show ?thesis
  proof (cases "hd ?parts = ''.''")
    case True
    then have "''.'' \<in> set ?parts" by (metis hd_in_set split_on_not_Nil)
    then have "\<not> list_all plain_segment ?parts"
      by (auto simp: plain_segment_def list_all_iff)
    moreover have "CurDir \<in> set (path_components v)"
      using True False by (simp add: path_components_def Let_def)
    then have "\<not> policy_path_valid False v"
      by (auto simp: policy_path_valid_def list_all_iff dest!: bspec [of _ _ CurDir])
    ultimately show ?thesis by blast
  next
    case no_cur: False
    with False have comps: "path_components v = map component_of ?normal"
      by (simp add: path_components_def Let_def)
    have "join_components (path_components v) = v \<longleftrightarrow> (\<forall>s\<in>set ?parts. s \<noteq> [] \<and> s \<noteq> ''.'')"
      unfolding comps join_components_normal filtered_segments_rebuild using False by simp
    moreover have "list_all (\<lambda>c. case c of RootDir \<Rightarrow> True | Normal _ \<Rightarrow> True | _ \<Rightarrow> False)
        (path_components v) \<longleftrightarrow> ''..'' \<notin> set ?parts"
      unfolding comps normal_segments_plain by simp
    ultimately show ?thesis
      using False unfolding policy_path_valid_def
      by (auto simp: plain_segment_def list_all_iff)
  qed
qed

lemma absolute_path_plain:
  "policy_path_valid True v \<longleftrightarrow>
     length v \<le> 512 \<and> CHR 0x00 \<notin> set v \<and>
     (v = ''/'' \<or> (\<exists>rest. v = CHR ''/'' # rest \<and> list_all plain_segment (split_on CHR ''/'' rest)))"
proof (cases "v = [] \<or> hd v \<noteq> CHR ''/''")
  case True
  then show ?thesis by (auto simp: policy_path_valid_def)
next
  case False
  then obtain rest where v: "v = CHR ''/'' # rest" by (cases v) auto
  let ?parts = "split_on CHR ''/'' rest"
  let ?normal = "filter (\<lambda>c. c \<noteq> [] \<and> c \<noteq> ''.'') ?parts"
  have comps: "path_components v = RootDir # map component_of ?normal"
    by (simp add: path_components_def Let_def v)
  have "join_components (path_components v) = v \<longleftrightarrow>
      (\<forall>s\<in>set ?parts. s \<noteq> [] \<and> s \<noteq> ''.'') \<or> rest = []"
  proof (cases "?normal = []")
    case True
    then have "\<not> (\<forall>s\<in>set ?parts. s \<noteq> [] \<and> s \<noteq> ''.'')"
      using split_on_not_Nil [of "CHR ''/''" rest] by (cases ?parts) (auto split: if_splits)
    with True show ?thesis unfolding comps by (auto simp: v)
  next
    case False
    show ?thesis
      unfolding comps join_components_root [OF False]
      by (auto simp: v filtered_segments_rebuild)
  qed
  moreover have "list_all (\<lambda>c. case c of RootDir \<Rightarrow> True | Normal _ \<Rightarrow> True | _ \<Rightarrow> False)
      (path_components v) \<longleftrightarrow> ''..'' \<notin> set ?parts"
    unfolding comps using normal_segments_plain [of ?normal] by simp
  ultimately show ?thesis
    unfolding policy_path_valid_def using v
    by (auto simp: plain_segment_def list_all_iff)
qed


section \<open>Properties\<close>

text \<open>
  C27: the policy paths that are accepted are exactly the bounded paths without a NUL byte whose
  segments are non-empty and neither \<open>.\<close> nor \<open>..\<close>: a relative path cannot leave its root, and no
  two accepted texts name the same path by a different spelling. The only further accepted path is
  the root itself.
\<close>

theorem policy_paths_are_plain:
  "(relative_policy_path_from_str v = Inr p \<longleftrightarrow>
      p = v \<and> length v \<le> 512 \<and> CHR 0x00 \<notin> set v \<and>
      list_all plain_segment (split_on CHR ''/'' v)) \<and>
   (absolute_policy_path_from_str v = Inr p \<longleftrightarrow>
      p = v \<and> length v \<le> 512 \<and> CHR 0x00 \<notin> set v \<and>
      (v = ''/'' \<or> (\<exists>rest. v = CHR ''/'' # rest \<and> list_all plain_segment (split_on CHR ''/'' rest))))"
  by (auto simp: relative_policy_paths.from_str_Inr_iff absolute_policy_paths.from_str_Inr_iff
      relative_path_plain absolute_path_plain)

lemma manifest_validateE:
  assumes "manifest_validate m = Inr ()"
  obtains "policy_validate (pm_workflow m) = Inr ()"
    "wp_delivery_mode (pm_workflow m) = SelfUpdateHandoff \<Longrightarrow> self_update_contract_ok m"
    "has_kind m Backup = list_ex dv_backup_required (pm_data_volumes m)"
    "has_kind m Migration = (mp_entrypoint (pm_migration m) \<noteq> Migration_None)"
  using assms unfolding manifest_validate_def
  by (simp add: bind_res_Inr_iff split: if_splits)

text \<open>
  C18: in a validated manifest whose workflow deploys through the executor, data that must be backed up
  and a migration have their nodes, and every migration, candidate check and cutover of the workflow
  waits, through its dependencies, for the backup.
\<close>

theorem manifest_backup_before_mutation:
  assumes "manifest_validate m = Inr ()" "wp_delivery_mode (pm_workflow m) = ExecutorMutation"
    and "v \<in> set (pm_data_volumes m)" "dv_backup_required v"
  shows "\<exists>b \<in> set (wp_nodes (pm_workflow m)). n_kind b = Backup \<and>
    (\<forall>n \<in> set (wp_nodes (pm_workflow m)).
       n_kind n \<in> {Migration, CandidateHealth, Cutover} \<longrightarrow>
       (n_node_id b, n_node_id n) \<in> (dependency_edges (wp_nodes (pm_workflow m)))\<^sup>+)"
proof -
  let ?nodes = "wp_nodes (pm_workflow m)"
  from assms(1) have policy: "policy_validate (pm_workflow m) = Inr ()"
    and "has_kind m Backup = list_ex dv_backup_required (pm_data_volumes m)"
    by (auto elim: manifest_validateE)
  with assms(3,4) obtain b where b: "b \<in> set ?nodes" "n_kind b = Backup"
    by (auto simp: has_kind_def list_ex_iff)
  from policy have "validate_executor_mutation_graph (btree_nodes ?nodes)
      (wp_execution_profiles (pm_workflow m)) = Inr ()"
    by (rule policy_validateE) (use assms(2) in simp)
  from executor_graph_stages [OF this, of b] b
  have "(n_node_id b, n_node_id n) \<in> (dependency_edges ?nodes)\<^sup>+"
    if "n \<in> set ?nodes" "n_kind n \<in> {Migration, CandidateHealth, Cutover}" for n
    using that by (auto simp: below_def)
  with b show ?thesis by blast
qed

definition sample_manifest :: project_manifest where
  "sample_manifest = \<lparr> pm_schema_version = 2, pm_project_id = ''p'', pm_display_name = ''P'',
     pm_source = \<lparr> sp_remote_url = ''https://h/r'', sp_branch = Main_branch \<rparr>,
     pm_ci = BinCi,
     pm_build = \<lparr> bp_context = RepositoryRoot, bp_kind = Oci, bp_dockerfile = Some ''d/Dockerfile'',
       bp_verified_output = None \<rparr>,
     pm_workflow = sample_policy, pm_host_preparation = None,
     pm_health_checks = [\<lparr> hc_name = ''up'', hc_endpoint = ''http://h/up'', hc_expected_status = 200,
       hc_timeout_seconds = 5 \<rparr>],
     pm_data_volumes = [\<lparr> dv_path = ''/data'', dv_class = Stateful, dv_backup_required = True \<rparr>],
     pm_migration = \<lparr> mp_entrypoint = ApplicationMigrate, mp_write_fence = ApplicationProtocolV1 \<rparr>,
     pm_rollback = \<lparr> rb_code_rollback = True, rb_soak_seconds = 60 \<rparr>,
     pm_notifications = \<lparr> np_route = TelegramDefault, np_maintenance_suppression = False \<rparr> \<rparr>"

lemma sample_manifest_valid: "manifest_validate sample_manifest = Inr ()"
proof -
  have common: "validate_common_manifest (pm_display_name sample_manifest) (pm_source sample_manifest)
      (pm_build sample_manifest) (pm_health_checks sample_manifest) (pm_data_volumes sample_manifest)
      (pm_rollback sample_manifest) = Inr ()"
    by (simp add: sample_manifest_def validate_common_manifest_def trim_def strip_front.simps
        white_space_def starts_with_def source_policy_validate_def build_policy_validate_def
        file_name_def path_components_def component_of_def dockerfile_name_ok_def
        insert_health_name_def health_check_validate_def insert_volume_path_def in_range_def)
  have "pm_workflow sample_manifest = sample_policy" by (simp add: sample_manifest_def)
  moreover have "profile_of_first sample_manifest ReleaseBuild =
      Some (sample_profile ''d'' WorkerOciReleaseBuildV1 VpsRequired Offline PreparedRun)"
    "consumes_verified_oci_output sample_manifest = Inr False"
    "has_kind sample_manifest Backup" "has_kind sample_manifest Migration"
    by (simp_all add: profile_of_first_def first_of_kind_def consumes_verified_oci_output_def
        has_kind_def sample_manifest_def sample_defs policy_profile_def find_profile_def)
  moreover have "wp_delivery_mode sample_policy \<noteq> SelfUpdateHandoff" by (simp add: sample_bounds)
  ultimately show ?thesis
    unfolding manifest_validate_def
    by (simp add: common sample_policy_valid)
      (simp add: sample_manifest_def project_manifest_v2_schema_version_def sample_profile_def)
qed

theorem manifest_backup_before_mutation_witness:
  "\<exists>b \<in> set (wp_nodes sample_policy). n_kind b = Backup \<and>
    (\<forall>n \<in> set (wp_nodes sample_policy).
       n_kind n \<in> {Migration, CandidateHealth, Cutover} \<longrightarrow>
       (n_node_id b, n_node_id n) \<in> (dependency_edges (wp_nodes sample_policy))\<^sup>+)"
  using manifest_backup_before_mutation [OF sample_manifest_valid,
      of "\<lparr> dv_path = ''/data'', dv_class = Stateful, dv_backup_required = True \<rparr>"]
  by (simp add: sample_manifest_def sample_bounds)


text \<open>The concrete codec of the workflow documents, extended to manifests.\<close>

datatype manifest_text =
    T_document wf_text | T_manifest project_manifest | T_manifest_payload manifest_digest_payload

fun sample_manifest_sha256 :: "manifest_text \<Rightarrow> string" where
  "sample_manifest_sha256 (T_document t) = sample_sha256 t"
| "sample_manifest_sha256 (T_manifest m) = [CHR ''m'']"
| "sample_manifest_sha256 (T_manifest_payload p) = ''m'' @ pm_project_id (mdp_manifest p)"

fun document_text :: "manifest_text \<Rightarrow> serde_error + wf_text" where
  "document_text (T_document t) = Inr t"
| "document_text _ = Inl Serde_error"

definition to_text :: "serde_error + wf_text \<Rightarrow> serde_error + manifest_text" where
  "to_text r = bind_res r (\<lambda>t. Inr (T_document t))"

definition sample_manifest_codec :: "manifest_text manifest_codec" where
  "sample_manifest_codec = \<lparr>
     wf_sha256 = sample_manifest_sha256,
     state_key_jcs = (\<lambda>p. to_text (state_key_jcs sample_codec p)),
     lease_payload_jcs = (\<lambda>p. to_text (lease_payload_jcs sample_codec p)),
     lease_jcs = (\<lambda>l. to_text (lease_jcs sample_codec l)),
     lease_json = (\<lambda>t. bind_res (document_text t) (lease_json sample_codec)),
     node_receipt_payload_jcs = (\<lambda>p. to_text (node_receipt_payload_jcs sample_codec p)),
     node_receipt_jcs = (\<lambda>r. to_text (node_receipt_jcs sample_codec r)),
     node_receipt_json = (\<lambda>t. bind_res (document_text t) (node_receipt_json sample_codec)),
     cleanup_receipt_payload_jcs = (\<lambda>p. to_text (cleanup_receipt_payload_jcs sample_codec p)),
     cleanup_receipt_jcs = (\<lambda>r. to_text (cleanup_receipt_jcs sample_codec r)),
     cleanup_receipt_json = (\<lambda>t. bind_res (document_text t) (cleanup_receipt_json sample_codec)),
     reduction_payload_jcs = (\<lambda>p. to_text (reduction_payload_jcs sample_codec p)),
     reduction_jcs = (\<lambda>r. to_text (reduction_jcs sample_codec r)),
     reduction_json = (\<lambda>t. bind_res (document_text t) (reduction_json sample_codec)),
     manifest_payload_jcs = (\<lambda>p. Inr (T_manifest_payload p)),
     manifest_jcs = (\<lambda>m. Inr (T_manifest m)),
     manifest_json = (\<lambda>t. case t of T_manifest m \<Rightarrow> Inr m | _ \<Rightarrow> Inl Serde_error) \<rparr>"


end
