(* ===== verification/Scheduler_Schema.thy ===== *)
theory Scheduler_Schema
  imports Project_Manifest
begin

text \<open>
  The tables of the workflow scheduler (\<open>src/store/control.rs\<close>) and the enumerations of
  \<open>src/scheduler.rs\<close> stored in them. A table is the list of its rows; a statement that writes a table
  fails with \<open>Sqlite\<close> when the rows it would leave violate a constraint of the schema (primary keys,
  unique indexes, checks and foreign keys; the tables are \<open>STRICT\<close>, foreign keys are enforced, and no
  row of a referenced table is ever deleted). An enumeration column holds the value whose name is
  stored; the names and their parsers are inverse to each other (\<open>enum_text\<close>). UUID columns hold the
  identifier, whose canonical text has the order of the identifiers. Encoded documents are opaque text.
\<close>

section \<open>Errors and enumerations\<close>

datatype store_error =
    Sqlite
  | Json
  | ManifestContract manifest_error
  | WorkflowContract workflow_contract_error
  | CorruptWorkflowJournal string
  | InvalidWorkflowSchedulerInput string
  | WorkflowPolicyMismatch
  | WorkflowDeliveryConflict
  | WorkflowStaleSource
  | WorkflowSourceConflict
  | WorkflowLeaseConflict
  | WorkflowStateConflict
  | WorkflowReceiptConflict
  | WorkflowCleanupConflict
  | WorkflowReductionConflict
  | WorkflowAttemptNotFound uuid

datatype trigger_channel = GithubWebhook | SourceReconciliation | DirectPush | ManualShadow

datatype execution_mode = Deploy_mode | Shadow_mode

datatype request_state = Request_Active | Request_Superseded | Request_Terminal

datatype attempt_state =
    Queued
  | WaitingForMutation
  | Running
  | Attempt_Succeeded
  | Attempt_Failed
  | Attempt_Superseded
  | Attempt_NeedsReconcile

datatype mutation_state = NotStarted | Owned | Mutation_NeedsReconcile | Mutation_Complete

datatype cleanup_state = Cleanup_Complete | Cleanup_Pending

datatype node_state =
    Dormant
  | Blocked
  | Ready
  | Leased
  | Node_Succeeded
  | Node_Failed
  | Cancelled
  | Node_NeedsReconcile

datatype lease_state = Active | Expired | Committed | Revoked

datatype lock_state = Held | Lock_NeedsReconcile

fun trigger_channel_name :: "trigger_channel \<Rightarrow> string" where
  "trigger_channel_name GithubWebhook = ''github_webhook''"
| "trigger_channel_name SourceReconciliation = ''source_reconciliation''"
| "trigger_channel_name DirectPush = ''direct_push''"
| "trigger_channel_name ManualShadow = ''manual_shadow''"

fun execution_mode_name :: "execution_mode \<Rightarrow> string" where
  "execution_mode_name Deploy_mode = ''deploy''"
| "execution_mode_name Shadow_mode = ''shadow''"

fun attempt_state_name :: "attempt_state \<Rightarrow> string" where
  "attempt_state_name Queued = ''queued''"
| "attempt_state_name WaitingForMutation = ''waiting_for_mutation''"
| "attempt_state_name Running = ''running''"
| "attempt_state_name Attempt_Succeeded = ''succeeded''"
| "attempt_state_name Attempt_Failed = ''failed''"
| "attempt_state_name Attempt_Superseded = ''superseded''"
| "attempt_state_name Attempt_NeedsReconcile = ''needs_reconcile''"

fun mutation_state_name :: "mutation_state \<Rightarrow> string" where
  "mutation_state_name NotStarted = ''not_started''"
| "mutation_state_name Owned = ''owned''"
| "mutation_state_name Mutation_NeedsReconcile = ''needs_reconcile''"
| "mutation_state_name Mutation_Complete = ''complete''"

fun cleanup_state_name :: "cleanup_state \<Rightarrow> string" where
  "cleanup_state_name Cleanup_Complete = ''complete''"
| "cleanup_state_name Cleanup_Pending = ''pending''"

fun node_state_name :: "node_state \<Rightarrow> string" where
  "node_state_name Dormant = ''dormant''"
| "node_state_name Blocked = ''blocked''"
| "node_state_name Ready = ''ready''"
| "node_state_name Leased = ''leased''"
| "node_state_name Node_Succeeded = ''succeeded''"
| "node_state_name Node_Failed = ''failed''"
| "node_state_name Cancelled = ''cancelled''"
| "node_state_name Node_NeedsReconcile = ''needs_reconcile''"

fun node_kind_name :: "node_kind \<Rightarrow> string" where
  "node_kind_name SourceAdmission = ''source_admission''"
| "node_kind_name HostPrepare = ''host_prepare''"
| "node_kind_name Verification = ''verification''"
| "node_kind_name ReleaseBuild = ''release_build''"
| "node_kind_name DeterministicReduce = ''deterministic_reduce''"
| "node_kind_name ResourceReservation = ''resource_reservation''"
| "node_kind_name Backup = ''backup''"
| "node_kind_name Migration = ''migration''"
| "node_kind_name CandidateHealth = ''candidate_health''"
| "node_kind_name Cutover = ''cutover''"
| "node_kind_name ReleasedObservation = ''released_observation''"
| "node_kind_name Rollback_node = ''rollback''"

fun activation_name :: "node_activation \<Rightarrow> string" where
  "activation_name Always = ''always''"
| "activation_name OnMutationFailure = ''on_mutation_failure''"

fun worker_pool_name :: "worker_pool \<Rightarrow> string" where
  "worker_pool_name Controller = ''controller''"
| "worker_pool_name VpsRequired = ''vps_required''"
| "worker_pool_name BuildCompute = ''build_compute''"
| "worker_pool_name PrivilegedExecutor = ''privileged_executor''"

definition execution_mode_parse :: "string \<Rightarrow> store_error + execution_mode" where
  "execution_mode_parse value =
     (if value = ''deploy'' then Inr Deploy_mode
      else if value = ''shadow'' then Inr Shadow_mode
      else Inl (CorruptWorkflowJournal ''workflow execution mode''))"

definition attempt_state_parse :: "string \<Rightarrow> store_error + attempt_state" where
  "attempt_state_parse value =
     (if value = ''queued'' then Inr Queued
      else if value = ''waiting_for_mutation'' then Inr WaitingForMutation
      else if value = ''running'' then Inr Running
      else if value = ''succeeded'' then Inr Attempt_Succeeded
      else if value = ''failed'' then Inr Attempt_Failed
      else if value = ''superseded'' then Inr Attempt_Superseded
      else if value = ''needs_reconcile'' then Inr Attempt_NeedsReconcile
      else Inl (CorruptWorkflowJournal ''attempt state''))"

definition mutation_state_parse :: "string \<Rightarrow> store_error + mutation_state" where
  "mutation_state_parse value =
     (if value = ''not_started'' then Inr NotStarted
      else if value = ''owned'' then Inr Owned
      else if value = ''needs_reconcile'' then Inr Mutation_NeedsReconcile
      else if value = ''complete'' then Inr Mutation_Complete
      else Inl (CorruptWorkflowJournal ''mutation state''))"

definition cleanup_state_parse :: "string \<Rightarrow> store_error + cleanup_state" where
  "cleanup_state_parse value =
     (if value = ''complete'' then Inr Cleanup_Complete
      else if value = ''pending'' then Inr Cleanup_Pending
      else Inl (CorruptWorkflowJournal ''cleanup state''))"

definition node_state_parse :: "string \<Rightarrow> store_error + node_state" where
  "node_state_parse value =
     (if value = ''dormant'' then Inr Dormant
      else if value = ''blocked'' then Inr Blocked
      else if value = ''ready'' then Inr Ready
      else if value = ''leased'' then Inr Leased
      else if value = ''succeeded'' then Inr Node_Succeeded
      else if value = ''failed'' then Inr Node_Failed
      else if value = ''cancelled'' then Inr Cancelled
      else if value = ''needs_reconcile'' then Inr Node_NeedsReconcile
      else Inl (CorruptWorkflowJournal ''node state''))"

definition parse_node_kind :: "string \<Rightarrow> store_error + node_kind" where
  "parse_node_kind value =
     (if value = ''source_admission'' then Inr SourceAdmission
      else if value = ''host_prepare'' then Inr HostPrepare
      else if value = ''verification'' then Inr Verification
      else if value = ''release_build'' then Inr ReleaseBuild
      else if value = ''deterministic_reduce'' then Inr DeterministicReduce
      else if value = ''resource_reservation'' then Inr ResourceReservation
      else if value = ''backup'' then Inr Backup
      else if value = ''migration'' then Inr Migration
      else if value = ''candidate_health'' then Inr CandidateHealth
      else if value = ''cutover'' then Inr Cutover
      else if value = ''released_observation'' then Inr ReleasedObservation
      else if value = ''rollback'' then Inr Rollback_node
      else Inl (CorruptWorkflowJournal ''node kind''))"

definition parse_worker_pool :: "string \<Rightarrow> store_error + worker_pool" where
  "parse_worker_pool value =
     (if value = ''controller'' then Inr Controller
      else if value = ''vps_required'' then Inr VpsRequired
      else if value = ''build_compute'' then Inr BuildCompute
      else if value = ''privileged_executor'' then Inr PrivilegedExecutor
      else Inl (CorruptWorkflowJournal ''worker pool''))"

text \<open>A stored enumeration: its names parse back, and nothing else parses.\<close>

locale enum_text =
  fixes name :: "'a \<Rightarrow> string"
    and parse :: "string \<Rightarrow> store_error + 'a"
  assumes parse_name: "parse (name x) = Inr x"
    and parse_known: "parse s = Inr x \<Longrightarrow> s = name x"
begin

lemma name_eq_iff: "name x = name y \<longleftrightarrow> x = y"
  by (metis parse_name sum.inject(2))

lemma parse_Inr_iff: "parse s = Inr x \<longleftrightarrow> s = name x"
  using parse_name parse_known by blast

end

interpretation execution_modes: enum_text execution_mode_name execution_mode_parse
proof unfold_locales
  show "execution_mode_parse (execution_mode_name x) = Inr x" for x
    by (cases x) (simp_all add: execution_mode_parse_def)
qed (auto simp: execution_mode_parse_def split: if_splits)

interpretation attempt_states: enum_text attempt_state_name attempt_state_parse
proof unfold_locales
  show "attempt_state_parse (attempt_state_name x) = Inr x" for x
    by (cases x) (simp_all add: attempt_state_parse_def)
qed (auto simp: attempt_state_parse_def split: if_splits)

interpretation mutation_states: enum_text mutation_state_name mutation_state_parse
proof unfold_locales
  show "mutation_state_parse (mutation_state_name x) = Inr x" for x
    by (cases x) (simp_all add: mutation_state_parse_def)
qed (auto simp: mutation_state_parse_def split: if_splits)

interpretation cleanup_states: enum_text cleanup_state_name cleanup_state_parse
proof unfold_locales
  show "cleanup_state_parse (cleanup_state_name x) = Inr x" for x
    by (cases x) (simp_all add: cleanup_state_parse_def)
qed (auto simp: cleanup_state_parse_def split: if_splits)

interpretation node_states: enum_text node_state_name node_state_parse
proof unfold_locales
  show "node_state_parse (node_state_name x) = Inr x" for x
    by (cases x) (simp_all add: node_state_parse_def)
qed (auto simp: node_state_parse_def split: if_splits)

interpretation node_kinds: enum_text node_kind_name parse_node_kind
proof unfold_locales
  show "parse_node_kind (node_kind_name x) = Inr x" for x
    by (cases x) (simp_all add: parse_node_kind_def)
qed (auto simp: parse_node_kind_def split: if_splits)

interpretation worker_pools: enum_text worker_pool_name parse_worker_pool
proof unfold_locales
  show "parse_worker_pool (worker_pool_name x) = Inr x" for x
    by (cases x) (simp_all add: parse_worker_pool_def)
qed (auto simp: parse_worker_pool_def split: if_splits)


section \<open>Parsing columns\<close>

definition parse_digest :: "string \<Rightarrow> string \<Rightarrow> store_error + evidence_digest" where
  "parse_digest value field =
     map_err (\<lambda>_. CorruptWorkflowJournal field) (evidence_digest_from_str value)"

definition parse_source_sha :: "string \<Rightarrow> store_error + git_commit_id" where
  "parse_source_sha value =
     map_err (\<lambda>_. CorruptWorkflowJournal ''source SHA'') (git_commit_id_from_str value)"

definition to_i64 :: "nat \<Rightarrow> string \<Rightarrow> store_error + int" where
  "to_i64 value field = ok_or (i64_of_u64 value) (InvalidWorkflowSchedulerInput field)"

definition to_u64 :: "int \<Rightarrow> string \<Rightarrow> store_error + nat" where
  "to_u64 value field = ok_or (u64_of_i64 value) (CorruptWorkflowJournal field)"

text \<open>\<open>u32::try_from\<close> and \<open>u8::try_from\<close> of a column.\<close>

definition try_u32 :: "int \<Rightarrow> string \<Rightarrow> store_error + nat" where
  "try_u32 value field =
     (if 0 \<le> value \<and> value \<le> int u32_max then Inr (nat value) else Inl (CorruptWorkflowJournal field))"

definition try_u8 :: "int \<Rightarrow> string \<Rightarrow> store_error + nat" where
  "try_u8 value field =
     (if 0 \<le> value \<and> value \<le> 255 then Inr (nat value) else Inl (CorruptWorkflowJournal field))"

lemma parse_digest_Inr_iff [simp]:
  "parse_digest s f = Inr d \<longleftrightarrow> evidence_digest_validate s \<and> d = s"
  by (simp add: parse_digest_def evidence_digests.from_str_Inr_iff)

lemma parse_source_sha_Inr_iff [simp]:
  "parse_source_sha s = Inr d \<longleftrightarrow> git_commit_id_validate s \<and> d = s"
  by (simp add: parse_source_sha_def git_commits.from_str_Inr_iff)

lemma try_u32_Inr_iff [simp]:
  "try_u32 v f = Inr n \<longleftrightarrow> 0 \<le> v \<and> v \<le> int u32_max \<and> n = nat v"
  by (auto simp: try_u32_def)

lemma try_u8_Inr_iff [simp]: "try_u8 v f = Inr n \<longleftrightarrow> 0 \<le> v \<and> v \<le> 255 \<and> n = nat v"
  by (auto simp: try_u8_def)

lemma to_i64_Inr_iff [simp]: "to_i64 n f = Inr x \<longleftrightarrow> int n \<le> i64_max \<and> x = int n"
  by (simp add: to_i64_def)

lemma to_u64_Inr_iff [simp]: "to_u64 x f = Inr n \<longleftrightarrow> 0 \<le> x \<and> n = nat x"
  by (simp add: to_u64_def)


section \<open>Rows\<close>

record 'j request_row =
  rq_request_id :: uuid
  rq_project_id :: string
  rq_policy_digest :: string
  rq_source_sha :: string
  rq_operation_kind :: execution_mode
  rq_source_sequence :: int
  rq_attestation_digest :: string
  rq_manifest_json :: 'j
  rq_priority :: int
  rq_state :: request_state
  rq_superseded_by :: "uuid option"
  rq_created_at_ms :: int
  rq_updated_at_ms :: int

record head_row =
  ph_project_id :: string
  ph_source_sequence :: int
  ph_source_sha :: string
  ph_request_id :: uuid
  ph_updated_at_ms :: int

record trigger_row =
  tg_channel :: trigger_channel
  tg_delivery_id :: string
  tg_payload_digest :: string
  tg_request_id :: uuid
  tg_received_at_ms :: int

record attempt_row =
  at_attempt_id :: uuid
  at_request_id :: uuid
  at_attempt_number :: int
  at_preparation_key :: string
  at_state :: attempt_state
  at_mutation_state :: mutation_state
  at_cleanup_state :: cleanup_state
  at_created_at_ms :: int
  at_updated_at_ms :: int
  at_terminal_at_ms :: "int option"

record node_row =
  nd_attempt_id :: uuid
  nd_node_id :: string
  nd_ordinal :: int
  nd_kind :: node_kind
  nd_activation :: node_activation
  nd_profile_id :: string
  nd_worker_pool :: worker_pool
  nd_state :: node_state
  nd_lease_generation :: int
  nd_output_digest :: "string option"
  nd_receipt_digest :: "string option"
  nd_completed_at_ms :: "int option"

record dependency_row =
  dp_attempt_id :: uuid
  dp_node_id :: string
  dp_dependency_node_id :: string

record 'j lease_row =
  lj_lease_id :: uuid
  lj_attempt_id :: uuid
  lj_node_id :: string
  lj_generation :: int
  lj_worker_id :: string
  lj_host_id :: string
  lj_expected_input_digest :: string
  lj_lease_digest :: string
  lj_lease_json :: 'j
  lj_state :: lease_state
  lj_leased_at_ms :: int
  lj_expires_at_ms :: int
  lj_closed_at_ms :: "int option"
  lj_receipt_digest :: "string option"

record 'j receipt_row =
  rc_receipt_digest :: string
  rc_attempt_id :: uuid
  rc_node_id :: string
  rc_lease_id :: uuid
  rc_receipt_json :: 'j
  rc_committed_at_ms :: int

record 'j cleanup_row =
  cl_receipt_digest :: string
  cl_lease_id :: uuid
  cl_attempt_id :: uuid
  cl_node_id :: string
  cl_receipt_json :: 'j
  cl_committed_at_ms :: int

record 'j binding_row =
  ob_attempt_id :: uuid
  ob_worker_id :: string
  ob_host_id :: string
  ob_state_key :: string
  ob_state_json :: 'j
  ob_bound_at_ms :: int

record 'j reduction_row =
  rr_attempt_id :: uuid
  rr_reduce_node_id :: string
  rr_receipt_digest :: string
  rr_receipt_json :: 'j
  rr_committed_at_ms :: int

record lock_row =
  lk_project_id :: string
  lk_attempt_id :: uuid
  lk_state :: lock_state
  lk_acquired_at_ms :: int
  lk_updated_at_ms :: int

text \<open>\<open>subject_kind\<close> and \<open>subject_id\<close> of a transition.\<close>

datatype subject = Subject_attempt uuid | Subject_node string | Subject_lease uuid

record transition_row =
  tr_attempt_id :: uuid
  tr_sequence :: int
  tr_subject :: subject
  tr_from_state :: "string option"
  tr_to_state :: string
  tr_reason :: string
  tr_evidence_digest :: "string option"
  tr_occurred_at_ms :: int

record 'j db =
  db_requests :: "'j request_row list"
  db_heads :: "head_row list"
  db_triggers :: "trigger_row list"
  db_attempts :: "attempt_row list"
  db_nodes :: "node_row list"
  db_dependencies :: "dependency_row list"
  db_leases :: "'j lease_row list"
  db_receipts :: "'j receipt_row list"
  db_cleanups :: "'j cleanup_row list"
  db_bindings :: "'j binding_row list"
  db_reductions :: "'j reduction_row list"
  db_locks :: "lock_row list"
  db_transitions :: "transition_row list"
  db_last_project_id :: "string option"
  db_remaining_weight :: int


section \<open>Constraints\<close>

definition request_ids :: "'j db \<Rightarrow> uuid list" where
  "request_ids db = map rq_request_id (db_requests db)"

definition attempt_ids :: "'j db \<Rightarrow> uuid list" where
  "attempt_ids db = map at_attempt_id (db_attempts db)"

definition node_key :: "node_row \<Rightarrow> uuid \<times> string" where
  "node_key n = (nd_attempt_id n, nd_node_id n)"

definition node_keys :: "'j db \<Rightarrow> (uuid \<times> string) list" where
  "node_keys db = map node_key (db_nodes db)"

definition lease_ids :: "'j db \<Rightarrow> uuid list" where
  "lease_ids db = map lj_lease_id (db_leases db)"

definition request_row_ok :: "'j request_row \<Rightarrow> bool" where
  "request_row_ok r \<longleftrightarrow>
     rq_source_sequence r > 0 \<and> 0 \<le> rq_priority r \<and> rq_priority r \<le> 3 \<and>
     rq_created_at_ms r \<ge> 0 \<and> rq_updated_at_ms r \<ge> rq_created_at_ms r \<and>
     (rq_state r = Request_Superseded) = (rq_superseded_by r \<noteq> None)"

definition requests_ok :: "'j db \<Rightarrow> bool" where
  "requests_ok db \<longleftrightarrow>
     distinct (request_ids db) \<and>
     distinct (map (\<lambda>r. (rq_project_id r, rq_policy_digest r, rq_source_sha r, rq_operation_kind r))
       (db_requests db)) \<and>
     list_all request_row_ok (db_requests db) \<and>
     list_all (\<lambda>r. pred_option (\<lambda>i. i \<in> set (request_ids db)) (rq_superseded_by r)) (db_requests db)"

definition heads_ok :: "'j db \<Rightarrow> bool" where
  "heads_ok db \<longleftrightarrow>
     distinct (map ph_project_id (db_heads db)) \<and>
     list_all (\<lambda>h. ph_source_sequence h > 0 \<and> ph_updated_at_ms h \<ge> 0 \<and>
       ph_request_id h \<in> set (request_ids db)) (db_heads db)"

definition triggers_ok :: "'j db \<Rightarrow> bool" where
  "triggers_ok db \<longleftrightarrow>
     distinct (map (\<lambda>t. (tg_channel t, tg_delivery_id t)) (db_triggers db)) \<and>
     list_all (\<lambda>t. tg_received_at_ms t \<ge> 0 \<and> tg_request_id t \<in> set (request_ids db))
       (db_triggers db)"

definition attempt_terminal :: "attempt_state \<Rightarrow> bool" where
  "attempt_terminal s \<longleftrightarrow> s \<in> {Attempt_Succeeded, Attempt_Failed, Attempt_Superseded}"

definition attempt_row_ok :: "attempt_row \<Rightarrow> bool" where
  "attempt_row_ok a \<longleftrightarrow>
     at_attempt_number a > 0 \<and> at_created_at_ms a \<ge> 0 \<and> at_updated_at_ms a \<ge> at_created_at_ms a \<and>
     attempt_terminal (at_state a) = (at_terminal_at_ms a \<noteq> None)"

definition attempts_ok :: "'j db \<Rightarrow> bool" where
  "attempts_ok db \<longleftrightarrow>
     distinct (attempt_ids db) \<and>
     distinct (map (\<lambda>a. (at_request_id a, at_attempt_number a)) (db_attempts db)) \<and>
     list_all attempt_row_ok (db_attempts db) \<and>
     list_all (\<lambda>a. at_request_id a \<in> set (request_ids db)) (db_attempts db)"

definition node_completed :: "node_state \<Rightarrow> bool" where
  "node_completed s \<longleftrightarrow> s \<in> {Node_Succeeded, Node_Failed, Cancelled, Node_NeedsReconcile}"

definition node_row_ok :: "node_row \<Rightarrow> bool" where
  "node_row_ok n \<longleftrightarrow>
     nd_ordinal n \<ge> 0 \<and> nd_lease_generation n \<ge> 0 \<and>
     (nd_state n = Node_Succeeded) = (nd_output_digest n \<noteq> None) \<and>
     node_completed (nd_state n) = (nd_completed_at_ms n \<noteq> None)"

definition nodes_ok :: "'j db \<Rightarrow> bool" where
  "nodes_ok db \<longleftrightarrow>
     distinct (node_keys db) \<and>
     distinct (map (\<lambda>n. (nd_attempt_id n, nd_ordinal n)) (db_nodes db)) \<and>
     list_all node_row_ok (db_nodes db) \<and>
     list_all (\<lambda>n. nd_attempt_id n \<in> set (attempt_ids db)) (db_nodes db)"

definition dependencies_ok :: "'j db \<Rightarrow> bool" where
  "dependencies_ok db \<longleftrightarrow>
     distinct (db_dependencies db) \<and>
     list_all (\<lambda>d. (dp_attempt_id d, dp_node_id d) \<in> set (node_keys db) \<and>
       (dp_attempt_id d, dp_dependency_node_id d) \<in> set (node_keys db)) (db_dependencies db)"

definition lease_row_ok :: "'j lease_row \<Rightarrow> bool" where
  "lease_row_ok l \<longleftrightarrow>
     lj_generation l > 0 \<and> lj_leased_at_ms l \<ge> 0 \<and> lj_expires_at_ms l > lj_leased_at_ms l \<and>
     (lj_state l = Active) = (lj_closed_at_ms l = None)"

definition leases_ok :: "'j db \<Rightarrow> bool" where
  "leases_ok db \<longleftrightarrow>
     distinct (lease_ids db) \<and>
     distinct (map lj_lease_digest (db_leases db)) \<and>
     distinct (map (\<lambda>l. (lj_attempt_id l, lj_node_id l, lj_generation l)) (db_leases db)) \<and>
     distinct (map (\<lambda>l. (lj_attempt_id l, lj_node_id l))
       (filter (\<lambda>l. lj_state l = Active) (db_leases db))) \<and>
     list_all lease_row_ok (db_leases db) \<and>
     list_all (\<lambda>l. (lj_attempt_id l, lj_node_id l) \<in> set (node_keys db)) (db_leases db)"

definition receipts_ok :: "'j db \<Rightarrow> bool" where
  "receipts_ok db \<longleftrightarrow>
     distinct (map rc_receipt_digest (db_receipts db)) \<and>
     distinct (map rc_lease_id (db_receipts db)) \<and>
     distinct (map (\<lambda>r. (rc_attempt_id r, rc_node_id r)) (db_receipts db)) \<and>
     list_all (\<lambda>r. rc_committed_at_ms r \<ge> 0 \<and> rc_lease_id r \<in> set (lease_ids db) \<and>
       (rc_attempt_id r, rc_node_id r) \<in> set (node_keys db)) (db_receipts db)"

definition cleanups_ok :: "'j db \<Rightarrow> bool" where
  "cleanups_ok db \<longleftrightarrow>
     distinct (map cl_receipt_digest (db_cleanups db)) \<and>
     distinct (map cl_lease_id (db_cleanups db)) \<and>
     list_all (\<lambda>r. cl_committed_at_ms r \<ge> 0 \<and> cl_lease_id r \<in> set (lease_ids db) \<and>
       (cl_attempt_id r, cl_node_id r) \<in> set (node_keys db)) (db_cleanups db)"

definition bindings_ok :: "'j db \<Rightarrow> bool" where
  "bindings_ok db \<longleftrightarrow>
     distinct (map ob_attempt_id (db_bindings db)) \<and>
     distinct (map ob_state_key (db_bindings db)) \<and>
     list_all (\<lambda>b. ob_bound_at_ms b \<ge> 0 \<and> ob_attempt_id b \<in> set (attempt_ids db)) (db_bindings db)"

definition reductions_ok :: "'j db \<Rightarrow> bool" where
  "reductions_ok db \<longleftrightarrow>
     distinct (map rr_attempt_id (db_reductions db)) \<and>
     distinct (map rr_receipt_digest (db_reductions db)) \<and>
     list_all (\<lambda>r. rr_committed_at_ms r \<ge> 0 \<and> rr_attempt_id r \<in> set (attempt_ids db) \<and>
       (rr_attempt_id r, rr_reduce_node_id r) \<in> set (node_keys db)) (db_reductions db)"

definition locks_ok :: "'j db \<Rightarrow> bool" where
  "locks_ok db \<longleftrightarrow>
     distinct (map lk_project_id (db_locks db)) \<and>
     distinct (map lk_attempt_id (db_locks db)) \<and>
     list_all (\<lambda>l. lk_acquired_at_ms l \<ge> 0 \<and> lk_updated_at_ms l \<ge> lk_acquired_at_ms l \<and>
       lk_attempt_id l \<in> set (attempt_ids db)) (db_locks db)"

definition transitions_ok :: "'j db \<Rightarrow> bool" where
  "transitions_ok db \<longleftrightarrow>
     distinct (map (\<lambda>t. (tr_attempt_id t, tr_sequence t)) (db_transitions db)) \<and>
     list_all (\<lambda>t. tr_sequence t > 0 \<and> tr_occurred_at_ms t \<ge> 0 \<and>
       tr_attempt_id t \<in> set (attempt_ids db)) (db_transitions db)"

definition cursor_ok :: "'j db \<Rightarrow> bool" where
  "cursor_ok db \<longleftrightarrow> db_remaining_weight db \<ge> 0"

definition schema_ok :: "'j db \<Rightarrow> bool" where
  "schema_ok db \<longleftrightarrow>
     requests_ok db \<and> heads_ok db \<and> triggers_ok db \<and> attempts_ok db \<and> nodes_ok db \<and>
     dependencies_ok db \<and> leases_ok db \<and> receipts_ok db \<and> cleanups_ok db \<and> bindings_ok db \<and>
     reductions_ok db \<and> locks_ok db \<and> transitions_ok db \<and> cursor_ok db"


section \<open>Statements and transactions\<close>

type_synonym ('j, 'a) stx = "('j db, store_error, 'a) tx"

text \<open>A write that fails when the table it leaves violates a constraint.\<close>

definition write_table :: "('j db \<Rightarrow> 'j db) \<Rightarrow> ('j db \<Rightarrow> bool) \<Rightarrow> ('j, unit) stx" where
  "write_table f ok db = (if ok (f db) then Inr ((), f db) else Inl Sqlite)"

text \<open>\<open>execute\<close> of an \<open>UPDATE\<close> or \<open>DELETE\<close> returns the number of rows it changes.\<close>

definition change_table ::
  "('j db \<Rightarrow> 'j db) \<Rightarrow> ('j db \<Rightarrow> bool) \<Rightarrow> ('j db \<Rightarrow> nat) \<Rightarrow> ('j, nat) stx" where
  "change_table f ok changed db = (if ok (f db) then Inr (changed db, f db) else Inl Sqlite)"

definition insert_request :: "'j request_row \<Rightarrow> ('j, unit) stx" where
  "insert_request r = write_table (\<lambda>db. db\<lparr>db_requests := db_requests db @ [r]\<rparr>) requests_ok"

definition update_requests ::
  "('j request_row \<Rightarrow> bool) \<Rightarrow> ('j request_row \<Rightarrow> 'j request_row) \<Rightarrow> ('j, nat) stx" where
  "update_requests p f =
     change_table (\<lambda>db. db\<lparr>db_requests := update_where p f (db_requests db)\<rparr>) requests_ok
       (\<lambda>db. count_where p (db_requests db))"

definition write_heads :: "(head_row list \<Rightarrow> head_row list) \<Rightarrow> ('j, unit) stx" where
  "write_heads f = write_table (\<lambda>db. db\<lparr>db_heads := f (db_heads db)\<rparr>) heads_ok"

definition insert_trigger :: "trigger_row \<Rightarrow> ('j, unit) stx" where
  "insert_trigger r = write_table (\<lambda>db. db\<lparr>db_triggers := db_triggers db @ [r]\<rparr>) triggers_ok"

definition insert_attempt :: "attempt_row \<Rightarrow> ('j, unit) stx" where
  "insert_attempt r = write_table (\<lambda>db. db\<lparr>db_attempts := db_attempts db @ [r]\<rparr>) attempts_ok"

definition update_attempts ::
  "(attempt_row \<Rightarrow> bool) \<Rightarrow> (attempt_row \<Rightarrow> attempt_row) \<Rightarrow> ('j, nat) stx" where
  "update_attempts p f =
     change_table (\<lambda>db. db\<lparr>db_attempts := update_where p f (db_attempts db)\<rparr>) attempts_ok
       (\<lambda>db. count_where p (db_attempts db))"

definition insert_node_row :: "node_row \<Rightarrow> ('j, unit) stx" where
  "insert_node_row r = write_table (\<lambda>db. db\<lparr>db_nodes := db_nodes db @ [r]\<rparr>) nodes_ok"

definition update_nodes :: "(node_row \<Rightarrow> bool) \<Rightarrow> (node_row \<Rightarrow> node_row) \<Rightarrow> ('j, nat) stx" where
  "update_nodes p f =
     change_table (\<lambda>db. db\<lparr>db_nodes := update_where p f (db_nodes db)\<rparr>) nodes_ok
       (\<lambda>db. count_where p (db_nodes db))"

definition insert_dependency :: "dependency_row \<Rightarrow> ('j, unit) stx" where
  "insert_dependency r =
     write_table (\<lambda>db. db\<lparr>db_dependencies := db_dependencies db @ [r]\<rparr>) dependencies_ok"

definition insert_lease :: "'j lease_row \<Rightarrow> ('j, unit) stx" where
  "insert_lease r = write_table (\<lambda>db. db\<lparr>db_leases := db_leases db @ [r]\<rparr>) leases_ok"

definition update_leases ::
  "('j lease_row \<Rightarrow> bool) \<Rightarrow> ('j lease_row \<Rightarrow> 'j lease_row) \<Rightarrow> ('j, nat) stx" where
  "update_leases p f =
     change_table (\<lambda>db. db\<lparr>db_leases := update_where p f (db_leases db)\<rparr>) leases_ok
       (\<lambda>db. count_where p (db_leases db))"

definition insert_receipt :: "'j receipt_row \<Rightarrow> ('j, unit) stx" where
  "insert_receipt r = write_table (\<lambda>db. db\<lparr>db_receipts := db_receipts db @ [r]\<rparr>) receipts_ok"

definition insert_cleanup :: "'j cleanup_row \<Rightarrow> ('j, unit) stx" where
  "insert_cleanup r = write_table (\<lambda>db. db\<lparr>db_cleanups := db_cleanups db @ [r]\<rparr>) cleanups_ok"

definition insert_binding :: "'j binding_row \<Rightarrow> ('j, unit) stx" where
  "insert_binding r = write_table (\<lambda>db. db\<lparr>db_bindings := db_bindings db @ [r]\<rparr>) bindings_ok"

definition insert_reduction :: "'j reduction_row \<Rightarrow> ('j, unit) stx" where
  "insert_reduction r = write_table (\<lambda>db. db\<lparr>db_reductions := db_reductions db @ [r]\<rparr>) reductions_ok"

definition insert_lock :: "lock_row \<Rightarrow> ('j, unit) stx" where
  "insert_lock r = write_table (\<lambda>db. db\<lparr>db_locks := db_locks db @ [r]\<rparr>) locks_ok"

definition update_locks :: "(lock_row \<Rightarrow> bool) \<Rightarrow> (lock_row \<Rightarrow> lock_row) \<Rightarrow> ('j, nat) stx" where
  "update_locks p f =
     change_table (\<lambda>db. db\<lparr>db_locks := update_where p f (db_locks db)\<rparr>) locks_ok
       (\<lambda>db. count_where p (db_locks db))"

definition delete_locks :: "(lock_row \<Rightarrow> bool) \<Rightarrow> ('j, nat) stx" where
  "delete_locks p =
     change_table (\<lambda>db. db\<lparr>db_locks := filter (\<lambda>l. \<not> p l) (db_locks db)\<rparr>) locks_ok
       (\<lambda>db. count_where p (db_locks db))"

definition insert_transition :: "transition_row \<Rightarrow> ('j, unit) stx" where
  "insert_transition r =
     write_table (\<lambda>db. db\<lparr>db_transitions := db_transitions db @ [r]\<rparr>) transitions_ok"

definition write_cursor :: "string option \<Rightarrow> int \<Rightarrow> ('j, unit) stx" where
  "write_cursor project remaining =
     write_table (\<lambda>db. db\<lparr>db_last_project_id := project, db_remaining_weight := remaining\<rparr>) cursor_ok"

text \<open>An error rolls everything back.\<close>

definition immediate_transaction :: "('j, 'a) stx \<Rightarrow> 'j db \<Rightarrow> (store_error + 'a) \<times> 'j db" where
  "immediate_transaction operation db =
     (case operation db of Inl e \<Rightarrow> (Inl e, db) | Inr (output, db') \<Rightarrow> (Inr output, db'))"

definition read_transaction :: "('j db \<Rightarrow> store_error + 'a) \<Rightarrow> 'j db \<Rightarrow> store_error + 'a" where
  "read_transaction operation db = operation db"

definition empty_db :: "'j db" where
  "empty_db = \<lparr> db_requests = [], db_heads = [], db_triggers = [], db_attempts = [], db_nodes = [],
     db_dependencies = [], db_leases = [], db_receipts = [], db_cleanups = [], db_bindings = [],
     db_reductions = [], db_locks = [], db_transitions = [], db_last_project_id = None,
     db_remaining_weight = 0 \<rparr>"

lemmas statement_defs = insert_request_def update_requests_def write_heads_def insert_trigger_def
  insert_attempt_def update_attempts_def insert_node_row_def update_nodes_def insert_dependency_def
  insert_lease_def update_leases_def insert_receipt_def insert_cleanup_def insert_binding_def
  insert_reduction_def insert_lock_def update_locks_def delete_locks_def
  insert_transition_def write_cursor_def

lemma write_table_Inr_iff: "write_table f ok db = Inr (u, db') \<longleftrightarrow> db' = f db \<and> ok (f db)"
  by (auto simp: write_table_def)

lemma change_table_Inr_iff:
  "change_table f ok changed db = Inr (n, db') \<longleftrightarrow> db' = f db \<and> ok (f db) \<and> n = changed db"
  by (auto simp: change_table_def)

text \<open>\<open>if changed != 1 { return Err(error) }\<close>.\<close>

definition expect_one :: "('j, nat) stx \<Rightarrow> store_error \<Rightarrow> ('j, unit) stx" where
  "expect_one m e = tx_bind m (\<lambda>changed. tx_ensure (changed = 1) e)"

text \<open>The number of changed rows is not looked at.\<close>

definition execute :: "('j, nat) stx \<Rightarrow> ('j, unit) stx" where
  "execute m = tx_bind m (\<lambda>_. tx_return ())"

lemma expect_one_Inr_iff: "expect_one m e db = Inr (u, db') \<longleftrightarrow> m db = Inr (1, db')"
  by (auto simp: expect_one_def tx_bind_Inr_iff)

lemma execute_Inr_iff: "execute m db = Inr (u, db') \<longleftrightarrow> (\<exists>n. m db = Inr (n, db'))"
  by (auto simp: execute_def tx_bind_Inr_iff)

lemma immediate_transaction_cases:
  obtains e where "operation db = Inl e" "immediate_transaction operation db = (Inl e, db)"
  | x db' where "operation db = Inr (x, db')" "immediate_transaction operation db = (Inr x, db')"
  by (cases "operation db") (auto simp: immediate_transaction_def split: prod.splits)

lemma immediate_transaction_Inr: "immediate_transaction m db = (Inr x, db') \<longleftrightarrow> m db = Inr (x, db')"
  by (cases rule: immediate_transaction_cases [of m db]) auto

section \<open>Frames\<close>

text \<open>
  The constraints of a table depend on its own rows and on the keys of the tables it refers to;
  writes to any other table do not matter to it.
\<close>

lemmas key_defs = request_ids_def attempt_ids_def node_keys_def lease_ids_def

lemma node_key_update [simp]:
  "node_key (n\<lparr>nd_state := s\<rparr>) = node_key n" "node_key (n\<lparr>nd_lease_generation := g\<rparr>) = node_key n"
  "node_key (n\<lparr>nd_output_digest := x\<rparr>) = node_key n" "node_key (n\<lparr>nd_receipt_digest := y\<rparr>) = node_key n"
  "node_key (n\<lparr>nd_completed_at_ms := t\<rparr>) = node_key n"
  by (simp_all add: node_key_def)

lemma requests_frame [simp]:
  "requests_ok (db\<lparr>db_heads := x_heads\<rparr>) = requests_ok db"
  "requests_ok (db\<lparr>db_triggers := x_triggers\<rparr>) = requests_ok db"
  "requests_ok (db\<lparr>db_attempts := x_attempts\<rparr>) = requests_ok db"
  "requests_ok (db\<lparr>db_nodes := x_nodes\<rparr>) = requests_ok db"
  "requests_ok (db\<lparr>db_dependencies := x_dependencies\<rparr>) = requests_ok db"
  "requests_ok (db\<lparr>db_leases := x_leases\<rparr>) = requests_ok db"
  "requests_ok (db\<lparr>db_receipts := x_receipts\<rparr>) = requests_ok db"
  "requests_ok (db\<lparr>db_cleanups := x_cleanups\<rparr>) = requests_ok db"
  "requests_ok (db\<lparr>db_bindings := x_bindings\<rparr>) = requests_ok db"
  "requests_ok (db\<lparr>db_reductions := x_reductions\<rparr>) = requests_ok db"
  "requests_ok (db\<lparr>db_locks := x_locks\<rparr>) = requests_ok db"
  "requests_ok (db\<lparr>db_transitions := x_transitions\<rparr>) = requests_ok db"
  "requests_ok (db\<lparr>db_last_project_id := x_last_project_id\<rparr>) = requests_ok db"
  "requests_ok (db\<lparr>db_remaining_weight := x_remaining_weight\<rparr>) = requests_ok db"
  by (simp_all add: requests_ok_def key_defs)

lemma heads_frame [simp]:
  "heads_ok (db\<lparr>db_triggers := x_triggers\<rparr>) = heads_ok db"
  "heads_ok (db\<lparr>db_attempts := x_attempts\<rparr>) = heads_ok db"
  "heads_ok (db\<lparr>db_nodes := x_nodes\<rparr>) = heads_ok db"
  "heads_ok (db\<lparr>db_dependencies := x_dependencies\<rparr>) = heads_ok db"
  "heads_ok (db\<lparr>db_leases := x_leases\<rparr>) = heads_ok db"
  "heads_ok (db\<lparr>db_receipts := x_receipts\<rparr>) = heads_ok db"
  "heads_ok (db\<lparr>db_cleanups := x_cleanups\<rparr>) = heads_ok db"
  "heads_ok (db\<lparr>db_bindings := x_bindings\<rparr>) = heads_ok db"
  "heads_ok (db\<lparr>db_reductions := x_reductions\<rparr>) = heads_ok db"
  "heads_ok (db\<lparr>db_locks := x_locks\<rparr>) = heads_ok db"
  "heads_ok (db\<lparr>db_transitions := x_transitions\<rparr>) = heads_ok db"
  "heads_ok (db\<lparr>db_last_project_id := x_last_project_id\<rparr>) = heads_ok db"
  "heads_ok (db\<lparr>db_remaining_weight := x_remaining_weight\<rparr>) = heads_ok db"
  by (simp_all add: heads_ok_def key_defs)

lemma triggers_frame [simp]:
  "triggers_ok (db\<lparr>db_heads := x_heads\<rparr>) = triggers_ok db"
  "triggers_ok (db\<lparr>db_attempts := x_attempts\<rparr>) = triggers_ok db"
  "triggers_ok (db\<lparr>db_nodes := x_nodes\<rparr>) = triggers_ok db"
  "triggers_ok (db\<lparr>db_dependencies := x_dependencies\<rparr>) = triggers_ok db"
  "triggers_ok (db\<lparr>db_leases := x_leases\<rparr>) = triggers_ok db"
  "triggers_ok (db\<lparr>db_receipts := x_receipts\<rparr>) = triggers_ok db"
  "triggers_ok (db\<lparr>db_cleanups := x_cleanups\<rparr>) = triggers_ok db"
  "triggers_ok (db\<lparr>db_bindings := x_bindings\<rparr>) = triggers_ok db"
  "triggers_ok (db\<lparr>db_reductions := x_reductions\<rparr>) = triggers_ok db"
  "triggers_ok (db\<lparr>db_locks := x_locks\<rparr>) = triggers_ok db"
  "triggers_ok (db\<lparr>db_transitions := x_transitions\<rparr>) = triggers_ok db"
  "triggers_ok (db\<lparr>db_last_project_id := x_last_project_id\<rparr>) = triggers_ok db"
  "triggers_ok (db\<lparr>db_remaining_weight := x_remaining_weight\<rparr>) = triggers_ok db"
  by (simp_all add: triggers_ok_def key_defs)

lemma attempts_frame [simp]:
  "attempts_ok (db\<lparr>db_heads := x_heads\<rparr>) = attempts_ok db"
  "attempts_ok (db\<lparr>db_triggers := x_triggers\<rparr>) = attempts_ok db"
  "attempts_ok (db\<lparr>db_nodes := x_nodes\<rparr>) = attempts_ok db"
  "attempts_ok (db\<lparr>db_dependencies := x_dependencies\<rparr>) = attempts_ok db"
  "attempts_ok (db\<lparr>db_leases := x_leases\<rparr>) = attempts_ok db"
  "attempts_ok (db\<lparr>db_receipts := x_receipts\<rparr>) = attempts_ok db"
  "attempts_ok (db\<lparr>db_cleanups := x_cleanups\<rparr>) = attempts_ok db"
  "attempts_ok (db\<lparr>db_bindings := x_bindings\<rparr>) = attempts_ok db"
  "attempts_ok (db\<lparr>db_reductions := x_reductions\<rparr>) = attempts_ok db"
  "attempts_ok (db\<lparr>db_locks := x_locks\<rparr>) = attempts_ok db"
  "attempts_ok (db\<lparr>db_transitions := x_transitions\<rparr>) = attempts_ok db"
  "attempts_ok (db\<lparr>db_last_project_id := x_last_project_id\<rparr>) = attempts_ok db"
  "attempts_ok (db\<lparr>db_remaining_weight := x_remaining_weight\<rparr>) = attempts_ok db"
  by (simp_all add: attempts_ok_def key_defs)

lemma nodes_frame [simp]:
  "nodes_ok (db\<lparr>db_requests := x_requests\<rparr>) = nodes_ok db"
  "nodes_ok (db\<lparr>db_heads := x_heads\<rparr>) = nodes_ok db"
  "nodes_ok (db\<lparr>db_triggers := x_triggers\<rparr>) = nodes_ok db"
  "nodes_ok (db\<lparr>db_dependencies := x_dependencies\<rparr>) = nodes_ok db"
  "nodes_ok (db\<lparr>db_leases := x_leases\<rparr>) = nodes_ok db"
  "nodes_ok (db\<lparr>db_receipts := x_receipts\<rparr>) = nodes_ok db"
  "nodes_ok (db\<lparr>db_cleanups := x_cleanups\<rparr>) = nodes_ok db"
  "nodes_ok (db\<lparr>db_bindings := x_bindings\<rparr>) = nodes_ok db"
  "nodes_ok (db\<lparr>db_reductions := x_reductions\<rparr>) = nodes_ok db"
  "nodes_ok (db\<lparr>db_locks := x_locks\<rparr>) = nodes_ok db"
  "nodes_ok (db\<lparr>db_transitions := x_transitions\<rparr>) = nodes_ok db"
  "nodes_ok (db\<lparr>db_last_project_id := x_last_project_id\<rparr>) = nodes_ok db"
  "nodes_ok (db\<lparr>db_remaining_weight := x_remaining_weight\<rparr>) = nodes_ok db"
  by (simp_all add: nodes_ok_def key_defs)

lemma dependencies_frame [simp]:
  "dependencies_ok (db\<lparr>db_requests := x_requests\<rparr>) = dependencies_ok db"
  "dependencies_ok (db\<lparr>db_heads := x_heads\<rparr>) = dependencies_ok db"
  "dependencies_ok (db\<lparr>db_triggers := x_triggers\<rparr>) = dependencies_ok db"
  "dependencies_ok (db\<lparr>db_attempts := x_attempts\<rparr>) = dependencies_ok db"
  "dependencies_ok (db\<lparr>db_leases := x_leases\<rparr>) = dependencies_ok db"
  "dependencies_ok (db\<lparr>db_receipts := x_receipts\<rparr>) = dependencies_ok db"
  "dependencies_ok (db\<lparr>db_cleanups := x_cleanups\<rparr>) = dependencies_ok db"
  "dependencies_ok (db\<lparr>db_bindings := x_bindings\<rparr>) = dependencies_ok db"
  "dependencies_ok (db\<lparr>db_reductions := x_reductions\<rparr>) = dependencies_ok db"
  "dependencies_ok (db\<lparr>db_locks := x_locks\<rparr>) = dependencies_ok db"
  "dependencies_ok (db\<lparr>db_transitions := x_transitions\<rparr>) = dependencies_ok db"
  "dependencies_ok (db\<lparr>db_last_project_id := x_last_project_id\<rparr>) = dependencies_ok db"
  "dependencies_ok (db\<lparr>db_remaining_weight := x_remaining_weight\<rparr>) = dependencies_ok db"
  by (simp_all add: dependencies_ok_def key_defs)

lemma leases_frame [simp]:
  "leases_ok (db\<lparr>db_requests := x_requests\<rparr>) = leases_ok db"
  "leases_ok (db\<lparr>db_heads := x_heads\<rparr>) = leases_ok db"
  "leases_ok (db\<lparr>db_triggers := x_triggers\<rparr>) = leases_ok db"
  "leases_ok (db\<lparr>db_attempts := x_attempts\<rparr>) = leases_ok db"
  "leases_ok (db\<lparr>db_dependencies := x_dependencies\<rparr>) = leases_ok db"
  "leases_ok (db\<lparr>db_receipts := x_receipts\<rparr>) = leases_ok db"
  "leases_ok (db\<lparr>db_cleanups := x_cleanups\<rparr>) = leases_ok db"
  "leases_ok (db\<lparr>db_bindings := x_bindings\<rparr>) = leases_ok db"
  "leases_ok (db\<lparr>db_reductions := x_reductions\<rparr>) = leases_ok db"
  "leases_ok (db\<lparr>db_locks := x_locks\<rparr>) = leases_ok db"
  "leases_ok (db\<lparr>db_transitions := x_transitions\<rparr>) = leases_ok db"
  "leases_ok (db\<lparr>db_last_project_id := x_last_project_id\<rparr>) = leases_ok db"
  "leases_ok (db\<lparr>db_remaining_weight := x_remaining_weight\<rparr>) = leases_ok db"
  by (simp_all add: leases_ok_def key_defs)

lemma receipts_frame [simp]:
  "receipts_ok (db\<lparr>db_requests := x_requests\<rparr>) = receipts_ok db"
  "receipts_ok (db\<lparr>db_heads := x_heads\<rparr>) = receipts_ok db"
  "receipts_ok (db\<lparr>db_triggers := x_triggers\<rparr>) = receipts_ok db"
  "receipts_ok (db\<lparr>db_attempts := x_attempts\<rparr>) = receipts_ok db"
  "receipts_ok (db\<lparr>db_dependencies := x_dependencies\<rparr>) = receipts_ok db"
  "receipts_ok (db\<lparr>db_cleanups := x_cleanups\<rparr>) = receipts_ok db"
  "receipts_ok (db\<lparr>db_bindings := x_bindings\<rparr>) = receipts_ok db"
  "receipts_ok (db\<lparr>db_reductions := x_reductions\<rparr>) = receipts_ok db"
  "receipts_ok (db\<lparr>db_locks := x_locks\<rparr>) = receipts_ok db"
  "receipts_ok (db\<lparr>db_transitions := x_transitions\<rparr>) = receipts_ok db"
  "receipts_ok (db\<lparr>db_last_project_id := x_last_project_id\<rparr>) = receipts_ok db"
  "receipts_ok (db\<lparr>db_remaining_weight := x_remaining_weight\<rparr>) = receipts_ok db"
  by (simp_all add: receipts_ok_def key_defs)

lemma cleanups_frame [simp]:
  "cleanups_ok (db\<lparr>db_requests := x_requests\<rparr>) = cleanups_ok db"
  "cleanups_ok (db\<lparr>db_heads := x_heads\<rparr>) = cleanups_ok db"
  "cleanups_ok (db\<lparr>db_triggers := x_triggers\<rparr>) = cleanups_ok db"
  "cleanups_ok (db\<lparr>db_attempts := x_attempts\<rparr>) = cleanups_ok db"
  "cleanups_ok (db\<lparr>db_dependencies := x_dependencies\<rparr>) = cleanups_ok db"
  "cleanups_ok (db\<lparr>db_receipts := x_receipts\<rparr>) = cleanups_ok db"
  "cleanups_ok (db\<lparr>db_bindings := x_bindings\<rparr>) = cleanups_ok db"
  "cleanups_ok (db\<lparr>db_reductions := x_reductions\<rparr>) = cleanups_ok db"
  "cleanups_ok (db\<lparr>db_locks := x_locks\<rparr>) = cleanups_ok db"
  "cleanups_ok (db\<lparr>db_transitions := x_transitions\<rparr>) = cleanups_ok db"
  "cleanups_ok (db\<lparr>db_last_project_id := x_last_project_id\<rparr>) = cleanups_ok db"
  "cleanups_ok (db\<lparr>db_remaining_weight := x_remaining_weight\<rparr>) = cleanups_ok db"
  by (simp_all add: cleanups_ok_def key_defs)

lemma bindings_frame [simp]:
  "bindings_ok (db\<lparr>db_requests := x_requests\<rparr>) = bindings_ok db"
  "bindings_ok (db\<lparr>db_heads := x_heads\<rparr>) = bindings_ok db"
  "bindings_ok (db\<lparr>db_triggers := x_triggers\<rparr>) = bindings_ok db"
  "bindings_ok (db\<lparr>db_nodes := x_nodes\<rparr>) = bindings_ok db"
  "bindings_ok (db\<lparr>db_dependencies := x_dependencies\<rparr>) = bindings_ok db"
  "bindings_ok (db\<lparr>db_leases := x_leases\<rparr>) = bindings_ok db"
  "bindings_ok (db\<lparr>db_receipts := x_receipts\<rparr>) = bindings_ok db"
  "bindings_ok (db\<lparr>db_cleanups := x_cleanups\<rparr>) = bindings_ok db"
  "bindings_ok (db\<lparr>db_reductions := x_reductions\<rparr>) = bindings_ok db"
  "bindings_ok (db\<lparr>db_locks := x_locks\<rparr>) = bindings_ok db"
  "bindings_ok (db\<lparr>db_transitions := x_transitions\<rparr>) = bindings_ok db"
  "bindings_ok (db\<lparr>db_last_project_id := x_last_project_id\<rparr>) = bindings_ok db"
  "bindings_ok (db\<lparr>db_remaining_weight := x_remaining_weight\<rparr>) = bindings_ok db"
  by (simp_all add: bindings_ok_def key_defs)

lemma reductions_frame [simp]:
  "reductions_ok (db\<lparr>db_requests := x_requests\<rparr>) = reductions_ok db"
  "reductions_ok (db\<lparr>db_heads := x_heads\<rparr>) = reductions_ok db"
  "reductions_ok (db\<lparr>db_triggers := x_triggers\<rparr>) = reductions_ok db"
  "reductions_ok (db\<lparr>db_dependencies := x_dependencies\<rparr>) = reductions_ok db"
  "reductions_ok (db\<lparr>db_leases := x_leases\<rparr>) = reductions_ok db"
  "reductions_ok (db\<lparr>db_receipts := x_receipts\<rparr>) = reductions_ok db"
  "reductions_ok (db\<lparr>db_cleanups := x_cleanups\<rparr>) = reductions_ok db"
  "reductions_ok (db\<lparr>db_bindings := x_bindings\<rparr>) = reductions_ok db"
  "reductions_ok (db\<lparr>db_locks := x_locks\<rparr>) = reductions_ok db"
  "reductions_ok (db\<lparr>db_transitions := x_transitions\<rparr>) = reductions_ok db"
  "reductions_ok (db\<lparr>db_last_project_id := x_last_project_id\<rparr>) = reductions_ok db"
  "reductions_ok (db\<lparr>db_remaining_weight := x_remaining_weight\<rparr>) = reductions_ok db"
  by (simp_all add: reductions_ok_def key_defs)

lemma locks_frame [simp]:
  "locks_ok (db\<lparr>db_requests := x_requests\<rparr>) = locks_ok db"
  "locks_ok (db\<lparr>db_heads := x_heads\<rparr>) = locks_ok db"
  "locks_ok (db\<lparr>db_triggers := x_triggers\<rparr>) = locks_ok db"
  "locks_ok (db\<lparr>db_nodes := x_nodes\<rparr>) = locks_ok db"
  "locks_ok (db\<lparr>db_dependencies := x_dependencies\<rparr>) = locks_ok db"
  "locks_ok (db\<lparr>db_leases := x_leases\<rparr>) = locks_ok db"
  "locks_ok (db\<lparr>db_receipts := x_receipts\<rparr>) = locks_ok db"
  "locks_ok (db\<lparr>db_cleanups := x_cleanups\<rparr>) = locks_ok db"
  "locks_ok (db\<lparr>db_bindings := x_bindings\<rparr>) = locks_ok db"
  "locks_ok (db\<lparr>db_reductions := x_reductions\<rparr>) = locks_ok db"
  "locks_ok (db\<lparr>db_transitions := x_transitions\<rparr>) = locks_ok db"
  "locks_ok (db\<lparr>db_last_project_id := x_last_project_id\<rparr>) = locks_ok db"
  "locks_ok (db\<lparr>db_remaining_weight := x_remaining_weight\<rparr>) = locks_ok db"
  by (simp_all add: locks_ok_def key_defs)

lemma transitions_frame [simp]:
  "transitions_ok (db\<lparr>db_requests := x_requests\<rparr>) = transitions_ok db"
  "transitions_ok (db\<lparr>db_heads := x_heads\<rparr>) = transitions_ok db"
  "transitions_ok (db\<lparr>db_triggers := x_triggers\<rparr>) = transitions_ok db"
  "transitions_ok (db\<lparr>db_nodes := x_nodes\<rparr>) = transitions_ok db"
  "transitions_ok (db\<lparr>db_dependencies := x_dependencies\<rparr>) = transitions_ok db"
  "transitions_ok (db\<lparr>db_leases := x_leases\<rparr>) = transitions_ok db"
  "transitions_ok (db\<lparr>db_receipts := x_receipts\<rparr>) = transitions_ok db"
  "transitions_ok (db\<lparr>db_cleanups := x_cleanups\<rparr>) = transitions_ok db"
  "transitions_ok (db\<lparr>db_bindings := x_bindings\<rparr>) = transitions_ok db"
  "transitions_ok (db\<lparr>db_reductions := x_reductions\<rparr>) = transitions_ok db"
  "transitions_ok (db\<lparr>db_locks := x_locks\<rparr>) = transitions_ok db"
  "transitions_ok (db\<lparr>db_last_project_id := x_last_project_id\<rparr>) = transitions_ok db"
  "transitions_ok (db\<lparr>db_remaining_weight := x_remaining_weight\<rparr>) = transitions_ok db"
  by (simp_all add: transitions_ok_def key_defs)

lemma cursor_frame [simp]:
  "cursor_ok (db\<lparr>db_requests := x_requests\<rparr>) = cursor_ok db"
  "cursor_ok (db\<lparr>db_heads := x_heads\<rparr>) = cursor_ok db"
  "cursor_ok (db\<lparr>db_triggers := x_triggers\<rparr>) = cursor_ok db"
  "cursor_ok (db\<lparr>db_attempts := x_attempts\<rparr>) = cursor_ok db"
  "cursor_ok (db\<lparr>db_nodes := x_nodes\<rparr>) = cursor_ok db"
  "cursor_ok (db\<lparr>db_dependencies := x_dependencies\<rparr>) = cursor_ok db"
  "cursor_ok (db\<lparr>db_leases := x_leases\<rparr>) = cursor_ok db"
  "cursor_ok (db\<lparr>db_receipts := x_receipts\<rparr>) = cursor_ok db"
  "cursor_ok (db\<lparr>db_cleanups := x_cleanups\<rparr>) = cursor_ok db"
  "cursor_ok (db\<lparr>db_bindings := x_bindings\<rparr>) = cursor_ok db"
  "cursor_ok (db\<lparr>db_reductions := x_reductions\<rparr>) = cursor_ok db"
  "cursor_ok (db\<lparr>db_locks := x_locks\<rparr>) = cursor_ok db"
  "cursor_ok (db\<lparr>db_transitions := x_transitions\<rparr>) = cursor_ok db"
  "cursor_ok (db\<lparr>db_last_project_id := x_last_project_id\<rparr>) = cursor_ok db"
  by (simp_all add: cursor_ok_def key_defs)

lemma requests_keys_frame:
  assumes "map rq_request_id rows = map rq_request_id (db_requests db)"
  shows "heads_ok (db\<lparr>db_requests := rows\<rparr>) = heads_ok db"
    "triggers_ok (db\<lparr>db_requests := rows\<rparr>) = triggers_ok db"
    "attempts_ok (db\<lparr>db_requests := rows\<rparr>) = attempts_ok db"
  using assms by (simp_all add: heads_ok_def triggers_ok_def attempts_ok_def key_defs flip: set_map)

lemma attempts_keys_frame:
  assumes "map at_attempt_id rows = map at_attempt_id (db_attempts db)"
  shows "nodes_ok (db\<lparr>db_attempts := rows\<rparr>) = nodes_ok db"
    "bindings_ok (db\<lparr>db_attempts := rows\<rparr>) = bindings_ok db"
    "reductions_ok (db\<lparr>db_attempts := rows\<rparr>) = reductions_ok db"
    "locks_ok (db\<lparr>db_attempts := rows\<rparr>) = locks_ok db"
    "transitions_ok (db\<lparr>db_attempts := rows\<rparr>) = transitions_ok db"
  using assms by (simp_all add: nodes_ok_def bindings_ok_def reductions_ok_def locks_ok_def transitions_ok_def key_defs flip: set_map)

lemma nodes_keys_frame:
  assumes "map node_key rows = map node_key (db_nodes db)"
  shows "dependencies_ok (db\<lparr>db_nodes := rows\<rparr>) = dependencies_ok db"
    "leases_ok (db\<lparr>db_nodes := rows\<rparr>) = leases_ok db"
    "receipts_ok (db\<lparr>db_nodes := rows\<rparr>) = receipts_ok db"
    "cleanups_ok (db\<lparr>db_nodes := rows\<rparr>) = cleanups_ok db"
    "reductions_ok (db\<lparr>db_nodes := rows\<rparr>) = reductions_ok db"
  using assms by (simp_all add: dependencies_ok_def leases_ok_def receipts_ok_def cleanups_ok_def reductions_ok_def key_defs flip: set_map)

lemma leases_keys_frame:
  assumes "map lj_lease_id rows = map lj_lease_id (db_leases db)"
  shows "receipts_ok (db\<lparr>db_leases := rows\<rparr>) = receipts_ok db"
    "cleanups_ok (db\<lparr>db_leases := rows\<rparr>) = cleanups_ok db"
  using assms by (simp_all add: receipts_ok_def cleanups_ok_def key_defs flip: set_map)

lemma requests_append_frame:
  shows "heads_ok db \<Longrightarrow> heads_ok (db\<lparr>db_requests := db_requests db @ rows\<rparr>)"
    "triggers_ok db \<Longrightarrow> triggers_ok (db\<lparr>db_requests := db_requests db @ rows\<rparr>)"
    "attempts_ok db \<Longrightarrow> attempts_ok (db\<lparr>db_requests := db_requests db @ rows\<rparr>)"
  by (simp_all add: heads_ok_def triggers_ok_def attempts_ok_def key_defs list_all_iff)

lemma attempts_append_frame:
  shows "nodes_ok db \<Longrightarrow> nodes_ok (db\<lparr>db_attempts := db_attempts db @ rows\<rparr>)"
    "bindings_ok db \<Longrightarrow> bindings_ok (db\<lparr>db_attempts := db_attempts db @ rows\<rparr>)"
    "reductions_ok db \<Longrightarrow> reductions_ok (db\<lparr>db_attempts := db_attempts db @ rows\<rparr>)"
    "locks_ok db \<Longrightarrow> locks_ok (db\<lparr>db_attempts := db_attempts db @ rows\<rparr>)"
    "transitions_ok db \<Longrightarrow> transitions_ok (db\<lparr>db_attempts := db_attempts db @ rows\<rparr>)"
  by (simp_all add: nodes_ok_def bindings_ok_def reductions_ok_def locks_ok_def transitions_ok_def key_defs list_all_iff)

lemma nodes_append_frame:
  shows "dependencies_ok db \<Longrightarrow> dependencies_ok (db\<lparr>db_nodes := db_nodes db @ rows\<rparr>)"
    "leases_ok db \<Longrightarrow> leases_ok (db\<lparr>db_nodes := db_nodes db @ rows\<rparr>)"
    "receipts_ok db \<Longrightarrow> receipts_ok (db\<lparr>db_nodes := db_nodes db @ rows\<rparr>)"
    "cleanups_ok db \<Longrightarrow> cleanups_ok (db\<lparr>db_nodes := db_nodes db @ rows\<rparr>)"
    "reductions_ok db \<Longrightarrow> reductions_ok (db\<lparr>db_nodes := db_nodes db @ rows\<rparr>)"
  by (simp_all add: dependencies_ok_def leases_ok_def receipts_ok_def cleanups_ok_def reductions_ok_def key_defs list_all_iff)

lemma leases_append_frame:
  shows "receipts_ok db \<Longrightarrow> receipts_ok (db\<lparr>db_leases := db_leases db @ rows\<rparr>)"
    "cleanups_ok db \<Longrightarrow> cleanups_ok (db\<lparr>db_leases := db_leases db @ rows\<rparr>)"
  by (simp_all add: receipts_ok_def cleanups_ok_def key_defs list_all_iff)

end
