(* ===== verification/Scheduler_Journal.thy ===== *)
theory Scheduler_Journal
  imports Scheduler_Schema
begin

text \<open>
  The steps the operations of \<open>src/scheduler.rs\<close> share: the transition journal, the stored context and
  the snapshot of an attempt, the release of nodes whose dependencies succeeded, and the ways an
  attempt ends or is set aside for reconciliation.
\<close>

section \<open>Documents of the scheduler\<close>

datatype preparation_key_payload = Preparation_key_payload
  (kp_purpose: string) (kp_project_id: project_id) (kp_source_sha: git_commit_id)
  (kp_workflow_policy_digest: evidence_digest)

datatype expected_input_payload = Expected_input_payload
  (ep_purpose: string) (ep_project_id: project_id) (ep_source_sha: git_commit_id)
  (ep_workflow_policy_digest: evidence_digest) (ep_preparation_key: evidence_digest)
  (ep_node_id: node_id) (ep_dependencies: "lease_input list")

record 'j sched_codec = "'j manifest_codec" +
  preparation_key_jcs :: "preparation_key_payload \<Rightarrow> serde_error + 'j"
  expected_input_jcs :: "expected_input_payload \<Rightarrow> serde_error + 'j"
  operation_state_jcs :: "wf_operation_state \<Rightarrow> serde_error + 'j"
  operation_state_json :: "'j \<Rightarrow> serde_error + wf_operation_state"

definition preparation_key_of ::
  "('j, 'x) sched_codec_scheme \<Rightarrow> project_id \<Rightarrow> git_commit_id \<Rightarrow> evidence_digest \<Rightarrow>
   store_error + evidence_digest" where
  "preparation_key_of E project source policy_digest =
     map_err (\<lambda>_. Json) (seal (preparation_key_jcs E) (wf_sha256 E)
       (Preparation_key_payload ''rdashboard.prepared-run-key.v1'' project source policy_digest))"


section \<open>The transition journal\<close>

definition last_sequence :: "uuid \<Rightarrow> 'j db \<Rightarrow> int" where
  "last_sequence attempt db =
     foldl max 0 (map tr_sequence (filter (\<lambda>t. tr_attempt_id t = attempt) (db_transitions db)))"

definition append_transition ::
  "uuid \<Rightarrow> subject \<Rightarrow> string option \<Rightarrow> string \<Rightarrow> string \<Rightarrow> evidence_digest option \<Rightarrow> int \<Rightarrow>
   ('j, unit) stx" where
  "append_transition attempt subject from_state to_state reason evidence occurred_at_ms =
     tx_bind (tx_query (last_sequence attempt)) (\<lambda>current.
     tx_bind (tx_lift (ok_or (checked_add_i64 current 1)
         (CorruptWorkflowJournal ''transition sequence''))) (\<lambda>sequence.
     insert_transition \<lparr> tr_attempt_id = attempt, tr_sequence = sequence, tr_subject = subject,
       tr_from_state = from_state, tr_to_state = to_state, tr_reason = reason,
       tr_evidence_digest = evidence, tr_occurred_at_ms = occurred_at_ms \<rparr>))"


section \<open>The context of an attempt\<close>

record attempt_context =
  ac_request_id :: uuid
  ac_attempt_id :: uuid
  ac_attempt_number :: nat
  ac_project_id :: project_id
  ac_source_sha :: git_commit_id
  ac_source_sequence :: nat
  ac_workflow_policy_digest :: evidence_digest
  ac_source_attestation_digest :: evidence_digest
  ac_preparation_key :: evidence_digest
  ac_priority :: nat
  ac_execution_mode :: execution_mode
  ac_attempt_state :: attempt_state
  ac_mutation_state :: mutation_state
  ac_cleanup_state :: cleanup_state
  ac_created_at_ms :: int
  ac_updated_at_ms :: int
  ac_terminal_at_ms :: "int option"
  ac_manifest :: project_manifest

definition find_attempt :: "uuid \<Rightarrow> 'j db \<Rightarrow> attempt_row option" where
  "find_attempt attempt db = find (\<lambda>a. at_attempt_id a = attempt) (db_attempts db)"

definition find_request :: "uuid \<Rightarrow> 'j db \<Rightarrow> 'j request_row option" where
  "find_request request db = find (\<lambda>r. rq_request_id r = request) (db_requests db)"

definition find_node_row :: "uuid \<Rightarrow> string \<Rightarrow> 'j db \<Rightarrow> node_row option" where
  "find_node_row attempt node db =
     find (\<lambda>n. nd_attempt_id n = attempt \<and> nd_node_id n = node) (db_nodes db)"

text \<open>The attempt joined with its request.\<close>

definition read_attempt_context_row ::
  "uuid \<Rightarrow> 'j db \<Rightarrow> store_error + attempt_row \<times> 'j request_row" where
  "read_attempt_context_row attempt_id db =
     bind_res (ok_or (find_attempt attempt_id db) (WorkflowAttemptNotFound attempt_id)) (\<lambda>a.
     bind_res (ok_or (find_request (at_request_id a) db) (WorkflowAttemptNotFound attempt_id)) (\<lambda>r.
     Inr (a, r)))"

definition load_attempt_context ::
  "('j, 'x) sched_codec_scheme \<Rightarrow> uuid \<Rightarrow> 'j db \<Rightarrow> store_error + attempt_context" where
  "load_attempt_context E attempt_id db =
     bind_res (read_attempt_context_row attempt_id db) (\<lambda>(a, r).
     if at_created_at_ms a < 0 \<or> at_updated_at_ms a < at_created_at_ms a
       then Inl (CorruptWorkflowJournal ''attempt timestamps or kind'')
     else
     bind_res (map_err (\<lambda>_. CorruptWorkflowJournal ''project ID'')
         (project_id_from_str (rq_project_id r))) (\<lambda>project.
     bind_res (parse_source_sha (rq_source_sha r)) (\<lambda>source.
     bind_res (parse_digest (rq_policy_digest r) ''workflow policy digest'') (\<lambda>policy_digest.
     bind_res (parse_digest (rq_attestation_digest r) ''source attestation digest'') (\<lambda>attestation.
     bind_res (parse_digest (at_preparation_key a) ''preparation key'') (\<lambda>key.
     bind_res (map_err ManifestContract (manifest_decode_canonical E (rq_manifest_json r))) (\<lambda>manifest.
     bind_res (if pm_project_id manifest \<noteq> project then Inl WorkflowPolicyMismatch
       else bind_res (map_err ManifestContract (workflow_policy_digest E manifest)) (\<lambda>d.
         ensure (d = policy_digest) WorkflowPolicyMismatch)) (\<lambda>_.
     bind_res (preparation_key_of E project source policy_digest) (\<lambda>expected_key.
     if key \<noteq> expected_key then Inl (CorruptWorkflowJournal ''preparation key binding'')
     else
     bind_res (try_u32 (at_attempt_number a) ''attempt number'') (\<lambda>attempt_number.
     bind_res (to_u64 (rq_source_sequence r) ''source sequence'') (\<lambda>source_sequence.
     bind_res (try_u8 (rq_priority r) ''request priority'') (\<lambda>priority.
     Inr \<lparr> ac_request_id = rq_request_id r, ac_attempt_id = attempt_id,
       ac_attempt_number = attempt_number, ac_project_id = project, ac_source_sha = source,
       ac_source_sequence = source_sequence, ac_workflow_policy_digest = policy_digest,
       ac_source_attestation_digest = attestation, ac_preparation_key = key,
       ac_priority = priority, ac_execution_mode = rq_operation_kind r,
       ac_attempt_state = at_state a, ac_mutation_state = at_mutation_state a,
       ac_cleanup_state = at_cleanup_state a, ac_created_at_ms = at_created_at_ms a,
       ac_updated_at_ms = at_updated_at_ms a, ac_terminal_at_ms = at_terminal_at_ms a,
       ac_manifest = manifest \<rparr>))))))))))))"


section \<open>Snapshots\<close>

record node_snapshot =
  ns_node_id :: node_id
  ns_kind :: node_kind
  ns_profile_id :: profile_id
  ns_worker_pool :: worker_pool
  ns_state :: node_state
  ns_lease_generation :: nat
  ns_output_digest :: "evidence_digest option"
  ns_receipt_digest :: "evidence_digest option"
  ns_started_at_ms :: "int option"
  ns_completed_at_ms :: "int option"
  ns_output_size_bytes :: "nat option"

record attempt_snapshot =
  as_context :: attempt_context
  as_nodes :: "node_snapshot list"

definition receipt_of_node :: "uuid \<Rightarrow> string \<Rightarrow> 'j db \<Rightarrow> 'j receipt_row option" where
  "receipt_of_node attempt node db =
     find (\<lambda>r. rc_attempt_id r = attempt \<and> rc_node_id r = node) (db_receipts db)"

definition find_lease :: "uuid \<Rightarrow> 'j db \<Rightarrow> 'j lease_row option" where
  "find_lease lease db = find (\<lambda>l. lj_lease_id l = lease) (db_leases db)"

definition active_lease_of_node :: "uuid \<Rightarrow> string \<Rightarrow> 'j db \<Rightarrow> 'j lease_row option" where
  "active_lease_of_node attempt node db =
     find (\<lambda>l. lj_attempt_id l = attempt \<and> lj_node_id l = node \<and> lj_state l = Active) (db_leases db)"

text \<open>\<open>COALESCE(committed_lease.leased_at_ms, active_lease.leased_at_ms)\<close>.\<close>

definition node_started_at :: "node_row \<Rightarrow> 'j db \<Rightarrow> int option" where
  "node_started_at n db =
     (case map_option lj_leased_at_ms (Option.bind (receipt_of_node (nd_attempt_id n) (nd_node_id n) db)
         (\<lambda>r. find_lease (rc_lease_id r) db)) of
        Some t \<Rightarrow> Some t
      | None \<Rightarrow> map_option lj_leased_at_ms (active_lease_of_node (nd_attempt_id n) (nd_node_id n) db))"

definition read_workflow_node_snapshot_rows :: "uuid \<Rightarrow> 'j db \<Rightarrow> node_row list" where
  "read_workflow_node_snapshot_rows attempt_id db =
     sort_key nd_ordinal (filter (\<lambda>n. nd_attempt_id n = attempt_id) (db_nodes db))"

definition persisted_dependencies :: "uuid \<Rightarrow> string \<Rightarrow> 'j db \<Rightarrow> string list" where
  "persisted_dependencies attempt node db =
     sort (map dp_dependency_node_id
       (filter (\<lambda>d. dp_attempt_id d = attempt \<and> dp_node_id d = node) (db_dependencies db)))"

definition validate_persisted_dependencies ::
  "uuid \<Rightarrow> workflow_node \<Rightarrow> 'j db \<Rightarrow> store_error + unit" where
  "validate_persisted_dependencies attempt_id manifest_node db =
     ensure (persisted_dependencies attempt_id (n_node_id manifest_node) db = n_depends_on manifest_node)
       (CorruptWorkflowJournal ''node dependency binding'')"

definition optional_digest :: "string option \<Rightarrow> string \<Rightarrow> store_error + evidence_digest option" where
  "optional_digest value field =
     (case value of None \<Rightarrow> Inr None | Some v \<Rightarrow> bind_res (parse_digest v field) (\<lambda>d. Inr (Some d)))"

definition snapshot_node ::
  "('j, 'x) sched_codec_scheme \<Rightarrow> attempt_context \<Rightarrow> 'j db \<Rightarrow> nat \<times> node_row \<times> workflow_node \<Rightarrow>
   store_error + node_snapshot" where
  "snapshot_node E context db = (\<lambda>(index, row, manifest_node).
     bind_res (ok_or (policy_profile (pm_workflow (ac_manifest context)) (n_profile_id manifest_node))
         (CorruptWorkflowJournal ''snapshot profile'')) (\<lambda>profile.
     if nd_ordinal row \<noteq> int index \<or> nd_node_id row \<noteq> n_node_id manifest_node \<or>
        nd_kind row \<noteq> n_kind manifest_node \<or> nd_activation row \<noteq> n_activation manifest_node \<or>
        nd_profile_id row \<noteq> n_profile_id manifest_node \<or>
        nd_worker_pool row \<noteq> p_worker_pool profile
       then Inl (CorruptWorkflowJournal ''node manifest binding'')
     else
     bind_res (validate_persisted_dependencies (ac_attempt_id context) manifest_node db) (\<lambda>_.
     bind_res (case receipt_of_node (nd_attempt_id row) (nd_node_id row) db of
         None \<Rightarrow> Inr None
       | Some r \<Rightarrow> bind_res (map_err WorkflowContract
           (node_receipt_decode_canonical E (rc_receipt_json r)))
           (\<lambda>receipt. Inr (nr_output_size_bytes receipt))) (\<lambda>output_size_bytes.
     bind_res (try_u32 (nd_lease_generation row) ''node lease generation'') (\<lambda>lease_generation.
     bind_res (optional_digest (nd_output_digest row) ''node output digest'') (\<lambda>output_digest.
     bind_res (optional_digest (nd_receipt_digest row) ''node receipt digest'') (\<lambda>receipt_digest.
     Inr \<lparr> ns_node_id = n_node_id manifest_node, ns_kind = n_kind manifest_node,
       ns_profile_id = n_profile_id manifest_node, ns_worker_pool = p_worker_pool profile,
       ns_state = nd_state row, ns_lease_generation = lease_generation,
       ns_output_digest = output_digest, ns_receipt_digest = receipt_digest,
       ns_started_at_ms = node_started_at row db, ns_completed_at_ms = nd_completed_at_ms row,
       ns_output_size_bytes = output_size_bytes \<rparr>)))))))"

definition load_attempt_snapshot ::
  "('j, 'x) sched_codec_scheme \<Rightarrow> uuid \<Rightarrow> 'j db \<Rightarrow> store_error + attempt_snapshot" where
  "load_attempt_snapshot E attempt_id db =
     bind_res (load_attempt_context E attempt_id db) (\<lambda>context.
     bind_res (map_err WorkflowContract (ordered_nodes (pm_workflow (ac_manifest context)))) (\<lambda>ordered.
     let rows = read_workflow_node_snapshot_rows attempt_id db in
     if length rows \<noteq> length ordered then Inl (CorruptWorkflowJournal ''node cardinality'')
     else
     bind_res (collect_res (snapshot_node E context db) (zip [0..<length rows] (zip rows ordered)))
       (\<lambda>nodes. Inr \<lparr> as_context = context, as_nodes = nodes \<rparr>)))"

text \<open>The attempt with the greatest number; attempt numbers of a request are distinct.\<close>

definition latest_attempt :: "uuid \<Rightarrow> 'j db \<Rightarrow> attempt_row option" where
  "latest_attempt request db =
     (case rev (sort_key at_attempt_number (filter (\<lambda>a. at_request_id a = request) (db_attempts db))) of
        [] \<Rightarrow> None | a # _ \<Rightarrow> Some a)"

definition load_latest_attempt_for_request ::
  "('j, 'x) sched_codec_scheme \<Rightarrow> uuid \<Rightarrow> 'j db \<Rightarrow> store_error + attempt_snapshot" where
  "load_latest_attempt_for_request E request_id db =
     bind_res (ok_or (latest_attempt request_id db)
         (CorruptWorkflowJournal ''request without attempt'')) (\<lambda>a.
     load_attempt_snapshot E (at_attempt_id a) db)"

definition scheduler_attempt ::
  "('j, 'x) sched_codec_scheme \<Rightarrow> uuid \<Rightarrow> 'j db \<Rightarrow> store_error + attempt_snapshot option" where
  "scheduler_attempt E attempt_id db =
     (if is_nil attempt_id then Inl (InvalidWorkflowSchedulerInput ''attempt ID'')
      else if find_attempt attempt_id db = None then Inr None
      else bind_res (load_attempt_snapshot E attempt_id db) (\<lambda>s. Inr (Some s)))"


section \<open>Outstanding cleanup\<close>

text \<open>\<open>json_extract(receipt.receipt_json, '$.cleanup_result') = 'pending'\<close>.\<close>

definition json_cleanup_pending :: "('j, 'x) sched_codec_scheme \<Rightarrow> 'j \<Rightarrow> store_error + bool" where
  "json_cleanup_pending E json =
     bind_res (map_err (\<lambda>_. Sqlite) (node_receipt_json E json)) (\<lambda>r. Inr (nr_cleanup_result r = Pending))"

definition receipt_of_lease :: "uuid \<Rightarrow> 'j db \<Rightarrow> 'j receipt_row option" where
  "receipt_of_lease lease db = find (\<lambda>r. rc_lease_id r = lease) (db_receipts db)"

definition cleanup_of_lease :: "uuid \<Rightarrow> 'j db \<Rightarrow> 'j cleanup_row option" where
  "cleanup_of_lease lease db = find (\<lambda>r. cl_lease_id r = lease) (db_cleanups db)"

definition lease_cleanup_unresolved ::
  "('j, 'x) sched_codec_scheme \<Rightarrow> 'j db \<Rightarrow> 'j lease_row \<Rightarrow> store_error + bool" where
  "lease_cleanup_unresolved E db l =
     (if cleanup_of_lease (lj_lease_id l) db \<noteq> None then Inr False
      else case lj_state l of
        Expired \<Rightarrow> Inr True
      | Revoked \<Rightarrow> Inr True
      | Active \<Rightarrow> Inr False
      | Committed \<Rightarrow> (case receipt_of_lease (lj_lease_id l) db of
          None \<Rightarrow> Inr False
        | Some r \<Rightarrow> json_cleanup_pending E (rc_receipt_json r)))"

definition unresolved_cleanup_count ::
  "('j, 'x) sched_codec_scheme \<Rightarrow> uuid \<Rightarrow> 'j db \<Rightarrow> store_error + nat" where
  "unresolved_cleanup_count E attempt_id db =
     bind_res (collect_res (lease_cleanup_unresolved E db)
         (filter (\<lambda>l. lj_attempt_id l = attempt_id) (db_leases db)))
       (\<lambda>flags. Inr (length (filter id flags)))"


section \<open>Releasing nodes\<close>

definition dependencies_succeeded :: "node_row \<Rightarrow> 'j db \<Rightarrow> bool" where
  "dependencies_succeeded n db \<longleftrightarrow>
     \<not> list_ex (\<lambda>d. dp_attempt_id d = nd_attempt_id n \<and> dp_node_id d = nd_node_id n \<and>
         list_ex (\<lambda>q. nd_attempt_id q = dp_attempt_id d \<and> nd_node_id q = dp_dependency_node_id d \<and>
           nd_state q \<noteq> Node_Succeeded) (db_nodes db)) (db_dependencies db)"

definition releasable :: "uuid \<Rightarrow> 'j db \<Rightarrow> string list" where
  "releasable attempt_id db =
     map nd_node_id (sort_key nd_ordinal
       (filter (\<lambda>n. nd_attempt_id n = attempt_id \<and> nd_state n = Blocked \<and> nd_activation n = Always \<and>
          dependencies_succeeded n db) (db_nodes db)))"

definition release_node :: "uuid \<Rightarrow> string \<Rightarrow> ('j, unit) stx" where
  "release_node attempt_id node_id = execute (update_nodes
     (\<lambda>n. nd_attempt_id n = attempt_id \<and> nd_node_id n = node_id \<and> nd_state n = Blocked)
     (\<lambda>n. n\<lparr>nd_state := Ready\<rparr>))"

definition blocked_count :: "uuid \<Rightarrow> 'j db \<Rightarrow> nat" where
  "blocked_count attempt_id db =
     count_where (\<lambda>n. nd_attempt_id n = attempt_id \<and> nd_state n = Blocked) (db_nodes db)"

lemma release_node_Inr:
  "release_node attempt_id node_id db = Inr (u, db') \<Longrightarrow>
   db' = db\<lparr>db_nodes := update_where
     (\<lambda>n. nd_attempt_id n = attempt_id \<and> nd_node_id n = node_id \<and> nd_state n = Blocked)
     (\<lambda>n. n\<lparr>nd_state := Ready\<rparr>) (db_nodes db)\<rparr>"
  by (auto simp: release_node_def execute_Inr_iff update_nodes_def change_table_Inr_iff)

lemma length_filter_update_where_less:
  assumes "\<And>r. p r \<Longrightarrow> q r" "\<And>r. p r \<Longrightarrow> \<not> q (f r)"
  shows "length (filter q (update_where p f rows)) \<le> length (filter q rows)"
    and "\<exists>r\<in>set rows. p r \<Longrightarrow>
      length (filter q (update_where p f rows)) < length (filter q rows)"
proof (induction rows)
  case (Cons r rows)
  { case 1 show ?case using Cons(1) assms by auto }
  { case 2
    then show ?case using Cons assms by (cases "p r") (auto simp: less_Suc_eq_le) }
qed simp_all

lemma release_node_blocked:
  assumes "release_node attempt_id node_id db = Inr (u, db')"
  shows "blocked_count attempt_id db' \<le> blocked_count attempt_id db"
    and "\<exists>n\<in>set (db_nodes db). nd_attempt_id n = attempt_id \<and> nd_node_id n = node_id \<and>
      nd_state n = Blocked \<Longrightarrow> blocked_count attempt_id db' < blocked_count attempt_id db"
  using release_node_Inr [OF assms]
  by (auto simp: blocked_count_def count_where_def intro!: length_filter_update_where_less)

lemma release_nodes_blocked_le:
  "tx_each (release_node attempt_id) ids db = Inr (u, db') \<Longrightarrow>
   blocked_count attempt_id db' \<le> blocked_count attempt_id db"
proof (induction ids arbitrary: db)
  case (Cons i ids)
  then obtain t where "release_node attempt_id i db = Inr ((), t)"
    "tx_each (release_node attempt_id) ids t = Inr (u, db')" by auto
  with Cons.IH [of t] release_node_blocked(1) show ?case by (meson le_trans)
qed simp

lemma releasable_blocked:
  "i \<in> set (releasable attempt_id db) \<Longrightarrow>
   \<exists>n\<in>set (db_nodes db). nd_attempt_id n = attempt_id \<and> nd_node_id n = i \<and> nd_state n = Blocked"
  by (auto simp: releasable_def)

lemma release_pass_blocked:
  assumes "releasable attempt_id db = i # ids"
    and "release_node attempt_id i db = Inr (u, t)"
    and "tx_each (release_node attempt_id) ids t = Inr (v, db')"
  shows "blocked_count attempt_id db' < blocked_count attempt_id db"
proof -
  from assms(1) have "i \<in> set (releasable attempt_id db)" by simp
  from release_node_blocked(2) [OF assms(2) releasable_blocked [OF this]]
    release_nodes_blocked_le [OF assms(3)]
  show ?thesis by simp
qed

function advance_ready_nodes :: "uuid \<Rightarrow> ('j, unit) stx" where
  "advance_ready_nodes attempt_id db =
     (case releasable attempt_id db of
        [] \<Rightarrow> Inr ((), db)
      | i # ids \<Rightarrow> (case tx_each (release_node attempt_id) (i # ids) db of
            Inl e \<Rightarrow> Inl e
          | Inr (_, db') \<Rightarrow> advance_ready_nodes attempt_id db'))"
  by pat_completeness auto

termination advance_ready_nodes
  by (relation "measure (\<lambda>(attempt_id, db). blocked_count attempt_id db)")
    (auto intro: release_pass_blocked)

declare advance_ready_nodes.simps [simp del]


section \<open>The end of an attempt\<close>

definition cleanup_state_of :: "cleanup_result \<Rightarrow> cleanup_state" where
  "cleanup_state_of r = (case r of Complete \<Rightarrow> Cleanup_Complete | Pending \<Rightarrow> Cleanup_Pending)"

definition mark_workflow_needs_reconcile ::
  "uuid \<Rightarrow> cleanup_result \<Rightarrow> int \<Rightarrow> ('j, unit) stx" where
  "mark_workflow_needs_reconcile attempt_id cleanup recorded_at_ms =
     tx_bind (expect_one (update_attempts (\<lambda>a. at_attempt_id a = attempt_id)
         (\<lambda>a. a\<lparr>at_state := Attempt_NeedsReconcile, at_mutation_state := Mutation_NeedsReconcile,
            at_cleanup_state := cleanup_state_of cleanup, at_updated_at_ms := recorded_at_ms\<rparr>))
         WorkflowStateConflict) (\<lambda>_.
     expect_one (update_locks (\<lambda>l. lk_attempt_id l = attempt_id)
         (\<lambda>l. l\<lparr>lk_state := Lock_NeedsReconcile, lk_updated_at_ms := recorded_at_ms\<rparr>))
         (CorruptWorkflowJournal ''mutation failure without lock''))"

definition active_lease_count :: "uuid \<Rightarrow> 'j db \<Rightarrow> nat" where
  "active_lease_count attempt_id db =
     count_where (\<lambda>l. lj_attempt_id l = attempt_id \<and> lj_state l = Active) (db_leases db)"

definition revoke_active_leases :: "uuid \<Rightarrow> int \<Rightarrow> ('j, unit) stx" where
  "revoke_active_leases attempt_id recorded_at_ms = execute (update_leases
     (\<lambda>l. lj_attempt_id l = attempt_id \<and> lj_state l = Active)
     (\<lambda>l. l\<lparr>lj_state := Revoked, lj_closed_at_ms := Some recorded_at_ms\<rparr>))"

definition node_open :: "node_state \<Rightarrow> bool" where
  "node_open s \<longleftrightarrow> s \<in> {Dormant, Blocked, Ready, Leased}"

definition cancel_open_nodes :: "uuid \<Rightarrow> int \<Rightarrow> ('j, unit) stx" where
  "cancel_open_nodes attempt_id recorded_at_ms = execute (update_nodes
     (\<lambda>n. nd_attempt_id n = attempt_id \<and> node_open (nd_state n))
     (\<lambda>n. n\<lparr>nd_state := Cancelled, nd_completed_at_ms := Some recorded_at_ms\<rparr>))"

text \<open>\<open>WHERE request_id = (SELECT request_id FROM workflow_attempts ...) AND state = 'active'\<close>.\<close>

definition terminate_request_of :: "uuid \<Rightarrow> int \<Rightarrow> ('j, unit) stx" where
  "terminate_request_of attempt_id recorded_at_ms =
     tx_bind (tx_query (find_attempt attempt_id)) (\<lambda>a.
     expect_one (update_requests
         (\<lambda>r. map_option at_request_id a = Some (rq_request_id r) \<and> rq_state r = Request_Active)
         (\<lambda>r. r\<lparr>rq_state := Request_Terminal, rq_updated_at_ms := recorded_at_ms\<rparr>))
       WorkflowStateConflict)"

definition fail_terminal_workflow :: "uuid \<Rightarrow> cleanup_result \<Rightarrow> int \<Rightarrow> ('j, unit) stx" where
  "fail_terminal_workflow attempt_id cleanup recorded_at_ms =
     tx_bind (tx_query (active_lease_count attempt_id)) (\<lambda>active_leases.
     tx_bind (revoke_active_leases attempt_id recorded_at_ms) (\<lambda>_.
     tx_bind (cancel_open_nodes attempt_id recorded_at_ms) (\<lambda>_.
     let cleanup_state = (if active_leases = 0 \<and> cleanup = Complete
           then Cleanup_Complete else Cleanup_Pending) in
     tx_bind (expect_one (update_attempts
         (\<lambda>a. at_attempt_id a = attempt_id \<and> at_mutation_state a = NotStarted)
         (\<lambda>a. a\<lparr>at_state := Attempt_Failed, at_cleanup_state := cleanup_state,
            at_updated_at_ms := recorded_at_ms, at_terminal_at_ms := Some recorded_at_ms\<rparr>))
         WorkflowStateConflict) (\<lambda>_.
     terminate_request_of attempt_id recorded_at_ms))))"

definition fail_workflow ::
  "uuid \<Rightarrow> node_kind \<Rightarrow> cleanup_result \<Rightarrow> bool \<Rightarrow> int \<Rightarrow> ('j, unit) stx" where
  "fail_workflow attempt_id node_kind cleanup handoff_publication recorded_at_ms =
     (if is_mutation node_kind \<or> handoff_publication
      then mark_workflow_needs_reconcile attempt_id cleanup recorded_at_ms
      else fail_terminal_workflow attempt_id cleanup recorded_at_ms)"

fun shadow_executes :: "node_kind \<Rightarrow> bool" where
  "shadow_executes SourceAdmission = True"
| "shadow_executes HostPrepare = True"
| "shadow_executes Verification = True"
| "shadow_executes ReleaseBuild = True"
| "shadow_executes DeterministicReduce = True"
| "shadow_executes _ = False"

definition complete_shadow_workflow ::
  "('j, 'x) sched_codec_scheme \<Rightarrow> attempt_context \<Rightarrow> int \<Rightarrow> ('j, unit) stx" where
  "complete_shadow_workflow E context recorded_at_ms =
     tx_bind (tx_ensure (ac_execution_mode context = Shadow_mode \<and>
         ac_mutation_state context = NotStarted) WorkflowStateConflict) (\<lambda>_.
     tx_bind (tx_query (\<lambda>db. filter (\<lambda>n. nd_attempt_id n = ac_attempt_id context) (db_nodes db))) (\<lambda>rows.
     tx_bind (tx_lift (each_res (\<lambda>n. ensure
         (nd_state n = (if shadow_executes (nd_kind n) then Node_Succeeded else Cancelled))
         WorkflowStateConflict) rows)) (\<lambda>_.
     tx_bind (tx_try (unresolved_cleanup_count E (ac_attempt_id context))) (\<lambda>unresolved.
     tx_bind (tx_ensure (unresolved = 0) WorkflowStateConflict) (\<lambda>_.
     tx_bind (tx_query (\<lambda>db. count_where (\<lambda>l. lk_attempt_id l = ac_attempt_id context) (db_locks db)))
       (\<lambda>mutation_locks.
     tx_bind (tx_ensure (mutation_locks = 0)
         (CorruptWorkflowJournal ''shadow workflow acquired a mutation lock'')) (\<lambda>_.
     tx_bind (expect_one (update_attempts
         (\<lambda>a. at_attempt_id a = ac_attempt_id context \<and> at_state a = Running \<and>
            at_mutation_state a = NotStarted)
         (\<lambda>a. a\<lparr>at_state := Attempt_Succeeded, at_cleanup_state := Cleanup_Complete,
            at_updated_at_ms := recorded_at_ms, at_terminal_at_ms := Some recorded_at_ms\<rparr>))
         WorkflowStateConflict) (\<lambda>_.
     expect_one (update_requests
         (\<lambda>r. rq_request_id r = ac_request_id context \<and> rq_operation_kind r = Shadow_mode \<and>
            rq_state r = Request_Active)
         (\<lambda>r. r\<lparr>rq_state := Request_Terminal, rq_updated_at_ms := recorded_at_ms\<rparr>))
       WorkflowStateConflict))))))))"

definition waiting_attempts :: "'j db \<Rightarrow> uuid list" where
  "waiting_attempts db =
     map at_attempt_id (sort_key at_created_at_ms
       (filter (\<lambda>a. at_state a = WaitingForMutation \<and>
          (case find_request (at_request_id a) db of
             None \<Rightarrow> False
           | Some r \<Rightarrow> rq_state r = Request_Active \<and>
               \<not> list_ex (\<lambda>l. lk_project_id l = rq_project_id r) (db_locks db))) (db_attempts db)))"

definition wake_attempt :: "int \<Rightarrow> uuid \<Rightarrow> ('j, unit) stx" where
  "wake_attempt now_ms attempt_id =
     tx_bind (execute (update_attempts
         (\<lambda>a. at_attempt_id a = attempt_id \<and> at_state a = WaitingForMutation)
         (\<lambda>a. a\<lparr>at_state := Queued, at_updated_at_ms := now_ms\<rparr>))) (\<lambda>_.
     execute (update_nodes
         (\<lambda>n. nd_attempt_id n = attempt_id \<and> nd_kind n = HostPrepare \<and> nd_state n = Blocked)
         (\<lambda>n. n\<lparr>nd_state := Ready\<rparr>)))"

definition wake_waiting_attempts :: "int \<Rightarrow> ('j, unit) stx" where
  "wake_waiting_attempts now_ms =
     tx_bind (tx_query waiting_attempts) (tx_each (wake_attempt now_ms))"

definition complete_workflow ::
  "('j, 'x) sched_codec_scheme \<Rightarrow> uuid \<Rightarrow> int \<Rightarrow> ('j, unit) stx" where
  "complete_workflow E attempt_id recorded_at_ms =
     tx_bind (tx_query (\<lambda>db. count_where (\<lambda>n. nd_attempt_id n = attempt_id \<and>
         nd_activation n = Always \<and> nd_state n \<noteq> Node_Succeeded) (db_nodes db))) (\<lambda>incomplete.
     tx_bind (tx_try (unresolved_cleanup_count E attempt_id)) (\<lambda>pending_cleanup.
     tx_bind (tx_ensure (incomplete = 0 \<and> pending_cleanup = 0) WorkflowStateConflict) (\<lambda>_.
     tx_bind (execute (update_nodes
         (\<lambda>n. nd_attempt_id n = attempt_id \<and> nd_activation n = OnMutationFailure \<and>
            nd_state n = Dormant)
         (\<lambda>n. n\<lparr>nd_state := Cancelled, nd_completed_at_ms := Some recorded_at_ms\<rparr>))) (\<lambda>_.
     tx_bind (expect_one (update_attempts
         (\<lambda>a. at_attempt_id a = attempt_id \<and> at_state a = Running)
         (\<lambda>a. a\<lparr>at_state := Attempt_Succeeded, at_mutation_state := Mutation_Complete,
            at_cleanup_state := Cleanup_Complete, at_updated_at_ms := recorded_at_ms,
            at_terminal_at_ms := Some recorded_at_ms\<rparr>)) WorkflowStateConflict) (\<lambda>_.
     tx_bind (terminate_request_of attempt_id recorded_at_ms) (\<lambda>_.
     tx_bind (expect_one (delete_locks (\<lambda>l. lk_attempt_id l = attempt_id \<and> lk_state l = Held))
         (CorruptWorkflowJournal ''completed mutation without held project lock'')) (\<lambda>_.
     wake_waiting_attempts recorded_at_ms)))))))"

end
