(* ===== verification/Scheduler_Leases.thy ===== *)
theory Scheduler_Leases
  imports Scheduler_Journal
begin

text \<open>
  Leases of \<open>src/scheduler.rs\<close> once they are handed out: worker registrations, lease expiry and its
  effect on the node and on the attempt, renewal, the bounds on a lease, and the cleanup a worker owes
  for leases it lost. A \<open>BTreeSet\<close> of worker pools is the list of its elements.
\<close>

section \<open>Workers\<close>

record worker_registration =
  wk_worker_id :: string
  wk_host_id :: string
  wk_pools :: "worker_pool list"

definition worker_validate :: "worker_registration \<Rightarrow> store_error + unit" where
  "worker_validate w =
     (if \<not> valid_workflow_identity (wk_worker_id w) \<or> \<not> valid_workflow_identity (wk_host_id w) \<or>
         wk_pools w = [] \<or> length (wk_pools w) > 4
      then Inl (InvalidWorkflowSchedulerInput ''worker registration'') else Inr ())"

definition worker_validate_unprivileged :: "worker_registration \<Rightarrow> store_error + unit" where
  "worker_validate_unprivileged w =
     bind_res (worker_validate w) (\<lambda>_.
       if list_ex (\<lambda>p. p \<in> {Controller, PrivilegedExecutor}) (wk_pools w)
       then Inl (InvalidWorkflowSchedulerInput ''unprivileged worker pools'') else Inr ())"


section \<open>The bounds of a lease\<close>

definition min_lease_ms :: int where "min_lease_ms = 1000"
definition max_lease_ms :: int where "max_lease_ms = 15 * 60 * 1000"

definition execution_deadline_ms :: "int \<Rightarrow> nat \<Rightarrow> store_error + int" where
  "execution_deadline_ms leased_at_ms execution_timeout_ms =
     bind_res (ok_or (i64_of_u64 execution_timeout_ms)
         (InvalidWorkflowSchedulerInput ''execution timeout'')) (\<lambda>timeout_ms.
     ok_or (checked_add_i64 leased_at_ms timeout_ms)
       (InvalidWorkflowSchedulerInput ''execution deadline''))"

definition bounded_lease_expiry :: "int \<Rightarrow> int \<Rightarrow> int \<Rightarrow> nat \<Rightarrow> store_error + int" where
  "bounded_lease_expiry leased_at_ms now_ms lease_duration_ms execution_timeout_ms =
     bind_res (execution_deadline_ms leased_at_ms execution_timeout_ms) (\<lambda>execution_deadline.
     bind_res (ok_or (checked_add_i64 now_ms lease_duration_ms)
         (InvalidWorkflowSchedulerInput ''lease expiry'')) (\<lambda>requested_expiry.
     let expires_at_ms = min requested_expiry execution_deadline in
     if expires_at_ms \<le> now_ms then Inl WorkflowLeaseConflict else Inr expires_at_ms))"


section \<open>Expiry\<close>

definition is_self_update_handoff_release :: "project_manifest \<Rightarrow> node_kind \<Rightarrow> bool" where
  "is_self_update_handoff_release manifest kind \<longleftrightarrow>
     wp_delivery_mode (pm_workflow manifest) = SelfUpdateHandoff \<and> kind = ReleaseBuild"

text \<open>\<open>UPDATE workflow_nodes ... WHERE attempt_id AND node_id AND state = 'leased'\<close>.\<close>

definition close_leased_node :: "uuid \<Rightarrow> string \<Rightarrow> (node_row \<Rightarrow> node_row) \<Rightarrow> ('j, unit) stx" where
  "close_leased_node attempt_id node_id f = expect_one (update_nodes
     (\<lambda>n. nd_attempt_id n = attempt_id \<and> nd_node_id n = node_id \<and> nd_state n = Leased) f)
     WorkflowStateConflict"

definition expire_mutation_lease :: "uuid \<Rightarrow> string \<Rightarrow> int \<Rightarrow> ('j, unit) stx" where
  "expire_mutation_lease attempt_id node_id now_ms =
     tx_bind (close_leased_node attempt_id node_id
         (\<lambda>n. n\<lparr>nd_state := Node_NeedsReconcile, nd_completed_at_ms := Some now_ms\<rparr>)) (\<lambda>_.
     tx_bind (expect_one (update_attempts (\<lambda>a. at_attempt_id a = attempt_id)
         (\<lambda>a. a\<lparr>at_state := Attempt_NeedsReconcile, at_mutation_state := Mutation_NeedsReconcile,
            at_cleanup_state := Cleanup_Pending, at_updated_at_ms := now_ms\<rparr>))
         WorkflowStateConflict) (\<lambda>_.
     expect_one (update_locks (\<lambda>l. lk_attempt_id l = attempt_id)
         (\<lambda>l. l\<lparr>lk_state := Lock_NeedsReconcile, lk_updated_at_ms := now_ms\<rparr>))
         (CorruptWorkflowJournal ''mutation lease without project lock'')))"

definition expire_worker_lease :: "uuid \<Rightarrow> string \<Rightarrow> int \<Rightarrow> ('j, unit) stx" where
  "expire_worker_lease attempt_id node_id now_ms =
     tx_bind (close_leased_node attempt_id node_id (\<lambda>n. n\<lparr>nd_state := Ready\<rparr>)) (\<lambda>_.
     expect_one (update_attempts (\<lambda>a. at_attempt_id a = attempt_id)
         (\<lambda>a. a\<lparr>at_cleanup_state := Cleanup_Pending, at_updated_at_ms := now_ms\<rparr>))
       WorkflowStateConflict)"

definition expire_at_deadline :: "uuid \<Rightarrow> string \<Rightarrow> evidence_digest \<Rightarrow> int \<Rightarrow> ('j, unit) stx" where
  "expire_at_deadline attempt_id node_id lease_digest now_ms =
     tx_bind (close_leased_node attempt_id node_id
         (\<lambda>n. n\<lparr>nd_state := Node_Failed, nd_completed_at_ms := Some now_ms\<rparr>)) (\<lambda>_.
     tx_bind (fail_terminal_workflow attempt_id Pending now_ms) (\<lambda>_.
     append_transition attempt_id (Subject_node node_id) (Some ''leased'') (node_state_name Node_Failed)
       ''execution_deadline_expired'' (Some lease_digest) now_ms))"

definition uncertain_delivery :: "attempt_context \<Rightarrow> node_kind \<Rightarrow> bool" where
  "uncertain_delivery context kind \<longleftrightarrow>
     ac_execution_mode context = Deploy_mode \<and>
     (is_mutation kind \<or> is_self_update_handoff_release (ac_manifest context) kind)"

definition expire_one_lease ::
  "('j, 'x) sched_codec_scheme \<Rightarrow> int \<Rightarrow> 'j lease_row \<Rightarrow> ('j, unit) stx" where
  "expire_one_lease E now_ms row =
     tx_bind (tx_lift (map_err WorkflowContract (lease_decode_canonical E (lj_lease_json row)))) (\<lambda>lease.
     tx_bind (tx_ensure (ls_lease_id lease = lj_lease_id row \<and> ls_attempt_id lease = lj_attempt_id row \<and>
         ls_node_id lease = lj_node_id row) (CorruptWorkflowJournal ''expired lease binding'')) (\<lambda>_.
     tx_bind (tx_try (\<lambda>db. ok_or (find_node_row (lj_attempt_id row) (lj_node_id row) db) Sqlite)) (\<lambda>node.
     tx_bind (tx_ensure (nd_state node = Leased)
         (CorruptWorkflowJournal ''active lease node state'')) (\<lambda>_.
     tx_bind (expect_one (update_leases
         (\<lambda>l. lj_lease_id l = lj_lease_id row \<and> lj_state l = Active)
         (\<lambda>l. l\<lparr>lj_state := Expired, lj_closed_at_ms := Some now_ms\<rparr>)) WorkflowLeaseConflict) (\<lambda>_.
     tx_bind (tx_try (load_attempt_context E (lj_attempt_id row))) (\<lambda>context.
     tx_bind (tx_lift (execution_deadline_ms (ls_leased_at_ms lease) (ls_timeout_ms lease))) (\<lambda>deadline.
     let uncertain = uncertain_delivery context (nd_kind node);
         at_deadline = (ls_expires_at_ms lease = deadline) in
     tx_bind (if uncertain then expire_mutation_lease (lj_attempt_id row) (lj_node_id row) now_ms
       else if at_deadline
         then expire_at_deadline (lj_attempt_id row) (lj_node_id row) (ls_lease_digest lease) now_ms
       else expire_worker_lease (lj_attempt_id row) (lj_node_id row) now_ms) (\<lambda>_.
     append_transition (lj_attempt_id row) (Subject_lease (lj_lease_id row)) (Some ''active'') ''expired''
       (if uncertain then ''mutation_requires_reconciliation''
        else if at_deadline then ''execution_deadline_expired'' else ''worker_lease_expired'')
       (Some (ls_lease_digest lease)) now_ms))))))))"

definition expired_leases :: "int \<Rightarrow> 'j db \<Rightarrow> 'j lease_row list" where
  "expired_leases now_ms db =
     sort_key (\<lambda>l. (lj_expires_at_ms l, lj_lease_id l))
       (filter (\<lambda>l. lj_state l = Active \<and> lj_expires_at_ms l \<le> now_ms) (db_leases db))"

definition expire_leases_transaction ::
  "('j, 'x) sched_codec_scheme \<Rightarrow> int \<Rightarrow> ('j, nat) stx" where
  "expire_leases_transaction E now_ms =
     tx_bind (tx_query (expired_leases now_ms)) (\<lambda>rows.
     tx_bind (tx_each (expire_one_lease E now_ms) rows) (\<lambda>_. tx_return (length rows)))"

definition expire_leases ::
  "('j, 'x) sched_codec_scheme \<Rightarrow> int \<Rightarrow> 'j db \<Rightarrow> (store_error + nat) \<times> 'j db" where
  "expire_leases E now_ms db =
     (if now_ms < 0 then (Inl (InvalidWorkflowSchedulerInput ''lease expiry time''), db)
      else immediate_transaction (expire_leases_transaction E now_ms) db)"


section \<open>Renewal\<close>

definition same_lease_assignment :: "lease \<Rightarrow> lease \<Rightarrow> bool" where
  "same_lease_assignment left right \<longleftrightarrow>
     left\<lparr>ls_expires_at_ms := ls_expires_at_ms right, ls_lease_digest := ls_lease_digest right\<rparr> = right"

definition renew_lease_transaction ::
  "('j, 'x) sched_codec_scheme \<Rightarrow> lease \<Rightarrow> int \<Rightarrow> int \<Rightarrow> ('j, lease) stx" where
  "renew_lease_transaction E supplied now_ms lease_duration_ms =
     tx_bind (tx_try (\<lambda>db. ok_or (find_lease (ls_lease_id supplied) db) WorkflowLeaseConflict)) (\<lambda>row.
     tx_bind (tx_ensure (lj_state row = Active) WorkflowLeaseConflict) (\<lambda>_.
     tx_bind (tx_lift (map_err WorkflowContract (lease_decode_canonical E (lj_lease_json row)))) (\<lambda>current.
     tx_bind (tx_ensure (same_lease_assignment current supplied \<and>
         ls_expires_at_ms supplied \<le> ls_expires_at_ms current) WorkflowLeaseConflict) (\<lambda>_.
     if ls_lease_digest supplied \<noteq> ls_lease_digest current then tx_return current
     else
     tx_bind (tx_lift (bounded_lease_expiry (ls_leased_at_ms current) now_ms lease_duration_ms
         (ls_timeout_ms current))) (\<lambda>expires_at_ms.
     if expires_at_ms \<le> ls_expires_at_ms current then tx_return current
     else
     tx_bind (tx_lift (map_err WorkflowContract (lease_renewed E current expires_at_ms))) (\<lambda>renewed.
     tx_bind (tx_lift (map_err WorkflowContract (lease_canonical_bytes E renewed))) (\<lambda>renewed_json.
     tx_bind (expect_one (update_leases
         (\<lambda>l. lj_lease_id l = ls_lease_id renewed \<and> lj_state l = Active \<and>
            lj_lease_digest l = ls_lease_digest current)
         (\<lambda>l. l\<lparr>lj_lease_digest := ls_lease_digest renewed, lj_lease_json := renewed_json,
            lj_expires_at_ms := ls_expires_at_ms renewed\<rparr>)) WorkflowLeaseConflict) (\<lambda>_.
     tx_bind (append_transition (ls_attempt_id renewed) (Subject_lease (ls_lease_id renewed))
         (Some ''active'') ''active'' ''worker_lease_renewed'' (Some (ls_lease_digest renewed)) now_ms)
       (\<lambda>_. tx_return renewed)))))))))"

definition renew_lease ::
  "('j, 'x) sched_codec_scheme \<Rightarrow> worker_registration \<Rightarrow> lease \<Rightarrow> int \<Rightarrow> int \<Rightarrow> 'j db \<Rightarrow>
   (store_error + lease) \<times> 'j db" where
  "renew_lease E worker lease now_ms lease_duration_ms db =
     (case bind_res (worker_validate worker) (\<lambda>_.
        bind_res (map_err WorkflowContract (lease_validate E lease)) (\<lambda>_.
        ensure (0 \<le> now_ms \<and> min_lease_ms \<le> lease_duration_ms \<and> lease_duration_ms \<le> max_lease_ms \<and>
            wk_worker_id worker = ls_worker_id lease \<and> wk_host_id worker = ls_host_id lease \<and>
            ls_worker_pool lease \<in> set (wk_pools worker))
          (InvalidWorkflowSchedulerInput ''lease renewal''))) of
        Inl e \<Rightarrow> (Inl e, db)
      | Inr _ \<Rightarrow> immediate_transaction
          (tx_bind (expire_leases_transaction E now_ms) (\<lambda>_.
             renew_lease_transaction E lease now_ms lease_duration_ms)) db)"


section \<open>Cleanup owed by a worker\<close>

datatype cleanup_reason = LeaseExpired | LeaseRevoked | TerminalReceiptPending

record cleanup_obligation =
  co_lease :: lease
  co_terminal_receipt :: "node_receipt option"
  co_reason :: cleanup_reason

definition decode_cleanup_obligation ::
  "('j, 'x) sched_codec_scheme \<Rightarrow> worker_registration \<Rightarrow> 'j lease_row \<Rightarrow> 'j receipt_row option \<Rightarrow>
   store_error + cleanup_obligation" where
  "decode_cleanup_obligation E worker row receipt_row =
     bind_res (map_err WorkflowContract (lease_decode_canonical E (lj_lease_json row))) (\<lambda>lease.
     if ls_worker_id lease \<noteq> wk_worker_id worker \<or> ls_host_id lease \<noteq> wk_host_id worker
       then Inl (CorruptWorkflowJournal ''cleanup worker binding'')
     else
     bind_res (case receipt_row of
         None \<Rightarrow> Inr None
       | Some r \<Rightarrow> bind_res (map_err WorkflowContract
           (node_receipt_decode_canonical E (rc_receipt_json r))) (\<lambda>receipt. Inr (Some receipt)))
       (\<lambda>terminal_receipt.
     bind_res (case (lj_state row, terminal_receipt) of
         (Expired, None) \<Rightarrow> Inr LeaseExpired
       | (Revoked, None) \<Rightarrow> Inr LeaseRevoked
       | (Committed, Some receipt) \<Rightarrow>
           (if nr_cleanup_result receipt = Pending \<and> node_receipt_matches_lease receipt lease
            then Inr TerminalReceiptPending
            else Inl (CorruptWorkflowJournal ''cleanup obligation''))
       | _ \<Rightarrow> Inl (CorruptWorkflowJournal ''cleanup obligation'')) (\<lambda>reason.
     Inr \<lparr> co_lease = lease, co_terminal_receipt = terminal_receipt, co_reason = reason \<rparr>)))"

text \<open>The leases of a worker with unresolved cleanup.\<close>

definition worker_cleanup_flags ::
  "('j, 'x) sched_codec_scheme \<Rightarrow> worker_registration \<Rightarrow> 'j db \<Rightarrow> store_error + ('j lease_row \<times> bool) list" where
  "worker_cleanup_flags E worker db =
     collect_res (\<lambda>l. bind_res (lease_cleanup_unresolved E db l) (\<lambda>unresolved. Inr (l, unresolved)))
       (filter (\<lambda>l. lj_worker_id l = wk_worker_id worker \<and> lj_host_id l = wk_host_id worker)
          (db_leases db))"

definition worker_has_pending_cleanup ::
  "('j, 'x) sched_codec_scheme \<Rightarrow> worker_registration \<Rightarrow> 'j db \<Rightarrow> store_error + bool" where
  "worker_has_pending_cleanup E worker db =
     bind_res (worker_cleanup_flags E worker db) (\<lambda>flags. Inr (list_ex snd flags))"

definition closed_order :: "'j lease_row \<Rightarrow> (bool \<times> int) \<times> uuid" where
  "closed_order l =
     ((case lj_closed_at_ms l of None \<Rightarrow> (False, 0) | Some t \<Rightarrow> (True, t)), lj_lease_id l)"

definition pending_cleanup ::
  "('j, 'x) sched_codec_scheme \<Rightarrow> worker_registration \<Rightarrow> nat \<Rightarrow> 'j db \<Rightarrow>
   store_error + cleanup_obligation list" where
  "pending_cleanup E worker limit db =
     bind_res (worker_validate worker) (\<lambda>_.
     bind_res (ensure (1 \<le> limit \<and> limit \<le> 64) (InvalidWorkflowSchedulerInput ''cleanup limit'')) (\<lambda>_.
     bind_res (worker_cleanup_flags E worker db) (\<lambda>flags.
     collect_res (\<lambda>row. decode_cleanup_obligation E worker row (receipt_of_lease (lj_lease_id row) db))
       (take limit (sort_key closed_order (map fst (filter snd flags)))))))"

definition cleanup_receipt_matches_lease :: "cleanup_receipt \<Rightarrow> lease \<Rightarrow> bool" where
  "cleanup_receipt_matches_lease receipt lease \<longleftrightarrow>
     cr_lease_digest receipt = ls_lease_digest lease \<and> cr_lease_id receipt = ls_lease_id lease \<and>
     cr_lease_generation receipt = ls_lease_generation lease \<and>
     cr_attempt_id receipt = ls_attempt_id lease \<and> cr_project_id receipt = ls_project_id lease \<and>
     cr_node_id receipt = ls_node_id lease \<and> cr_worker_id receipt = ls_worker_id lease \<and>
     cr_host_id receipt = ls_host_id lease"

end
