(* ===== verification/Scheduler_Receipts.thy ===== *)
theory Scheduler_Receipts
  imports Scheduler_Leases
begin

text \<open>
  What reports completion to the scheduler (\<open>src/scheduler.rs\<close>): node receipts, cleanup receipts and
  the deterministic reduction of an attempt, with the transactions that record them.
\<close>

section \<open>Node receipts\<close>

definition replayed_node_receipt ::
  "('j, 'x) sched_codec_scheme \<Rightarrow> node_receipt \<Rightarrow> 'j \<Rightarrow> 'j db \<Rightarrow> store_error + attempt_snapshot option" where
  "replayed_node_receipt E receipt receipt_json db =
     (case receipt_of_node (nr_attempt_id receipt) (nr_node_id receipt) db of
        None \<Rightarrow> Inr None
      | Some persisted \<Rightarrow>
          if rc_receipt_digest persisted \<noteq> nr_receipt_digest receipt \<or>
             rc_receipt_json persisted \<noteq> receipt_json
          then Inl WorkflowReceiptConflict
          else bind_res (load_attempt_snapshot E (nr_attempt_id receipt) db) (\<lambda>s. Inr (Some s)))"

definition validate_active_receipt_lease ::
  "('j, 'x) sched_codec_scheme \<Rightarrow> node_receipt \<Rightarrow> int \<Rightarrow> 'j db \<Rightarrow> store_error + unit" where
  "validate_active_receipt_lease E receipt recorded_at_ms db =
     bind_res (ok_or (find_lease (nr_lease_id receipt) db) WorkflowLeaseConflict) (\<lambda>row.
     if lj_state row \<noteq> Active then Inl WorkflowLeaseConflict
     else
     bind_res (map_err WorkflowContract (lease_decode_canonical E (lj_lease_json row))) (\<lambda>lease.
     if \<not> node_receipt_matches_lease receipt lease \<or>
        nr_completed_at_ms receipt < ls_leased_at_ms lease \<or>
        nr_completed_at_ms receipt \<ge> ls_expires_at_ms lease \<or>
        recorded_at_ms \<ge> ls_expires_at_ms lease
       then Inl WorkflowReceiptConflict
     else
     bind_res (ok_or (find_node_row (nr_attempt_id receipt) (nr_node_id receipt) db) Sqlite) (\<lambda>node.
     ensure (nd_state node = Leased) WorkflowStateConflict)))"

definition receipt_terminal_node_state :: "node_receipt \<Rightarrow> bool \<Rightarrow> node_state" where
  "receipt_terminal_node_state receipt handoff_publication =
     (case nr_outcome receipt of
        Outcome_Succeeded \<Rightarrow> Node_Succeeded
      | Outcome_Failed \<Rightarrow>
          if is_mutation (nr_node_kind receipt) \<or> handoff_publication then Node_NeedsReconcile
          else Node_Failed)"

definition persist_node_receipt ::
  "node_receipt \<Rightarrow> 'j \<Rightarrow> int \<Rightarrow> bool \<Rightarrow> ('j, unit) stx" where
  "persist_node_receipt receipt receipt_json recorded_at_ms handoff_publication =
     tx_bind (insert_receipt \<lparr> rc_receipt_digest = nr_receipt_digest receipt,
         rc_attempt_id = nr_attempt_id receipt, rc_node_id = nr_node_id receipt,
         rc_lease_id = nr_lease_id receipt, rc_receipt_json = receipt_json,
         rc_committed_at_ms = recorded_at_ms \<rparr>) (\<lambda>_.
     tx_bind (expect_one (update_leases
         (\<lambda>l. lj_lease_id l = nr_lease_id receipt \<and> lj_state l = Active)
         (\<lambda>l. l\<lparr>lj_state := Committed, lj_closed_at_ms := Some recorded_at_ms,
            lj_receipt_digest := Some (nr_receipt_digest receipt)\<rparr>)) WorkflowLeaseConflict) (\<lambda>_.
     let node_state = receipt_terminal_node_state receipt handoff_publication in
     tx_bind (close_leased_node (nr_attempt_id receipt) (nr_node_id receipt)
         (\<lambda>n. n\<lparr>nd_state := node_state, nd_output_digest := nr_output_digest receipt,
            nd_receipt_digest := Some (nr_receipt_digest receipt),
            nd_completed_at_ms := Some (nr_completed_at_ms receipt)\<rparr>)) (\<lambda>_.
     tx_bind (tx_when (nr_cleanup_result receipt = Pending)
         (execute (update_attempts (\<lambda>a. at_attempt_id a = nr_attempt_id receipt)
            (\<lambda>a. a\<lparr>at_cleanup_state := Cleanup_Pending\<rparr>)))) (\<lambda>_.
     append_transition (nr_attempt_id receipt) (Subject_node (nr_node_id receipt)) (Some ''leased'')
       (node_state_name node_state)
       (case nr_outcome receipt of Outcome_Succeeded \<Rightarrow> ''receipt_succeeded''
        | Outcome_Failed \<Rightarrow> ''receipt_failed'')
       (Some (nr_receipt_digest receipt)) recorded_at_ms))))"

definition touch_attempt :: "uuid \<Rightarrow> int \<Rightarrow> ('j, unit) stx" where
  "touch_attempt attempt_id now_ms = execute (update_attempts (\<lambda>a. at_attempt_id a = attempt_id)
     (\<lambda>a. a\<lparr>at_updated_at_ms := now_ms\<rparr>))"

definition apply_node_receipt_outcome ::
  "('j, 'x) sched_codec_scheme \<Rightarrow> node_receipt \<Rightarrow> int \<Rightarrow> bool \<Rightarrow> ('j, unit) stx" where
  "apply_node_receipt_outcome E receipt recorded_at_ms handoff_publication =
     (case nr_outcome receipt of
        Outcome_Succeeded \<Rightarrow>
          if nr_node_kind receipt = ReleasedObservation
          then complete_workflow E (nr_attempt_id receipt) recorded_at_ms
          else tx_bind (touch_attempt (nr_attempt_id receipt) recorded_at_ms) (\<lambda>_.
            advance_ready_nodes (nr_attempt_id receipt))
      | Outcome_Failed \<Rightarrow> fail_workflow (nr_attempt_id receipt) (nr_node_kind receipt)
          (nr_cleanup_result receipt) handoff_publication recorded_at_ms)"

definition commit_node_receipt_transaction ::
  "('j, 'x) sched_codec_scheme \<Rightarrow> node_receipt \<Rightarrow> 'j \<Rightarrow> int \<Rightarrow> ('j, attempt_snapshot) stx" where
  "commit_node_receipt_transaction E receipt receipt_json recorded_at_ms =
     tx_bind (tx_try (replayed_node_receipt E receipt receipt_json)) (\<lambda>replayed.
     case replayed of
       Some snapshot \<Rightarrow> tx_return snapshot
     | None \<Rightarrow>
         tx_bind (tx_try (validate_active_receipt_lease E receipt recorded_at_ms)) (\<lambda>_.
         tx_bind (tx_try (load_attempt_context E (nr_attempt_id receipt))) (\<lambda>context.
         let handoff_publication = (ac_execution_mode context = Deploy_mode \<and>
               is_self_update_handoff_release (ac_manifest context) (nr_node_kind receipt)) in
         tx_bind (persist_node_receipt receipt receipt_json recorded_at_ms handoff_publication) (\<lambda>_.
         tx_bind (apply_node_receipt_outcome E receipt recorded_at_ms handoff_publication) (\<lambda>_.
         tx_try (load_attempt_snapshot E (nr_attempt_id receipt)))))))"

text \<open>Expiry commits in its own transaction, even when the receipt is then refused.\<close>

definition commit_node_receipt ::
  "('j, 'x) sched_codec_scheme \<Rightarrow> node_receipt \<Rightarrow> int \<Rightarrow> 'j db \<Rightarrow>
   (store_error + attempt_snapshot) \<times> 'j db" where
  "commit_node_receipt E receipt recorded_at_ms db =
     (case bind_res (map_err WorkflowContract (node_receipt_validate E receipt)) (\<lambda>_.
        ensure (0 \<le> recorded_at_ms \<and> nr_completed_at_ms receipt \<le> recorded_at_ms)
          (InvalidWorkflowSchedulerInput ''receipt time'')) of
        Inl e \<Rightarrow> (Inl e, db)
      | Inr _ \<Rightarrow> (case expire_leases E recorded_at_ms db of
          (Inl e, db') \<Rightarrow> (Inl e, db')
        | (Inr _, db') \<Rightarrow> (case map_err WorkflowContract (node_receipt_canonical_bytes E receipt) of
            Inl e \<Rightarrow> (Inl e, db')
          | Inr receipt_json \<Rightarrow> immediate_transaction
              (commit_node_receipt_transaction E receipt receipt_json recorded_at_ms) db')))"


section \<open>Cleanup receipts\<close>

definition cleanup_matches_closed_lease ::
  "('j, 'x) sched_codec_scheme \<Rightarrow> cleanup_receipt \<Rightarrow> lease \<Rightarrow> lease_state \<Rightarrow> 'j receipt_row option \<Rightarrow>
   store_error + unit" where
  "cleanup_matches_closed_lease E receipt lease lease_state terminal =
     (case (lease_state, terminal) of
        (Committed, Some r) \<Rightarrow>
          bind_res (map_err WorkflowContract (node_receipt_decode_canonical E (rc_receipt_json r)))
            (\<lambda>terminal.
          if nr_cleanup_result terminal \<noteq> Pending \<or> \<not> node_receipt_matches_lease terminal lease \<or>
             cr_terminal_receipt_digest receipt \<noteq> Some (nr_receipt_digest terminal) \<or>
             cr_completed_at_ms receipt < nr_completed_at_ms terminal
          then Inl WorkflowCleanupConflict else Inr ())
      | (s, None) \<Rightarrow>
          ensure (s \<in> {Expired, Revoked} \<and> cr_terminal_receipt_digest receipt = None)
            WorkflowCleanupConflict
      | _ \<Rightarrow> Inl WorkflowCleanupConflict)"

fun lease_state_name :: "lease_state \<Rightarrow> string" where
  "lease_state_name Active = ''active''"
| "lease_state_name Expired = ''expired''"
| "lease_state_name Committed = ''committed''"
| "lease_state_name Revoked = ''revoked''"

definition commit_cleanup_receipt_transaction ::
  "('j, 'x) sched_codec_scheme \<Rightarrow> cleanup_receipt \<Rightarrow> 'j \<Rightarrow> int \<Rightarrow> ('j, attempt_snapshot) stx" where
  "commit_cleanup_receipt_transaction E receipt receipt_json recorded_at_ms =
     tx_bind (tx_query (cleanup_of_lease (cr_lease_id receipt))) (\<lambda>persisted.
     case persisted of
       Some c \<Rightarrow>
         if cl_receipt_digest c \<noteq> cr_receipt_digest receipt \<or> cl_receipt_json c \<noteq> receipt_json
         then tx_fail WorkflowCleanupConflict
         else tx_try (load_attempt_snapshot E (cr_attempt_id receipt))
     | None \<Rightarrow>
         tx_bind (tx_try (\<lambda>db. ok_or (find_lease (cr_lease_id receipt) db) WorkflowCleanupConflict)) (\<lambda>row.
         tx_bind (tx_query (receipt_of_lease (cr_lease_id receipt))) (\<lambda>terminal.
         tx_bind (tx_lift (map_err WorkflowContract (lease_decode_canonical E (lj_lease_json row)))) (\<lambda>lease.
         tx_bind (tx_ensure (cleanup_receipt_matches_lease receipt lease) WorkflowCleanupConflict) (\<lambda>_.
         tx_bind (tx_lift (ok_or (lj_closed_at_ms row) WorkflowCleanupConflict)) (\<lambda>closed_at_ms.
         tx_bind (tx_ensure (closed_at_ms \<le> cr_completed_at_ms receipt) WorkflowCleanupConflict) (\<lambda>_.
         tx_bind (tx_lift (cleanup_matches_closed_lease E receipt lease (lj_state row) terminal)) (\<lambda>_.
         tx_bind (insert_cleanup \<lparr> cl_receipt_digest = cr_receipt_digest receipt,
             cl_lease_id = cr_lease_id receipt, cl_attempt_id = cr_attempt_id receipt,
             cl_node_id = cr_node_id receipt, cl_receipt_json = receipt_json,
             cl_committed_at_ms = recorded_at_ms \<rparr>) (\<lambda>_.
         tx_bind (tx_try (unresolved_cleanup_count E (cr_attempt_id receipt))) (\<lambda>unresolved.
         tx_bind (expect_one (update_attempts (\<lambda>a. at_attempt_id a = cr_attempt_id receipt)
             (\<lambda>a. a\<lparr>at_cleanup_state := (if unresolved = 0 then Cleanup_Complete else Cleanup_Pending),
                at_updated_at_ms := max (at_updated_at_ms a) recorded_at_ms\<rparr>))
             WorkflowStateConflict) (\<lambda>_.
         tx_bind (append_transition (cr_attempt_id receipt) (Subject_lease (cr_lease_id receipt))
             (Some (lease_state_name (lj_state row))) (lease_state_name (lj_state row))
             ''worker_cleanup_reconciled'' (Some (cr_receipt_digest receipt)) recorded_at_ms) (\<lambda>_.
         tx_try (load_attempt_snapshot E (cr_attempt_id receipt))))))))))))))"

definition commit_cleanup_receipt ::
  "('j, 'x) sched_codec_scheme \<Rightarrow> cleanup_receipt \<Rightarrow> int \<Rightarrow> 'j db \<Rightarrow>
   (store_error + attempt_snapshot) \<times> 'j db" where
  "commit_cleanup_receipt E receipt recorded_at_ms db =
     (case bind_res (map_err WorkflowContract (cleanup_receipt_validate E receipt)) (\<lambda>_.
        bind_res (ensure (0 \<le> recorded_at_ms \<and> cr_completed_at_ms receipt \<le> recorded_at_ms)
          (InvalidWorkflowSchedulerInput ''cleanup receipt time'')) (\<lambda>_.
        map_err WorkflowContract (cleanup_receipt_canonical_bytes E receipt))) of
        Inl e \<Rightarrow> (Inl e, db)
      | Inr receipt_json \<Rightarrow> immediate_transaction
          (commit_cleanup_receipt_transaction E receipt receipt_json recorded_at_ms) db)"


section \<open>Reduction\<close>

text \<open>A receipt joined with its lease and its node.\<close>

definition load_reduction_evidence ::
  "uuid \<Rightarrow> node_id \<Rightarrow> 'j db \<Rightarrow> store_error + 'j receipt_row \<times> 'j lease_row \<times> node_row" where
  "load_reduction_evidence attempt_id dependency_id db =
     bind_res (ok_or (receipt_of_node attempt_id dependency_id db) WorkflowReductionConflict) (\<lambda>r.
     bind_res (ok_or (find_lease (rc_lease_id r) db) WorkflowReductionConflict) (\<lambda>l.
     bind_res (ok_or (find_node_row attempt_id dependency_id db) WorkflowReductionConflict) (\<lambda>n.
     Inr (r, l, n))))"

definition reduction_evidence_valid ::
  "attempt_context \<Rightarrow> node_id \<Rightarrow> 'j receipt_row \<times> 'j lease_row \<times> node_row \<Rightarrow> node_receipt \<Rightarrow> lease \<Rightarrow>
   evidence_digest list \<Rightarrow> bool" where
  "reduction_evidence_valid context dependency_id = (\<lambda>(r, l, n) receipt lease receipt_digests.
     lj_state l = Committed \<and> nd_state n = Node_Succeeded \<and>
     nr_outcome receipt = Outcome_Succeeded \<and> nr_cleanup_result receipt = Complete \<and>
     node_receipt_matches_lease receipt lease \<and>
     nr_attempt_id receipt = ac_attempt_id context \<and> nr_node_id receipt = dependency_id \<and>
     nr_project_id receipt = ac_project_id context \<and> nr_source_sha receipt = ac_source_sha context \<and>
     nr_workflow_policy_digest receipt = ac_workflow_policy_digest context \<and>
     nr_preparation_key receipt = ac_preparation_key context \<and>
     ls_leased_at_ms lease \<le> nr_completed_at_ms receipt \<and>
     nr_completed_at_ms receipt < ls_expires_at_ms lease \<and>
     nr_completed_at_ms receipt \<le> rc_committed_at_ms r \<and>
     rc_committed_at_ms r < ls_expires_at_ms lease \<and>
     nd_output_digest n = nr_output_digest receipt \<and>
     nd_receipt_digest n = Some (nr_receipt_digest receipt) \<and>
     nr_receipt_digest receipt \<notin> set receipt_digests)"

text \<open>The inputs so far, the receipt digests seen, and the latest commit time.\<close>

type_synonym collected = "reduction_input list \<times> evidence_digest list \<times> int"

definition collect_reduction_input ::
  "('j, 'x) sched_codec_scheme \<Rightarrow> attempt_context \<Rightarrow> 'j db \<Rightarrow> node_id \<Rightarrow> collected \<Rightarrow>
   store_error + collected" where
  "collect_reduction_input E context db dependency_id = (\<lambda>(inputs, receipt_digests, latest).
     bind_res (ok_or (policy_node (pm_workflow (ac_manifest context)) dependency_id)
         (CorruptWorkflowJournal ''reduce dependency'')) (\<lambda>dependency.
     if n_kind dependency \<notin> {Verification, ReleaseBuild} then Inl WorkflowReductionConflict
     else
     bind_res (load_reduction_evidence (ac_attempt_id context) dependency_id db) (\<lambda>(r, l, n).
     bind_res (map_err WorkflowContract
         (node_receipt_decode_canonical E (rc_receipt_json r))) (\<lambda>receipt.
     bind_res (map_err WorkflowContract (lease_decode_canonical E (lj_lease_json l))) (\<lambda>lease.
     if \<not> reduction_evidence_valid context dependency_id (r, l, n) receipt lease receipt_digests
       then Inl WorkflowReductionConflict
     else
     bind_res (ok_or (nr_output_digest receipt) WorkflowReductionConflict) (\<lambda>output_digest.
     Inr (inputs @ [\<lparr> ri_node_id = dependency_id, ri_node_kind = n_kind dependency,
            ri_receipt_digest = nr_receipt_digest receipt, ri_output_digest = output_digest \<rparr>],
          nr_receipt_digest receipt # receipt_digests, max latest (rc_committed_at_ms r))))))))"

definition collect_reduction_inputs ::
  "('j, 'x) sched_codec_scheme \<Rightarrow> attempt_context \<Rightarrow> workflow_node \<Rightarrow> 'j db \<Rightarrow>
   store_error + reduction_input list \<times> int" where
  "collect_reduction_inputs E context reduce_node db =
     bind_res (fold_res (collect_reduction_input E context db) (n_depends_on reduce_node) ([], [], 0))
       (\<lambda>(inputs, _, latest).
     if length inputs \<noteq> length (n_depends_on reduce_node) then Inl WorkflowReductionConflict
     else Inr (inputs, latest))"

definition load_persisted_reduction :: "uuid \<Rightarrow> 'j db \<Rightarrow> 'j reduction_row option" where
  "load_persisted_reduction attempt_id db = find (\<lambda>r. rr_attempt_id r = attempt_id) (db_reductions db)"

definition validate_persisted_reduction ::
  "('j, 'x) sched_codec_scheme \<Rightarrow> attempt_context \<Rightarrow> workflow_node \<Rightarrow> 'j reduction_row \<Rightarrow> 'j db \<Rightarrow>
   store_error + reduction_receipt" where
  "validate_persisted_reduction E context reduce_node persisted db =
     bind_res (map_err WorkflowContract
         (reduction_decode_canonical E (rr_receipt_json persisted))) (\<lambda>receipt.
     bind_res (collect_reduction_inputs E context reduce_node db) (\<lambda>(inputs, latest).
     bind_res (ok_or (find_node_row (ac_attempt_id context) (n_node_id reduce_node) db) Sqlite) (\<lambda>node.
     if rr_reduce_node_id persisted = n_node_id reduce_node \<and>
        rr_receipt_digest persisted = rd_receipt_digest receipt \<and>
        rr_committed_at_ms persisted = rd_reduced_at_ms receipt \<and>
        latest \<le> rd_reduced_at_ms receipt \<and>
        rd_request_id receipt = ac_request_id context \<and>
        rd_attempt_id receipt = ac_attempt_id context \<and>
        rd_project_id receipt = ac_project_id context \<and>
        rd_source_sha receipt = ac_source_sha context \<and>
        rd_workflow_policy_digest receipt = ac_workflow_policy_digest context \<and>
        rd_preparation_key receipt = ac_preparation_key context \<and>
        rd_reduce_node_id receipt = n_node_id reduce_node \<and>
        rd_inputs receipt = inputs \<and> nd_state node = Node_Succeeded \<and>
        nd_output_digest node = Some (rd_receipt_digest receipt) \<and>
        nd_receipt_digest node = Some (rd_receipt_digest receipt) \<and>
        nd_completed_at_ms node = Some (rd_reduced_at_ms receipt)
     then Inr receipt else Inl WorkflowReductionConflict)))"

definition record_reduction ::
  "('j, 'x) sched_codec_scheme \<Rightarrow> attempt_context \<Rightarrow> node_id \<Rightarrow> reduction_receipt \<Rightarrow> 'j \<Rightarrow> int \<Rightarrow>
   ('j, unit) stx" where
  "record_reduction E context reduce_node_id reduction receipt_json reduced_at_ms =
     tx_bind (insert_reduction \<lparr> rr_attempt_id = ac_attempt_id context,
         rr_reduce_node_id = reduce_node_id, rr_receipt_digest = rd_receipt_digest reduction,
         rr_receipt_json = receipt_json, rr_committed_at_ms = reduced_at_ms \<rparr>) (\<lambda>_.
     tx_bind (expect_one (update_nodes
         (\<lambda>n. nd_attempt_id n = ac_attempt_id context \<and> nd_node_id n = reduce_node_id \<and>
            nd_state n = Ready)
         (\<lambda>n. n\<lparr>nd_state := Node_Succeeded, nd_output_digest := Some (rd_receipt_digest reduction),
            nd_receipt_digest := Some (rd_receipt_digest reduction),
            nd_completed_at_ms := Some reduced_at_ms\<rparr>)) WorkflowStateConflict) (\<lambda>_.
     tx_bind (touch_attempt (ac_attempt_id context) reduced_at_ms) (\<lambda>_.
     tx_bind (append_transition (ac_attempt_id context) (Subject_node reduce_node_id) (Some ''ready'')
         ''succeeded'' ''deterministic_reduction'' (Some (rd_receipt_digest reduction)) reduced_at_ms) (\<lambda>_.
     if ac_execution_mode context = Shadow_mode
       then complete_shadow_workflow E context reduced_at_ms
     else if wp_delivery_mode (pm_workflow (ac_manifest context)) = SelfUpdateHandoff
       then complete_workflow E (ac_attempt_id context) reduced_at_ms
     else advance_ready_nodes (ac_attempt_id context)))))"

definition reduce_attempt_transaction ::
  "('j, 'x) sched_codec_scheme \<Rightarrow> uuid \<Rightarrow> int \<Rightarrow> ('j, reduction_receipt) stx" where
  "reduce_attempt_transaction E attempt_id reduced_at_ms =
     tx_bind (tx_try (load_attempt_context E attempt_id)) (\<lambda>context.
     tx_bind (tx_lift (ok_or (first_of_kind (ac_manifest context) DeterministicReduce)
         (CorruptWorkflowJournal ''reduce node''))) (\<lambda>reduce_node.
     tx_bind (tx_query (load_persisted_reduction attempt_id)) (\<lambda>persisted.
     case persisted of
       Some row \<Rightarrow> tx_try (validate_persisted_reduction E context reduce_node row)
     | None \<Rightarrow>
         tx_bind (tx_try (\<lambda>db. ok_or (find_node_row attempt_id (n_node_id reduce_node) db) Sqlite)) (\<lambda>node.
         tx_bind (tx_ensure (nd_state node = Ready) WorkflowReductionConflict) (\<lambda>_.
         tx_bind (tx_try (collect_reduction_inputs E context reduce_node)) (\<lambda>(inputs, latest).
         tx_bind (tx_ensure (latest \<le> reduced_at_ms) WorkflowReductionConflict) (\<lambda>_.
         tx_bind (tx_lift (map_err WorkflowContract (reduction_new E (ac_request_id context) attempt_id
             (ac_project_id context) (ac_source_sha context) (ac_workflow_policy_digest context)
             (ac_preparation_key context) (n_node_id reduce_node) inputs reduced_at_ms))) (\<lambda>reduction.
         tx_bind (tx_lift (map_err WorkflowContract (reduction_canonical_bytes E reduction)))
           (\<lambda>receipt_json.
         tx_bind (record_reduction E context (n_node_id reduce_node) reduction receipt_json reduced_at_ms)
           (\<lambda>_. tx_return reduction))))))))))"

definition reduce_attempt ::
  "('j, 'x) sched_codec_scheme \<Rightarrow> uuid \<Rightarrow> int \<Rightarrow> 'j db \<Rightarrow> (store_error + reduction_receipt) \<times> 'j db" where
  "reduce_attempt E attempt_id reduced_at_ms db =
     (if is_nil attempt_id \<or> reduced_at_ms < 0
      then (Inl (InvalidWorkflowSchedulerInput ''reduction identity or time''), db)
      else immediate_transaction (reduce_attempt_transaction E attempt_id reduced_at_ms) db)"

text \<open>Each attempt is reduced in its own transaction; the first error ends the loop.\<close>

definition reducible_attempts :: "'j db \<Rightarrow> uuid list" where
  "reducible_attempts db =
     sort (remdups (map nd_attempt_id
       (filter (\<lambda>n. nd_kind n = DeterministicReduce \<and> nd_state n = Ready) (db_nodes db))))"

fun reduce_attempts ::
  "('j, 'x) sched_codec_scheme \<Rightarrow> int \<Rightarrow> uuid list \<Rightarrow> 'j db \<Rightarrow> (store_error + unit) \<times> 'j db" where
  "reduce_attempts E now_ms [] db = (Inr (), db)"
| "reduce_attempts E now_ms (a # as) db =
     (case reduce_attempt E a now_ms db of
        (Inl e, db') \<Rightarrow> (Inl e, db')
      | (Inr _, db') \<Rightarrow> reduce_attempts E now_ms as db')"

definition reconcile_controller_nodes ::
  "('j, 'x) sched_codec_scheme \<Rightarrow> int \<Rightarrow> 'j db \<Rightarrow> (store_error + nat) \<times> 'j db" where
  "reconcile_controller_nodes E now_ms db =
     (if now_ms < 0 then (Inl (InvalidWorkflowSchedulerInput ''controller reconciliation time''), db)
      else case expire_leases E now_ms db of
        (Inl e, db') \<Rightarrow> (Inl e, db')
      | (Inr _, db') \<Rightarrow> (let attempts = reducible_attempts db' in
          case reduce_attempts E now_ms attempts db' of
            (Inl e, db'') \<Rightarrow> (Inl e, db'')
          | (Inr _, db'') \<Rightarrow> (Inr (length attempts), db'')))"

end
