(* ===== verification/Scheduler_Claims.thy ===== *)
theory Scheduler_Claims
  imports Scheduler_Receipts
begin

text \<open>
  Claiming work (\<open>src/scheduler.rs\<close>): the ready candidates of a worker, one per project, the weighted
  rotation between projects, the per-project mutation lock, the state an operation shares between its
  nodes, and the lease that is handed out. The identifier of a new lease (\<open>Uuid::new_v4\<close>) is an
  argument.
\<close>

section \<open>Candidates\<close>

record candidate_owned =
  cd_request_id :: uuid
  cd_attempt_id :: uuid
  cd_project_id :: project_id
  cd_source_sha :: git_commit_id
  cd_source_sequence :: nat
  cd_source_attestation_digest :: evidence_digest
  cd_workflow_policy_digest :: evidence_digest
  cd_preparation_key :: evidence_digest
  cd_lease_generation :: nat
  cd_execution_mode :: execution_mode
  cd_manifest :: project_manifest
  cd_node_id :: node_id

record ready_candidate = candidate_owned +
  cd_node :: workflow_node
  cd_profile :: execution_profile

definition candidate_borrowed :: "candidate_owned \<Rightarrow> store_error + ready_candidate" where
  "candidate_borrowed c =
     bind_res (ok_or (policy_node (pm_workflow (cd_manifest c)) (cd_node_id c))
         (CorruptWorkflowJournal ''candidate manifest node'')) (\<lambda>node.
     bind_res (ok_or (policy_profile (pm_workflow (cd_manifest c)) (n_profile_id node))
         (CorruptWorkflowJournal ''candidate manifest profile'')) (\<lambda>profile.
     Inr (candidate_owned.extend c (ready_candidate.fields node profile))))"

definition node_uses_operation_state :: "workflow_node \<Rightarrow> adapter_id \<Rightarrow> bool" where
  "node_uses_operation_state node adapter \<longleftrightarrow>
     adapter \<in> {WorkerBareBinCiV1, WorkerNativeReleaseBuildV1} \<or>
     adapter = WorkerOciReleaseBuildV1 \<and> VerificationReceipt \<in> set (n_input_contracts node)"

definition verification_feeds_shared_release_output ::
  "project_manifest \<Rightarrow> workflow_node \<Rightarrow> bool" where
  "verification_feeds_shared_release_output manifest node \<longleftrightarrow>
     n_kind node = Verification \<and>
     list_ex (\<lambda>candidate. n_kind candidate = ReleaseBuild \<and>
         n_node_id node \<in> set (n_depends_on candidate) \<and>
         (case policy_profile (pm_workflow manifest) (n_profile_id candidate) of
            None \<Rightarrow> False
          | Some profile \<Rightarrow> node_uses_operation_state candidate (p_adapter_id profile)))
       (wp_nodes (pm_workflow manifest))"

text \<open>The ready nodes joined with their attempt and request, in claim order.\<close>

definition candidate_order ::
  "node_row \<times> attempt_row \<times> 'j request_row \<Rightarrow> int \<times> int \<times> int \<times> string" where
  "candidate_order = (\<lambda>(n, a, r).
     (- rq_priority r, rq_created_at_ms r, nd_ordinal n, nd_node_id n))"

definition join_candidate ::
  "'j db \<Rightarrow> node_row \<Rightarrow> (node_row \<times> attempt_row \<times> 'j request_row) option" where
  "join_candidate db n =
     Option.bind (find_attempt (nd_attempt_id n) db) (\<lambda>a.
     map_option (\<lambda>r. (n, a, r)) (find_request (at_request_id a) db))"

definition read_ready_candidate_rows ::
  "'j db \<Rightarrow> (node_row \<times> attempt_row \<times> 'j request_row) list" where
  "read_ready_candidate_rows db =
     sort_key candidate_order (filter (\<lambda>(n, a, r).
         nd_state n = Ready \<and> nd_kind n \<noteq> DeterministicReduce \<and>
         at_state a \<in> {Queued, Running} \<and> rq_state r = Request_Active)
       (List.map_filter (join_candidate db) (db_nodes db)))"

text \<open>One step of the loop; the accumulator is the \<open>BTreeMap\<close> by project, in insertion order.\<close>

definition load_candidate ::
  "('j, 'x) sched_codec_scheme \<Rightarrow> worker_registration \<Rightarrow> node_row \<times> attempt_row \<times> 'j request_row \<Rightarrow>
   candidate_owned list \<Rightarrow> store_error + candidate_owned list" where
  "load_candidate E worker = (\<lambda>(n, a, r) by_project.
     if nd_worker_pool n \<notin> set (wk_pools worker) then Inr by_project
     else
     bind_res (map_err (\<lambda>_. CorruptWorkflowJournal ''candidate project ID'')
         (project_id_from_str (rq_project_id r))) (\<lambda>project.
     if list_ex (\<lambda>c. cd_project_id c = project) by_project then Inr by_project
     else
     bind_res (map_err ManifestContract (manifest_decode_canonical E (rq_manifest_json r))) (\<lambda>manifest.
     bind_res (parse_digest (rq_policy_digest r) ''candidate policy digest'') (\<lambda>policy_digest.
     bind_res (if pm_project_id manifest \<noteq> project then Inl WorkflowPolicyMismatch
       else bind_res (map_err ManifestContract (workflow_policy_digest E manifest)) (\<lambda>d.
         ensure (d = policy_digest) WorkflowPolicyMismatch)) (\<lambda>_.
     bind_res (map_err (\<lambda>_. CorruptWorkflowJournal ''candidate node ID'')
         (node_id_from_str (nd_node_id n))) (\<lambda>node_id.
     bind_res (ok_or (policy_node (pm_workflow manifest) node_id)
         (CorruptWorkflowJournal ''candidate node absent'')) (\<lambda>manifest_node.
     bind_res (ok_or (policy_profile (pm_workflow manifest) (n_profile_id manifest_node))
         (CorruptWorkflowJournal ''candidate profile absent'')) (\<lambda>profile.
     if n_kind manifest_node \<noteq> nd_kind n \<or> n_profile_id manifest_node \<noteq> nd_profile_id n \<or>
        p_worker_pool profile \<noteq> nd_worker_pool n
       then Inl (CorruptWorkflowJournal ''candidate manifest binding'')
     else if rq_operation_kind r = Shadow_mode \<and> \<not> shadow_executes (n_kind manifest_node)
       then Inl (CorruptWorkflowJournal ''shadow workflow exposed a mutation candidate'')
     else if verification_feeds_shared_release_output manifest manifest_node \<and>
        VpsRequired \<notin> set (wk_pools worker)
       then Inr by_project
     else
     bind_res (parse_source_sha (rq_source_sha r)) (\<lambda>source.
     bind_res (to_u64 (rq_source_sequence r) ''source sequence'') (\<lambda>source_sequence.
     bind_res (parse_digest (rq_attestation_digest r) ''source attestation digest'') (\<lambda>attestation.
     bind_res (parse_digest (at_preparation_key a) ''preparation key'') (\<lambda>key.
     bind_res (try_u32 (nd_lease_generation n) ''lease generation'') (\<lambda>lease_generation.
     Inr (by_project @ [\<lparr> cd_request_id = rq_request_id r, cd_attempt_id = at_attempt_id a,
       cd_project_id = project, cd_source_sha = source, cd_source_sequence = source_sequence,
       cd_source_attestation_digest = attestation, cd_workflow_policy_digest = policy_digest,
       cd_preparation_key = key, cd_lease_generation = lease_generation,
       cd_execution_mode = rq_operation_kind r, cd_manifest = manifest,
       cd_node_id = node_id \<rparr>]))))))))))))))"

definition load_ready_candidates ::
  "('j, 'x) sched_codec_scheme \<Rightarrow> worker_registration \<Rightarrow> 'j db \<Rightarrow> store_error + candidate_owned list" where
  "load_ready_candidates E worker db =
     bind_res (fold_res (load_candidate E worker) (read_ready_candidate_rows db) [])
       (\<lambda>by_project. Inr (sort_key cd_project_id by_project))"


section \<open>Fairness between projects\<close>

text \<open>\<open>iter().position(p)\<close>.\<close>

fun position :: "('a \<Rightarrow> bool) \<Rightarrow> 'a list \<Rightarrow> nat option" where
  "position p [] = None"
| "position p (x # xs) = (if p x then Some 0 else map_option Suc (position p xs))"

definition fair_candidate_order ::
  "candidate_owned list \<Rightarrow> string option \<Rightarrow> nat \<Rightarrow> store_error + ready_candidate list" where
  "fair_candidate_order candidates last_project_id remaining_weight =
     bind_res (collect_res candidate_borrowed candidates) (\<lambda>borrowed.
     let borrowed = sort_key cd_project_id borrowed in
     case last_project_id of
       None \<Rightarrow> Inr borrowed
     | Some project \<Rightarrow>
         (case (if remaining_weight > 0 then position (\<lambda>c. cd_project_id c = project) borrowed
                else None) of
            Some index \<Rightarrow> Inr (rotate index borrowed)
          | None \<Rightarrow>
              (case position (\<lambda>c. cd_project_id c > project) borrowed of
                 Some index \<Rightarrow> Inr (rotate index borrowed)
               | None \<Rightarrow> Inr (rotate 0 borrowed))))"

definition load_fairness_cursor :: "'j db \<Rightarrow> store_error + string option \<times> nat" where
  "load_fairness_cursor db =
     (if 0 \<le> db_remaining_weight db \<and> db_remaining_weight db \<le> 65535
      then Inr (db_last_project_id db, nat (db_remaining_weight db))
      else Inl (CorruptWorkflowJournal ''fairness weight''))"

definition next_remaining :: "ready_candidate \<Rightarrow> string option \<Rightarrow> nat \<Rightarrow> nat" where
  "next_remaining candidate previous_project previous_remaining =
     (if previous_project = Some (cd_project_id candidate) \<and> previous_remaining > 0
      then previous_remaining - 1
      else wp_fairness_weight (pm_workflow (cd_manifest candidate)) - 1)"

definition update_fairness_cursor ::
  "ready_candidate \<Rightarrow> string option \<Rightarrow> nat \<Rightarrow> ('j, unit) stx" where
  "update_fairness_cursor candidate previous_project previous_remaining =
     write_cursor (Some (cd_project_id candidate))
       (int (next_remaining candidate previous_project previous_remaining))"


section \<open>The mutation lock\<close>

definition candidate_requires_exclusive_delivery :: "ready_candidate \<Rightarrow> bool" where
  "candidate_requires_exclusive_delivery c \<longleftrightarrow>
     cd_execution_mode c = Deploy_mode \<and>
     (is_mutation (n_kind (cd_node c)) \<or>
      is_self_update_handoff_release (cd_manifest c) (n_kind (cd_node c)))"

definition acquire_mutation_lock :: "ready_candidate \<Rightarrow> int \<Rightarrow> ('j, bool) stx" where
  "acquire_mutation_lock c now_ms =
     tx_bind (tx_query (\<lambda>db. find (\<lambda>l. lk_project_id l = cd_project_id c) (db_locks db))) (\<lambda>owner.
     case owner of
       Some lock \<Rightarrow>
         if lk_attempt_id lock \<noteq> cd_attempt_id c then tx_return False
         else if lk_state lock \<noteq> Held then tx_fail WorkflowStateConflict
         else tx_return True
     | None \<Rightarrow>
         tx_bind (insert_lock \<lparr> lk_project_id = cd_project_id c, lk_attempt_id = cd_attempt_id c,
             lk_state = Held, lk_acquired_at_ms = now_ms, lk_updated_at_ms = now_ms \<rparr>) (\<lambda>_.
         tx_bind (expect_one (update_attempts
             (\<lambda>a. at_attempt_id a = cd_attempt_id c \<and> at_mutation_state a = NotStarted)
             (\<lambda>a. a\<lparr>at_mutation_state := Owned, at_updated_at_ms := now_ms\<rparr>))
             WorkflowStateConflict) (\<lambda>_. tx_return True)))"


section \<open>Operation state\<close>

datatype operation_state_selection = NotUsed | State_Ready wf_operation_state | Busy

definition max_operation_state_bytes :: nat where
  "max_operation_state_bytes = 6 * 1024 * 1024 * 1024"
definition max_operation_state_inodes :: nat where "max_operation_state_inodes = 500000"

definition adapter_writes_operation_state :: "adapter_id \<Rightarrow> bool" where
  "adapter_writes_operation_state adapter \<longleftrightarrow> adapter = WorkerBareBinCiV1"

definition candidate_scope :: "ready_candidate \<Rightarrow> worker_registration \<Rightarrow> state_scope" where
  "candidate_scope c worker = \<lparr> sc_attempt_id = cd_attempt_id c, sc_project_id = cd_project_id c,
     sc_source_sha = cd_source_sha c, sc_workflow_policy_digest = cd_workflow_policy_digest c,
     sc_preparation_key = cd_preparation_key c, sc_worker_id = wk_worker_id worker,
     sc_host_id = wk_host_id worker \<rparr>"

definition decode_bound_operation_state ::
  "('j, 'x) sched_codec_scheme \<Rightarrow> ready_candidate \<Rightarrow> worker_registration \<Rightarrow> 'j \<Rightarrow>
   store_error + wf_operation_state" where
  "decode_bound_operation_state E c worker state_json =
     bind_res (map_err (\<lambda>_. Json) (operation_state_json E state_json)) (\<lambda>state.
     bind_res (map_err (\<lambda>_. Json) (operation_state_jcs E state)) (\<lambda>encoded.
     if encoded \<noteq> state_json \<or> \<not> is_ok (state_validate_for E state (candidate_scope c worker))
     then Inl (CorruptWorkflowJournal ''operation-state binding'') else Inr state))"

text \<open>Decoding the active leases of the host one by one until one carries a state.\<close>

fun any_operation_state ::
  "('j, 'x) sched_codec_scheme \<Rightarrow> 'j lease_row list \<Rightarrow> store_error + bool" where
  "any_operation_state E [] = Inr False"
| "any_operation_state E (l # ls) =
     bind_res (map_err WorkflowContract (lease_decode_canonical E (lj_lease_json l))) (\<lambda>lease.
       if ls_operation_state lease \<noteq> None then Inr True else any_operation_state E ls)"

definition active_operation_state_on_host ::
  "('j, 'x) sched_codec_scheme \<Rightarrow> uuid \<Rightarrow> worker_registration \<Rightarrow> 'j db \<Rightarrow> store_error + bool" where
  "active_operation_state_on_host E attempt_id worker db =
     any_operation_state E (filter (\<lambda>l. lj_attempt_id l = attempt_id \<and>
       lj_worker_id l = wk_worker_id worker \<and> lj_host_id l = wk_host_id worker \<and> lj_state l = Active)
       (db_leases db))"

definition remaining_consumer ::
  "ready_candidate \<Rightarrow> worker_registration \<Rightarrow> 'j db \<Rightarrow> workflow_node \<Rightarrow> node_id list \<Rightarrow>
   store_error + node_id list" where
  "remaining_consumer c worker db node consumers =
     bind_res (ok_or (policy_profile (pm_workflow (cd_manifest c)) (n_profile_id node))
         (CorruptWorkflowJournal ''operation-state profile absent'')) (\<lambda>profile.
     if \<not> node_uses_operation_state node (p_adapter_id profile) \<or> p_cache_class profile \<noteq> PreparedRun \<or>
        p_worker_pool profile \<notin> set (wk_pools worker)
       then Inr consumers
     else
     bind_res (ok_or (find_node_row (cd_attempt_id c) (n_node_id node) db) Sqlite) (\<lambda>row.
     if nd_state row \<in> {Blocked, Ready} then Inr (consumers @ [n_node_id node]) else Inr consumers))"

definition remaining_operation_state_consumers ::
  "ready_candidate \<Rightarrow> worker_registration \<Rightarrow> 'j db \<Rightarrow> store_error + node_id list" where
  "remaining_operation_state_consumers c worker db =
     bind_res (fold_res (remaining_consumer c worker db) (wp_nodes (pm_workflow (cd_manifest c))) [])
       (\<lambda>consumers.
     if n_node_id (cd_node c) \<notin> set consumers
     then Inl (CorruptWorkflowJournal ''operation-state candidate absent'')
     else Inr (sort consumers))"

definition consumer_bounds :: "ready_candidate \<Rightarrow> node_id \<Rightarrow> nat \<times> nat \<Rightarrow> store_error + nat \<times> nat" where
  "consumer_bounds c consumer = (\<lambda>(max_bytes, max_inodes).
     bind_res (ok_or (policy_node (pm_workflow (cd_manifest c)) consumer)
         (CorruptWorkflowJournal ''operation-state consumer absent'')) (\<lambda>node.
     bind_res (ok_or (policy_profile (pm_workflow (cd_manifest c)) (n_profile_id node))
         (CorruptWorkflowJournal ''operation-state resources absent'')) (\<lambda>profile.
     bind_res (ok_or (p_resources profile)
         (CorruptWorkflowJournal ''operation-state resources absent'')) (\<lambda>resources.
     if \<not> adapter_writes_operation_state (p_adapter_id profile) then Inr (max_bytes, max_inodes)
     else Inr (max max_bytes (re_scratch_max_bytes resources),
               max max_inodes (re_scratch_max_inodes resources))))))"

definition operation_state_contract ::
  "('j, 'x) sched_codec_scheme \<Rightarrow> ready_candidate \<Rightarrow> worker_registration \<Rightarrow> node_id list \<Rightarrow>
   store_error + wf_operation_state" where
  "operation_state_contract E c worker consumers =
     bind_res (fold_res (consumer_bounds c) consumers (0, 0)) (\<lambda>(max_bytes, max_inodes).
     map_err WorkflowContract (wf_operation_state_new E (candidate_scope c worker) consumers
       (min max_bytes max_operation_state_bytes) (min max_inodes max_operation_state_inodes)))"

definition bound_operation_state ::
  "('j, 'x) sched_codec_scheme \<Rightarrow> ready_candidate \<Rightarrow> worker_registration \<Rightarrow> 'j binding_row \<Rightarrow> 'j db \<Rightarrow>
   store_error + operation_state_selection" where
  "bound_operation_state E c worker binding db =
     (if ob_worker_id binding = wk_worker_id worker \<and> ob_host_id binding = wk_host_id worker then
        bind_res (decode_bound_operation_state E c worker (ob_state_json binding)) (\<lambda>state.
        if n_node_id (cd_node c) \<notin> set (ws_consumer_nodes state)
          then Inl (CorruptWorkflowJournal ''operation-state consumer not bound'')
        else bind_res (active_operation_state_on_host E (cd_attempt_id c) worker db) (\<lambda>active.
          Inr (if active then Busy else State_Ready state)))
      else Inr Busy)"

definition bind_operation_state ::
  "('j, 'x) sched_codec_scheme \<Rightarrow> ready_candidate \<Rightarrow> worker_registration \<Rightarrow> int \<Rightarrow>
   ('j, operation_state_selection) stx" where
  "bind_operation_state E c worker now_ms =
     (let vps_capable = (VpsRequired \<in> set (wk_pools worker)) in
      tx_bind (if vps_capable then tx_try (active_operation_state_on_host E (cd_attempt_id c) worker)
        else tx_return False) (\<lambda>busy.
      if busy then tx_return Busy
      else
      tx_bind (if vps_capable then tx_try (remaining_operation_state_consumers c worker)
        else tx_return [n_node_id (cd_node c)]) (\<lambda>consumers.
      tx_bind (tx_lift (operation_state_contract E c worker consumers)) (\<lambda>state.
      tx_bind (if vps_capable then
          tx_bind (tx_lift (map_err (\<lambda>_. Json) (operation_state_jcs E state))) (\<lambda>state_json.
          insert_binding \<lparr> ob_attempt_id = cd_attempt_id c, ob_worker_id = wk_worker_id worker,
            ob_host_id = wk_host_id worker, ob_state_key = ws_state_key state,
            ob_state_json = state_json, ob_bound_at_ms = now_ms \<rparr>)
        else tx_return ()) (\<lambda>_.
      tx_return (State_Ready state))))))"

definition operation_state_for_candidate ::
  "('j, 'x) sched_codec_scheme \<Rightarrow> ready_candidate \<Rightarrow> worker_registration \<Rightarrow> int \<Rightarrow>
   ('j, operation_state_selection) stx" where
  "operation_state_for_candidate E c worker now_ms =
     (if \<not> node_uses_operation_state (cd_node c) (p_adapter_id (cd_profile c)) \<or>
         p_cache_class (cd_profile c) \<noteq> PreparedRun
      then tx_return NotUsed
      else tx_bind (tx_query (\<lambda>db. find (\<lambda>b. ob_attempt_id b = cd_attempt_id c) (db_bindings db)))
        (\<lambda>binding. case binding of
           Some b \<Rightarrow> tx_try (bound_operation_state E c worker b)
         | None \<Rightarrow> bind_operation_state E c worker now_ms))"


section \<open>The inputs of a node\<close>

definition succeeded_input ::
  "ready_candidate \<Rightarrow> 'j db \<Rightarrow> string \<Rightarrow> store_error + lease_input" where
  "succeeded_input c db dependency =
     bind_res (ok_or (find_node_row (cd_attempt_id c) dependency db) Sqlite) (\<lambda>row.
     if nd_state row \<noteq> Node_Succeeded then Inl WorkflowStateConflict
     else
     bind_res (map_err (\<lambda>_. CorruptWorkflowJournal ''dependency node ID'')
         (node_id_from_str dependency)) (\<lambda>node_id.
     bind_res (ok_or (policy_node (pm_workflow (cd_manifest c)) node_id)
         (CorruptWorkflowJournal ''dependency absent from manifest'')) (\<lambda>manifest_node.
     bind_res (ok_or (nd_output_digest row) (CorruptWorkflowJournal ''dependency output'')) (\<lambda>output.
     bind_res (parse_digest output ''dependency output'') (\<lambda>output_digest.
     Inr \<lparr> li_node_id = node_id, li_artifact_kind = n_output_contract manifest_node,
       li_output_digest = output_digest \<rparr>)))))"

definition expected_input_digest ::
  "('j, 'x) sched_codec_scheme \<Rightarrow> ready_candidate \<Rightarrow> 'j db \<Rightarrow>
   store_error + evidence_digest \<times> lease_input list" where
  "expected_input_digest E c db =
     bind_res (collect_res (succeeded_input c db)
         (persisted_dependencies (cd_attempt_id c) (n_node_id (cd_node c)) db)) (\<lambda>dependencies.
     if length dependencies \<noteq> length (n_depends_on (cd_node c))
       then Inl (CorruptWorkflowJournal ''dependency cardinality'')
     else
     bind_res (map_err (\<lambda>_. Json) (seal (expected_input_jcs E) (wf_sha256 E)
         (Expected_input_payload ''rdashboard.workflow-node-input.v1'' (cd_project_id c)
           (cd_source_sha c) (cd_workflow_policy_digest c) (cd_preparation_key c)
           (n_node_id (cd_node c)) dependencies))) (\<lambda>digest.
     Inr (digest, dependencies)))"


section \<open>Handing out a lease\<close>

definition persist_active_lease ::
  "('j, 'x) sched_codec_scheme \<Rightarrow> lease \<Rightarrow> nat \<Rightarrow> int \<Rightarrow> ('j, unit) stx" where
  "persist_active_lease E lease previous_generation now_ms =
     tx_bind (tx_lift (map_err WorkflowContract (lease_canonical_bytes E lease))) (\<lambda>lease_json.
     tx_bind (insert_lease \<lparr> lj_lease_id = ls_lease_id lease, lj_attempt_id = ls_attempt_id lease,
         lj_node_id = ls_node_id lease, lj_generation = int (ls_lease_generation lease),
         lj_worker_id = ls_worker_id lease, lj_host_id = ls_host_id lease,
         lj_expected_input_digest = ls_expected_input_digest lease,
         lj_lease_digest = ls_lease_digest lease, lj_lease_json = lease_json, lj_state = Active,
         lj_leased_at_ms = ls_leased_at_ms lease, lj_expires_at_ms = ls_expires_at_ms lease,
         lj_closed_at_ms = None, lj_receipt_digest = None \<rparr>) (\<lambda>_.
     tx_bind (expect_one (update_nodes
         (\<lambda>n. nd_attempt_id n = ls_attempt_id lease \<and> nd_node_id n = ls_node_id lease \<and>
            nd_state n = Ready \<and> nd_lease_generation n = int previous_generation)
         (\<lambda>n. n\<lparr>nd_state := Leased, nd_lease_generation := int (ls_lease_generation lease)\<rparr>))
         WorkflowStateConflict) (\<lambda>_.
     tx_bind (expect_one (update_attempts
         (\<lambda>a. at_attempt_id a = ls_attempt_id lease \<and> at_state a \<in> {Queued, Running})
         (\<lambda>a. a\<lparr>at_state := Running, at_updated_at_ms := now_ms\<rparr>)) WorkflowStateConflict) (\<lambda>_.
     append_transition (ls_attempt_id lease) (Subject_lease (ls_lease_id lease)) None ''active''
       ''worker_claimed'' (Some (ls_lease_digest lease)) now_ms))))"

definition lease_for_candidate ::
  "('j, 'x) sched_codec_scheme \<Rightarrow> worker_registration \<Rightarrow> uuid \<Rightarrow> int \<Rightarrow> int \<Rightarrow> ready_candidate \<Rightarrow>
   operation_state_selection \<Rightarrow> 'j db \<Rightarrow> store_error + lease" where
  "lease_for_candidate E worker new_lease_id now_ms lease_duration_ms c selection db =
     bind_res (expected_input_digest E c db) (\<lambda>(input_digest, input_artifacts).
     bind_res (ok_or (checked_add_u32 (cd_lease_generation c) 1)
         (CorruptWorkflowJournal ''lease generation'')) (\<lambda>generation.
     bind_res (bounded_lease_expiry now_ms now_ms lease_duration_ms
         (p_timeout_ms (cd_profile c))) (\<lambda>expires_at_ms.
     bind_res (map_err WorkflowContract (lease_new E new_lease_id generation (cd_request_id c)
         (cd_attempt_id c) (cd_project_id c) (cd_source_sha c) (cd_source_sequence c)
         (cd_source_attestation_digest c) (cd_workflow_policy_digest c) (cd_preparation_key c)
         (cd_node c) (cd_profile c)
         (if n_kind (cd_node c) \<in> {HostPrepare, Verification, ReleaseBuild}
          then pm_host_preparation (cd_manifest c) else None)
         input_artifacts input_digest (wk_worker_id worker) (wk_host_id worker) now_ms
         expires_at_ms)) (\<lambda>lease.
     case selection of
       State_Ready state \<Rightarrow> map_err WorkflowContract (lease_with_operation_state E lease state)
     | _ \<Rightarrow> Inr lease))))"

definition grant_lease ::
  "('j, 'x) sched_codec_scheme \<Rightarrow> worker_registration \<Rightarrow> uuid \<Rightarrow> int \<Rightarrow> int \<Rightarrow> string option \<Rightarrow> nat \<Rightarrow>
   ready_candidate \<Rightarrow> operation_state_selection \<Rightarrow> ('j, lease option) stx" where
  "grant_lease E worker new_lease_id now_ms lease_duration_ms last_project_id remaining_weight c
     selection =
     tx_bind (tx_try (lease_for_candidate E worker new_lease_id now_ms lease_duration_ms c selection))
       (\<lambda>lease.
     tx_bind (persist_active_lease E lease (cd_lease_generation c) now_ms) (\<lambda>_.
     tx_bind (update_fairness_cursor c last_project_id remaining_weight) (\<lambda>_.
     tx_return (Some lease))))"

fun claim_candidates ::
  "('j, 'x) sched_codec_scheme \<Rightarrow> worker_registration \<Rightarrow> uuid \<Rightarrow> int \<Rightarrow> int \<Rightarrow> string option \<Rightarrow> nat \<Rightarrow>
   ready_candidate list \<Rightarrow> ('j, lease option) stx" where
  "claim_candidates E worker new_lease_id now_ms lease_duration_ms last_project remaining [] =
     tx_return None"
| "claim_candidates E worker new_lease_id now_ms lease_duration_ms last_project remaining (c # cs) =
     tx_bind (if candidate_requires_exclusive_delivery c then acquire_mutation_lock c now_ms
       else tx_return True) (\<lambda>available.
     if \<not> available then
       claim_candidates E worker new_lease_id now_ms lease_duration_ms last_project remaining cs
     else
     tx_bind (operation_state_for_candidate E c worker now_ms) (\<lambda>selection.
     case selection of
       Busy \<Rightarrow>
         claim_candidates E worker new_lease_id now_ms lease_duration_ms last_project remaining cs
     | _ \<Rightarrow> grant_lease E worker new_lease_id now_ms lease_duration_ms last_project remaining c
         selection))"

definition claim_next_transaction ::
  "('j, 'x) sched_codec_scheme \<Rightarrow> worker_registration \<Rightarrow> uuid \<Rightarrow> int \<Rightarrow> int \<Rightarrow> ('j, lease option) stx" where
  "claim_next_transaction E worker new_lease_id now_ms lease_duration_ms =
     tx_bind (wake_waiting_attempts now_ms) (\<lambda>_.
     tx_bind (tx_try (load_ready_candidates E worker)) (\<lambda>candidates.
     if candidates = [] then tx_return None
     else
     tx_bind (tx_try load_fairness_cursor) (\<lambda>(last_project_id, remaining_weight).
     tx_bind (tx_lift (fair_candidate_order candidates last_project_id remaining_weight)) (\<lambda>ordered.
     claim_candidates E worker new_lease_id now_ms lease_duration_ms last_project_id remaining_weight
       ordered))))"

definition claim_next ::
  "('j, 'x) sched_codec_scheme \<Rightarrow> worker_registration \<Rightarrow> uuid \<Rightarrow> int \<Rightarrow> int \<Rightarrow> 'j db \<Rightarrow>
   (store_error + lease option) \<times> 'j db" where
  "claim_next E worker new_lease_id now_ms lease_duration_ms db =
     (case bind_res (worker_validate worker) (\<lambda>_.
        ensure (0 \<le> now_ms \<and> min_lease_ms \<le> lease_duration_ms \<and> lease_duration_ms \<le> max_lease_ms)
          (InvalidWorkflowSchedulerInput ''lease time'')) of
        Inl e \<Rightarrow> (Inl e, db)
      | Inr _ \<Rightarrow> immediate_transaction
          (tx_bind (expire_leases_transaction E now_ms) (\<lambda>_.
           tx_bind (tx_try (worker_has_pending_cleanup E worker)) (\<lambda>pending.
           if pending then tx_return None
           else claim_next_transaction E worker new_lease_id now_ms lease_duration_ms))) db)"

end
