(* ===== verification/Scheduler_Admission.thy ===== *)
theory Scheduler_Admission
  imports Scheduler_Claims
begin

text \<open>
  Admission of a source revision (\<open>src/scheduler.rs\<close>): the replay of a delivery, the monotone source
  head of a project, the stable request of a revision, the attempts a newer head supersedes, and the
  attempt that is created. The identifiers drawn by \<open>Uuid::new_v4\<close> are arguments.
\<close>

record admission =
  ad_project_id :: project_id
  ad_workflow_policy_digest :: evidence_digest
  ad_source_sha :: git_commit_id
  ad_execution_mode :: execution_mode
  ad_source_sequence :: nat
  ad_source_attestation_digest :: evidence_digest
  ad_trigger_channel :: trigger_channel
  ad_delivery_id :: string
  ad_payload_digest :: evidence_digest
  ad_priority :: nat

datatype admission_outcome = Created attempt_snapshot | Existing attempt_snapshot

definition valid_delivery_id :: "string \<Rightarrow> bool" where
  "valid_delivery_id value \<longleftrightarrow>
     1 \<le> length value \<and> length value \<le> 128 \<and>
     list_all (\<lambda>b. is_ascii_graphic b \<and> b \<noteq> CHR ''/'' \<and> b \<noteq> CHR 0x5C) value"

definition validate_admission ::
  "('j, 'x) sched_codec_scheme \<Rightarrow> project_manifest \<Rightarrow> admission \<Rightarrow> int \<Rightarrow> store_error + unit" where
  "validate_admission E manifest ad admitted_at_ms =
     bind_res (map_err ManifestContract (manifest_validate manifest)) (\<lambda>_.
     bind_res (if ad_project_id ad \<noteq> pm_project_id manifest then Inl WorkflowPolicyMismatch
       else bind_res (map_err ManifestContract (workflow_policy_digest E manifest)) (\<lambda>d.
         ensure (ad_workflow_policy_digest ad = d) WorkflowPolicyMismatch)) (\<lambda>_.
     if ad_source_sequence ad = 0 \<or> admitted_at_ms < 0 \<or> ad_priority ad > 3 \<or>
        \<not> valid_delivery_id (ad_delivery_id ad) \<or>
        (ad_execution_mode ad = Shadow_mode \<and> ad_trigger_channel ad \<noteq> ManualShadow) \<or>
        (ad_execution_mode ad = Deploy_mode \<and> ad_trigger_channel ad = ManualShadow)
     then Inl (InvalidWorkflowSchedulerInput ''admission'') else Inr ()))"

definition find_trigger :: "trigger_channel \<Rightarrow> string \<Rightarrow> 'j db \<Rightarrow> trigger_row option" where
  "find_trigger channel delivery_id db =
     find (\<lambda>t. tg_channel t = channel \<and> tg_delivery_id t = delivery_id) (db_triggers db)"

definition replayed_trigger ::
  "('j, 'x) sched_codec_scheme \<Rightarrow> admission \<Rightarrow> 'j db \<Rightarrow> store_error + attempt_snapshot option" where
  "replayed_trigger E ad db =
     (case find_trigger (ad_trigger_channel ad) (ad_delivery_id ad) db of
        None \<Rightarrow> Inr None
      | Some t \<Rightarrow>
          if tg_payload_digest t \<noteq> ad_payload_digest ad then Inl WorkflowDeliveryConflict
          else bind_res (load_latest_attempt_for_request E (tg_request_id t) db)
            (\<lambda>s. Inr (Some s)))"

definition find_head :: "project_id \<Rightarrow> 'j db \<Rightarrow> head_row option" where
  "find_head project db = find (\<lambda>h. ph_project_id h = project) (db_heads db)"

definition validate_project_head :: "admission \<Rightarrow> 'j db \<Rightarrow> store_error + unit" where
  "validate_project_head ad db =
     (case find_head (ad_project_id ad) db of
        None \<Rightarrow> Inr ()
      | Some h \<Rightarrow>
          bind_res (to_u64 (ph_source_sequence h) ''project source sequence'') (\<lambda>sequence.
          if ad_source_sequence ad < sequence then Inl WorkflowStaleSource
          else if ad_source_sequence ad = sequence \<and> ad_source_sha ad \<noteq> ph_source_sha h
            then Inl WorkflowSourceConflict
          else Inr ()))"

definition find_stable_request :: "admission \<Rightarrow> 'j db \<Rightarrow> uuid option" where
  "find_stable_request ad db =
     map_option rq_request_id (find (\<lambda>r. rq_project_id r = ad_project_id ad \<and>
       rq_policy_digest r = ad_workflow_policy_digest ad \<and> rq_source_sha r = ad_source_sha ad \<and>
       rq_operation_kind r = ad_execution_mode ad) (db_requests db))"

definition record_trigger :: "admission \<Rightarrow> uuid \<Rightarrow> int \<Rightarrow> ('j, unit) stx" where
  "record_trigger ad request_id admitted_at_ms =
     insert_trigger \<lparr> tg_channel = ad_trigger_channel ad, tg_delivery_id = ad_delivery_id ad,
       tg_payload_digest = ad_payload_digest ad, tg_request_id = request_id,
       tg_received_at_ms = admitted_at_ms \<rparr>"

text \<open>\<open>INSERT ... ON CONFLICT(project_id) DO UPDATE ... WHERE excluded.source_sequence >= ...\<close>.\<close>

definition upsert_head :: "head_row \<Rightarrow> head_row list \<Rightarrow> head_row list" where
  "upsert_head new heads =
     (if list_ex (\<lambda>h. ph_project_id h = ph_project_id new) heads
      then update_where (\<lambda>h. ph_project_id h = ph_project_id new \<and>
             ph_source_sequence h \<le> ph_source_sequence new) (\<lambda>_. new) heads
      else heads @ [new])"

definition update_project_head :: "admission \<Rightarrow> uuid \<Rightarrow> int \<Rightarrow> ('j, unit) stx" where
  "update_project_head ad request_id admitted_at_ms =
     tx_bind (tx_lift (to_i64 (ad_source_sequence ad) ''source sequence'')) (\<lambda>sequence.
     write_heads (upsert_head \<lparr> ph_project_id = ad_project_id ad, ph_source_sequence = sequence,
       ph_source_sha = ad_source_sha ad, ph_request_id = request_id,
       ph_updated_at_ms = admitted_at_ms \<rparr>))"

definition supersedable ::
  "project_id \<Rightarrow> execution_mode \<Rightarrow> uuid \<Rightarrow> 'j db \<Rightarrow> attempt_row list" where
  "supersedable project mode new_request_id db =
     sort_key at_created_at_ms (filter (\<lambda>a.
         at_state a \<in> {Queued, WaitingForMutation, Running, Attempt_NeedsReconcile} \<and>
         (case find_request (at_request_id a) db of
            None \<Rightarrow> False
          | Some r \<Rightarrow> rq_project_id r = project \<and> rq_request_id r \<noteq> new_request_id \<and>
              rq_operation_kind r = mode)) (db_attempts db))"

definition supersede_attempt :: "uuid \<Rightarrow> int \<Rightarrow> attempt_row \<Rightarrow> ('j, unit) stx" where
  "supersede_attempt new_request_id recorded_at_ms a =
     tx_bind (tx_query (active_lease_count (at_attempt_id a))) (\<lambda>active_leases.
     tx_bind (revoke_active_leases (at_attempt_id a) recorded_at_ms) (\<lambda>_.
     tx_bind (cancel_open_nodes (at_attempt_id a) recorded_at_ms) (\<lambda>_.
     tx_bind (execute (update_attempts
         (\<lambda>b. at_attempt_id b = at_attempt_id a \<and> at_mutation_state b = NotStarted)
         (\<lambda>b. b\<lparr>at_state := Attempt_Superseded,
            at_cleanup_state := (if active_leases = 0 then Cleanup_Complete else Cleanup_Pending),
            at_updated_at_ms := recorded_at_ms, at_terminal_at_ms := Some recorded_at_ms\<rparr>))) (\<lambda>_.
     tx_bind (execute (update_requests
         (\<lambda>r. rq_request_id r = at_request_id a \<and> rq_state r = Request_Active)
         (\<lambda>r. r\<lparr>rq_state := Request_Superseded, rq_superseded_by := Some new_request_id,
            rq_updated_at_ms := recorded_at_ms\<rparr>))) (\<lambda>_.
     append_transition (at_attempt_id a) (Subject_attempt (at_attempt_id a))
       (Some (attempt_state_name (at_state a))) (attempt_state_name Attempt_Superseded)
       ''newer_source_head'' None recorded_at_ms)))))"

definition supersede_pre_mutation_attempts ::
  "project_id \<Rightarrow> execution_mode \<Rightarrow> uuid \<Rightarrow> int \<Rightarrow> ('j, bool) stx" where
  "supersede_pre_mutation_attempts project mode new_request_id recorded_at_ms =
     tx_bind (tx_query (supersedable project mode new_request_id)) (\<lambda>rows.
     tx_bind (tx_each (\<lambda>a. tx_when (at_mutation_state a = NotStarted)
         (supersede_attempt new_request_id recorded_at_ms a)) rows) (\<lambda>_.
     tx_return (mode = Deploy_mode \<and> list_ex (\<lambda>a. at_mutation_state a \<noteq> NotStarted) rows)))"

text \<open>The initial state of a node, its output and receipt digests, and its completion time.\<close>

definition initial_node_state ::
  "admission \<Rightarrow> bool \<Rightarrow> int \<Rightarrow> node_kind \<Rightarrow>
   node_state \<times> string option \<times> string option \<times> int option" where
  "initial_node_state ad waiting_for_mutation created_at_ms kind =
     (if kind = SourceAdmission
        then (Node_Succeeded, Some (ad_source_attestation_digest ad),
          Some (ad_source_attestation_digest ad), Some created_at_ms)
      else if ad_execution_mode ad = Shadow_mode \<and> \<not> shadow_executes kind
        then (Cancelled, None, None, Some created_at_ms)
      else if kind = HostPrepare \<and> \<not> waiting_for_mutation then (Ready, None, None, None)
      else if kind = Rollback_node then (Dormant, None, None, None)
      else (Blocked, None, None, None))"

definition create_node ::
  "project_manifest \<Rightarrow> admission \<Rightarrow> uuid \<Rightarrow> bool \<Rightarrow> int \<Rightarrow> nat \<times> workflow_node \<Rightarrow> ('j, unit) stx" where
  "create_node manifest ad attempt_id waiting_for_mutation created_at_ms = (\<lambda>(ordinal, node).
     tx_bind (tx_lift (ok_or (policy_profile (pm_workflow manifest) (n_profile_id node))
         (CorruptWorkflowJournal ''manifest node profile''))) (\<lambda>profile.
     let (node_state, output_digest, receipt_digest, completed_at_ms) =
           initial_node_state ad waiting_for_mutation created_at_ms (n_kind node) in
     tx_bind (insert_node_row \<lparr> nd_attempt_id = attempt_id, nd_node_id = n_node_id node,
         nd_ordinal = int ordinal, nd_kind = n_kind node, nd_activation = n_activation node,
         nd_profile_id = n_profile_id node, nd_worker_pool = p_worker_pool profile,
         nd_state = node_state, nd_lease_generation = 0, nd_output_digest = output_digest,
         nd_receipt_digest = receipt_digest, nd_completed_at_ms = completed_at_ms \<rparr>) (\<lambda>_.
     tx_each (\<lambda>d. insert_dependency \<lparr> dp_attempt_id = attempt_id, dp_node_id = n_node_id node,
         dp_dependency_node_id = d \<rparr>) (n_depends_on node))))"

definition create_attempt ::
  "('j, 'x) sched_codec_scheme \<Rightarrow> project_manifest \<Rightarrow> admission \<Rightarrow> uuid \<Rightarrow> uuid \<Rightarrow> bool \<Rightarrow> int \<Rightarrow>
   ('j, attempt_snapshot) stx" where
  "create_attempt E manifest ad request_id attempt_id waiting_for_mutation created_at_ms =
     tx_bind (tx_lift (preparation_key_of E (ad_project_id ad) (ad_source_sha ad)
         (ad_workflow_policy_digest ad))) (\<lambda>key.
     let state = (if waiting_for_mutation then WaitingForMutation else Queued) in
     tx_bind (insert_attempt \<lparr> at_attempt_id = attempt_id, at_request_id = request_id,
         at_attempt_number = 1, at_preparation_key = key, at_state = state,
         at_mutation_state = NotStarted, at_cleanup_state = Cleanup_Complete,
         at_created_at_ms = created_at_ms, at_updated_at_ms = created_at_ms,
         at_terminal_at_ms = None \<rparr>) (\<lambda>_.
     tx_bind (tx_lift (map_err WorkflowContract (ordered_nodes (pm_workflow manifest)))) (\<lambda>ordered.
     tx_bind (tx_each (create_node manifest ad attempt_id waiting_for_mutation created_at_ms)
         (zip [0..<length ordered] ordered)) (\<lambda>_.
     tx_bind (append_transition attempt_id (Subject_attempt attempt_id) None (attempt_state_name state)
         ''source_admitted'' (Some (ad_source_attestation_digest ad)) created_at_ms) (\<lambda>_.
     tx_try (load_attempt_snapshot E attempt_id))))))"

definition admit_transaction ::
  "('j, 'x) sched_codec_scheme \<Rightarrow> project_manifest \<Rightarrow> 'j \<Rightarrow> admission \<Rightarrow> uuid \<Rightarrow> uuid \<Rightarrow> int \<Rightarrow>
   ('j, admission_outcome) stx" where
  "admit_transaction E manifest manifest_text ad new_request_id new_attempt_id admitted_at_ms =
     tx_bind (tx_try (replayed_trigger E ad)) (\<lambda>replayed.
     case replayed of
       Some existing \<Rightarrow> tx_return (Existing existing)
     | None \<Rightarrow>
         tx_bind (tx_try (validate_project_head ad)) (\<lambda>_.
         tx_bind (tx_query (find_stable_request ad)) (\<lambda>stable.
         case stable of
           Some request_id \<Rightarrow>
             tx_bind (tx_try (load_latest_attempt_for_request E request_id)) (\<lambda>attempt.
             tx_bind (record_trigger ad request_id admitted_at_ms) (\<lambda>_.
             tx_bind (update_project_head ad request_id admitted_at_ms) (\<lambda>_.
             tx_return (Existing attempt))))
         | None \<Rightarrow>
             tx_bind (tx_lift (to_i64 (ad_source_sequence ad) ''source sequence'')) (\<lambda>sequence.
             tx_bind (insert_request \<lparr> rq_request_id = new_request_id,
                 rq_project_id = ad_project_id ad, rq_policy_digest = ad_workflow_policy_digest ad,
                 rq_source_sha = ad_source_sha ad, rq_operation_kind = ad_execution_mode ad,
                 rq_source_sequence = sequence,
                 rq_attestation_digest = ad_source_attestation_digest ad,
                 rq_manifest_json = manifest_text, rq_priority = int (ad_priority ad),
                 rq_state = Request_Active, rq_superseded_by = None,
                 rq_created_at_ms = admitted_at_ms, rq_updated_at_ms = admitted_at_ms \<rparr>) (\<lambda>_.
             tx_bind (supersede_pre_mutation_attempts (ad_project_id ad) (ad_execution_mode ad)
                 new_request_id admitted_at_ms) (\<lambda>waiting_for_mutation.
             tx_bind (create_attempt E manifest ad new_request_id new_attempt_id
                 waiting_for_mutation admitted_at_ms) (\<lambda>attempt.
             tx_bind (record_trigger ad new_request_id admitted_at_ms) (\<lambda>_.
             tx_bind (update_project_head ad new_request_id admitted_at_ms) (\<lambda>_.
             tx_return (Created attempt))))))))))"

definition admit ::
  "('j, 'x) sched_codec_scheme \<Rightarrow> project_manifest \<Rightarrow> admission \<Rightarrow> uuid \<Rightarrow> uuid \<Rightarrow> int \<Rightarrow> 'j db \<Rightarrow>
   (store_error + admission_outcome) \<times> 'j db" where
  "admit E manifest ad new_request_id new_attempt_id admitted_at_ms db =
     (case bind_res (validate_admission E manifest ad admitted_at_ms) (\<lambda>_.
        map_err ManifestContract (manifest_canonical_bytes E manifest)) of
        Inl e \<Rightarrow> (Inl e, db)
      | Inr manifest_text \<Rightarrow> immediate_transaction
          (admit_transaction E manifest manifest_text ad new_request_id new_attempt_id admitted_at_ms)
          db)"

end
