(* ===== verification/Scheduler_Effects.thy ===== *)
theory Scheduler_Effects
  imports Scheduler_Admission
begin

text \<open>
  What every operation of the scheduler keeps, step by step: the constraints of the schema hold after
  each statement, and the columns that identify a row never change.
\<close>

section \<open>Preservation by statements\<close>

lemma preserves_change_table:
  "(\<And>db. I db \<Longrightarrow> ok (f db) \<Longrightarrow> I (f db)) \<Longrightarrow> preserves I (change_table f ok changed)"
  by (rule preservesI) (simp add: change_table_Inr_iff)

lemma preserves_write_table:
  "(\<And>db. I db \<Longrightarrow> ok (f db) \<Longrightarrow> I (f db)) \<Longrightarrow> preserves I (write_table f ok)"
  by (rule preservesI) (simp add: write_table_Inr_iff)

lemma carries_change_table:
  "(\<And>db. P db \<Longrightarrow> ok (f db) \<Longrightarrow> Q (f db)) \<Longrightarrow> carries P (change_table f ok changed) Q"
  by (rule carriesI) (simp add: change_table_Inr_iff)

lemma carries_execute: "carries P m Q \<Longrightarrow> carries P (execute m) Q"
  by (rule carriesI) (auto simp: execute_Inr_iff dest: carriesD)

lemma carries_expect_one: "carries P m Q \<Longrightarrow> carries P (expect_one m e) Q"
  by (auto simp: carries_def expect_one_Inr_iff)

lemma preserves_execute [keep_rules]: "preserves I m \<Longrightarrow> preserves I (execute m)"
  unfolding execute_def by (intro keep_rules)

lemma preserves_expect_one [keep_rules]: "preserves I m \<Longrightarrow> preserves I (expect_one m e)"
  unfolding expect_one_def by (intro keep_rules)

lemma preserves_advance_pass:
  assumes "\<And>db u db'. I db \<Longrightarrow> tx_each (release_node a) (releasable a db) db = Inr (u, db') \<Longrightarrow> I db'"
  shows "preserves I (advance_ready_nodes a)"
proof (rule preservesI)
  fix db u db'
  assume "I db" "advance_ready_nodes a db = Inr (u, db')"
  with assms show "I db'"
  proof (induction a db rule: advance_ready_nodes.induct)
    case (1 a db)
    show ?case
    proof (cases "releasable a db")
      case Nil
      with 1(3,4) show ?thesis by (simp add: advance_ready_nodes.simps)
    next
      case (Cons i ids)
      with 1(4) obtain t where t: "tx_each (release_node a) (i # ids) db = Inr ((), t)"
        "advance_ready_nodes a t = Inr (u, db')"
        by (subst (asm) advance_ready_nodes.simps) (auto simp del: tx_each.simps split: sum.splits)
      from 1(2) [OF 1(3)] Cons t(1) have "I t" by simp
      with 1(1) [OF Cons t(1) refl] 1(2) t(2) show ?thesis by blast
    qed
  qed
qed

lemma preserves_advance [keep_rules]:
  assumes "\<And>i. preserves I (release_node a i)"
  shows "preserves I (advance_ready_nodes a)"
  by (rule preserves_advance_pass) (rule preservesD [OF preserves_each [OF assms]])

section \<open>The schema\<close>

lemma schema_update_nodes [keep_rules]:
  "(\<And>n. p n \<Longrightarrow> node_key (f n) = node_key n) \<Longrightarrow> preserves schema_ok (update_nodes p f)"
  unfolding update_nodes_def
  by (rule preserves_change_table) (simp add: schema_ok_def nodes_keys_frame map_update_where)

lemma schema_update_leases [keep_rules]:
  "(\<And>l. p l \<Longrightarrow> lj_lease_id (f l) = lj_lease_id l) \<Longrightarrow> preserves schema_ok (update_leases p f)"
  unfolding update_leases_def
  by (rule preserves_change_table) (simp add: schema_ok_def leases_keys_frame map_update_where)

lemma schema_update_attempts [keep_rules]:
  "(\<And>a. p a \<Longrightarrow> at_attempt_id (f a) = at_attempt_id a) \<Longrightarrow> preserves schema_ok (update_attempts p f)"
  unfolding update_attempts_def
  by (rule preserves_change_table) (simp add: schema_ok_def attempts_keys_frame map_update_where)

lemma schema_update_requests [keep_rules]:
  "(\<And>r. p r \<Longrightarrow> rq_request_id (f r) = rq_request_id r) \<Longrightarrow> preserves schema_ok (update_requests p f)"
  unfolding update_requests_def
  by (rule preserves_change_table) (simp add: schema_ok_def requests_keys_frame map_update_where)

lemma schema_write_unreferenced [keep_rules]:
  "preserves schema_ok (update_locks q g)" "preserves schema_ok (delete_locks q)"
  "preserves schema_ok (insert_lock lk)" "preserves schema_ok (write_heads h)"
  "preserves schema_ok (insert_trigger tg)" "preserves schema_ok (insert_dependency dp)"
  "preserves schema_ok (insert_receipt rc)" "preserves schema_ok (insert_cleanup cl)"
  "preserves schema_ok (insert_binding ob)" "preserves schema_ok (insert_reduction rr)"
  "preserves schema_ok (insert_transition tr)"
  unfolding statement_defs
  by (rule preserves_change_table preserves_write_table, simp add: schema_ok_def)+

lemma schema_write_cursor [keep_rules]: "preserves schema_ok (write_cursor c w)"
  unfolding write_cursor_def by (rule preserves_write_table) (simp add: schema_ok_def)

lemma schema_insert_referenced [keep_rules]:
  "preserves schema_ok (insert_request rq)" "preserves schema_ok (insert_attempt at)"
  "preserves schema_ok (insert_node_row nd)" "preserves schema_ok (insert_lease lj)"
  unfolding statement_defs
  by (rule preserves_write_table, simp add: schema_ok_def requests_append_frame attempts_append_frame
      nodes_append_frame leases_append_frame)+


section \<open>The schema is kept by every operation\<close>

lemma schema_append_transition [keep_rules]:
  "preserves schema_ok (append_transition a s f t r e tm)"
  unfolding append_transition_def by (intro keep_rules)

lemma preserves_node_outcome [keep_rules]:
  "preserves I m \<Longrightarrow> preserves I m' \<Longrightarrow>
   preserves I (case x of Outcome_Succeeded \<Rightarrow> m | Outcome_Failed \<Rightarrow> m')"
  by (cases x) simp_all

lemma preserves_selection [keep_rules]:
  "preserves I m \<Longrightarrow> (\<And>s. preserves I (f s)) \<Longrightarrow> preserves I m' \<Longrightarrow>
   preserves I (case x of NotUsed \<Rightarrow> m | State_Ready s \<Rightarrow> f s | Busy \<Rightarrow> m')"
  by (cases x) simp_all

lemma schema_release_node [keep_rules]: "preserves schema_ok (release_node a i)"
  unfolding release_node_def by (intro keep_rules) (simp add: node_key_def)

lemma schema_fail_steps [keep_rules]:
  "preserves schema_ok (mark_workflow_needs_reconcile a c t)"
  "preserves schema_ok (revoke_active_leases a t)"
  "preserves schema_ok (cancel_open_nodes a t)"
  "preserves schema_ok (terminate_request_of a t)"
  unfolding mark_workflow_needs_reconcile_def revoke_active_leases_def cancel_open_nodes_def
    terminate_request_of_def
  by (intro keep_rules; simp add: node_key_def)+

lemma schema_fail_terminal [keep_rules]: "preserves schema_ok (fail_terminal_workflow a c t)"
  unfolding fail_terminal_workflow_def by (intro keep_rules; simp)

lemma schema_fail_workflow [keep_rules]: "preserves schema_ok (fail_workflow a k c h t)"
  unfolding fail_workflow_def by (intro keep_rules)

lemma schema_complete [keep_rules]:
  "preserves schema_ok (complete_shadow_workflow E ctx t)"
  "preserves schema_ok (wake_waiting_attempts t)"
  unfolding complete_shadow_workflow_def wake_waiting_attempts_def wake_attempt_def
  by (intro keep_rules; simp add: node_key_def)+

lemma schema_complete_workflow [keep_rules]: "preserves schema_ok (complete_workflow E a t)"
  unfolding complete_workflow_def by (intro keep_rules) (simp_all add: node_key_def)

lemma schema_close_leased_node [keep_rules]:
  "(\<And>n. node_key (f n) = node_key n) \<Longrightarrow> preserves schema_ok (close_leased_node a i f)"
  unfolding close_leased_node_def by (intro keep_rules) simp

lemma schema_expire_steps [keep_rules]:
  "preserves schema_ok (expire_mutation_lease a i t)"
  "preserves schema_ok (expire_worker_lease a i t)"
  "preserves schema_ok (expire_at_deadline a i g t)"
  unfolding expire_mutation_lease_def expire_worker_lease_def expire_at_deadline_def
  by (intro keep_rules; simp add: node_key_def)+

lemma schema_expire [keep_rules]: "preserves schema_ok (expire_leases_transaction E t)"
  unfolding expire_leases_transaction_def expire_one_lease_def by (intro keep_rules) simp_all

lemma schema_renew [keep_rules]: "preserves schema_ok (renew_lease_transaction E l t d)"
  unfolding renew_lease_transaction_def by (intro keep_rules) simp_all

lemma schema_receipt_steps [keep_rules]:
  "preserves schema_ok (touch_attempt a t)"
  "preserves schema_ok (persist_node_receipt r j t h)"
  unfolding touch_attempt_def persist_node_receipt_def by (intro keep_rules; simp)+

lemma schema_commit_node_receipt [keep_rules]:
  "preserves schema_ok (commit_node_receipt_transaction E r j t)"
  unfolding commit_node_receipt_transaction_def persist_node_receipt_def apply_node_receipt_outcome_def
    touch_attempt_def
  by (intro keep_rules) (simp_all add: node_key_def)

lemma schema_commit_cleanup_receipt [keep_rules]:
  "preserves schema_ok (commit_cleanup_receipt_transaction E c j t)"
  unfolding commit_cleanup_receipt_transaction_def by (intro keep_rules) simp_all

lemma schema_reduce [keep_rules]: "preserves schema_ok (reduce_attempt_transaction E a t)"
  unfolding reduce_attempt_transaction_def record_reduction_def touch_attempt_def
  by (intro keep_rules) (simp_all add: node_key_def)

lemma schema_claim_steps [keep_rules]:
  "preserves schema_ok (acquire_mutation_lock c t)"
  "preserves schema_ok (operation_state_for_candidate E c w t)"
  "preserves schema_ok (grant_lease E w i t d lp rw c sel)"
  unfolding acquire_mutation_lock_def operation_state_for_candidate_def bind_operation_state_def
    grant_lease_def persist_active_lease_def update_fairness_cursor_def
  by (intro keep_rules; simp add: node_key_def)+

lemma schema_claim_candidates [keep_rules]:
  "preserves schema_ok (claim_candidates E w i t d lp rw cs)"
proof (induction cs)
  case Nil
  show ?case unfolding claim_candidates.simps by (intro keep_rules)
next
  case (Cons c cs)
  then show ?case unfolding claim_candidates.simps by (intro keep_rules)
qed

lemma schema_claim [keep_rules]: "preserves schema_ok (claim_next_transaction E w i t d)"
  unfolding claim_next_transaction_def by (intro keep_rules)

lemma schema_create_node: "preserves schema_ok (create_node m ad a w t x)"
  unfolding create_node_def by (intro keep_rules)

lemma schema_admit [keep_rules]: "preserves schema_ok (admit_transaction E m j ad r a t)"
  unfolding admit_transaction_def supersede_pre_mutation_attempts_def supersede_attempt_def
    create_attempt_def create_node_def record_trigger_def update_project_head_def
  by (intro keep_rules) (simp_all split: prod.split add: Let_def)


section \<open>Reachable stores\<close>

text \<open>The public operations, with any arguments, from an empty store.\<close>

inductive scheduler_step :: "('j, 'x) sched_codec_scheme \<Rightarrow> 'j db \<Rightarrow> 'j db \<Rightarrow> bool"
  for E :: "('j, 'x) sched_codec_scheme" where
  step_admit: "scheduler_step E db (snd (admit E manifest ad request_id attempt_id now_ms db))"
| step_claim: "scheduler_step E db (snd (claim_next E worker lease_id now_ms duration_ms db))"
| step_expire: "scheduler_step E db (snd (expire_leases E now_ms db))"
| step_renew: "scheduler_step E db (snd (renew_lease E worker lease now_ms duration_ms db))"
| step_receipt: "scheduler_step E db (snd (commit_node_receipt E receipt now_ms db))"
| step_cleanup: "scheduler_step E db (snd (commit_cleanup_receipt E cleanup now_ms db))"
| step_reduce: "scheduler_step E db (snd (reduce_attempt E attempt_id now_ms db))"
| step_reconcile: "scheduler_step E db (snd (reconcile_controller_nodes E now_ms db))"

inductive reachable :: "('j, 'x) sched_codec_scheme \<Rightarrow> 'j db \<Rightarrow> bool"
  for E :: "('j, 'x) sched_codec_scheme" where
  reachable_empty: "reachable E empty_db"
| reachable_step: "reachable E db \<Longrightarrow> scheduler_step E db db' \<Longrightarrow> reachable E db'"

text \<open>The manifest an attempt runs: the one stored with its request.\<close>

definition attempt_manifest :: "('j, 'x) sched_codec_scheme \<Rightarrow> uuid \<Rightarrow> 'j db \<Rightarrow> project_manifest option" where
  "attempt_manifest E a db =
     (case find_attempt a db of
        None \<Rightarrow> None
      | Some x \<Rightarrow> (case find_request (at_request_id x) db of
            None \<Rightarrow> None
          | Some r \<Rightarrow> (case manifest_decode_canonical E (rq_manifest_json r) of Inl _ \<Rightarrow> None | Inr m \<Rightarrow> Some m)))"

text \<open>
  What the transactions keep, the operations keep; the admission of a validated manifest and the
  commit of a validated receipt carry what their validation established. An invariant holds of the
  empty store as well.
\<close>

lemma immediate_keeps: "preserves I m \<Longrightarrow> I db \<Longrightarrow> I (snd (immediate_transaction m db))"
  by (cases rule: immediate_transaction_cases [of m db]) (auto dest: preservesD)

locale kept_by_transactions =
  fixes E :: "('j, 'x) sched_codec_scheme"
    and I :: "'j db \<Rightarrow> bool"
  assumes keeps_admit: "manifest_validate m = Inr () \<Longrightarrow> workflow_policy_digest E m = Inr (ad_workflow_policy_digest ad) \<Longrightarrow>
      pm_project_id m = ad_project_id ad \<Longrightarrow> manifest_jcs E m = Inr j \<Longrightarrow>
      preserves I (admit_transaction E m j ad r a t)"
    and keeps_claim: "preserves I (claim_next_transaction E w i t d)"
    and keeps_expire: "preserves I (expire_leases_transaction E t)"
    and keeps_renew: "preserves I (renew_lease_transaction E l t d)"
    and keeps_receipt: "node_receipt_validate E nr = Inr () \<Longrightarrow>
      preserves I (commit_node_receipt_transaction E nr j t)"
    and keeps_cleanup: "preserves I (commit_cleanup_receipt_transaction E cr j t)"
    and keeps_reduce: "preserves I (reduce_attempt_transaction E a t)"
begin

lemma expire_leases_keeps: "I db \<Longrightarrow> I (snd (expire_leases E t db))"
  by (simp add: expire_leases_def immediate_keeps keeps_expire)

lemma reduce_attempts_keeps: "I db \<Longrightarrow> I (snd (reduce_attempts E t as db))"
proof (induction as arbitrary: db)
  case (Cons a as)
  have "I (snd (reduce_attempt E a t db))"
    using Cons.prems by (simp add: reduce_attempt_def immediate_keeps keeps_reduce)
  with Cons.IH show ?case by (auto split: prod.splits sum.splits)
qed simp

lemma reduce_attempt_keeps: "I db \<Longrightarrow> I (snd (reduce_attempt E a t db))"
  by (simp add: reduce_attempt_def immediate_keeps keeps_reduce)

lemma admit_keeps:
  assumes "I db"
  shows "I (snd (admit E m ad r a t db))"
proof (cases "bind_res (validate_admission E m ad t)
    (\<lambda>_. map_err ManifestContract (manifest_canonical_bytes E m))")
  case (Inl e)
  with assms show ?thesis by (simp add: admit_def)
next
  case (Inr j)
  then have "manifest_validate m = Inr ()" "pm_project_id m = ad_project_id ad"
    "workflow_policy_digest E m = Inr (ad_workflow_policy_digest ad)" "manifest_jcs E m = Inr j"
    by (auto simp: validate_admission_def manifest_canonical_bytes_def split: if_splits)
  then have "preserves I (admit_transaction E m j ad r a t)" by (intro keeps_admit) simp_all
  with Inr assms show ?thesis by (simp add: admit_def immediate_keeps)
qed

lemma claim_keeps:
  assumes "I db"
  shows "I (snd (claim_next E w i t d db))"
proof -
  have "preserves I (tx_bind (expire_leases_transaction E t) (\<lambda>_.
      tx_bind (tx_try (worker_has_pending_cleanup E w)) (\<lambda>pending.
      if pending then tx_return None else claim_next_transaction E w i t d)))"
    by (intro keep_rules keeps_expire keeps_claim)
  from immediate_keeps [OF this assms] assms show ?thesis
    by (simp add: claim_next_def split: sum.split)
qed

lemma renew_keeps:
  assumes "I db"
  shows "I (snd (renew_lease E w l t d db))"
proof -
  have "preserves I (tx_bind (expire_leases_transaction E t) (\<lambda>_. renew_lease_transaction E l t d))"
    by (intro keep_rules keeps_expire keeps_renew)
  from immediate_keeps [OF this assms] assms show ?thesis
    by (simp add: renew_lease_def split: sum.split)
qed

lemma commit_node_receipt_keeps:
  assumes "I db"
  shows "I (snd (commit_node_receipt E r t db))"
proof (cases "bind_res (map_err WorkflowContract (node_receipt_validate E r)) (\<lambda>_.
    ensure (0 \<le> t \<and> nr_completed_at_ms r \<le> t) (InvalidWorkflowSchedulerInput ''receipt time''))")
  case (Inl e)
  with assms show ?thesis by (simp add: commit_node_receipt_def)
next
  case (Inr u)
  then have "node_receipt_validate E r = Inr ()" by auto
  note keep = immediate_keeps [OF keeps_receipt [OF this]]
  obtain e db1 where e: "expire_leases E t db = (e, db1)" by (cases "expire_leases E t db")
  then have "I db1" using expire_leases_keeps [OF assms, of t] by simp
  with Inr e keep show ?thesis
    by (simp add: commit_node_receipt_def split: sum.split)
qed

lemma commit_cleanup_receipt_keeps:
  "I db \<Longrightarrow> I (snd (commit_cleanup_receipt E c t db))"
  by (simp add: commit_cleanup_receipt_def immediate_keeps keeps_cleanup split: sum.split)

lemma reconcile_keeps:
  assumes "I db"
  shows "I (snd (reconcile_controller_nodes E t db))"
proof -
  obtain e db1 where e: "expire_leases E t db = (e, db1)" by (cases "expire_leases E t db")
  then have "I db1" using expire_leases_keeps [OF assms, of t] by simp
  obtain f db2 where f: "reduce_attempts E t (reducible_attempts db1) db1 = (f, db2)"
    by (cases "reduce_attempts E t (reducible_attempts db1) db1")
  have "I db2" using reduce_attempts_keeps [OF \<open>I db1\<close>, of t "reducible_attempts db1"] f by simp
  with assms e f \<open>I db1\<close> show ?thesis
    by (simp add: reconcile_controller_nodes_def Let_def split: sum.split)
qed

lemma step_keeps: "scheduler_step E db db' \<Longrightarrow> I db \<Longrightarrow> I db'"
  by (erule scheduler_step.cases; hypsubst)
    (rule admit_keeps claim_keeps expire_leases_keeps renew_keeps commit_node_receipt_keeps
      commit_cleanup_receipt_keeps reduce_attempt_keeps reconcile_keeps; assumption)+

end

locale transaction_invariant = kept_by_transactions +
  assumes empty: "I empty_db"
begin

lemma reachable_keeps: "reachable E db \<Longrightarrow> I db"
  by (induction rule: reachable.induct) (auto intro: empty step_keeps)

end

lemma schema_empty: "schema_ok empty_db"
  by (simp add: schema_ok_def empty_db_def requests_ok_def heads_ok_def triggers_ok_def attempts_ok_def
      nodes_ok_def dependencies_ok_def leases_ok_def receipts_ok_def cleanups_ok_def bindings_ok_def
      reductions_ok_def locks_ok_def transitions_ok_def cursor_ok_def key_defs)

interpretation schema: transaction_invariant E schema_ok for E :: "('j, 'x) sched_codec_scheme"
  by unfold_locales (rule schema_empty schema_admit schema_claim schema_expire schema_renew
      schema_commit_node_receipt schema_commit_cleanup_receipt schema_reduce)+

end
