(* ===== verification/Scheduler_Samples.thy ===== *)
theory Scheduler_Samples
  imports Scheduler_Effects "HOL-Library.Code_Target_Nat"
begin

text \<open>
  A concrete codec for the scheduler, in which the text of a document is the document itself, and two
  stores reached with it: one in which a deploy request has been admitted, and one in which a worker has
  then been handed a lease. The properties of the scheduler are instantiated at them.
\<close>

section \<open>A codec\<close>

datatype sched_text =
    T_text manifest_text | T_preparation_key preparation_key_payload
  | T_expected_input expected_input_payload | T_operation_state wf_operation_state

fun sample_sched_tag :: "sched_text \<Rightarrow> string" where
  "sample_sched_tag (T_text t) = sample_manifest_sha256 t"
| "sample_sched_tag (T_preparation_key p) = ''p'' @ kp_project_id p"
| "sample_sched_tag (T_expected_input p) = ''e'' @ ep_node_id p"
| "sample_sched_tag (T_operation_state s) = ''o''"

definition sample_sched_sha256 :: "sched_text \<Rightarrow> string" where
  "sample_sched_sha256 t = take 32 (sample_sched_tag t @ replicate 32 (CHR ''.''))"

fun manifest_text_of :: "sched_text \<Rightarrow> serde_error + manifest_text" where
  "manifest_text_of (T_text t) = Inr t"
| "manifest_text_of _ = Inl Serde_error"

definition sched_text_of :: "serde_error + manifest_text \<Rightarrow> serde_error + sched_text" where
  "sched_text_of r = bind_res r (\<lambda>t. Inr (T_text t))"

definition sample_sched_codec :: "sched_text sched_codec" where
  "sample_sched_codec = \<lparr>
     wf_sha256 = sample_sched_sha256,
     state_key_jcs = (\<lambda>p. sched_text_of (state_key_jcs sample_manifest_codec p)),
     lease_payload_jcs = (\<lambda>p. sched_text_of (lease_payload_jcs sample_manifest_codec p)),
     lease_jcs = (\<lambda>l. sched_text_of (lease_jcs sample_manifest_codec l)),
     lease_json = (\<lambda>t. bind_res (manifest_text_of t) (lease_json sample_manifest_codec)),
     node_receipt_payload_jcs = (\<lambda>p. sched_text_of (node_receipt_payload_jcs sample_manifest_codec p)),
     node_receipt_jcs = (\<lambda>r. sched_text_of (node_receipt_jcs sample_manifest_codec r)),
     node_receipt_json = (\<lambda>t. bind_res (manifest_text_of t) (node_receipt_json sample_manifest_codec)),
     cleanup_receipt_payload_jcs = (\<lambda>p. sched_text_of (cleanup_receipt_payload_jcs sample_manifest_codec p)),
     cleanup_receipt_jcs = (\<lambda>r. sched_text_of (cleanup_receipt_jcs sample_manifest_codec r)),
     cleanup_receipt_json = (\<lambda>t. bind_res (manifest_text_of t) (cleanup_receipt_json sample_manifest_codec)),
     reduction_payload_jcs = (\<lambda>p. sched_text_of (reduction_payload_jcs sample_manifest_codec p)),
     reduction_jcs = (\<lambda>r. sched_text_of (reduction_jcs sample_manifest_codec r)),
     reduction_json = (\<lambda>t. bind_res (manifest_text_of t) (reduction_json sample_manifest_codec)),
     manifest_payload_jcs = (\<lambda>p. sched_text_of (manifest_payload_jcs sample_manifest_codec p)),
     manifest_jcs = (\<lambda>m. sched_text_of (manifest_jcs sample_manifest_codec m)),
     manifest_json = (\<lambda>t. bind_res (manifest_text_of t) (manifest_json sample_manifest_codec)),
     preparation_key_jcs = (\<lambda>p. Inr (T_preparation_key p)),
     expected_input_jcs = (\<lambda>p. Inr (T_expected_input p)),
     operation_state_jcs = (\<lambda>s. Inr (T_operation_state s)),
     operation_state_json = (\<lambda>t. case t of T_operation_state s \<Rightarrow> Inr s | _ \<Rightarrow> Inl Serde_error) \<rparr>"

definition sample_digest :: "string \<Rightarrow> evidence_digest" where
  "sample_digest s = hex_encode (take 32 (s @ replicate 32 (CHR ''.'')))"

definition sample_admission :: admission where
  "sample_admission = \<lparr> ad_project_id = ''p'', ad_workflow_policy_digest = sample_digest ''mp'',
     ad_source_sha = replicate 40 (CHR ''0''), ad_execution_mode = Deploy_mode,
     ad_source_sequence = 1, ad_source_attestation_digest = sample_digest ''a'',
     ad_trigger_channel = DirectPush, ad_delivery_id = ''d1'',
     ad_payload_digest = sample_digest ''d'', ad_priority = 1 \<rparr>"

lemma sample_sched_lease_injective: "jcs_injective (lease_jcs sample_sched_codec)"
  by (auto simp: jcs_injective_def sample_sched_codec_def sched_text_of_def sample_manifest_codec_def
      to_text_def sample_codec_def)

lemma sample_sched_manifest_reads_back:
  "reads_back (manifest_json sample_sched_codec) (manifest_jcs sample_sched_codec)"
  by (auto simp: reads_back_def sample_sched_codec_def sched_text_of_def sample_manifest_codec_def)


section \<open>Two reachable stores\<close>

definition sample_worker :: worker_registration where
  "sample_worker = \<lparr> wk_worker_id = ''w1'', wk_host_id = ''h1'',
     wk_pools = [VpsRequired, BuildCompute, PrivilegedExecutor] \<rparr>"

definition sample_admitted :: "(store_error + admission_outcome) \<times> sched_text db" where
  "sample_admitted = admit sample_sched_codec sample_manifest sample_admission 1 2 1000 empty_db"

definition sample_claimed :: "(store_error + lease option) \<times> sched_text db" where
  "sample_claimed =
     claim_next sample_sched_codec sample_worker 3 1001 60000 (snd sample_admitted)"

definition created :: "admission_outcome \<Rightarrow> bool" where
  "created out \<longleftrightarrow> (case out of Created _ \<Rightarrow> True | Existing _ \<Rightarrow> False)"

lemma sample_admitted_ok: "case fst sample_admitted of Inr out \<Rightarrow> created out | Inl _ \<Rightarrow> False"
  by code_simp

text \<open>The lease is for the host preparation of the admitted attempt.\<close>

definition host_preparation_leased :: "(store_error + lease option) \<times> sched_text db \<Rightarrow> bool" where
  "host_preparation_leased outcome \<longleftrightarrow> (case outcome of
       (Inr (Some l), db) \<Rightarrow> ls_node_id l = ''b'' \<and>
         list_ex (\<lambda>n. node_key n = (2, ''a'') \<and> nd_kind n = SourceAdmission) (db_nodes db) \<and>
         list_ex (\<lambda>n. node_key n = (2, ''b'') \<and> nd_kind n = HostPrepare \<and> nd_state n = Leased) (db_nodes db) \<and>
         attempt_manifest sample_sched_codec 2 db = Some sample_manifest
     | _ \<Rightarrow> False)"

lemma host_preparation_leasedE:
  assumes "host_preparation_leased outcome"
  obtains l n s where "outcome = (Inr (Some l), snd outcome)" "ls_node_id l = ''b''"
    "n \<in> set (db_nodes (snd outcome))" "node_key n = (2, ''b'')" "nd_kind n = HostPrepare" "nd_state n = Leased"
    "s \<in> set (db_nodes (snd outcome))" "node_key s = (2, ''a'')" "nd_kind s = SourceAdmission"
    "attempt_manifest sample_sched_codec 2 (snd outcome) = Some sample_manifest"
proof -
  obtain r db where outcome: "outcome = (r, db)" by (cases outcome)
  with assms obtain l where r: "r = Inr (Some l)"
    unfolding host_preparation_leased_def by (cases r) (auto split: option.splits)
  with assms obtain n s where "ls_node_id l = ''b''"
    "n \<in> set (db_nodes db)" "node_key n = (2, ''b'')" "nd_kind n = HostPrepare" "nd_state n = Leased"
    "s \<in> set (db_nodes db)" "node_key s = (2, ''a'')" "nd_kind s = SourceAdmission"
    "attempt_manifest sample_sched_codec 2 db = Some sample_manifest"
    by (auto simp: host_preparation_leased_def list_ex_iff outcome)
  then show thesis by (intro that [of l n s]) (simp_all add: outcome r)
qed

lemma sample_claimed_ok: "host_preparation_leased sample_claimed"
  by code_simp

lemmas sample_claimed_cases = host_preparation_leasedE [OF sample_claimed_ok]

lemma sample_admitted_step: "scheduler_step sample_sched_codec empty_db (snd sample_admitted)"
  unfolding sample_admitted_def by (rule step_admit)

lemma sample_claimed_step: "scheduler_step sample_sched_codec (snd sample_admitted) (snd sample_claimed)"
  unfolding sample_claimed_def by (rule step_claim)

lemma sample_admitted_reachable: "reachable sample_sched_codec (snd sample_admitted)"
  by (rule reachable.intros(2) [OF reachable.intros(1) sample_admitted_step])

lemma sample_claimed_reachable: "reachable sample_sched_codec (snd sample_claimed)"
  by (rule reachable.intros(2) [OF sample_admitted_reachable sample_claimed_step])

end
