(* ===== verification/Scheduler_Evolution.thy ===== *)
theory Scheduler_Evolution
  imports Scheduler_Effects
begin

text \<open>
  How the store changes over time: the abstract life cycles of a node, a lease and a request, and the
  proof that every operation of the scheduler moves each row along its life cycle, keeps the columns
  that identify it, and only appends to the journals and the evidence tables.
\<close>

section \<open>Tables that grow\<close>

text \<open>The old rows are still there, in order, each related to what it was; new rows follow.\<close>

definition grown :: "('r \<Rightarrow> 'r \<Rightarrow> bool) \<Rightarrow> 'r list \<Rightarrow> 'r list \<Rightarrow> bool" where
  "grown R old new \<longleftrightarrow> list_all2 R old (take (length old) new)"

lemma grown_refl: "(\<And>r. R r r) \<Longrightarrow> grown R rows rows"
  by (simp add: grown_def list_all2_refl)

lemma grown_length: "grown R old new \<Longrightarrow> length old \<le> length new"
  by (auto simp: grown_def dest: list_all2_lengthD)

lemma grown_append: "grown R old new \<Longrightarrow> grown R old (new @ rows)"
  using grown_length [of R old new] by (simp add: grown_def)

lemma grown_update:
  assumes "grown R old new" "transp R" "\<And>r. p r \<Longrightarrow> R r (f r)"
  shows "grown R old (update_where p f new)"
proof -
  have "R r (if p r' then f r' else r')" if "R r r'" for r r'
    using that assms(2,3) by (auto dest: transpD)
  from list_all2_mono [OF assms(1) [unfolded grown_def] this] show ?thesis
    by (simp add: grown_def update_where_def take_map list_all2_map2)
qed

lemma grown_mem: "grown R old new \<Longrightarrow> r \<in> set old \<Longrightarrow> \<exists>r'\<in>set new. R r r'"
  unfolding grown_def by (metis list_all2_ex1 in_set_takeD)

lemma grown_eq_append: "grown (=) old new \<Longrightarrow> \<exists>rows. new = old @ rows"
  by (metis append_take_drop_id grown_def list_all2_eq)


section \<open>Life cycles\<close>

text \<open>The steps of a node; a completed node takes none.\<close>

inductive node_step :: "node_state \<Rightarrow> node_state \<Rightarrow> bool" where
  release: "node_step Blocked Ready"
| start: "node_step Ready Leased"
| reopen: "node_step Leased Ready"
| finish: "node_step Leased Node_Succeeded"
| reduce: "node_step Ready Node_Succeeded"
| fail: "node_step Leased Node_Failed"
| suspend: "node_step Leased Node_NeedsReconcile"
| cancel: "node_open s \<Longrightarrow> node_step s Cancelled"

inductive lease_step :: "lease_state \<Rightarrow> lease_state \<Rightarrow> bool" where
  expire: "lease_step Active Expired"
| revoke: "lease_step Active Revoked"
| commit: "lease_step Active Committed"

inductive request_step :: "request_state \<Rightarrow> request_state \<Rightarrow> bool" where
  "request_step Request_Active Request_Superseded"
| "request_step Request_Active Request_Terminal"

lemma node_open_iff: "node_open s \<longleftrightarrow> \<not> node_completed s"
  by (cases s) (simp_all add: node_open_def node_completed_def)

lemma completed_final: "node_step\<^sup>*\<^sup>* s s' \<Longrightarrow> node_completed s \<Longrightarrow> s' = s"
  by (induction rule: rtranclp_induct)
    (auto simp: node_open_iff node_completed_def elim: node_step.cases)

lemma lease_step_final: "lease_step\<^sup>*\<^sup>* s s' \<Longrightarrow> s \<noteq> Active \<Longrightarrow> s' = s"
  by (induction rule: rtranclp_induct) (auto elim: lease_step.cases)

lemma request_step_final: "request_step\<^sup>*\<^sup>* s s' \<Longrightarrow> s \<noteq> Request_Active \<Longrightarrow> s' = s"
  by (induction rule: rtranclp_induct) (auto elim: request_step.cases)

text \<open>The columns that identify a row, and the life cycle of its state.\<close>

definition node_evolves :: "node_row \<Rightarrow> node_row \<Rightarrow> bool" where
  "node_evolves n n' \<longleftrightarrow>
     node_key n' = node_key n \<and> nd_ordinal n' = nd_ordinal n \<and> nd_kind n' = nd_kind n \<and>
     nd_activation n' = nd_activation n \<and> nd_profile_id n' = nd_profile_id n \<and>
     nd_worker_pool n' = nd_worker_pool n \<and> nd_lease_generation n \<le> nd_lease_generation n' \<and>
     node_step\<^sup>*\<^sup>* (nd_state n) (nd_state n')"

definition lease_evolves :: "'j lease_row \<Rightarrow> 'j lease_row \<Rightarrow> bool" where
  "lease_evolves l l' \<longleftrightarrow>
     lj_lease_id l' = lj_lease_id l \<and> lj_attempt_id l' = lj_attempt_id l \<and>
     lj_node_id l' = lj_node_id l \<and> lj_generation l' = lj_generation l \<and>
     lj_worker_id l' = lj_worker_id l \<and> lj_host_id l' = lj_host_id l \<and>
     lj_leased_at_ms l' = lj_leased_at_ms l \<and>
     lease_step\<^sup>*\<^sup>* (lj_state l) (lj_state l') \<and> (lj_state l \<noteq> Active \<longrightarrow> l' = l)"

definition request_evolves :: "'j request_row \<Rightarrow> 'j request_row \<Rightarrow> bool" where
  "request_evolves r r' \<longleftrightarrow>
     rq_request_id r' = rq_request_id r \<and> rq_project_id r' = rq_project_id r \<and>
     rq_policy_digest r' = rq_policy_digest r \<and> rq_source_sha r' = rq_source_sha r \<and>
     rq_operation_kind r' = rq_operation_kind r \<and> rq_source_sequence r' = rq_source_sequence r \<and>
     rq_attestation_digest r' = rq_attestation_digest r \<and> rq_manifest_json r' = rq_manifest_json r \<and>
     rq_priority r' = rq_priority r \<and> rq_created_at_ms r' = rq_created_at_ms r \<and>
     request_step\<^sup>*\<^sup>* (rq_state r) (rq_state r')"

definition attempt_evolves :: "attempt_row \<Rightarrow> attempt_row \<Rightarrow> bool" where
  "attempt_evolves a a' \<longleftrightarrow>
     at_attempt_id a' = at_attempt_id a \<and> at_request_id a' = at_request_id a \<and>
     at_attempt_number a' = at_attempt_number a \<and> at_preparation_key a' = at_preparation_key a \<and>
     at_created_at_ms a' = at_created_at_ms a"

definition head_evolves :: "head_row \<Rightarrow> head_row \<Rightarrow> bool" where
  "head_evolves h h' \<longleftrightarrow>
     ph_project_id h' = ph_project_id h \<and> ph_source_sequence h \<le> ph_source_sequence h'"

definition evolves :: "'j db \<Rightarrow> 'j db \<Rightarrow> bool" where
  "evolves db db' \<longleftrightarrow>
     grown node_evolves (db_nodes db) (db_nodes db') \<and>
     grown lease_evolves (db_leases db) (db_leases db') \<and>
     grown request_evolves (db_requests db) (db_requests db') \<and>
     grown attempt_evolves (db_attempts db) (db_attempts db') \<and>
     grown head_evolves (db_heads db) (db_heads db') \<and>
     grown (=) (db_triggers db) (db_triggers db') \<and>
     grown (=) (db_dependencies db) (db_dependencies db') \<and>
     grown (=) (db_receipts db) (db_receipts db') \<and>
     grown (=) (db_cleanups db) (db_cleanups db') \<and>
     grown (=) (db_bindings db) (db_bindings db') \<and>
     grown (=) (db_reductions db) (db_reductions db') \<and>
     grown (=) (db_transitions db) (db_transitions db')"

lemma evolves_rows_refl:
  "node_evolves n n" "lease_evolves l l" "request_evolves r r" "attempt_evolves a a" "head_evolves h h"
  by (simp_all add: node_evolves_def lease_evolves_def request_evolves_def attempt_evolves_def
      head_evolves_def)

lemma evolves_refl: "evolves db db"
  by (simp add: evolves_def grown_refl evolves_rows_refl)

text \<open>What evolution keeps, every evolving transaction keeps.\<close>

lemma preserves_stable:
  assumes "\<And>db0. preserves (evolves db0) m" "\<And>db db'. F db \<Longrightarrow> evolves db db' \<Longrightarrow> F db'"
  shows "preserves F m"
proof (rule preservesI)
  fix db x db'
  assume "F db" "m db = Inr (x, db')"
  from preservesD [OF assms(1) evolves_refl this(2)] show "F db'" by (rule assms(2) [OF \<open>F db\<close>])
qed

lemma evolves_rows_trans:
  "transp node_evolves" "transp request_evolves" "transp attempt_evolves" "transp head_evolves"
  by (auto intro!: transpI simp: node_evolves_def request_evolves_def attempt_evolves_def
      head_evolves_def)

lemma lease_evolves_trans: "transp lease_evolves"
proof (rule transpI)
  fix l l' l'' :: "'a lease_row"
  assume *: "lease_evolves l l'" "lease_evolves l' l''"
  show "lease_evolves l l''"
  proof (cases "lj_state l = Active")
    case True
    with * show ?thesis by (auto simp: lease_evolves_def)
  next
    case False
    with *(1) have "l' = l" by (simp add: lease_evolves_def)
    with *(2) show ?thesis by simp
  qed
qed


section \<open>Statements\<close>

lemma evolves_update_nodes [keep_rules]:
  "(\<And>n. p n \<Longrightarrow> node_evolves n (f n)) \<Longrightarrow> preserves (evolves db0) (update_nodes p f)"
  unfolding update_nodes_def
  by (rule preserves_change_table) (simp add: evolves_def grown_update evolves_rows_trans)

lemma evolves_update_leases [keep_rules]:
  "(\<And>l. p l \<Longrightarrow> lease_evolves l (f l)) \<Longrightarrow> preserves (evolves db0) (update_leases p f)"
  unfolding update_leases_def
  by (rule preserves_change_table) (simp add: evolves_def grown_update lease_evolves_trans)

lemma evolves_update_requests [keep_rules]:
  "(\<And>r. p r \<Longrightarrow> request_evolves r (f r)) \<Longrightarrow> preserves (evolves db0) (update_requests p f)"
  unfolding update_requests_def
  by (rule preserves_change_table) (simp add: evolves_def grown_update evolves_rows_trans)

lemma evolves_update_attempts [keep_rules]:
  "(\<And>a. p a \<Longrightarrow> attempt_evolves a (f a)) \<Longrightarrow> preserves (evolves db0) (update_attempts p f)"
  unfolding update_attempts_def
  by (rule preserves_change_table) (simp add: evolves_def grown_update evolves_rows_trans)

lemma grown_upsert_head: "grown head_evolves old heads \<Longrightarrow> grown head_evolves old (upsert_head h heads)"
  unfolding upsert_head_def
  by (auto simp: head_evolves_def intro: grown_append grown_update evolves_rows_trans)

lemma evolves_upsert_head [keep_rules]: "preserves (evolves db0) (write_heads (upsert_head h))"
  unfolding write_heads_def
  by (rule preserves_write_table) (simp add: evolves_def grown_upsert_head)

lemma evolves_other_writes [keep_rules]:
  "preserves (evolves db0) (update_locks q g)" "preserves (evolves db0) (delete_locks q)"
  "preserves (evolves db0) (insert_lock lk)" "preserves (evolves db0) (write_cursor c w)"
  "preserves (evolves db0) (insert_trigger tg)" "preserves (evolves db0) (insert_dependency dp)"
  "preserves (evolves db0) (insert_receipt rc)" "preserves (evolves db0) (insert_cleanup cl)"
  "preserves (evolves db0) (insert_binding ob)" "preserves (evolves db0) (insert_reduction rr)"
  "preserves (evolves db0) (insert_transition tr)" "preserves (evolves db0) (insert_request rq)"
  "preserves (evolves db0) (insert_attempt at)" "preserves (evolves db0) (insert_node_row nd)"
  "preserves (evolves db0) (insert_lease lj)"
  unfolding statement_defs
  by (rule preserves_change_table preserves_write_table, simp add: evolves_def grown_append)+


section \<open>Operations\<close>

lemmas evolve_rows = node_evolves_def node_key_def lease_evolves_def request_evolves_def
  attempt_evolves_def r_into_rtranclp node_step.intros lease_step.intros request_step.intros

lemma evolves_append_transition [keep_rules]:
  "preserves (evolves db0) (append_transition a s f t r e tm)"
  unfolding append_transition_def by (intro keep_rules)

lemma evolves_release_node [keep_rules]: "preserves (evolves db0) (release_node a i)"
  unfolding release_node_def by (intro keep_rules) (simp add: evolve_rows)

lemma evolves_fail_steps [keep_rules]:
  "preserves (evolves db0) (mark_workflow_needs_reconcile a c t)"
  "preserves (evolves db0) (revoke_active_leases a t)"
  "preserves (evolves db0) (cancel_open_nodes a t)"
  "preserves (evolves db0) (terminate_request_of a t)"
  unfolding mark_workflow_needs_reconcile_def revoke_active_leases_def cancel_open_nodes_def
    terminate_request_of_def
  by (intro keep_rules; simp add: evolve_rows)+

lemma evolves_fail [keep_rules]:
  "preserves (evolves db0) (fail_terminal_workflow a c t)"
  "preserves (evolves db0) (fail_workflow a k c h t)"
  unfolding fail_workflow_def fail_terminal_workflow_def by (intro keep_rules; simp add: evolve_rows)+

lemma evolves_complete [keep_rules]:
  "preserves (evolves db0) (complete_shadow_workflow E ctx t)"
  "preserves (evolves db0) (wake_waiting_attempts t)"
  unfolding complete_shadow_workflow_def wake_waiting_attempts_def wake_attempt_def
  by (intro keep_rules; simp add: evolve_rows)+

lemma evolves_complete_workflow [keep_rules]: "preserves (evolves db0) (complete_workflow E a t)"
  unfolding complete_workflow_def by (intro keep_rules; simp add: evolve_rows node_open_def)

lemma evolves_close_leased_node [keep_rules]:
  "(\<And>n. nd_state n = Leased \<Longrightarrow> node_evolves n (f n)) \<Longrightarrow>
   preserves (evolves db0) (close_leased_node a i f)"
  unfolding close_leased_node_def by (intro keep_rules) simp

lemma evolves_expire_steps [keep_rules]:
  "preserves (evolves db0) (expire_mutation_lease a i t)"
  "preserves (evolves db0) (expire_worker_lease a i t)"
  "preserves (evolves db0) (expire_at_deadline a i g t)"
  unfolding expire_mutation_lease_def expire_worker_lease_def expire_at_deadline_def
  by (intro keep_rules; simp add: evolve_rows)+

lemma evolves_expire [keep_rules]: "preserves (evolves db0) (expire_leases_transaction E t)"
  unfolding expire_leases_transaction_def expire_one_lease_def
  by (intro keep_rules; simp add: evolve_rows)

lemma evolves_renew [keep_rules]: "preserves (evolves db0) (renew_lease_transaction E l t d)"
  unfolding renew_lease_transaction_def by (intro keep_rules; simp add: evolve_rows)

lemma evolves_commit_node_receipt [keep_rules]:
  "preserves (evolves db0) (commit_node_receipt_transaction E r j t)"
  unfolding commit_node_receipt_transaction_def persist_node_receipt_def apply_node_receipt_outcome_def
    touch_attempt_def receipt_terminal_node_state_def Let_def
  by (intro keep_rules; simp add: evolve_rows split: node_outcome.split)

lemma evolves_commit_cleanup_receipt [keep_rules]:
  "preserves (evolves db0) (commit_cleanup_receipt_transaction E c j t)"
  unfolding commit_cleanup_receipt_transaction_def by (intro keep_rules; simp add: evolve_rows)

lemma evolves_reduce [keep_rules]: "preserves (evolves db0) (reduce_attempt_transaction E a t)"
  unfolding reduce_attempt_transaction_def record_reduction_def touch_attempt_def
  by (intro keep_rules; simp add: evolve_rows)

text \<open>What a lease says of the candidate it is handed out for.\<close>

definition leased_for ::
  "('j, 'x) sched_codec_scheme \<Rightarrow> worker_registration \<Rightarrow> uuid \<Rightarrow> int \<Rightarrow> int \<Rightarrow> ready_candidate \<Rightarrow> lease \<Rightarrow>
   bool" where
  "leased_for E w i t d c l \<longleftrightarrow>
     ls_lease_id l = i \<and> ls_lease_generation l = cd_lease_generation c + 1 \<and>
     ls_attempt_id l = cd_attempt_id c \<and> ls_node_id l = n_node_id (cd_node c) \<and>
     ls_node_kind l = n_kind (cd_node c) \<and> ls_project_id l = cd_project_id c \<and>
     ls_worker_id l = wk_worker_id w \<and> ls_host_id l = wk_host_id w \<and> ls_leased_at_ms l = t \<and>
     ls_timeout_ms l = p_timeout_ms (cd_profile c) \<and>
     bounded_lease_expiry t t d (ls_timeout_ms l) = Inr (ls_expires_at_ms l)"

lemma lease_resealE:
  assumes "lease_reseal E l = Inr l'"
  obtains g where "l' = l\<lparr>ls_lease_digest := g\<rparr>" "lease_validate E l' = Inr ()"
  using lease_reseal_Inr(1,3) [OF assms] by blast

lemma lease_for_candidate_Inr:
  assumes "lease_for_candidate E w i t d c sel db = Inr l"
  shows "leased_for E w i t d c l \<and> lease_validate E l = Inr ()"
proof -
  from assms obtain g v p h ins x l' where
    expiry: "bounded_lease_expiry t t d (p_timeout_ms (cd_profile c)) = Inr x" and
    new: "lease_new E i (cd_lease_generation c + 1) (cd_request_id c) (cd_attempt_id c) (cd_project_id c)
      (cd_source_sha c) (cd_source_sequence c) (cd_source_attestation_digest c)
      (cd_workflow_policy_digest c) (cd_preparation_key c) (cd_node c) (cd_profile c) h ins g
      (wk_worker_id w) (wk_host_id w) t x = Inr l'" and
    l: "(case sel of State_Ready state \<Rightarrow>
        map_err WorkflowContract (lease_with_operation_state E l' state) | _ \<Rightarrow> Inr l') = Inr l"
    unfolding lease_for_candidate_def by (auto split: prod.splits)
  from new have l': "leased_for E w i t d c l'" "lease_validate E l' = Inr ()"
    unfolding lease_new_def by (auto elim!: lease_resealE simp: leased_for_def expiry)
  show ?thesis
  proof (cases sel)
    case (State_Ready state)
    with l have "lease_reseal E (l'\<lparr>ls_operation_state := Some state\<rparr>) = Inr l"
      by (simp add: lease_with_operation_state_def)
    with l'(1) show ?thesis by (auto elim!: lease_resealE simp: leased_for_def)
  qed (use l l' in auto)
qed

lemma evolves_persist_active_lease:
  assumes "int g \<le> int (ls_lease_generation l)"
  shows "preserves (evolves db0) (persist_active_lease E l g t)"
  unfolding persist_active_lease_def by (intro keep_rules; use assms in \<open>simp add: evolve_rows\<close>)

lemma evolves_grant_lease [keep_rules]: "preserves (evolves db0) (grant_lease E w i t d lp rw c sel)"
  unfolding grant_lease_def update_fairness_cursor_def
  by (intro preserves_try_bind keep_rules evolves_persist_active_lease)
    (auto dest!: lease_for_candidate_Inr simp: leased_for_def)

lemma evolves_claim_steps [keep_rules]:
  "preserves (evolves db0) (acquire_mutation_lock c t)"
  "preserves (evolves db0) (operation_state_for_candidate E c w t)"
  unfolding acquire_mutation_lock_def operation_state_for_candidate_def bind_operation_state_def
  by (intro keep_rules; simp add: evolve_rows)+

lemma evolves_claim_candidates [keep_rules]:
  "preserves (evolves db0) (claim_candidates E w i t d lp rw cs)"
proof (induction cs)
  case Nil
  show ?case unfolding claim_candidates.simps by (intro keep_rules)
next
  case (Cons c cs)
  then show ?case unfolding claim_candidates.simps by (intro keep_rules)
qed

lemma evolves_claim [keep_rules]: "preserves (evolves db0) (claim_next_transaction E w i t d)"
  unfolding claim_next_transaction_def by (intro keep_rules)

lemma evolves_admit [keep_rules]: "preserves (evolves db0) (admit_transaction E m j ad r a t)"
  unfolding admit_transaction_def supersede_pre_mutation_attempts_def supersede_attempt_def
    create_attempt_def create_node_def record_trigger_def update_project_head_def
  by (intro keep_rules; simp add: evolve_rows)

interpretation evolution: kept_by_transactions E "evolves db0" for E :: "('j, 'x) sched_codec_scheme" and db0
  by unfold_locales (rule evolves_admit evolves_claim evolves_expire evolves_renew
      evolves_commit_node_receipt evolves_commit_cleanup_receipt evolves_reduce)+

lemma step_evolves: "scheduler_step E db db' \<Longrightarrow> evolves db db'"
  by (rule evolution.step_keeps [OF _ evolves_refl])

end
