(* ===== verification/Scheduler_Invariants.thy ===== *)
theory Scheduler_Invariants
  imports Scheduler_Evolution
begin

text \<open>
  The state invariants of the scheduler that relate its tables: the columns of a lease agree with its
  document, a node is leased exactly while an active lease for it exists, and lease generations only
  grow (fencing).
\<close>

section \<open>Leases, their documents and their nodes\<close>

definition lease_key :: "'j lease_row \<Rightarrow> uuid \<times> string" where
  "lease_key l = (lj_attempt_id l, lj_node_id l)"

definition row_says :: "'j lease_row \<Rightarrow> lease \<Rightarrow> bool" where
  "row_says l d \<longleftrightarrow>
     ls_lease_id d = lj_lease_id l \<and> ls_attempt_id d = lj_attempt_id l \<and>
     ls_node_id d = lj_node_id l \<and> int (ls_lease_generation d) = lj_generation l \<and>
     ls_worker_id d = lj_worker_id l \<and> ls_host_id d = lj_host_id l \<and>
     ls_lease_digest d = lj_lease_digest l \<and> ls_leased_at_ms d = lj_leased_at_ms l \<and>
     ls_expires_at_ms d = lj_expires_at_ms l"

definition documented :: "('j, 'x) sched_codec_scheme \<Rightarrow> 'j lease_row list \<Rightarrow> bool" where
  "documented E leases \<longleftrightarrow> (\<forall>l\<in>set leases. \<forall>d.
     lease_decode_canonical E (lj_lease_json l) = Inr d \<longrightarrow> row_says l d)"

definition active_for :: "uuid \<times> string \<Rightarrow> 'j lease_row list \<Rightarrow> bool" where
  "active_for k leases \<longleftrightarrow> (\<exists>l\<in>set leases. lj_state l = Active \<and> lease_key l = k)"

text \<open>The nodes of \<open>X\<close> are between the closing of their lease and of the node itself.\<close>

definition linked :: "(uuid \<times> string) set \<Rightarrow> node_row list \<Rightarrow> 'j lease_row list \<Rightarrow> bool" where
  "linked X nodes leases \<longleftrightarrow> (\<forall>n\<in>set nodes.
     (node_key n \<in> X \<longrightarrow> \<not> active_for (node_key n) leases) \<and>
     (node_key n \<notin> X \<longrightarrow> (nd_state n = Leased) = active_for (node_key n) leases))"

definition counted :: "node_row list \<Rightarrow> 'j lease_row list \<Rightarrow> bool" where
  "counted nodes leases \<longleftrightarrow> (\<forall>l\<in>set leases. \<forall>n\<in>set nodes. lease_key l = node_key n \<longrightarrow>
     lj_generation l \<le> nd_lease_generation n \<and>
     (lj_state l = Active \<longrightarrow> lj_generation l = nd_lease_generation n))"

definition leases_inv :: "('j, 'x) sched_codec_scheme \<Rightarrow> (uuid \<times> string) set \<Rightarrow> 'j db \<Rightarrow> bool" where
  "leases_inv E X db \<longleftrightarrow> documented E (db_leases db) \<and> linked X (db_nodes db) (db_leases db) \<and>
     counted (db_nodes db) (db_leases db)"

subsection \<open>Statements that leave leases alone\<close>

lemma leases_other_writes [keep_rules]:
  "preserves (leases_inv E X) (update_attempts pa fa)"
  "preserves (leases_inv E X) (update_requests pr fr)"
  "preserves (leases_inv E X) (update_locks q g)" "preserves (leases_inv E X) (delete_locks q)"
  "preserves (leases_inv E X) (insert_lock lk)" "preserves (leases_inv E X) (write_cursor c w)"
  "preserves (leases_inv E X) (write_heads h)" "preserves (leases_inv E X) (insert_request rq)"
  "preserves (leases_inv E X) (insert_trigger tg)" "preserves (leases_inv E X) (insert_dependency dp)"
  "preserves (leases_inv E X) (insert_receipt rc)" "preserves (leases_inv E X) (insert_cleanup cl)"
  "preserves (leases_inv E X) (insert_binding ob)" "preserves (leases_inv E X) (insert_reduction rr)"
  "preserves (leases_inv E X) (insert_transition tr)" "preserves (leases_inv E X) (insert_attempt at)"
  unfolding statement_defs
  by (rule preserves_change_table preserves_write_table, simp add: leases_inv_def)+

lemma leases_update_nodes [keep_rules]:
  assumes "\<And>n. p n \<Longrightarrow> node_key (f n) = node_key n \<and> nd_lease_generation (f n) = nd_lease_generation n \<and>
    nd_state n \<noteq> Leased \<and> nd_state (f n) \<noteq> Leased"
  shows "preserves (leases_inv E X) (update_nodes p f)"
  unfolding update_nodes_def
proof (rule preserves_change_table)
  fix db
  assume inv: "leases_inv E X db"
  let ?nodes = "update_where p f (db_nodes db)"
  from inv have "linked X ?nodes (db_leases db)" by (auto simp: leases_inv_def linked_def assms)
  moreover from inv have "counted ?nodes (db_leases db)"
    by (simp add: leases_inv_def counted_def assms)
  ultimately show "leases_inv E X (db\<lparr>db_nodes := ?nodes\<rparr>)" using inv by (simp add: leases_inv_def)
qed

lemma leases_append_transition [keep_rules]:
  "preserves (leases_inv E X) (append_transition a s f t r e tm)"
  unfolding append_transition_def by (intro keep_rules)

lemma leases_release_node [keep_rules]: "preserves (leases_inv E X) (release_node a i)"
  unfolding release_node_def by (intro keep_rules) (simp add: node_key_def)

lemma leases_neutral [keep_rules]:
  "preserves (leases_inv E X) (mark_workflow_needs_reconcile a c t)"
  "preserves (leases_inv E X) (terminate_request_of a t)"
  "preserves (leases_inv E X) (complete_shadow_workflow E' ctx t)"
  "preserves (leases_inv E X) (wake_waiting_attempts t)"
  unfolding mark_workflow_needs_reconcile_def terminate_request_of_def complete_shadow_workflow_def
    wake_waiting_attempts_def wake_attempt_def
  by (intro keep_rules; simp add: node_key_def)+

lemma leases_complete_workflow [keep_rules]: "preserves (leases_inv E X) (complete_workflow E' a t)"
  unfolding complete_workflow_def by (intro keep_rules; simp add: node_key_def)

lemma leases_reduce [keep_rules]: "preserves (leases_inv E X) (reduce_attempt_transaction E' a t)"
  unfolding reduce_attempt_transaction_def record_reduction_def touch_attempt_def
  by (intro keep_rules; simp add: node_key_def)

lemma leases_commit_cleanup_receipt [keep_rules]:
  "preserves (leases_inv E X) (commit_cleanup_receipt_transaction E' c j t)"
  unfolding commit_cleanup_receipt_transaction_def by (intro keep_rules)

subsection \<open>Closing a lease and its node\<close>

definition attempt_keys :: "uuid \<Rightarrow> (uuid \<times> string) set" where
  "attempt_keys a = {k. fst k = a}"

lemma carries_revoke:
  "carries (leases_inv E {}) (revoke_active_leases a t) (leases_inv E (attempt_keys a))"
  unfolding revoke_active_leases_def update_leases_def
proof (intro carries_execute carries_change_table)
  fix db
  assume inv: "leases_inv E {} db"
  let ?leases = "update_where (\<lambda>l. lj_attempt_id l = a \<and> lj_state l = Active)
    (\<lambda>l. l\<lparr>lj_state := Revoked, lj_closed_at_ms := Some t\<rparr>) (db_leases db)"
  have "active_for k ?leases \<longleftrightarrow> k \<notin> attempt_keys a \<and> active_for k (db_leases db)" for k
    by (auto simp: active_for_def lease_key_def attempt_keys_def)
  with inv have "linked (attempt_keys a) (db_nodes db) ?leases"
    by (simp add: leases_inv_def linked_def)
  moreover from inv have "documented E ?leases"
    by (simp add: leases_inv_def documented_def row_says_def)
  moreover from inv have "counted (db_nodes db) ?leases"
    by (simp add: leases_inv_def counted_def lease_key_def)
  ultimately show "leases_inv E (attempt_keys a) (db\<lparr>db_leases := ?leases\<rparr>)"
    by (simp add: leases_inv_def)
qed

lemma carries_cancel:
  "carries (leases_inv E (attempt_keys a)) (cancel_open_nodes a t) (leases_inv E {})"
  unfolding cancel_open_nodes_def update_nodes_def
proof (intro carries_execute carries_change_table)
  fix db
  assume inv: "leases_inv E (attempt_keys a) db"
  let ?nodes = "update_where (\<lambda>n. nd_attempt_id n = a \<and> node_open (nd_state n))
    (\<lambda>n. n\<lparr>nd_state := Cancelled, nd_completed_at_ms := Some t\<rparr>) (db_nodes db)"
  from inv have "linked {} ?nodes (db_leases db)"
    unfolding leases_inv_def linked_def
    by (auto simp: attempt_keys_def node_key_def node_open_def)
  moreover from inv have "counted ?nodes (db_leases db)"
    by (simp add: leases_inv_def counted_def node_key_def)
  ultimately show "leases_inv E {} (db\<lparr>db_nodes := ?nodes\<rparr>)"
    using inv by (simp add: leases_inv_def)
qed

lemma leases_revoke_cancel:
  assumes "preserves (leases_inv E {}) m"
  shows "preserves (leases_inv E {})
    (tx_bind (revoke_active_leases a t) (\<lambda>_. tx_bind (cancel_open_nodes a t') (\<lambda>_. m)))"
  using assms unfolding preserves_carries by (intro carries_bind [OF carries_revoke] carries_bind [OF carries_cancel])

lemma leases_fail [keep_rules]:
  "preserves (leases_inv E {}) (fail_terminal_workflow a c t)"
  "preserves (leases_inv E {}) (fail_workflow a k c h t)"
  unfolding fail_workflow_def fail_terminal_workflow_def by (intro leases_revoke_cancel keep_rules)+

text \<open>A lease that is found by its identifier and closed leaves its node open.\<close>

definition bound_lease :: "uuid \<Rightarrow> uuid \<times> string \<Rightarrow> 'j db \<Rightarrow> bool" where
  "bound_lease i k db \<longleftrightarrow> (\<exists>l\<in>set (db_leases db). lj_lease_id l = i \<and> lease_key l = k)"

lemma active_lease_unique:
  assumes "leases_ok db" "l \<in> set (db_leases db)" "l' \<in> set (db_leases db)"
    and "lj_state l = Active" "lj_state l' = Active" "lease_key l = lease_key l'"
  shows "l = l'"
proof -
  have "distinct (map lease_key (filter (\<lambda>l. lj_state l = Active) (db_leases db)))"
    using assms(1) by (simp add: leases_ok_def lease_key_def [abs_def])
  then show ?thesis by (rule distinct_map_unique) (use assms in auto)
qed

lemma lease_id_unique:
  "leases_ok db \<Longrightarrow> l \<in> set (db_leases db) \<Longrightarrow> l' \<in> set (db_leases db) \<Longrightarrow>
   lj_lease_id l = lj_lease_id l' \<Longrightarrow> l = l'"
  by (auto simp: leases_ok_def lease_ids_def dest: distinct_map_unique)

lemma carries_close_lease:
  assumes "\<And>l. lj_state (g l) \<noteq> Active" "\<And>l. lease_key (g l) = lease_key l"
    and "\<And>l. lj_generation (g l) = lj_generation l" "\<And>l. lj_lease_json (g l) = lj_lease_json l"
    and "\<And>l d. row_says (g l) d = row_says l d"
  shows "carries (\<lambda>db. schema_ok db \<and> leases_inv E {} db \<and> bound_lease i k db)
    (expect_one (update_leases (\<lambda>l. lj_lease_id l = i \<and> lj_state l = Active) g) e) (leases_inv E {k})"
proof (rule carriesI)
  fix db u db'
  let ?p = "\<lambda>l. lj_lease_id l = i \<and> lj_state l = Active"
  assume inv: "schema_ok db \<and> leases_inv E {} db \<and> bound_lease i k db"
    and "expect_one (update_leases ?p g) e db = Inr (u, db')"
  then have db': "db' = db\<lparr>db_leases := update_where ?p g (db_leases db)\<rparr>"
    and "count_where ?p (db_leases db) = 1"
    by (auto simp: expect_one_Inr_iff update_leases_def change_table_Inr_iff)
  from this(2) obtain l where l: "l \<in> set (db_leases db)" "lj_lease_id l = i" "lj_state l = Active"
    by (rule count_where_1) blast
  from inv have ok: "leases_ok db" by (simp add: schema_ok_def)
  from inv l ok have "lease_key l = k" unfolding bound_lease_def by (metis lease_id_unique)
  with l ok have only: "lj_lease_id l' = i" if "l' \<in> set (db_leases db)" "lj_state l' = Active"
    "lease_key l' = k" for l' using that by (metis active_lease_unique)
  have "active_for k' (update_where ?p g (db_leases db)) \<longleftrightarrow> k' \<noteq> k \<and> active_for k' (db_leases db)" for k'
    using only l ok \<open>lease_key l = k\<close> assms(1,2) lease_id_unique [OF ok]
    unfolding active_for_def bex_update_where by (smt (verit, best))
  with inv have "linked {k} (db_nodes db) (update_where ?p g (db_leases db))"
    by (simp add: leases_inv_def linked_def)
  with inv assms show "leases_inv E {k} db'"
    by (simp add: db' leases_inv_def documented_def counted_def)
qed

lemma carries_close_node:
  assumes "\<And>n. node_key (f n) = node_key n" "\<And>n. nd_lease_generation (f n) = nd_lease_generation n"
    and "\<And>n. nd_state (f n) \<noteq> Leased"
  shows "carries (leases_inv E {(a, i)}) (close_leased_node a i f) (leases_inv E {})"
proof -
  from assms(1) have "nd_attempt_id (f n) = nd_attempt_id n" "nd_node_id (f n) = nd_node_id n" for n
    by (simp_all add: node_key_def)
  note f = this assms(2,3)
  have "carries (leases_inv E {(a, i)}) (update_nodes
      (\<lambda>n. nd_attempt_id n = a \<and> nd_node_id n = i \<and> nd_state n = Leased) f) (leases_inv E {})"
    unfolding update_nodes_def
    by (rule carries_change_table) (auto simp: leases_inv_def linked_def counted_def node_key_def f)
  then show ?thesis
    unfolding close_leased_node_def expect_one_def
    by (rule carries_bind) (simp add: preserves_carries [symmetric] preserves_simple)
qed

lemma carries_close_bind:
  assumes "\<And>n. node_key (f n) = node_key n" "\<And>n. nd_lease_generation (f n) = nd_lease_generation n"
    and "\<And>n. nd_state (f n) \<noteq> Leased" and "preserves (leases_inv E {}) m"
  shows "carries (leases_inv E {(a, i)}) (tx_bind (close_leased_node a i f) (\<lambda>_. m)) (leases_inv E {})"
  by (rule carries_bind [OF carries_close_node [OF assms(1-3)] carries_preserved [OF assms(4)]])

lemma carries_expire_steps:
  "carries (leases_inv E {(a, i)}) (expire_mutation_lease a i t) (leases_inv E {})"
  "carries (leases_inv E {(a, i)}) (expire_worker_lease a i t) (leases_inv E {})"
  "carries (leases_inv E {(a, i)}) (expire_at_deadline a i g t) (leases_inv E {})"
  unfolding expire_mutation_lease_def expire_worker_lease_def expire_at_deadline_def
  by (intro carries_close_bind keep_rules; simp add: node_key_def)+

lemma carries_expire_one:
  "carries (\<lambda>db. schema_ok db \<and> leases_inv E {} db \<and> bound_lease (lj_lease_id row) (lease_key row) db)
     (expire_one_lease E' t row) (leases_inv E {})"
  unfolding expire_one_lease_def lease_key_def Let_def
  by (intro carries_reads, rule carries_bind [OF carries_close_lease])
    (simp_all add: lease_key_def row_says_def,
      intro carries_reads carries_bind [where R = "leases_inv E {}"] carries_if carries_expire_steps
        carries_preserved keep_rules)

lemma bound_lease_stable:
  assumes "bound_lease i k db" "evolves db db'"
  shows "bound_lease i k db'"
proof -
  from assms(1) obtain l where l: "l \<in> set (db_leases db)" "lj_lease_id l = i" "lease_key l = k"
    by (auto simp: bound_lease_def)
  from assms(2) have "grown lease_evolves (db_leases db) (db_leases db')" by (simp add: evolves_def)
  from grown_mem [OF this l(1)] l(2,3) show ?thesis
    by (auto simp: bound_lease_def lease_evolves_def lease_key_def)
qed

lemma evolves_expire_one: "preserves (evolves db0) (expire_one_lease E t row)"
  unfolding expire_one_lease_def by (intro keep_rules; simp add: evolve_rows)

lemma schema_expire_one: "preserves schema_ok (expire_one_lease E t row)"
  unfolding expire_one_lease_def by (intro keep_rules; simp)

abbreviation sound :: "('j, 'x) sched_codec_scheme \<Rightarrow> 'j db \<Rightarrow> bool" where
  "sound E db \<equiv> schema_ok db \<and> leases_inv E {} db"

lemma sound_expire: "preserves (sound E) (expire_leases_transaction E' t)"
proof -
  let ?F = "\<lambda>rows db. \<forall>row\<in>set rows. bound_lease (lj_lease_id row) (lease_key row) db"
  have "preserves (\<lambda>db. sound E db \<and> ?F rows db) (expire_one_lease E' t row)" if "row \<in> set rows" for row rows
  proof -
    have "preserves (?F rows) (expire_one_lease E' t row)"
      by (rule preserves_stable [OF evolves_expire_one]) (blast intro: bound_lease_stable)
    moreover have "carries (\<lambda>db. sound E db \<and> ?F rows db) (expire_one_lease E' t row) (leases_inv E {})"
      by (rule carries_strengthen [OF carries_expire_one]) (use that in blast)
    ultimately show ?thesis using schema_expire_one
      unfolding preserves_def carries_def by blast
  qed
  then have "preserves (\<lambda>db. sound E db \<and> ?F rows db) (tx_each (expire_one_lease E' t) rows)" for rows
    by (rule preserves_each_mem)
  then show ?thesis
    unfolding expire_leases_transaction_def
    by (intro preserves_query_bind [where F = ?F] preserves_bind preserves_simple)
      (auto simp: expired_leases_def bound_lease_def)
qed

subsection \<open>Renewal\<close>

lemma find_lease_Some: "find_lease i db = Some l \<Longrightarrow> l \<in> set (db_leases db) \<and> lj_lease_id l = i"
  by (auto simp: find_lease_def dest: find_Some_mem)

lemma carries_renew_write:
  assumes inj: "jcs_injective (lease_jcs E)" and bytes: "lease_canonical_bytes E renewed = Inr json"
    and "lease_decode_canonical E (lj_lease_json row) = Inr current"
    and "lease_renewed E current x = Inr renewed"
  shows "carries (\<lambda>db. sound E db \<and> row \<in> set (db_leases db))
    (expect_one (update_leases
       (\<lambda>l. lj_lease_id l = ls_lease_id renewed \<and> lj_state l = Active \<and>
          lj_lease_digest l = ls_lease_digest current)
       (\<lambda>l. l\<lparr>lj_lease_digest := ls_lease_digest renewed, lj_lease_json := json,
          lj_expires_at_ms := ls_expires_at_ms renewed\<rparr>)) e) (leases_inv E {})"
proof (rule carriesI)
  fix db u db'
  let ?p = "\<lambda>l. lj_lease_id l = ls_lease_id renewed \<and> lj_state l = Active \<and>
    lj_lease_digest l = ls_lease_digest current"
  let ?g = "\<lambda>l. l\<lparr>lj_lease_digest := ls_lease_digest renewed, lj_lease_json := json,
    lj_expires_at_ms := ls_expires_at_ms renewed\<rparr>"
  assume inv: "sound E db \<and> row \<in> set (db_leases db)"
    and "expect_one (update_leases ?p ?g) e db = Inr (u, db')"
  then have db': "db' = db\<lparr>db_leases := update_where ?p ?g (db_leases db)\<rparr>"
    by (simp add: expect_one_Inr_iff update_leases_def change_table_Inr_iff)
  from lease_renewed_Inr(4) [OF assms(4)] obtain g where
    r: "renewed = current\<lparr>ls_expires_at_ms := x, ls_lease_digest := g\<rparr>" by blast
  from inv assms(3) have says: "row_says row current" by (simp add: leases_inv_def documented_def)
  have read: "d = renewed" if "lease_decode_canonical E json = Inr d" for d
    using that bytes inj unfolding leases.decodes leases.encodes jcs_injective_def by blast
  from inv have only: "l = row" if "l \<in> set (db_leases db)" "?p l" for l
    using that says r by (intro lease_id_unique [of db]) (simp_all add: schema_ok_def row_says_def)
  from says have new: "row_says (?g row) renewed" by (simp add: row_says_def r)
  have "row_says (if ?p l then ?g l else l) d" if "l \<in> set (db_leases db)"
    "lease_decode_canonical E (lj_lease_json (if ?p l then ?g l else l)) = Inr d" for l d
  proof (cases "?p l")
    case True
    with that have "l = row" "d = renewed" by (simp_all add: only read)
    with True new show ?thesis by simp
  next
    case False
    then have same: "(if ?p l then ?g l else l) = l" by (rule if_not_P)
    from that(2) have "lease_decode_canonical E (lj_lease_json l) = Inr d" unfolding same .
    with that(1) inv show ?thesis unfolding same by (simp add: leases_inv_def documented_def)
  qed
  then have "documented E (update_where ?p ?g (db_leases db))"
    unfolding documented_def ball_update_where by blast
  moreover have "active_for k (update_where ?p ?g (db_leases db)) = active_for k (db_leases db)" for k
    by (auto simp: active_for_def lease_key_def)
  ultimately show "leases_inv E {} db'"
    using inv by (simp add: db' leases_inv_def linked_def counted_def lease_key_def)
qed

lemma leases_renew:
  assumes "jcs_injective (lease_jcs E)"
  shows "carries (sound E) (renew_lease_transaction E l t d) (leases_inv E {})"
  unfolding renew_lease_transaction_def
  by (intro carries_try_bind [where F = "\<lambda>row db. row \<in> set (db_leases db)"] carries_lift_bind
      carries_ensure_bind carries_if carries_bind [OF carries_renew_write [OF assms]]
      carries_preserved [OF preserves_bind] keep_rules carries_return)
    (auto dest: find_lease_Some)

lemma sound_renew:
  "jcs_injective (lease_jcs E) \<Longrightarrow> preserves (sound E) (renew_lease_transaction E l t d)"
  by (rule preserves_carries_conj [OF schema_renew leases_renew])

subsection \<open>Handing out a lease\<close>

lemma persist_active_lease_effect:
  assumes "persist_active_lease E l g t db = Inr (u, db')"
  obtains row where "lease_canonical_bytes E l = Inr (lj_lease_json row)" "row_says row l"
    "lj_state row = Active" "db_leases db' = db_leases db @ [row]"
    "db_nodes db' = update_where (\<lambda>n. nd_attempt_id n = ls_attempt_id l \<and> nd_node_id n = ls_node_id l \<and>
        nd_state n = Ready \<and> nd_lease_generation n = int g)
      (\<lambda>n. n\<lparr>nd_state := Leased, nd_lease_generation := int (ls_lease_generation l)\<rparr>) (db_nodes db)"
    "count_where (\<lambda>n. nd_attempt_id n = ls_attempt_id l \<and> nd_node_id n = ls_node_id l \<and>
        nd_state n = Ready \<and> nd_lease_generation n = int g) (db_nodes db) = 1"
proof -
  from assms obtain json where json: "lease_canonical_bytes E l = Inr json"
    by (auto simp: persist_active_lease_def)
  let ?row = "\<lparr> lj_lease_id = ls_lease_id l, lj_attempt_id = ls_attempt_id l,
    lj_node_id = ls_node_id l, lj_generation = int (ls_lease_generation l),
    lj_worker_id = ls_worker_id l, lj_host_id = ls_host_id l,
    lj_expected_input_digest = ls_expected_input_digest l,
    lj_lease_digest = ls_lease_digest l, lj_lease_json = json, lj_state = Active,
    lj_leased_at_ms = ls_leased_at_ms l, lj_expires_at_ms = ls_expires_at_ms l,
    lj_closed_at_ms = None, lj_receipt_digest = None \<rparr>"
  show thesis
  proof (rule that [of ?row])
    show "lease_canonical_bytes E l = Inr (lj_lease_json ?row)" "row_says ?row l" "lj_state ?row = Active"
      by (simp_all add: json row_says_def)
  qed (use assms in \<open>auto simp: persist_active_lease_def json append_transition_def
      expect_one_Inr_iff change_table_Inr_iff write_table_Inr_iff statement_defs\<close>)
qed

lemma node_key_unique:
  "nodes_ok db \<Longrightarrow> n \<in> set (db_nodes db) \<Longrightarrow> n' \<in> set (db_nodes db) \<Longrightarrow> node_key n = node_key n' \<Longrightarrow> n = n'"
  by (auto simp: nodes_ok_def node_keys_def dest: distinct_map_unique)

lemma linked_grant:
  assumes "linked {} nodes leases" "lj_state row = Active" "nd_state n0 \<noteq> Leased"
    and key: "\<And>n. n \<in> set nodes \<Longrightarrow> node_key n = lease_key row \<longleftrightarrow> n = n0"
  shows "linked {} (update_where (\<lambda>n. n = n0) (\<lambda>n. n\<lparr>nd_state := Leased, nd_lease_generation := g\<rparr>) nodes)
    (leases @ [row])"
proof -
  have "active_for k (leases @ [row]) \<longleftrightarrow> k = lease_key row \<or> active_for k leases" for k
    using assms(2) by (auto simp: active_for_def)
  moreover have "(nd_state n = Leased) = active_for (node_key n) leases" if "n \<in> set nodes" for n
    using that assms(1) by (simp add: linked_def)
  ultimately show ?thesis unfolding linked_def ball_update_where by (simp add: key)
qed

lemma counted_grant:
  assumes "counted nodes leases" "\<not> active_for (lease_key row) leases"
    and "nd_lease_generation n0 < g" "lj_generation row = g"
    and key: "\<And>n. n \<in> set nodes \<Longrightarrow> node_key n = lease_key row \<longleftrightarrow> n = n0"
  shows "counted (update_where (\<lambda>n. n = n0) (\<lambda>n. n\<lparr>nd_state := Leased, nd_lease_generation := g\<rparr>) nodes)
    (leases @ [row])"
  unfolding counted_def ball_update_where
proof (intro ballI impI)
  let ?f = "\<lambda>n. if n = n0 then n\<lparr>nd_state := Leased, nd_lease_generation := g\<rparr> else n"
  fix r n
  assume r: "r \<in> set (leases @ [row])" and n: "n \<in> set nodes" and "lease_key r = node_key (?f n)"
  from this(3) have k: "lease_key r = node_key n" by (simp split: if_splits)
  show "lj_generation r \<le> nd_lease_generation (?f n) \<and>
    (lj_state r = Active \<longrightarrow> lj_generation r = nd_lease_generation (?f n))"
  proof (cases "r \<in> set leases")
    case True
    with assms(1) n k have "lj_generation r \<le> nd_lease_generation n"
      "lj_state r = Active \<longrightarrow> lj_generation r = nd_lease_generation n" by (simp_all add: counted_def)
    moreover have "lj_state r \<noteq> Active" if "n = n0"
      using assms(2) True that k n key by (auto simp: active_for_def)
    ultimately show ?thesis using assms(3) by auto
  next
    case False
    with r have "r = row" by simp
    with k n key have "n = n0" by metis
    with \<open>r = row\<close> assms(4) show ?thesis by simp
  qed
qed

lemma carries_persist_active_lease:
  assumes inj: "jcs_injective (lease_jcs E)" and gen: "g < ls_lease_generation l"
  shows "carries (sound E) (persist_active_lease E l g t) (leases_inv E {})"
proof (rule carriesI)
  fix db u db'
  let ?p = "\<lambda>n. nd_attempt_id n = ls_attempt_id l \<and> nd_node_id n = ls_node_id l \<and>
    nd_state n = Ready \<and> nd_lease_generation n = int g"
  let ?f = "\<lambda>n. n\<lparr>nd_state := Leased, nd_lease_generation := int (ls_lease_generation l)\<rparr>"
  assume inv: "sound E db" and "persist_active_lease E l g t db = Inr (u, db')"
  from this(2) obtain row where row: "lease_canonical_bytes E l = Inr (lj_lease_json row)"
    "row_says row l" "lj_state row = Active" "db_leases db' = db_leases db @ [row]"
    and nodes: "db_nodes db' = update_where ?p ?f (db_nodes db)"
    and one: "count_where ?p (db_nodes db) = 1"
    by (rule persist_active_lease_effect)
  from one obtain n0 where n0: "n0 \<in> set (db_nodes db)" "?p n0" by (rule count_where_1) blast
  have key: "node_key n = lease_key row \<longleftrightarrow> n = n0" if "n \<in> set (db_nodes db)" for n
    using that n0 row(2) inv node_key_unique [of db n n0]
    by (auto simp: node_key_def lease_key_def row_says_def schema_ok_def)
  have "?p n \<longleftrightarrow> n = n0" if "n \<in> set (db_nodes db)" for n
    using n0(2) key [OF that] row(2) by (auto simp: node_key_def lease_key_def row_says_def)
  then have nodes: "db_nodes db' = update_where (\<lambda>n. n = n0) ?f (db_nodes db)"
    unfolding nodes by (simp add: update_where_def)
  have read: "d = l" if "lease_decode_canonical E (lj_lease_json row) = Inr d" for d
    using that row(1) inj unfolding leases.decodes leases.encodes jcs_injective_def by blast
  have "documented E (db_leases db')"
    using inv row(2,4) read by (auto simp: leases_inv_def documented_def)
  moreover have "linked {} (db_nodes db') (db_leases db')"
    unfolding nodes row(4) using inv row(3) n0(2) key
    by (intro linked_grant) (simp_all add: leases_inv_def)
  moreover have "\<not> active_for (lease_key row) (db_leases db)"
    using inv n0 key [OF n0(1)] by (auto simp: leases_inv_def linked_def)
  then have "counted (db_nodes db') (db_leases db')"
    unfolding nodes row(4) using inv n0(2) key gen row(2)
    by (intro counted_grant) (simp_all add: leases_inv_def row_says_def)
  ultimately show "leases_inv E {} db'" by (simp add: leases_inv_def)
qed

lemma sound_persist_active_lease:
  assumes "jcs_injective (lease_jcs E)" "g < ls_lease_generation l"
  shows "preserves (sound E) (persist_active_lease E l g t)"
proof -
  have "preserves schema_ok (persist_active_lease E l g t)"
    unfolding persist_active_lease_def by (intro keep_rules; simp)
  from preserves_carries_conj [OF this carries_persist_active_lease [OF assms]] show ?thesis .
qed

lemma sound_grant_lease:
  "jcs_injective (lease_jcs E) \<Longrightarrow> preserves (sound E) (grant_lease E w i t d lp rw c sel)"
  unfolding grant_lease_def update_fairness_cursor_def
  by (intro preserves_try_bind preserves_bind sound_persist_active_lease preserves_conj preserves_simple
      keep_rules) (auto dest!: lease_for_candidate_Inr simp: leased_for_def)

lemma leases_claim_steps [keep_rules]:
  "preserves (leases_inv E X) (acquire_mutation_lock c t)"
  "preserves (leases_inv E X) (operation_state_for_candidate E' c w t)"
  unfolding acquire_mutation_lock_def operation_state_for_candidate_def bind_operation_state_def
  by (intro keep_rules)+

lemma sound_claim_steps [keep_rules]:
  "preserves (sound E) (acquire_mutation_lock c t)"
  "preserves (sound E) (operation_state_for_candidate E' c w t)"
  "preserves (sound E) (wake_waiting_attempts t)"
  by (rule preserves_conj; rule keep_rules)+

lemma sound_claim:
  assumes "jcs_injective (lease_jcs E)"
  shows "preserves (sound E) (claim_next_transaction E w i t d)"
proof -
  have "preserves (sound E) (claim_candidates E w i t d lp rw cs)" for lp rw cs
  proof (induction cs)
    case Nil
    show ?case unfolding claim_candidates.simps by (intro keep_rules)
  next
    case (Cons c cs)
    then show ?case unfolding claim_candidates.simps by (intro keep_rules sound_grant_lease [OF assms])
  qed
  then show ?thesis unfolding claim_next_transaction_def by (intro keep_rules)
qed

subsection \<open>Committing a receipt\<close>

lemma validate_active_receipt_lease_bound:
  assumes "leases_inv E X db" "validate_active_receipt_lease E r t db = Inr u"
  shows "bound_lease (nr_lease_id r) (nr_attempt_id r, nr_node_id r) db"
proof -
  from assms(2) obtain row l where row: "find_lease (nr_lease_id r) db = Some row"
    "lease_decode_canonical E (lj_lease_json row) = Inr l" "node_receipt_matches_lease r l"
    by (auto simp: validate_active_receipt_lease_def split: if_splits)
  from find_lease_Some [OF row(1)] row(2) assms(1) have "row \<in> set (db_leases db)" "row_says row l"
    by (auto simp: leases_inv_def documented_def)
  with row(3) show ?thesis
    by (auto simp: bound_lease_def node_receipt_matches_lease_def row_says_def lease_key_def)
qed

lemma carries_persist_node_receipt:
  "carries (\<lambda>db. schema_ok db \<and> leases_inv E {} db \<and>
       bound_lease (nr_lease_id r) (nr_attempt_id r, nr_node_id r) db)
     (persist_node_receipt r j t h) (leases_inv E {})"
proof -
  let ?P = "\<lambda>db. schema_ok db \<and> leases_inv E {} db \<and>
    bound_lease (nr_lease_id r) (nr_attempt_id r, nr_node_id r) db"
  have "preserves ?P (insert_receipt x)" for x
    by (intro preserves_conj keep_rules preserves_stable [OF evolves_other_writes(7)])
      (rule bound_lease_stable)
  then show ?thesis
    unfolding persist_node_receipt_def Let_def
    by (rule carries_bind_kept, intro carries_bind [OF carries_close_lease] carries_close_bind keep_rules)
      (simp_all add: lease_key_def row_says_def receipt_terminal_node_state_def split: node_outcome.split)
qed

lemma leases_apply_outcome [keep_rules]:
  "preserves (leases_inv E {}) (apply_node_receipt_outcome E' r t h)"
  unfolding apply_node_receipt_outcome_def touch_attempt_def by (intro keep_rules)

lemma carries_commit_node_receipt:
  "carries (sound E) (commit_node_receipt_transaction E r j t) (leases_inv E {})"
proof -
  have start: "carries (sound E) (tx_bind (tx_try (validate_active_receipt_lease E r t)) (\<lambda>_.
      tx_bind (tx_try (load_attempt_context E (nr_attempt_id r))) (f :: _ \<Rightarrow> _ \<Rightarrow> _ + attempt_snapshot \<times> _)))
      (leases_inv E {})"
    if "\<And>c. carries (\<lambda>db. schema_ok db \<and> leases_inv E {} db \<and>
      bound_lease (nr_lease_id r) (nr_attempt_id r, nr_node_id r) db) (f c) (leases_inv E {})" for f
    by (rule carries_try_bind [where F = "\<lambda>_. bound_lease (nr_lease_id r) (nr_attempt_id r, nr_node_id r)"])
      (use that in \<open>auto intro: validate_active_receipt_lease_bound carries_reads carries_strengthen\<close>)
  show ?thesis
    unfolding commit_node_receipt_transaction_def Let_def
    by (intro start carries_reads carries_option carries_return
        carries_bind [OF carries_persist_node_receipt] carries_preserved keep_rules) simp
qed

lemma sound_commit_node_receipt: "preserves (sound E) (commit_node_receipt_transaction E r j t)"
  by (rule preserves_carries_conj [OF schema_commit_node_receipt carries_commit_node_receipt])

subsection \<open>Admission\<close>

lemma sound_insert_node:
  assumes "nd_state nd \<noteq> Leased"
  shows "preserves (sound E) (insert_node_row nd)"
proof (rule preservesI)
  fix db x db'
  assume inv: "sound E db" and m: "insert_node_row nd db = Inr (x, db')"
  then have db': "db' = db\<lparr>db_nodes := db_nodes db @ [nd]\<rparr>" "nodes_ok db'"
    by (simp_all add: insert_node_row_def write_table_Inr_iff)
  from db' have fresh: "node_key nd \<notin> set (node_keys db)"
    by (simp add: nodes_ok_def node_keys_def)
  from inv have "lease_key l \<in> set (node_keys db)" if "l \<in> set (db_leases db)" for l
    using that by (auto simp: schema_ok_def leases_ok_def lease_key_def list_all_iff)
  with fresh have none: "lease_key l \<noteq> node_key nd" if "l \<in> set (db_leases db)" for l
    using that by metis
  then have "\<not> active_for (node_key nd) (db_leases db)" by (auto simp: active_for_def)
  with inv assms none have "leases_inv E {} db'"
    by (auto simp: db' leases_inv_def linked_def counted_def)
  moreover from schema_insert_referenced(3) inv m have "schema_ok db'" by (blast dest: preservesD)
  ultimately show "sound E db'" by simp
qed

lemma initial_node_not_leased: "fst (initial_node_state ad w t k) \<noteq> Leased"
  by (simp add: initial_node_state_def)

lemma sound_create_node: "preserves (sound E) (create_node m ad a w t on)"
  unfolding create_node_def
  by (cases on, cases "initial_node_state ad w t (n_kind (snd on))")
    (use initial_node_not_leased [of ad w t "n_kind (snd on)"] in
      \<open>auto intro!: preserves_bind preserves_each preserves_simple sound_insert_node
        preserves_conj [OF schema_write_unreferenced(6) leases_other_writes(10)]\<close>)

lemma sound_supersede: "preserves (sound E) (supersede_pre_mutation_attempts p mode r t)"
proof (rule preserves_conj)
  show "preserves schema_ok (supersede_pre_mutation_attempts p mode r t)"
    unfolding supersede_pre_mutation_attempts_def supersede_attempt_def by (intro keep_rules; simp)
  show "preserves (leases_inv E {}) (supersede_pre_mutation_attempts p mode r t)"
    unfolding supersede_pre_mutation_attempts_def supersede_attempt_def
    by (intro leases_revoke_cancel keep_rules)
qed

lemma sound_admit: "preserves (sound E) (admit_transaction E' m j ad r a t)"
  unfolding admit_transaction_def create_attempt_def record_trigger_def update_project_head_def Let_def
  by (intro sound_supersede sound_create_node preserves_bind preserves_each preserves_simple preserves_option
      preserves_conj keep_rules)

subsection \<open>Every reachable store\<close>

lemma sound_empty: "sound E empty_db"
  by (simp add: schema_empty) (simp add: empty_db_def leases_inv_def documented_def linked_def counted_def)

lemma sound_others:
  "preserves (sound E) (commit_cleanup_receipt_transaction E' c j t)"
  "preserves (sound E) (reduce_attempt_transaction E' a t)"
  by (rule preserves_conj; rule keep_rules)+

lemma sound_reachable:
  assumes "jcs_injective (lease_jcs E)" "reachable E db"
  shows "sound E db"
proof -
  have "transaction_invariant E (sound E)"
    by unfold_locales
      (intro sound_empty sound_admit sound_claim [OF assms(1)] sound_expire sound_renew [OF assms(1)]
        sound_commit_node_receipt sound_others)+
  from transaction_invariant.reachable_keeps [OF this assms(2)] show ?thesis .
qed

end
