(* ===== verification/Scheduler_Fairness.thy ===== *)
theory Scheduler_Fairness
  imports Scheduler_Evolution
begin

text \<open>
  The candidates a worker may claim: where they come from, at most one per project, and the weighted
  rotation between projects, in which no project that keeps offering a candidate waits longer than the
  weights of the others.
\<close>

section \<open>Where candidates come from\<close>

text \<open>A candidate and the rows it was read from.\<close>

definition read_from ::
  "node_row \<times> attempt_row \<times> 'j request_row \<Rightarrow> ('x) candidate_owned_scheme \<Rightarrow> workflow_node \<Rightarrow> bool" where
  "read_from = (\<lambda>(n, a, r) c m.
     cd_attempt_id c = at_attempt_id a \<and> cd_request_id c = rq_request_id r \<and>
     cd_project_id c = rq_project_id r \<and> cd_node_id c = nd_node_id n \<and>
     int (cd_lease_generation c) = nd_lease_generation n \<and>
     cd_execution_mode c = rq_operation_kind r \<and>
     policy_node (pm_workflow (cd_manifest c)) (cd_node_id c) = Some m \<and> n_kind m = nd_kind n \<and>
     (rq_operation_kind r = Shadow_mode \<longrightarrow> shadow_executes (n_kind m)))"

lemma load_candidate_Inr:
  assumes "load_candidate E w row acc = Inr acc'"
  shows "acc' = acc \<or> (\<exists>c m. acc' = acc @ [c] \<and> read_from row c m \<and>
    (\<forall>c'\<in>set acc. cd_project_id c' \<noteq> cd_project_id c))"
proof -
  obtain n a r where row: "row = (n, a, r)" by (cases row)
  show ?thesis
    using assms unfolding row load_candidate_def read_from_def
    by (auto simp: bind_res_Inr_iff project_ids.from_str_Inr_iff node_ids.from_str_Inr_iff list_ex_iff
        split: if_splits)
qed

lemma load_candidates_Inr:
  assumes "fold_res (load_candidate E w) rows acc = Inr res" "distinct (map cd_project_id acc)"
  shows "distinct (map cd_project_id res) \<and>
    (\<forall>c\<in>set res. c \<in> set acc \<or> (\<exists>row\<in>set rows. \<exists>m. read_from row c m))"
  using assms
proof (induction rows arbitrary: acc)
  case (Cons row rows)
  from Cons.prems(1) obtain acc' where acc': "load_candidate E w row acc = Inr acc'"
    "fold_res (load_candidate E w) rows acc' = Inr res" by auto
  from load_candidate_Inr [OF acc'(1)] Cons.prems(2) have "distinct (map cd_project_id acc')"
    by (auto simp: image_iff) metis
  note res = Cons.IH [OF acc'(2) this]
  from load_candidate_Inr [OF acc'(1)] show ?case
  proof (elim disjE exE conjE)
    fix c m
    assume "acc' = acc @ [c]" "read_from row c m"
    with res show ?thesis by (simp only: set_append list.set) blast
  qed (use res in auto)
qed simp

lemma in_map_filter: "y \<in> set (List.map_filter f xs) \<longleftrightarrow> (\<exists>x\<in>set xs. f x = Some y)"
  by (induction xs) (auto simp: map_filter_simps split: option.splits)

lemma join_candidate_Some:
  assumes "join_candidate db x = Some (n, a, r)"
  shows "n = x" "a \<in> set (db_attempts db)" "r \<in> set (db_requests db)"
    "at_attempt_id a = nd_attempt_id n" "rq_request_id r = at_request_id a"
  using assms
  by (auto simp: join_candidate_def find_attempt_def find_request_def bind_eq_Some_conv dest!: find_Some_mem)

lemma read_ready_rows:
  assumes "(n, a, r) \<in> set (read_ready_candidate_rows db)"
  shows "n \<in> set (db_nodes db)" "a \<in> set (db_attempts db)" "r \<in> set (db_requests db)"
    "at_attempt_id a = nd_attempt_id n" "rq_request_id r = at_request_id a" "nd_state n = Ready"
    "at_state a \<in> {Queued, Running}" "rq_state r = Request_Active"
proof -
  from assms obtain x where "x \<in> set (db_nodes db)" "join_candidate db x = Some (n, a, r)"
    and "nd_state n = Ready" "at_state a \<in> {Queued, Running}" "rq_state r = Request_Active"
    by (auto simp: read_ready_candidate_rows_def in_map_filter)
  with join_candidate_Some [OF this(2)]
  show "n \<in> set (db_nodes db)" "a \<in> set (db_attempts db)" "r \<in> set (db_requests db)"
    "at_attempt_id a = nd_attempt_id n" "rq_request_id r = at_request_id a" "nd_state n = Ready"
    "at_state a \<in> {Queued, Running}" "rq_state r = Request_Active" by simp_all
qed

lemma load_ready_candidates_Inr:
  assumes "load_ready_candidates E w db = Inr cs"
  shows "sorted (map cd_project_id cs)" "distinct (map cd_project_id cs)"
    "\<And>c. c \<in> set cs \<Longrightarrow> \<exists>row\<in>set (read_ready_candidate_rows db). \<exists>m. read_from row c m"
proof -
  from assms obtain res where res: "fold_res (load_candidate E w) (read_ready_candidate_rows db) [] = Inr res"
    "cs = sort_key cd_project_id res" by (auto simp: load_ready_candidates_def)
  from load_candidates_Inr [OF res(1)] res(2)
  show "sorted (map cd_project_id cs)" "distinct (map cd_project_id cs)"
    "\<And>c. c \<in> set cs \<Longrightarrow> \<exists>row\<in>set (read_ready_candidate_rows db). \<exists>m. read_from row c m"
    by (simp_all add: distinct_map)
qed


section \<open>The order of the candidates\<close>

lemma candidate_borrowed_Inr:
  assumes "candidate_borrowed c = Inr rc"
  shows "candidate_owned.truncate rc = c" "policy_node (pm_workflow (cd_manifest c)) (cd_node_id c) = Some (cd_node rc)"
  using assms by (auto simp: candidate_borrowed_def candidate_owned.defs ready_candidate.defs)

text \<open>Where the rotation starts.\<close>

definition fair_start :: "string list \<Rightarrow> string option \<Rightarrow> nat \<Rightarrow> nat" where
  "fair_start projects last_project remaining =
     (case last_project of
        None \<Rightarrow> 0
      | Some p \<Rightarrow> (case if remaining > 0 then position (\<lambda>q. q = p) projects else None of
            Some i \<Rightarrow> i
          | None \<Rightarrow> (case position (\<lambda>q. q > p) projects of Some i \<Rightarrow> i | None \<Rightarrow> 0)))"

lemma position_None: "position p xs = None \<longleftrightarrow> (\<forall>x\<in>set xs. \<not> p x)"
  by (induction xs) auto

lemma position_Some:
  "position p xs = Some i \<Longrightarrow> i < length xs \<and> p (xs ! i) \<and> (\<forall>j<i. \<not> p (xs ! j))"
  by (induction xs arbitrary: i) (auto simp: less_Suc_eq_0_disj split: if_splits)

lemma position_map: "position p (map f xs) = position (\<lambda>x. p (f x)) xs"
  by (induction xs) auto

lemma fair_candidate_order_Inr:
  assumes "fair_candidate_order cs last_project remaining = Inr ordered"
  obtains bs where "collect_res candidate_borrowed cs = Inr bs"
    "ordered = rotate (fair_start (map cd_project_id (sort_key cd_project_id bs)) last_project remaining)
       (sort_key cd_project_id bs)"
proof -
  from assms obtain bs where bs: "collect_res candidate_borrowed cs = Inr bs" and
    "(let borrowed = sort_key cd_project_id bs in
     case last_project of
       None \<Rightarrow> Inr borrowed
     | Some project \<Rightarrow>
         (case (if remaining > 0 then position (\<lambda>c. cd_project_id c = project) borrowed
                else None) of
            Some index \<Rightarrow> Inr (rotate index borrowed)
          | None \<Rightarrow>
              (case position (\<lambda>c. cd_project_id c > project) borrowed of
                 Some index \<Rightarrow> Inr (rotate index borrowed)
               | None \<Rightarrow> Inr (rotate 0 borrowed)))) = (Inr ordered :: store_error + _)"
    unfolding fair_candidate_order_def by (elim bind_res_InrE)
  from this(2) have "ordered = rotate (fair_start (map cd_project_id (sort_key cd_project_id bs)) last_project remaining)
       (sort_key cd_project_id bs)"
    unfolding fair_start_def Let_def
    by (auto simp: position_map split: option.splits if_splits)
  with bs show thesis by (rule that)
qed

lemma fair_candidate_order_mem:
  assumes "fair_candidate_order cs last_project remaining = Inr ordered" "rc \<in> set ordered"
  shows "\<exists>c\<in>set cs. candidate_borrowed c = Inr rc"
  using assms by (auto elim!: fair_candidate_order_Inr simp: collect_res_Inr_iff dest: list_all2_ex2)


section \<open>The weighted rotation\<close>

lemma find_sorted_least:
  fixes f :: "'a \<Rightarrow> 'b :: linorder"
  assumes "sorted (map f xs)" "find P xs = Some c" "c' \<in> set xs" "P c'"
  shows "f c \<le> f c'"
  using assms by (induction xs) (auto split: if_splits)

lemma find_append: "find P (xs @ ys) = (case find P xs of Some x \<Rightarrow> Some x | None \<Rightarrow> find P ys)"
  by (induction xs) auto

lemma rotate_split: "k < length xs \<Longrightarrow> rotate k xs = drop k xs @ take k xs"
  by (simp add: rotate_drop_take)

text \<open>The first available element of a rotated sorted list, and another available one.\<close>

lemma find_rotate_cases:
  fixes f :: "'a \<Rightarrow> 'b :: linorder"
  assumes "sorted (map f xs)" "k < length xs" "find P (rotate k xs) = Some c" "c' \<in> set xs" "P c'"
  shows "c \<in> set (drop k xs) \<and> c' \<in> set (drop k xs) \<and> f c \<le> f c' \<or>
    c \<in> set (drop k xs) \<and> c' \<in> set (take k xs) \<or>
    c \<in> set (take k xs) \<and> c' \<in> set (take k xs) \<and> f c \<le> f c'"
proof -
  from assms(4) have c': "c' \<in> set (drop k xs) \<or> c' \<in> set (take k xs)"
    by (metis UnE append_take_drop_id set_append)
  have sorted: "sorted (map f (drop k xs))" "sorted (map f (take k xs))"
    using assms(1) by (simp_all add: drop_map [symmetric] take_map [symmetric] sorted_wrt_drop sorted_wrt_take)
  show ?thesis
  proof (cases "find P (drop k xs)")
    case None
    then have "c' \<notin> set (drop k xs)" using assms(5) by (auto simp: find_None_iff)
    moreover have "find P (take k xs) = Some c"
      using None assms(2,3) by (simp add: rotate_split find_append)
    ultimately show ?thesis
      using c' find_sorted_least [where P = P, OF sorted(2)] assms(5) find_Some_mem by metis
  next
    case (Some x)
    then have "find P (drop k xs) = Some c" using assms(2,3) by (simp add: rotate_split find_append)
    then show ?thesis
      using c' find_sorted_least [where P = P, OF sorted(1)] assms(5) find_Some_mem by metis
  qed
qed

text \<open>The projects the rotation passes between the last one served and \<open>p\<close>.\<close>

definition ahead :: "string set \<Rightarrow> string \<Rightarrow> string option \<Rightarrow> string set" where
  "ahead U p last_project = (case last_project of
       None \<Rightarrow> {q\<in>U. q < p}
     | Some l \<Rightarrow> if l < p then {q\<in>U. l < q \<and> q < p} else {q\<in>U. l < q \<or> q < p})"

lemma sorted_position_drop:
  fixes ps :: "'a :: linorder list"
  assumes "sorted ps" "position Q ps = Some k"
  shows "\<And>x. x \<in> set (drop k ps) \<Longrightarrow> ps ! k \<le> x" "\<And>x. x \<in> set (take k ps) \<Longrightarrow> x \<le> ps ! k \<and> \<not> Q x"
    "Q (ps ! k)" "k < length ps"
proof -
  from position_Some [OF assms(2)] show k: "k < length ps" "Q (ps ! k)" by simp_all
  show "ps ! k \<le> x" if "x \<in> set (drop k ps)" for x
    using that assms(1) k by (auto simp: in_set_conv_nth sorted_iff_nth_mono)
  show "x \<le> ps ! k \<and> \<not> Q x" if "x \<in> set (take k ps)" for x
    using that assms(1) position_Some [OF assms(2)] by (auto simp: in_set_conv_nth sorted_iff_nth_mono)
qed

text \<open>The project at the head of the rotation and those after it, against those before.\<close>

lemma fair_start_cases:
  assumes "sorted ps" "ps \<noteq> []" "k = fair_start ps last_project remaining"
    and q: "q \<in> set (drop k ps) \<and> p \<in> set (drop k ps) \<and> q \<le> p \<or>
      q \<in> set (drop k ps) \<and> p \<in> set (take k ps) \<or> q \<in> set (take k ps) \<and> p \<in> set (take k ps) \<and> q \<le> p"
    and "q \<noteq> p" "q \<in> U"
  shows "last_project = Some q \<and> remaining > 0 \<or> q \<in> ahead U p last_project"
proof (cases last_project)
  case None
  with assms(3) q show ?thesis using assms(5,6) by (auto simp: fair_start_def ahead_def)
next
  case (Some l)
  show ?thesis
  proof (cases "remaining > 0 \<and> l \<in> set ps")
    case True
    then obtain i where i: "position (\<lambda>q. q = l) ps = Some i"
      using position_None [of "\<lambda>q. q = l" ps] by (cases "position (\<lambda>q. q = l) ps") auto
    with True Some assms(3) have "k = i" by (simp add: fair_start_def)
    with sorted_position_drop [OF assms(1) i] have "\<And>x. x \<in> set (drop k ps) \<Longrightarrow> l \<le> x"
      "\<And>x. x \<in> set (take k ps) \<Longrightarrow> x < l" by (auto simp: order_less_le)
    with q assms(5) have "l \<le> q \<and> q < p \<or> l \<le> q \<and> p < l \<or> q < p \<and> p < l"
      by (auto simp: order_less_le)
    then show ?thesis using True Some assms(6) by (cases "q = l") (auto simp: ahead_def)
  next
    case False
    then have "(if remaining > 0 then position (\<lambda>q. q = l) ps else None) = None" by (auto simp: position_None)
    with Some assms(3) have k: "k = (case position (\<lambda>q. q > l) ps of Some i \<Rightarrow> i | None \<Rightarrow> 0)"
      by (simp add: fair_start_def)
    show ?thesis
    proof (cases "position (\<lambda>q. q > l) ps")
      case None
      then have "\<And>x. x \<in> set ps \<Longrightarrow> x \<le> l" by (auto simp: position_None not_less)
      with None k q assms(5) have "q < p \<and> p \<le> l" by (auto simp: order_less_le)
      with Some assms(6) show ?thesis by (auto simp: ahead_def)
    next
      case (Some i)
      with sorted_position_drop [OF assms(1) Some] k have "\<And>x. x \<in> set (drop k ps) \<Longrightarrow> l < x"
        "\<And>x. x \<in> set (take k ps) \<Longrightarrow> x \<le> l" by fastforce+
      with q assms(5) have "l < q \<and> q < p \<or> l < q \<and> p \<le> l \<or> q < p \<and> p \<le> l"
        by (auto simp: order_less_le)
      then show ?thesis using \<open>last_project = Some l\<close> assms(6) by (auto simp: ahead_def)
    qed
  qed
qed

lemma fair_start_less: "ps \<noteq> [] \<Longrightarrow> fair_start ps last_project remaining < length ps"
  by (auto simp: fair_start_def split: option.splits if_splits dest!: position_Some)

lemma fair_turn:
  assumes order: "fair_candidate_order cs last_project remaining = Inr ordered"
    and c: "find available ordered = Some c" "cd_project_id c \<noteq> p"
    and p: "c' \<in> set ordered" "available c'" "cd_project_id c' = p"
    and U: "cd_project_id ` set ordered \<subseteq> U"
  shows "last_project = Some (cd_project_id c) \<and> remaining > 0 \<or> cd_project_id c \<in> ahead U p last_project"
proof -
  let ?f = "cd_project_id :: ready_candidate \<Rightarrow> string"
  from order obtain bs where bs: "ordered = rotate (fair_start (map ?f (sort_key ?f bs)) last_project remaining) (sort_key ?f bs)"
    by (rule fair_candidate_order_Inr)
  define xs where "xs = sort_key ?f bs"
  define k where "k = fair_start (map ?f xs) last_project remaining"
  have ordered: "ordered = rotate k xs" "sorted (map ?f xs)" by (simp_all add: bs xs_def k_def)
  with p(1) have xs: "c' \<in> set xs" "map ?f xs \<noteq> []" by auto
  have "k < length xs" using fair_start_less [OF xs(2)] by (simp add: k_def)
  note cases = find_rotate_cases [where P = available, OF ordered(2) this _ xs(1) p(2), of c]
  have "c \<in> set ordered" using c(1) by (simp add: find_Some_mem)
  with U have "?f c \<in> U" by blast
  from fair_start_cases [OF ordered(2) xs(2) k_def _ c(2) this] cases c(1) p(3) show ?thesis
    by (simp add: ordered(1) drop_map take_map) blast
qed

definition waiting :: "nat \<Rightarrow> string set \<Rightarrow> string \<Rightarrow> string option \<Rightarrow> nat \<Rightarrow> nat" where
  "waiting W U p last_project remaining = W * card (ahead U p last_project) + remaining"

lemma ahead_shrinks: "q \<in> ahead U p last_project \<Longrightarrow> ahead U p (Some q) \<subseteq> ahead U p last_project - {q}"
  by (auto simp: ahead_def split: option.splits if_splits)

lemma waiting_decreases:
  assumes "finite U" "0 < W" "wp_fairness_weight (pm_workflow (cd_manifest c)) \<le> W"
    and "last_project = Some (cd_project_id c) \<and> remaining > 0 \<or> cd_project_id c \<in> ahead U p last_project"
  shows "waiting W U p (Some (cd_project_id c)) (next_remaining c last_project remaining) <
    waiting W U p last_project remaining"
proof (cases "last_project = Some (cd_project_id c) \<and> remaining > 0")
  case True
  then show ?thesis by (simp add: waiting_def next_remaining_def)
next
  case False
  let ?q = "cd_project_id c"
  from False assms(4) have q: "?q \<in> ahead U p last_project" by blast
  have "finite (ahead U p last_project)" using assms(1) by (simp add: ahead_def split: option.split)
  from card_mono [OF _ ahead_shrinks [OF q]] this q
  have "Suc (card (ahead U p (Some ?q))) \<le> card (ahead U p last_project)"
    by (metis Suc_le_eq card_Diff1_less finite_Diff le_less_trans)
  then have "W * Suc (card (ahead U p (Some ?q))) \<le> W * card (ahead U p last_project)" by (rule mult_le_mono2)
  moreover from False have "next_remaining c last_project remaining = wp_fairness_weight (pm_workflow (cd_manifest c)) - 1"
    by (auto simp: next_remaining_def)
  ultimately show ?thesis using assms(2,3) by (simp add: waiting_def)
qed

lemma grant_lease_Some:
  assumes "grant_lease E w i t d lp rw c sel db = Inr (x, db')"
  shows "\<exists>l. x = Some l \<and> leased_for E w i t d c l \<and> db_last_project_id db' = Some (cd_project_id c) \<and>
    db_remaining_weight db' = int (next_remaining c lp rw)"
proof -
  from assms obtain l db1 where "lease_for_candidate E w i t d c sel db = Inr l" "x = Some l"
    "write_cursor (Some (cd_project_id c)) (int (next_remaining c lp rw)) db1 = Inr ((), db')"
    by (auto simp: grant_lease_def update_fairness_cursor_def tx_bind_Inr_iff)
  then show ?thesis
    by (auto simp: write_cursor_def write_table_Inr_iff dest: lease_for_candidate_Inr)
qed

lemma claim_candidates_serves:
  assumes "claim_candidates E w i t d lp rw cs db = Inr (Some l, db')"
  shows "\<exists>passed c rest db1. cs = passed @ c # rest \<and>
    claim_candidates E w i t d lp rw passed db = Inr (None, db1) \<and> leased_for E w i t d c l \<and>
    db_last_project_id db' = Some (cd_project_id c) \<and> db_remaining_weight db' = int (next_remaining c lp rw)"
  using assms
proof (induction cs arbitrary: db)
  case (Cons c cs)
  then obtain available db1 where lock: "(if candidate_requires_exclusive_delivery c then acquire_mutation_lock c t
       else tx_return True) db = Inr (available, db1)" and
    rest: "(if \<not> available then claim_candidates E w i t d lp rw cs
      else tx_bind (operation_state_for_candidate E c w t) (\<lambda>selection. case selection of
        Busy \<Rightarrow> claim_candidates E w i t d lp rw cs
      | _ \<Rightarrow> grant_lease E w i t d lp rw c selection)) db1 = Inr (Some l, db')"
    unfolding claim_candidates.simps by (elim tx_bind_InrE)
  have next_one: ?case if "claim_candidates E w i t d lp rw cs db2 = Inr (Some l, db')"
    and "\<And>passed db3. claim_candidates E w i t d lp rw passed db2 = Inr (None, db3) \<Longrightarrow>
      claim_candidates E w i t d lp rw (c # passed) db = Inr (None, db3)" for db2
    using Cons.IH [OF that(1)] that(2) by (metis append_Cons)
  show ?case
  proof (cases available)
    case False
    with rest lock show ?thesis by (intro next_one [of db1]) (simp_all add: tx_bind_def)
  next
    case True
    with rest obtain sel db2 where sel: "operation_state_for_candidate E c w t db1 = Inr (sel, db2)"
      and rest: "(case sel of Busy \<Rightarrow> claim_candidates E w i t d lp rw cs
      | _ \<Rightarrow> grant_lease E w i t d lp rw c sel) db2 = Inr (Some l, db')"
      by (auto elim!: tx_bind_InrE)
    show ?thesis
    proof (cases "sel = Busy")
      case busy: True
      with rest lock sel True show ?thesis by (intro next_one [of db2]) (simp_all add: tx_bind_def)
    next
      case False
      with rest have "grant_lease E w i t d lp rw c sel db2 = Inr (Some l, db')" by (cases sel) simp_all
      from grant_lease_Some [OF this] show ?thesis by (intro exI [of _ "[]"]) auto
    qed
  qed
qed simp

end
