(* ===== verification/Scheduler_Exclusion.thy ===== *)
theory Scheduler_Exclusion
  imports Scheduler_Invariants Scheduler_Fairness
begin

text \<open>
  Mutual exclusion of deliveries: the project lock is held exactly by the attempts that own the mutation
  of their project or wait for reconciliation, a node that changes the project is leased only under
  that lock, and so at most one attempt per project changes it at a time.
\<close>

section \<open>The invariant\<close>

definition coherent :: "attempt_row \<Rightarrow> bool" where
  "coherent a \<longleftrightarrow> (at_state a = Attempt_NeedsReconcile) = (at_mutation_state a = Mutation_NeedsReconcile)"

definition locked :: "uuid \<Rightarrow> lock_row list \<Rightarrow> bool" where
  "locked a locks \<longleftrightarrow> a \<in> set (map lk_attempt_id locks)"

definition lock_agrees :: "lock_row list \<Rightarrow> attempt_row \<Rightarrow> bool" where
  "lock_agrees locks a \<longleftrightarrow> coherent a \<and>
     locked (at_attempt_id a) locks = (at_mutation_state a \<in> {Owned, Mutation_NeedsReconcile}) \<and>
     (\<forall>k\<in>set locks. lk_attempt_id k = at_attempt_id a \<longrightarrow>
        (lk_state k = Held) = (at_mutation_state a = Owned))"

text \<open>The project of an attempt, through its request.\<close>

definition attempt_project :: "uuid \<Rightarrow> string \<Rightarrow> 'j db \<Rightarrow> bool" where
  "attempt_project a p db \<longleftrightarrow> (\<exists>q.
     (a, q) \<in> set (map (\<lambda>x. (at_attempt_id x, at_request_id x)) (db_attempts db)) \<and>
     (q, p) \<in> set (map (\<lambda>r. (rq_request_id r, rq_project_id r)) (db_requests db)))"

text \<open>Rollback nodes are never started.\<close>

definition rollback_idle :: "node_row \<Rightarrow> bool" where
  "rollback_idle n \<longleftrightarrow> (nd_activation n = OnMutationFailure \<longrightarrow> nd_state n \<in> {Dormant, Cancelled})"

definition mutates_under_lock :: "lock_row list \<Rightarrow> node_row \<Rightarrow> bool" where
  "mutates_under_lock locks n \<longleftrightarrow>
     (nd_state n = Leased \<and> is_mutation (nd_kind n) \<longrightarrow> locked (nd_attempt_id n) locks)"

definition exclusion_inv :: "'j db \<Rightarrow> bool" where
  "exclusion_inv db \<longleftrightarrow>
     (\<forall>a\<in>set (db_attempts db). lock_agrees (db_locks db) a) \<and>
     (\<forall>k\<in>set (db_locks db). attempt_project (lk_attempt_id k) (lk_project_id k) db) \<and>
     (\<forall>n\<in>set (db_nodes db). rollback_idle n \<and> mutates_under_lock (db_locks db) n)"

lemma grown_map_mem:
  "grown R old new \<Longrightarrow> (\<And>r r'. R r r' \<Longrightarrow> k r' = k r) \<Longrightarrow> x \<in> set (map k old) \<Longrightarrow> x \<in> set (map k new)"
  by (auto dest!: grown_mem) (metis imageI)

lemma attempt_project_stable:
  assumes "attempt_project a p db" "evolves db db'"
  shows "attempt_project a p db'"
proof -
  from assms(2) have "grown attempt_evolves (db_attempts db) (db_attempts db')"
    "grown request_evolves (db_requests db) (db_requests db')" by (simp_all add: evolves_def)
  from grown_map_mem [OF this(1), of "\<lambda>x. (at_attempt_id x, at_request_id x)"]
    grown_map_mem [OF this(2), of "\<lambda>r. (rq_request_id r, rq_project_id r)"] assms(1)
  show ?thesis unfolding attempt_project_def attempt_evolves_def request_evolves_def by blast
qed


section \<open>Statements\<close>

lemma exclusion_update_attempts [keep_rules]:
  assumes "\<And>a. p a \<Longrightarrow> at_attempt_id (f a) = at_attempt_id a \<and> at_request_id (f a) = at_request_id a \<and>
    at_mutation_state (f a) = at_mutation_state a \<and> (coherent a \<longrightarrow> coherent (f a))"
  shows "preserves exclusion_inv (update_attempts p f)"
  unfolding update_attempts_def
proof (rule preserves_change_table)
  fix db :: "'a db"
  assume inv: "exclusion_inv db"
  let ?db = "db\<lparr>db_attempts := update_where p f (db_attempts db)\<rparr>"
  have "attempt_project a pr ?db = attempt_project a pr db" for a pr
    by (simp add: attempt_project_def map_update_where assms del: set_map)
  moreover have "\<forall>a\<in>set (db_attempts ?db). lock_agrees (db_locks db) a"
    using inv by (auto simp: exclusion_inv_def lock_agrees_def assms)
  ultimately show "exclusion_inv ?db" using inv by (simp add: exclusion_inv_def)
qed

lemma exclusion_update_nodes [keep_rules]:
  assumes "\<And>n. p n \<Longrightarrow> nd_attempt_id (f n) = nd_attempt_id n \<and> nd_kind (f n) = nd_kind n \<and>
    nd_activation (f n) = nd_activation n \<and> nd_state (f n) \<noteq> Leased \<and>
    (nd_state n \<in> {Dormant, Cancelled} \<longrightarrow> nd_state (f n) \<in> {Dormant, Cancelled})"
  shows "preserves exclusion_inv (update_nodes p f)"
  unfolding update_nodes_def
  by (rule preserves_change_table)
    (use assms in \<open>auto simp: exclusion_inv_def rollback_idle_def mutates_under_lock_def attempt_project_def\<close>)

lemma exclusion_update_requests [keep_rules]:
  assumes "\<And>r. p r \<Longrightarrow> rq_request_id (f r) = rq_request_id r \<and> rq_project_id (f r) = rq_project_id r"
  shows "preserves exclusion_inv (update_requests p f)"
  unfolding update_requests_def
proof (rule preserves_change_table)
  fix db :: "'a db"
  assume inv: "exclusion_inv db"
  have "attempt_project a pr (db\<lparr>db_requests := update_where p f (db_requests db)\<rparr>) =
    attempt_project a pr db" for a pr
    by (simp add: attempt_project_def map_update_where assms del: set_map)
  with inv show "exclusion_inv (db\<lparr>db_requests := update_where p f (db_requests db)\<rparr>)"
    by (simp add: exclusion_inv_def)
qed

lemma exclusion_other_writes [keep_rules]:
  "preserves exclusion_inv (update_leases pl fl)" "preserves exclusion_inv (write_cursor c w)"
  "preserves exclusion_inv (write_heads h)" "preserves exclusion_inv (insert_request rq)"
  "preserves exclusion_inv (insert_trigger tg)" "preserves exclusion_inv (insert_dependency dp)"
  "preserves exclusion_inv (insert_receipt rc)" "preserves exclusion_inv (insert_cleanup cl)"
  "preserves exclusion_inv (insert_binding ob)" "preserves exclusion_inv (insert_reduction rr)"
  "preserves exclusion_inv (insert_transition tr)" "preserves exclusion_inv (insert_lease lj)"
  unfolding statement_defs
  by (rule preserves_change_table preserves_write_table,
      simp add: exclusion_inv_def attempt_project_def, blast?)+

lemma exclusion_insert_node [keep_rules]:
  "nd_state nd \<noteq> Leased \<Longrightarrow> rollback_idle nd \<Longrightarrow> preserves exclusion_inv (insert_node_row nd)"
  unfolding insert_node_row_def
  by (rule preserves_write_table)
    (auto simp: exclusion_inv_def mutates_under_lock_def attempt_project_def)


section \<open>Steps\<close>

lemma exclusion_append_transition [keep_rules]:
  "preserves exclusion_inv (append_transition a s f t r e tm)"
  unfolding append_transition_def by (intro keep_rules)

lemma exclusion_nodes [keep_rules]:
  "preserves exclusion_inv (release_node a i)"
  "preserves exclusion_inv (cancel_open_nodes a t)"
  "preserves exclusion_inv (revoke_active_leases a t)"
  "preserves exclusion_inv (terminate_request_of a t)"
  unfolding release_node_def cancel_open_nodes_def revoke_active_leases_def terminate_request_of_def
  by (intro keep_rules; simp)+

lemma exclusion_attempts [keep_rules]:
  "preserves exclusion_inv (fail_terminal_workflow a c t)"
  "preserves exclusion_inv (complete_shadow_workflow E ctx t)"
  "preserves exclusion_inv (wake_waiting_attempts t)"
  "preserves exclusion_inv (touch_attempt a t)"
  unfolding fail_terminal_workflow_def complete_shadow_workflow_def wake_waiting_attempts_def
    wake_attempt_def touch_attempt_def
  by (intro keep_rules; simp add: coherent_def)+

lemma exclusion_close_leased_node [keep_rules]:
  assumes "\<And>n. nd_attempt_id (f n) = nd_attempt_id n \<and> nd_kind (f n) = nd_kind n \<and>
    nd_activation (f n) = nd_activation n \<and> nd_state (f n) \<noteq> Leased"
  shows "preserves exclusion_inv (close_leased_node a i f)"
  unfolding close_leased_node_def by (intro keep_rules) (use assms in auto)

text \<open>An attempt set aside for reconciliation keeps its lock.\<close>

lemma exclusion_needs_reconcile:
  assumes "\<And>a. at_attempt_id (f a) = at_attempt_id a \<and> at_request_id (f a) = at_request_id a \<and>
      at_state (f a) = Attempt_NeedsReconcile \<and> at_mutation_state (f a) = Mutation_NeedsReconcile"
    and "\<And>k. lk_attempt_id (g k) = lk_attempt_id k \<and> lk_project_id (g k) = lk_project_id k \<and>
      lk_state (g k) = Lock_NeedsReconcile"
  shows "preserves exclusion_inv
    (tx_bind (expect_one (update_attempts (\<lambda>b. at_attempt_id b = a) f) e) (\<lambda>_.
       expect_one (update_locks (\<lambda>k. lk_attempt_id k = a) g) e'))"
proof (rule preservesI)
  fix db x db'
  assume inv: "exclusion_inv db" and "(tx_bind (expect_one (update_attempts (\<lambda>b. at_attempt_id b = a) f) e)
    (\<lambda>_. expect_one (update_locks (\<lambda>k. lk_attempt_id k = a) g) e')) db = Inr (x, db')"
  then have db': "db' = db\<lparr>db_attempts := update_where (\<lambda>b. at_attempt_id b = a) f (db_attempts db),
      db_locks := update_where (\<lambda>k. lk_attempt_id k = a) g (db_locks db)\<rparr>"
    and "count_where (\<lambda>k. lk_attempt_id k = a) (db_locks db) = 1"
    by (auto simp: expect_one_Inr_iff update_attempts_def update_locks_def change_table_Inr_iff)
  from this(2) obtain k where k: "k \<in> set (db_locks db)" "lk_attempt_id k = a"
    by (rule count_where_1) blast
  have locked: "locked b (db_locks db') = locked b (db_locks db)" for b
    unfolding locked_def by (simp add: db' map_update_where assms(2) del: set_map)
  have project: "attempt_project b p db' = attempt_project b p db" for b p
    unfolding attempt_project_def by (simp add: db' map_update_where assms(1) del: set_map)
  have own: "lk_state k' = Lock_NeedsReconcile" if "k' \<in> set (db_locks db')" "lk_attempt_id k' = a" for k'
    using that assms(2) by (auto simp: db' elim!: update_where_memE)
  have other: "k' \<in> set (db_locks db)" if "k' \<in> set (db_locks db')" "lk_attempt_id k' \<noteq> a" for k'
    using that assms(2) by (auto simp: db' elim!: update_where_memE)
  have "lock_agrees (db_locks db') (if at_attempt_id b = a then f b else b)"
    if "b \<in> set (db_attempts db)" for b
  proof (cases "at_attempt_id b = a")
    case True
    with k assms(1) own show ?thesis by (auto simp: lock_agrees_def coherent_def locked) (auto simp: locked_def)
  next
    case False
    with that inv other show ?thesis by (auto simp: exclusion_inv_def lock_agrees_def locked)
  qed
  then show "exclusion_inv db'"
    using inv assms(2) unfolding exclusion_inv_def project mutates_under_lock_def locked
    by (auto simp: db')
qed

lemma exclusion_reconcile_steps [keep_rules]:
  "preserves exclusion_inv (mark_workflow_needs_reconcile a c t)"
  "preserves exclusion_inv (expire_mutation_lease a i t)"
  unfolding mark_workflow_needs_reconcile_def expire_mutation_lease_def
  by (intro exclusion_needs_reconcile keep_rules; simp)+

lemma exclusion_fail [keep_rules]: "preserves exclusion_inv (fail_workflow a k c h t)"
  unfolding fail_workflow_def by (intro keep_rules)

lemma exclusion_expire_steps [keep_rules]:
  "preserves exclusion_inv (expire_worker_lease a i t)"
  "preserves exclusion_inv (expire_at_deadline a i g t)"
  unfolding expire_worker_lease_def expire_at_deadline_def
  by (intro keep_rules; simp add: coherent_def)+

subsection \<open>Releasing the lock\<close>

definition idle :: "uuid \<Rightarrow> 'j db \<Rightarrow> bool" where
  "idle a db \<longleftrightarrow> (\<forall>n\<in>set (db_nodes db). nd_attempt_id n = a \<longrightarrow> nd_state n \<noteq> Leased)"

lemma attempt_id_unique:
  "attempts_ok db \<Longrightarrow> a \<in> set (db_attempts db) \<Longrightarrow> b \<in> set (db_attempts db) \<Longrightarrow>
   at_attempt_id a = at_attempt_id b \<Longrightarrow> a = b"
  by (auto simp: attempts_ok_def attempt_ids_def dest: distinct_map_unique)

lemma terminate_request_effect:
  assumes "terminate_request_of a t db = Inr (u, db')"
  obtains p where "db' = db\<lparr>db_requests := update_where p
    (\<lambda>r. r\<lparr>rq_state := Request_Terminal, rq_updated_at_ms := t\<rparr>) (db_requests db)\<rparr>"
  using assms by (auto simp: terminate_request_of_def expect_one_Inr_iff update_requests_def change_table_Inr_iff)

lemma exclusion_release:
  assumes ok: "attempts_ok db" and inv: "exclusion_inv db" and "idle a db"
    and attempts: "db1 = db\<lparr>db_attempts := update_where
        (\<lambda>b. at_attempt_id b = a \<and> at_state b = Running) f (db_attempts db)\<rparr>"
    and one: "count_where (\<lambda>b. at_attempt_id b = a \<and> at_state b = Running) (db_attempts db) = 1"
    and f: "\<And>b. at_attempt_id (f b) = at_attempt_id b \<and> at_request_id (f b) = at_request_id b \<and>
      at_state (f b) = Attempt_Succeeded \<and> at_mutation_state (f b) = Mutation_Complete"
    and request: "terminate_request_of a t db1 = Inr (u, db2)"
    and unlock: "expect_one (delete_locks (\<lambda>k. lk_attempt_id k = a \<and> lk_state k = Held)) e db2 = Inr (v, db3)"
  shows "exclusion_inv db3"
proof -
  let ?q = "\<lambda>k. lk_attempt_id k = a \<and> lk_state k = Held"
  from request obtain p where db2: "db2 = db1\<lparr>db_requests := update_where p
    (\<lambda>r. r\<lparr>rq_state := Request_Terminal, rq_updated_at_ms := t\<rparr>) (db_requests db1)\<rparr>"
    by (rule terminate_request_effect)
  from unlock have db3: "db3 = db2\<lparr>db_locks := filter (\<lambda>k. \<not> ?q k) (db_locks db2)\<rparr>"
    and held: "count_where ?q (db_locks db2) = 1"
    by (auto simp: expect_one_Inr_iff delete_locks_def change_table_Inr_iff)
  from one obtain x where x: "x \<in> set (db_attempts db)" "at_attempt_id x = a" "at_state x = Running"
    by (rule count_where_1) blast
  have rows: "(if at_attempt_id b = a \<and> at_state b = Running then f b else b) =
      (if at_attempt_id b = a then f b else b)" if "b \<in> set (db_attempts db)" for b
  proof (cases "at_attempt_id b = a")
    case True
    with x ok that have "b = x" by (metis attempt_id_unique)
    with x show ?thesis by simp
  qed simp
  from held obtain k where "k \<in> set (db_locks db2)" "?q k" by (rule count_where_1) blast
  then have k: "k \<in> set (db_locks db)" "?q k" by (simp_all add: db2 attempts)
  from inv x(1) have "lock_agrees (db_locks db) x" by (simp add: exclusion_inv_def)
  with k x(2) have gone: "\<not> locked a (db_locks db3)"
    by (auto simp: lock_agrees_def locked_def db3 db2 attempts)
  then have none: "lk_attempt_id k \<noteq> a" if "k \<in> set (db_locks db3)" for k
    using that by (auto simp: locked_def)
  have kept: "k \<in> set (db_locks db3) \<longleftrightarrow> k \<in> set (db_locks db)" if "lk_attempt_id k \<noteq> a" for k
    using that by (simp add: db3 db2 attempts)
  then have locked: "locked b (db_locks db3) = locked b (db_locks db)" if "b \<noteq> a" for b
    using that by (auto simp: locked_def)
  have project: "attempt_project b p db3 = attempt_project b p db" for b p
    unfolding attempt_project_def by (simp add: db3 db2 attempts map_update_where f del: set_map)
  have "lock_agrees (db_locks db3) (if at_attempt_id b = a then f b else b)"
    if "b \<in> set (db_attempts db)" for b
    using that inv f gone none kept locked
    by (auto simp: exclusion_inv_def lock_agrees_def coherent_def)
  moreover have "db_attempts db3 = update_where (\<lambda>b. at_attempt_id b = a) f (db_attempts db)"
    using rows by (simp add: db3 db2 attempts update_where_def)
  ultimately have "\<forall>b\<in>set (db_attempts db3). lock_agrees (db_locks db3) b"
    by (simp only: ball_update_where) blast
  moreover have "\<forall>k\<in>set (db_locks db3). attempt_project (lk_attempt_id k) (lk_project_id k) db"
    using inv by (simp add: exclusion_inv_def db3 db2 attempts)
  moreover have "\<forall>n\<in>set (db_nodes db). rollback_idle n \<and> mutates_under_lock (db_locks db3) n"
    using inv \<open>idle a db\<close> locked by (auto simp: exclusion_inv_def mutates_under_lock_def idle_def)
  moreover have "db_nodes db3 = db_nodes db" by (simp add: db3 db2 attempts)
  ultimately show ?thesis unfolding exclusion_inv_def project by simp
qed

lemma carries_release:
  assumes m: "preserves exclusion_inv m"
    and f: "\<And>b. at_attempt_id (f b) = at_attempt_id b \<and> at_request_id (f b) = at_request_id b \<and>
      at_state (f b) = Attempt_Succeeded \<and> at_mutation_state (f b) = Mutation_Complete"
  shows "carries (\<lambda>db. schema_ok db \<and> exclusion_inv db \<and> idle a db)
      (tx_bind (expect_one (update_attempts (\<lambda>b. at_attempt_id b = a \<and> at_state b = Running) f) e) (\<lambda>_.
       tx_bind (terminate_request_of a t) (\<lambda>_.
       tx_bind (expect_one (delete_locks (\<lambda>k. lk_attempt_id k = a \<and> lk_state k = Held)) e') (\<lambda>_. m))))
      exclusion_inv"
proof (rule carriesI, elim tx_bind_InrE)
  fix db x db' u1 db1 u2 db2 u3 db3
  assume inv: "schema_ok db \<and> exclusion_inv db \<and> idle a db"
    and first: "expect_one (update_attempts (\<lambda>b. at_attempt_id b = a \<and> at_state b = Running) f) e db = Inr (u1, db1)"
    and rest: "terminate_request_of a t db1 = Inr (u2, db2)"
      "expect_one (delete_locks (\<lambda>k. lk_attempt_id k = a \<and> lk_state k = Held)) e' db2 = Inr (u3, db3)"
    and last: "m db3 = Inr (x, db')"
  from first have "db1 = db\<lparr>db_attempts := update_where
      (\<lambda>b. at_attempt_id b = a \<and> at_state b = Running) f (db_attempts db)\<rparr>"
    "count_where (\<lambda>b. at_attempt_id b = a \<and> at_state b = Running) (db_attempts db) = 1"
    by (auto simp: expect_one_Inr_iff update_attempts_def change_table_Inr_iff)
  from exclusion_release [OF _ _ _ this f rest] inv have "exclusion_inv db3" by (simp add: schema_ok_def)
  from preservesD [OF m this last] show "exclusion_inv db'" .
qed

lemma exclusion_complete_workflow:
  "carries (\<lambda>db. schema_ok db \<and> exclusion_inv db) (complete_workflow E a t) exclusion_inv"
proof -
  let ?I = "\<lambda>db :: 'a db. schema_ok db \<and> exclusion_inv db"
  let ?P = "\<lambda>db :: 'a db. schema_ok db \<and> exclusion_inv db \<and> idle a db"
  have "preserves (idle a) (update_nodes (\<lambda>n. nd_attempt_id n = a \<and>
      nd_activation n = OnMutationFailure \<and> nd_state n = Dormant)
      (\<lambda>n. n\<lparr>nd_state := Cancelled, nd_completed_at_ms := Some t\<rparr>) :: ('a, nat) stx)"
    unfolding update_nodes_def by (rule preserves_change_table) (simp add: idle_def)
  then have cancel: "preserves ?P (execute (update_nodes (\<lambda>n. nd_attempt_id n = a \<and>
      nd_activation n = OnMutationFailure \<and> nd_state n = Dormant)
      (\<lambda>n. n\<lparr>nd_state := Cancelled, nd_completed_at_ms := Some t\<rparr>)))"
    by (intro preserves_execute preserves_conj keep_rules) simp_all
  have idle: "idle a db" if "exclusion_inv db" "count_where (\<lambda>n. nd_attempt_id n = a \<and>
      nd_activation n = Always \<and> nd_state n \<noteq> Node_Succeeded) (db_nodes db) = 0" for db :: "'a db"
  proof -
    from that have "nd_state n \<noteq> Leased" if "n \<in> set (db_nodes db)" "nd_attempt_id n = a" for n
      using that by (cases "nd_activation n") (auto simp: exclusion_inv_def rollback_idle_def)
    then show ?thesis by (simp add: idle_def)
  qed
  show ?thesis
    unfolding complete_workflow_def
    by (rule carries_query_bind [where F = "\<lambda>n db. n = 0 \<longrightarrow> idle a db"], use idle in blast,
        intro carries_reads carries_ensure_bind carries_strengthen [OF carries_bind_kept [OF cancel]]
          carries_release keep_rules) simp_all
qed


section \<open>Claims\<close>

text \<open>What a candidate says of the store it was read from stays true.\<close>

definition candidate_bound :: "ready_candidate \<Rightarrow> 'j db \<Rightarrow> bool" where
  "candidate_bound c db \<longleftrightarrow> attempt_project (cd_attempt_id c) (cd_project_id c) db \<and>
     ((cd_attempt_id c, n_node_id (cd_node c)), n_kind (cd_node c)) \<in>
       set (map (\<lambda>n. (node_key n, nd_kind n)) (db_nodes db)) \<and>
     (is_mutation (n_kind (cd_node c)) \<longrightarrow> cd_execution_mode c = Deploy_mode)"

lemma candidate_bound_stable:
  assumes "candidate_bound c db" "evolves db db'"
  shows "candidate_bound c db'"
proof -
  from assms(2) have "grown node_evolves (db_nodes db) (db_nodes db')" by (simp add: evolves_def)
  from grown_map_mem [OF this, of "\<lambda>n. (node_key n, nd_kind n)"] assms attempt_project_stable
  show ?thesis unfolding candidate_bound_def node_evolves_def by blast
qed

lemma shadow_not_mutation: "shadow_executes k \<Longrightarrow> \<not> is_mutation k"
  by (cases k) (simp_all add: is_mutation_def)

lemma candidates_bound:
  assumes "load_ready_candidates E w db = Inr cs"
    and "fair_candidate_order cs last_project remaining = Inr ordered" "rc \<in> set ordered"
  shows "candidate_bound rc db"
proof -
  from fair_candidate_order_mem [OF assms(2,3)] obtain c where c: "c \<in> set cs" "candidate_borrowed c = Inr rc"
    by blast
  from load_ready_candidates_Inr(3) [OF assms(1) c(1)] obtain n a r m
    where row: "(n, a, r) \<in> set (read_ready_candidate_rows db)" "read_from (n, a, r) c m" by auto
  note mem = read_ready_rows [OF row(1)]
  from candidate_borrowed_Inr(1) [OF c(2)] have same: "cd_attempt_id rc = cd_attempt_id c"
    "cd_project_id rc = cd_project_id c" "cd_execution_mode rc = cd_execution_mode c"
    by (auto simp: candidate_owned.truncate_def)
  from candidate_borrowed_Inr(2) [OF c(2)] row(2) have node: "cd_node rc = m" "n_node_id m = nd_node_id n"
    "n_kind m = nd_kind n" "rq_operation_kind r = Shadow_mode \<longrightarrow> shadow_executes (n_kind m)"
    by (auto simp: read_from_def policy_node_def dest: find_node_Some)
  have "attempt_project (cd_attempt_id rc) (cd_project_id rc) db"
  proof -
    have "(cd_attempt_id rc, at_request_id a) \<in> (\<lambda>x. (at_attempt_id x, at_request_id x)) ` set (db_attempts db)"
      "(at_request_id a, cd_project_id rc) \<in> (\<lambda>r. (rq_request_id r, rq_project_id r)) ` set (db_requests db)"
      using mem(2-5) row(2) by (auto simp: read_from_def same intro: rev_image_eqI)
    then show ?thesis unfolding attempt_project_def by auto
  qed
  moreover have "node_key n = (cd_attempt_id rc, n_node_id (cd_node rc))"
    using mem row(2) node by (simp add: node_key_def same read_from_def)
  moreover have "is_mutation (n_kind m) \<longrightarrow> cd_execution_mode rc = Deploy_mode"
    using row(2) node(4) shadow_not_mutation by (cases "rq_operation_kind r") (auto simp: same read_from_def)
  ultimately show ?thesis using mem(1) node by (auto simp: candidate_bound_def intro: rev_image_eqI)
qed

lemma exclusion_lock:
  assumes ok: "attempts_ok db" and inv: "exclusion_inv db" and bound: "attempt_project a p db"
    and one: "count_where (\<lambda>b. at_attempt_id b = a \<and> at_mutation_state b = NotStarted) (db_attempts db) = 1"
    and k: "lk_attempt_id k = a" "lk_project_id k = p" "lk_state k = Held"
    and f: "\<And>b. at_attempt_id (f b) = at_attempt_id b \<and> at_request_id (f b) = at_request_id b \<and>
      at_state (f b) = at_state b \<and> at_mutation_state (f b) = Owned"
    and db': "db' = db\<lparr>db_locks := db_locks db @ [k], db_attempts := update_where
      (\<lambda>b. at_attempt_id b = a \<and> at_mutation_state b = NotStarted) f (db_attempts db)\<rparr>"
  shows "exclusion_inv db'"
proof -
  from one obtain x where x: "x \<in> set (db_attempts db)" "at_attempt_id x = a" "at_mutation_state x = NotStarted"
    by (rule count_where_1) blast
  from inv x(1) have "lock_agrees (db_locks db) x" by (simp add: exclusion_inv_def)
  with x have free: "\<not> locked a (db_locks db)" and "at_state x \<noteq> Attempt_NeedsReconcile"
    by (auto simp: lock_agrees_def coherent_def)
  then have none: "lk_attempt_id j \<noteq> a" if "j \<in> set (db_locks db)" for j using that by (auto simp: locked_def)
  have locked: "locked b (db_locks db') = (b = a \<or> locked b (db_locks db))" for b
    using k(1) by (auto simp: locked_def db')
  have project: "attempt_project b q db' = attempt_project b q db" for b q
    unfolding attempt_project_def by (simp add: db' map_update_where f del: set_map)
  have "lock_agrees (db_locks db') (if at_attempt_id b = a \<and> at_mutation_state b = NotStarted then f b else b)"
    if b: "b \<in> set (db_attempts db)" for b
  proof (cases "at_attempt_id b = a")
    case True
    with b x ok have "b = x" by (metis attempt_id_unique)
    with x f k none \<open>at_state x \<noteq> _\<close> show ?thesis
      by (auto simp: lock_agrees_def coherent_def locked) (auto simp: db')
  next
    case False
    with b inv k show ?thesis by (auto simp: exclusion_inv_def lock_agrees_def locked) (auto simp: db')
  qed
  then have "\<forall>b\<in>set (db_attempts db'). lock_agrees (db_locks db') b" by (simp add: db')
  moreover have "\<forall>j\<in>set (db_locks db'). attempt_project (lk_attempt_id j) (lk_project_id j) db"
    using inv k bound by (auto simp: exclusion_inv_def db')
  moreover have "\<forall>n\<in>set (db_nodes db'). rollback_idle n \<and> mutates_under_lock (db_locks db') n"
    using inv by (auto simp: exclusion_inv_def mutates_under_lock_def locked) (simp_all add: db')
  ultimately show ?thesis unfolding exclusion_inv_def project by simp
qed

lemma yields_acquire:
  "yields (\<lambda>db. schema_ok db \<and> exclusion_inv db \<and> candidate_bound c db) (acquire_mutation_lock c t)
     (\<lambda>available db. exclusion_inv db \<and> (available \<longrightarrow> locked (cd_attempt_id c) (db_locks db)))"
proof (rule yieldsI)
  fix db x db'
  assume inv: "schema_ok db \<and> exclusion_inv db \<and> candidate_bound c db"
    and m: "acquire_mutation_lock c t db = Inr (x, db')"
  show "exclusion_inv db' \<and> (x \<longrightarrow> locked (cd_attempt_id c) (db_locks db'))"
  proof (cases "find (\<lambda>l. lk_project_id l = cd_project_id c) (db_locks db)")
    case (Some lock)
    then have "lock \<in> set (db_locks db)" by (simp add: find_Some_mem)
    then have "locked (lk_attempt_id lock) (db_locks db)" by (simp add: locked_def)
    with Some m inv show ?thesis
      by (auto simp: acquire_mutation_lock_def tx_bind_def split: if_splits)
  next
    case None
    let ?k = "\<lparr> lk_project_id = cd_project_id c, lk_attempt_id = cd_attempt_id c,
      lk_state = Held, lk_acquired_at_ms = t, lk_updated_at_ms = t \<rparr>"
    let ?f = "\<lambda>a :: attempt_row. a\<lparr>at_mutation_state := Owned, at_updated_at_ms := t\<rparr>"
    from None m have db': "db' = db\<lparr>db_locks := db_locks db @ [?k], db_attempts := update_where
        (\<lambda>b. at_attempt_id b = cd_attempt_id c \<and> at_mutation_state b = NotStarted) ?f (db_attempts db)\<rparr>"
      and "count_where (\<lambda>b. at_attempt_id b = cd_attempt_id c \<and> at_mutation_state b = NotStarted) (db_attempts db) = 1"
      by (auto simp: acquire_mutation_lock_def insert_lock_def write_table_Inr_iff expect_one_Inr_iff
          update_attempts_def change_table_Inr_iff tx_bind_Inr_iff)
    from exclusion_lock [OF _ _ _ this(2) _ refl _ _ this(1)] inv have "exclusion_inv db'"
      by (simp add: schema_ok_def candidate_bound_def)
    moreover have "locked (cd_attempt_id c) (db_locks db')" by (simp add: db' locked_def)
    ultimately show ?thesis by simp
  qed
qed

text \<open>The node of a claim may be leased: a mutation node only under the lock of its attempt.\<close>

definition may_lease :: "uuid \<Rightarrow> node_id \<Rightarrow> 'j db \<Rightarrow> bool" where
  "may_lease a i db \<longleftrightarrow> (\<forall>n\<in>set (db_nodes db). nd_attempt_id n = a \<longrightarrow> nd_node_id n = i \<longrightarrow>
     is_mutation (nd_kind n) \<longrightarrow> locked a (db_locks db))"

lemma exclusion_lease_node:
  "carries (\<lambda>db. exclusion_inv db \<and> may_lease a i db)
     (update_nodes (\<lambda>n. nd_attempt_id n = a \<and> nd_node_id n = i \<and> nd_state n = Ready \<and> nd_lease_generation n = g)
        (\<lambda>n. n\<lparr>nd_state := Leased, nd_lease_generation := g'\<rparr>)) exclusion_inv"
  unfolding update_nodes_def
  by (rule carries_change_table)
    (auto simp: exclusion_inv_def attempt_project_def rollback_idle_def mutates_under_lock_def may_lease_def)

lemma exclusion_persist:
  "carries (\<lambda>db. exclusion_inv db \<and> may_lease (ls_attempt_id l) (ls_node_id l) db)
     (persist_active_lease E l g t) exclusion_inv"
proof -
  have insert: "preserves (\<lambda>db. exclusion_inv db \<and> may_lease (ls_attempt_id l) (ls_node_id l) db) (insert_lease row)" for row
    by (intro preserves_conj keep_rules)
      (auto simp: insert_lease_def may_lease_def intro!: preserves_write_table)
  show ?thesis
    unfolding persist_active_lease_def
    by (intro carries_reads carries_bind_kept [OF insert] carries_bind [OF carries_expect_one [OF exclusion_lease_node]]
        carries_preserved keep_rules) (auto simp: coherent_def)
qed

lemma may_lease_bound:
  assumes "schema_ok db" "candidate_bound c db"
    and "candidate_requires_exclusive_delivery c \<Longrightarrow> locked (cd_attempt_id c) (db_locks db)"
  shows "may_lease (cd_attempt_id c) (n_node_id (cd_node c)) db"
proof -
  from assms(2) obtain x where x: "x \<in> set (db_nodes db)"
    "node_key x = (cd_attempt_id c, n_node_id (cd_node c))" "nd_kind x = n_kind (cd_node c)"
    by (auto simp: candidate_bound_def)
  have "n = x" if "n \<in> set (db_nodes db)" "nd_attempt_id n = cd_attempt_id c" "nd_node_id n = n_node_id (cd_node c)" for n
    using that x assms(1) by (intro node_key_unique) (auto simp: schema_ok_def node_key_def)
  with x(3) assms(2,3) show ?thesis
    unfolding may_lease_def candidate_requires_exclusive_delivery_def candidate_bound_def by metis
qed

lemma exclusion_cursor [keep_rules]: "preserves exclusion_inv (update_fairness_cursor c lp rw)"
  unfolding update_fairness_cursor_def by (intro keep_rules)

lemma exclusion_grant:
  "carries (\<lambda>db. schema_ok db \<and> exclusion_inv db \<and> candidate_bound c db \<and>
      (candidate_requires_exclusive_delivery c \<longrightarrow> locked (cd_attempt_id c) (db_locks db)))
     (grant_lease E w i t d lp rw c sel) exclusion_inv"
  unfolding grant_lease_def
proof (rule carries_try_bind [where F = "\<lambda>l db. ls_attempt_id l = cd_attempt_id c \<and> ls_node_id l = n_node_id (cd_node c)"])
  fix l :: lease
  have "preserves exclusion_inv (tx_bind (update_fairness_cursor c lp rw) (\<lambda>_. tx_return (Some l)) :: ('a, lease option) stx)"
    by (intro keep_rules)
  from carries_bind [OF exclusion_persist carries_preserved [OF this]]
  show "carries (\<lambda>db. (schema_ok db \<and> exclusion_inv db \<and> candidate_bound c db \<and>
      (candidate_requires_exclusive_delivery c \<longrightarrow> locked (cd_attempt_id c) (db_locks db))) \<and>
      ls_attempt_id l = cd_attempt_id c \<and> ls_node_id l = n_node_id (cd_node c))
     (tx_bind (persist_active_lease E l (cd_lease_generation c) t) (\<lambda>_.
      tx_bind (update_fairness_cursor c lp rw) (\<lambda>_. tx_return (Some l)))) exclusion_inv"
    by (rule carries_strengthen) (auto intro: may_lease_bound)
qed (auto simp: leased_for_def dest: lease_for_candidate_Inr)

definition claimable :: "ready_candidate list \<Rightarrow> 'j db \<Rightarrow> bool" where
  "claimable cs db \<longleftrightarrow> schema_ok db \<and> exclusion_inv db \<and> (\<forall>c\<in>set cs. candidate_bound c db)"

lemma preserves_bound:
  "(\<And>db0. preserves (evolves db0) m) \<Longrightarrow> preserves (\<lambda>db. \<forall>c\<in>set cs. candidate_bound c db) m"
  by (erule preserves_stable) (use candidate_bound_stable in blast)

lemma locks_insert_binding [keep_rules]: "preserves (\<lambda>db. P (db_locks db)) (insert_binding b)"
  unfolding insert_binding_def by (rule preserves_write_table) simp

lemma exclusion_operation_state [keep_rules]:
  "preserves exclusion_inv (operation_state_for_candidate E c w t)"
  "preserves (\<lambda>db. P (db_locks db)) (operation_state_for_candidate E c w t)"
  unfolding operation_state_for_candidate_def bind_operation_state_def
  by (intro keep_rules)+

lemma yields_available:
  "yields (claimable (c # cs)) (if candidate_requires_exclusive_delivery c then acquire_mutation_lock c t
       else tx_return True)
     (\<lambda>available db. claimable (c # cs) db \<and>
       (available \<longrightarrow> candidate_requires_exclusive_delivery c \<longrightarrow> locked (cd_attempt_id c) (db_locks db)))"
proof (rule yieldsI)
  fix db x db'
  assume inv: "claimable (c # cs) db"
    and m: "(if candidate_requires_exclusive_delivery c then acquire_mutation_lock c t else tx_return True) db
      = Inr (x, db')"
  show "claimable (c # cs) db' \<and>
     (x \<longrightarrow> candidate_requires_exclusive_delivery c \<longrightarrow> locked (cd_attempt_id c) (db_locks db'))"
  proof (cases "candidate_requires_exclusive_delivery c")
    case True
    with m have acquire: "acquire_mutation_lock c t db = Inr (x, db')" by simp
    have "preserves (\<lambda>db. schema_ok db \<and> (\<forall>c\<in>set (c # cs). candidate_bound c db)) (acquire_mutation_lock c t)"
      by (intro preserves_conj preserves_bound keep_rules)
    from preservesD [OF this _ acquire] inv
    have "schema_ok db' \<and> (\<forall>c\<in>set (c # cs). candidate_bound c db')" by (simp add: claimable_def)
    with yields_acquire acquire inv True show ?thesis unfolding yields_def claimable_def by simp blast
  qed (use m inv in simp)
qed

lemma exclusion_claim_candidates:
  "carries (claimable cs) (claim_candidates E w i t d lp rw cs) exclusion_inv"
proof (induction cs)
  case Nil
  show ?case unfolding claim_candidates.simps by (rule carries_return) (simp add: claimable_def)
next
  case (Cons c cs)
  let ?P = "\<lambda>db :: 'a db. claimable (c # cs) db \<and>
    (candidate_requires_exclusive_delivery c \<longrightarrow> locked (cd_attempt_id c) (db_locks db))"
  have kept: "preserves ?P (operation_state_for_candidate E c w t)"
    unfolding claimable_def by (intro preserves_conj preserves_bound keep_rules)
  have skip: "carries ?P (claim_candidates E w i t d lp rw cs) exclusion_inv"
    by (rule carries_strengthen [OF Cons.IH]) (simp add: claimable_def)
  have grant: "carries ?P (grant_lease E w i t d lp rw c sel) exclusion_inv" for sel
    by (rule carries_strengthen [OF exclusion_grant]) (simp add: claimable_def)
  have "carries (\<lambda>db. claimable (c # cs) db \<and>
      (available \<longrightarrow> candidate_requires_exclusive_delivery c \<longrightarrow> locked (cd_attempt_id c) (db_locks db)))
     (if \<not> available then claim_candidates E w i t d lp rw cs
      else tx_bind (operation_state_for_candidate E c w t) (\<lambda>selection. case selection of
        Busy \<Rightarrow> claim_candidates E w i t d lp rw cs
      | _ \<Rightarrow> grant_lease E w i t d lp rw c selection)) exclusion_inv" for available
  proof (cases available)
    case False
    then show ?thesis by simp (rule carries_strengthen [OF Cons.IH], simp add: claimable_def)
  next
    case True
    have "carries ?P (case selection of Busy \<Rightarrow> claim_candidates E w i t d lp rw cs
      | _ \<Rightarrow> grant_lease E w i t d lp rw c selection) exclusion_inv" for selection
      by (cases selection) (simp_all add: skip grant)
    from carries_bind_kept [OF kept this] True show ?thesis by simp
  qed
  from carries_bind_yields [OF yields_available this] show ?case by simp
qed

lemma exclusion_claim:
  "carries (\<lambda>db. schema_ok db \<and> exclusion_inv db) (claim_next_transaction E w i t d) exclusion_inv"
proof -
  have wake: "preserves (\<lambda>db. schema_ok db \<and> exclusion_inv db) (wake_waiting_attempts t)"
    by (intro preserves_conj keep_rules)
  have "carries (\<lambda>db. (schema_ok db \<and> exclusion_inv db) \<and> load_ready_candidates E w db = Inr cs)
      (if cs = [] then tx_return None
       else tx_bind (tx_try load_fairness_cursor) (\<lambda>(lp, rw).
         tx_bind (tx_lift (fair_candidate_order cs lp rw)) (\<lambda>ordered.
         claim_candidates E w i t d lp rw ordered))) exclusion_inv" for cs
  proof (rule carriesI)
    fix db x db'
    assume inv: "(schema_ok db \<and> exclusion_inv db) \<and> load_ready_candidates E w db = Inr cs"
      and m: "(if cs = [] then tx_return None
       else tx_bind (tx_try load_fairness_cursor) (\<lambda>(lp, rw).
         tx_bind (tx_lift (fair_candidate_order cs lp rw)) (\<lambda>ordered.
         claim_candidates E w i t d lp rw ordered))) db = Inr (x, db')"
    show "exclusion_inv db'"
    proof (cases "cs = []")
      case False
      with m obtain lp rw ordered where "fair_candidate_order cs lp rw = Inr ordered"
        "claim_candidates E w i t d lp rw ordered db = Inr (x, db')" by (auto split: prod.splits)
      with carriesD [OF exclusion_claim_candidates _ this(2)] inv candidates_bound [OF _ this(1)]
      show ?thesis unfolding claimable_def by blast
    qed (use m inv in simp)
  qed
  then show ?thesis unfolding claim_next_transaction_def
    by (intro carries_bind_kept [OF wake] carries_try_bind [where F = "\<lambda>cs db. load_ready_candidates E w db = Inr cs"])
qed


section \<open>The other operations\<close>

abbreviation exclusive :: "'j db \<Rightarrow> bool" where
  "exclusive db \<equiv> schema_ok db \<and> exclusion_inv db"

lemmas exclusive_structure = preserves_bind preserves_each preserves_simple preserves_when preserves_if
  preserves_option preserves_prod preserves_let

lemma exclusive_complete: "preserves exclusive (complete_workflow E a t)"
  by (rule preserves_carries_conj [OF schema_complete_workflow exclusion_complete_workflow])

lemma exclusive_claim: "preserves exclusive (claim_next_transaction E w i t d)"
  by (rule preserves_carries_conj [OF schema_claim exclusion_claim])

lemma exclusion_expire: "preserves exclusion_inv (expire_leases_transaction E t)"
  unfolding expire_leases_transaction_def expire_one_lease_def by (intro keep_rules)

lemma exclusion_renew: "preserves exclusion_inv (renew_lease_transaction E l t d)"
  unfolding renew_lease_transaction_def by (intro keep_rules)

lemma exclusion_cleanup: "preserves exclusion_inv (commit_cleanup_receipt_transaction E c j t)"
  unfolding commit_cleanup_receipt_transaction_def by (intro keep_rules) (simp_all add: coherent_def)

lemma exclusion_persist_receipt [keep_rules]: "preserves exclusion_inv (persist_node_receipt r j t h)"
  unfolding persist_node_receipt_def by (intro keep_rules)
    (simp_all add: coherent_def receipt_terminal_node_state_def split: node_outcome.split)

lemma exclusive_receipt: "preserves exclusive (commit_node_receipt_transaction E r j t)"
  unfolding commit_node_receipt_transaction_def apply_node_receipt_outcome_def
  by (intro exclusive_complete preserves_bind preserves_simple preserves_if preserves_option preserves_let
     preserves_node_outcome preserves_conj keep_rules)

lemma exclusive_reduce: "preserves exclusive (reduce_attempt_transaction E a t)"
  unfolding reduce_attempt_transaction_def record_reduction_def
  by (intro exclusive_complete exclusive_structure preserves_conj keep_rules) simp_all

lemma exclusion_create_node:
  assumes "n_activation n = OnMutationFailure \<longrightarrow> n_kind n = Rollback_node"
  shows "preserves exclusion_inv (create_node m ad a w t (k, n))"
proof (cases "initial_node_state ad w t (n_kind n)")
  case (fields state out rcpt completed)
  then have "state \<noteq> Leased \<and> (n_activation n = OnMutationFailure \<longrightarrow> state \<in> {Dormant, Cancelled})"
    using assms by (auto simp: initial_node_state_def split: if_splits)
  with fields show ?thesis
    unfolding create_node_def
    by (simp add: rollback_idle_def) (intro keep_rules; simp add: rollback_idle_def)
qed

lemma exclusion_insert_attempt:
  assumes "at_mutation_state a = NotStarted" "at_state a \<noteq> Attempt_NeedsReconcile"
  shows "carries exclusive (insert_attempt a) exclusion_inv"
proof (rule carriesI)
  fix db x db'
  assume inv: "exclusive db" and m: "insert_attempt a db = Inr (x, db')"
  then have db': "db' = db\<lparr>db_attempts := db_attempts db @ [a]\<rparr>" "attempts_ok db'"
    by (simp_all add: insert_attempt_def write_table_Inr_iff)
  then have "at_attempt_id a \<notin> set (attempt_ids db)" by (simp add: attempts_ok_def attempt_ids_def)
  moreover have "lk_attempt_id k \<in> set (attempt_ids db)" if "k \<in> set (db_locks db)" for k
    using inv that by (auto simp: schema_ok_def locks_ok_def list_all_iff)
  ultimately have "\<forall>k\<in>set (db_locks db). lk_attempt_id k \<noteq> at_attempt_id a" by metis
  with assms have "lock_agrees (db_locks db) a" by (auto simp: lock_agrees_def coherent_def locked_def)
  moreover have "attempt_project b p db'" if "attempt_project b p db" for b p
    using that unfolding attempt_project_def by (auto simp: db')
  ultimately show "exclusion_inv db'" using inv by (auto simp: exclusion_inv_def db')
qed

lemma exclusive_insert_attempt:
  assumes "at_mutation_state a = NotStarted" "at_state a \<noteq> Attempt_NeedsReconcile"
  shows "preserves exclusive (insert_attempt a)"
  by (rule preserves_carries_conj [OF schema_insert_referenced(2) exclusion_insert_attempt [OF assms]])

lemma exclusive_create_nodes:
  assumes "ordered_nodes (pm_workflow m) = Inr ns"
  shows "preserves exclusive (tx_each (create_node m ad a w t) (zip [0..<length ns] ns))"
proof (rule preserves_each_mem)
  fix x
  assume x: "x \<in> set (zip [0..<length ns] ns)"
  obtain k n where kn: "x = (k, n)" by (cases x)
  with x have "n \<in> set ns" by (auto dest: set_zip_rightD)
  with ordered_nodes_activation [OF assms] have "n_activation n = OnMutationFailure \<longrightarrow> n_kind n = Rollback_node"
    by blast
  from exclusion_create_node [OF this] schema_create_node show "preserves exclusive (create_node m ad a w t x)"
    unfolding kn by (intro preserves_conj)
qed

lemma exclusive_supersede: "preserves exclusive (supersede_pre_mutation_attempts p mode r t)"
  unfolding supersede_pre_mutation_attempts_def supersede_attempt_def
  by (intro exclusive_structure preserves_conj keep_rules) (simp_all add: coherent_def)

lemma exclusive_create_attempt: "preserves exclusive (create_attempt E m ad r a w t)"
proof -
  have "preserves exclusive (tx_bind (tx_lift (map_err WorkflowContract (ordered_nodes (pm_workflow m)))) (\<lambda>ordered.
     tx_bind (tx_each (create_node m ad a w t) (zip [0..<length ordered] ordered)) (\<lambda>_.
     tx_bind (append_transition a (Subject_attempt a) None s ''source_admitted'' e t) (\<lambda>_.
     tx_try (load_attempt_snapshot E a)))))" for s e
    by (intro preserves_lift_bind preserves_bind exclusive_create_nodes preserves_simple preserves_conj keep_rules) simp
  note rest = this
  show ?thesis
    unfolding create_attempt_def Let_def
    by (intro rest preserves_bind [OF preserves_simple(5)] preserves_bind [OF exclusive_insert_attempt]) simp_all
qed

lemma exclusive_admit: "preserves exclusive (admit_transaction E m j ad r a t)"
  unfolding admit_transaction_def record_trigger_def update_project_head_def
  by (intro exclusive_supersede exclusive_create_attempt exclusive_structure preserves_conj keep_rules)

section \<open>Mutual exclusion of mutations\<close>

lemma exclusion_empty: "exclusion_inv empty_db"
  by (simp add: exclusion_inv_def empty_db_def)

lemma exclusive_others:
  "preserves exclusive (expire_leases_transaction E t)"
  "preserves exclusive (renew_lease_transaction E l t d)"
  "preserves exclusive (commit_cleanup_receipt_transaction E c j t)"
  by (rule preserves_conj, rule keep_rules, rule exclusion_expire exclusion_renew exclusion_cleanup)+

interpretation exclusion: transaction_invariant E exclusive for E :: "('j, 'x) sched_codec_scheme"
  by unfold_locales
    (rule exclusive_admit exclusive_claim exclusive_receipt exclusive_reduce exclusive_others
      conjI [OF schema_empty exclusion_empty])+

lemma attempt_project_unique:
  assumes "schema_ok db" "attempt_project a p db" "attempt_project a q db"
  shows "p = q"
proof -
  from assms(2,3) obtain x y r r' where xy: "x \<in> set (db_attempts db)" "y \<in> set (db_attempts db)"
    "at_attempt_id x = a" "at_attempt_id y = a" and r: "r \<in> set (db_requests db)" "r' \<in> set (db_requests db)"
    "rq_request_id r = at_request_id x" "rq_request_id r' = at_request_id y"
    "rq_project_id r = p" "rq_project_id r' = q"
    by (fastforce simp: attempt_project_def)
  from xy assms(1) have "x = y" by (intro attempt_id_unique) (auto simp: schema_ok_def)
  with r assms(1) have "r = r'"
    by (auto simp: schema_ok_def requests_ok_def request_ids_def dest: distinct_map_unique)
  with r show ?thesis by simp
qed

end
