(* ===== verification/Scheduler_Order.thy ===== *)
theory Scheduler_Order
  imports Scheduler_Exclusion
begin

text \<open>
  The order in which the nodes of an attempt run: in every reachable store, everything a started node
  depends on has succeeded.
\<close>

section \<open>Dependencies come first\<close>

definition succeeded :: "uuid \<times> node_id \<Rightarrow> node_row list \<Rightarrow> bool" where
  "succeeded k nodes \<longleftrightarrow> (k, Node_Succeeded) \<in> set (map (\<lambda>n. (node_key n, nd_state n)) nodes)"

definition dependencies_met :: "uuid \<Rightarrow> node_id \<Rightarrow> 'j db \<Rightarrow> bool" where
  "dependencies_met a i db \<longleftrightarrow> (\<forall>d\<in>set (db_dependencies db). dp_attempt_id d = a \<and> dp_node_id d = i \<longrightarrow>
     succeeded (a, dp_dependency_node_id d) (db_nodes db))"

text \<open>The host preparation of a waiting attempt is released without looking at its dependencies.\<close>

definition begun :: "node_row \<Rightarrow> bool" where
  "begun n \<longleftrightarrow> nd_state n \<notin> {Dormant, Blocked, Cancelled} \<or> nd_kind n = HostPrepare"

definition order_inv :: "'j db \<Rightarrow> bool" where
  "order_inv db \<longleftrightarrow> (\<forall>n\<in>set (db_nodes db). begun n \<longrightarrow> dependencies_met (nd_attempt_id n) (nd_node_id n) db)"

lemma succeeded_update:
  assumes "succeeded k nodes"
    and "\<And>n. p n \<Longrightarrow> node_key (f n) = node_key n \<and> (nd_state n = Node_Succeeded \<longrightarrow> nd_state (f n) = Node_Succeeded)"
  shows "succeeded k (update_where p f nodes)"
proof -
  let ?g = "\<lambda>n. if p n then f n else n"
  from assms(1) obtain n where n: "n \<in> set nodes" "node_key n = k" "nd_state n = Node_Succeeded"
    by (auto simp: succeeded_def)
  with assms(2) [of n] have "node_key (?g n) = k" "nd_state (?g n) = Node_Succeeded" by simp_all
  moreover have "?g n \<in> set (update_where p f nodes)" using n(1) by (simp add: update_where_def)
  ultimately show ?thesis unfolding succeeded_def by force
qed

lemma succeeded_append [simp]: "succeeded k nodes \<Longrightarrow> succeeded k (nodes @ ns)"
  by (auto simp: succeeded_def)

lemma met_update_nodes:
  assumes "\<And>n. p n \<Longrightarrow> node_key (f n) = node_key n \<and> (nd_state n = Node_Succeeded \<longrightarrow> nd_state (f n) = Node_Succeeded)"
    and "dependencies_met a i db"
  shows "dependencies_met a i (db\<lparr>db_nodes := update_where p f (db_nodes db)\<rparr>)"
proof -
  have "succeeded k (update_where p f (db_nodes db))" if "succeeded k (db_nodes db)" for k
    by (rule succeeded_update [OF that assms(1)])
  with assms(2) show ?thesis by (simp add: dependencies_met_def)
qed

lemma preserves_met_update [keep_rules]:
  assumes "\<And>n. p n \<Longrightarrow> node_key (f n) = node_key n \<and> (nd_state n = Node_Succeeded \<longrightarrow> nd_state (f n) = Node_Succeeded)"
  shows "preserves (dependencies_met a i) (update_nodes p f)"
  unfolding update_nodes_def by (rule preserves_change_table) (rule met_update_nodes [OF assms])

lemma order_update_nodes [keep_rules]:
  assumes "\<And>n. p n \<Longrightarrow> node_key (f n) = node_key n \<and> (begun (f n) \<longrightarrow> begun n) \<and>
    (nd_state n = Node_Succeeded \<longrightarrow> nd_state (f n) = Node_Succeeded)"
  shows "preserves order_inv (update_nodes p f)"
  unfolding update_nodes_def
proof (rule preserves_change_table)
  fix db :: "'a db"
  assume inv: "order_inv db"
  let ?db = "db\<lparr>db_nodes := update_where p f (db_nodes db)\<rparr>"
  have "dependencies_met a i ?db" if "dependencies_met a i db" for a i
    by (rule met_update_nodes [OF _ that]) (use assms in blast)
  with inv have "dependencies_met (nd_attempt_id n) (nd_node_id n) ?db"
    if "n \<in> set (db_nodes db)" "begun n" for n
    using that unfolding order_inv_def by blast
  note met = this
  have keys: "nd_attempt_id (f n) = nd_attempt_id n" "nd_node_id (f n) = nd_node_id n" if "p n" for n
    using assms [OF that] by (simp_all add: node_key_def)
  show "order_inv ?db" unfolding order_inv_def
  proof (intro ballI impI)
    fix n
    assume n: "n \<in> set (db_nodes ?db)" "begun n"
    then obtain m where "m \<in> set (db_nodes db)" "n = m \<or> p m \<and> n = f m"
      by (auto elim: update_where_memE)
    with n(2) met keys assms show "dependencies_met (nd_attempt_id n) (nd_node_id n) ?db" by metis
  qed
qed

lemma order_other_writes [keep_rules]:
  "preserves order_inv (update_leases pl fl)" "preserves order_inv (write_cursor c w)"
  "preserves order_inv (write_heads h)" "preserves order_inv (insert_request rq)"
  "preserves order_inv (insert_trigger tg)" "preserves order_inv (insert_attempt at)"
  "preserves order_inv (insert_receipt rc)" "preserves order_inv (insert_cleanup cl)"
  "preserves order_inv (insert_binding ob)" "preserves order_inv (insert_reduction rr)"
  "preserves order_inv (insert_transition tr)" "preserves order_inv (insert_lease lj)"
  "preserves order_inv (update_attempts pa fa)" "preserves order_inv (update_requests pr fr)"
  "preserves order_inv (insert_lock lk)" "preserves order_inv (update_locks pk fk)"
  "preserves order_inv (delete_locks pd)"
  unfolding statement_defs
  by (rule preserves_change_table preserves_write_table,
      simp add: order_inv_def dependencies_met_def)+

text \<open>Releasing nodes.\<close>

lemma releasable_met:
  assumes "schema_ok db" "i \<in> set (releasable a db)"
  shows "dependencies_met a i db"
  unfolding dependencies_met_def
proof (intro ballI impI)
  fix d
  assume d: "d \<in> set (db_dependencies db)" "dp_attempt_id d = a \<and> dp_node_id d = i"
  from assms(2) d have all: "\<And>q. q \<in> set (db_nodes db) \<Longrightarrow> node_key q = (a, dp_dependency_node_id d) \<Longrightarrow>
    nd_state q = Node_Succeeded"
    by (auto simp: releasable_def dependencies_succeeded_def list_ex_iff node_key_def)
  from assms(1) d have "(a, dp_dependency_node_id d) \<in> set (node_keys db)"
    by (auto simp: schema_ok_def dependencies_ok_def list_all_iff)
  then show "succeeded (a, dp_dependency_node_id d) (db_nodes db)"
    using all by (force simp: succeeded_def node_keys_def)
qed

lemma order_release:
  "carries (\<lambda>db. order_inv db \<and> dependencies_met a i db) (release_node a i) order_inv"
proof (rule carriesI)
  fix db u db'
  assume inv: "order_inv db \<and> dependencies_met a i db" and "release_node a i db = Inr (u, db')"
  then have db': "db' = db\<lparr>db_nodes := update_where
     (\<lambda>n. nd_attempt_id n = a \<and> nd_node_id n = i \<and> nd_state n = Blocked)
     (\<lambda>n. n\<lparr>nd_state := Ready\<rparr>) (db_nodes db)\<rparr>" by (simp add: release_node_Inr)
  have "dependencies_met b j db'" if "dependencies_met b j db" for b j
    unfolding db' by (rule met_update_nodes [OF _ that]) (simp add: node_key_def)
  note kept = this
  show "order_inv db'" unfolding order_inv_def
  proof (intro ballI impI)
    fix n
    assume "n \<in> set (db_nodes db')" "begun n"
    then have "n \<in> set (db_nodes db) \<and> begun n \<or> nd_attempt_id n = a \<and> nd_node_id n = i"
      by (auto simp: db' elim!: update_where_memE)
    with inv have "dependencies_met (nd_attempt_id n) (nd_node_id n) db" by (auto simp: order_inv_def)
    then show "dependencies_met (nd_attempt_id n) (nd_node_id n) db'" by (rule kept)
  qed
qed

lemma order_release_all:
  "carries (\<lambda>db. order_inv db \<and> (\<forall>i\<in>set ids. dependencies_met a i db)) (tx_each (release_node a) ids) order_inv"
proof (induction ids)
  case Nil
  show ?case unfolding tx_each.simps by (rule carries_return) simp
next
  case (Cons i ids)
  have "preserves (\<lambda>db. \<forall>j\<in>set ids. dependencies_met a j db) (release_node a i)"
    unfolding release_node_def
    by (rule preserves_execute, unfold update_nodes_def, rule preserves_change_table)
      (auto intro!: met_update_nodes simp: node_key_def)
  from carries_conj [OF order_release carries_preserved [OF this]]
  have "carries (\<lambda>db. order_inv db \<and> (\<forall>j\<in>set (i # ids). dependencies_met a j db)) (release_node a i)
    (\<lambda>db. order_inv db \<and> (\<forall>j\<in>set ids. dependencies_met a j db))"
    by (rule carries_strengthen) auto
  from carries_bind [OF this Cons.IH] show ?case by simp
qed

abbreviation ordered_store :: "'j db \<Rightarrow> bool" where
  "ordered_store db \<equiv> schema_ok db \<and> order_inv db"

lemma ordered_advance: "preserves ordered_store (advance_ready_nodes a)"
proof (rule preserves_advance_pass)
  fix db :: "'a db" and u db'
  assume inv: "ordered_store db" and m: "tx_each (release_node a) (releasable a db) db = Inr (u, db')"
  have "preserves schema_ok (tx_each (release_node a) (releasable a db) :: ('a, unit) stx)" by (intro keep_rules)
  from preservesD [OF this _ m] inv have "schema_ok db'" by simp
  moreover from carriesD [OF order_release_all _ m] inv releasable_met have "order_inv db'" by blast
  ultimately show "ordered_store db'" by simp
qed


section \<open>The operations\<close>

lemma order_append_transition [keep_rules]: "preserves order_inv (append_transition a s f t r e tm)"
  unfolding append_transition_def by (intro keep_rules)

lemma order_journal_steps [keep_rules]:
  "preserves order_inv (cancel_open_nodes a t)"
  "preserves order_inv (revoke_active_leases a t)"
  "preserves order_inv (terminate_request_of a t)"
  "preserves order_inv (wake_waiting_attempts t)"
  "preserves order_inv (touch_attempt a t)"
  "preserves order_inv (mark_workflow_needs_reconcile a c t)"
  unfolding cancel_open_nodes_def revoke_active_leases_def terminate_request_of_def wake_waiting_attempts_def
    wake_attempt_def touch_attempt_def mark_workflow_needs_reconcile_def
  by (intro keep_rules; auto simp: begun_def node_open_def)+

lemma order_ends [keep_rules]:
  "preserves order_inv (fail_terminal_workflow a c t)"
  "preserves order_inv (fail_workflow a k c h t)"
  "preserves order_inv (complete_shadow_workflow E ctx t)"
  "preserves order_inv (complete_workflow E a t)"
  unfolding fail_workflow_def fail_terminal_workflow_def complete_shadow_workflow_def complete_workflow_def
  by (intro keep_rules; auto simp: begun_def)+

lemma order_close_leased_node [keep_rules]:
  assumes "\<And>n. node_key (f n) = node_key n \<and> nd_kind (f n) = nd_kind n"
  shows "preserves order_inv (close_leased_node a i f)"
  unfolding close_leased_node_def by (intro keep_rules) (use assms in \<open>auto simp: begun_def\<close>)

lemma order_expire [keep_rules]: "preserves order_inv (expire_leases_transaction E t)"
  unfolding expire_leases_transaction_def expire_one_lease_def expire_mutation_lease_def expire_worker_lease_def
    expire_at_deadline_def
  by (intro keep_rules; simp)

lemma order_renew [keep_rules]: "preserves order_inv (renew_lease_transaction E l t d)"
  unfolding renew_lease_transaction_def by (intro keep_rules)

lemma order_cleanup [keep_rules]: "preserves order_inv (commit_cleanup_receipt_transaction E c j t)"
  unfolding commit_cleanup_receipt_transaction_def by (intro keep_rules)

lemma order_persist_receipt [keep_rules]: "preserves order_inv (persist_node_receipt r j t h)"
  unfolding persist_node_receipt_def by (intro keep_rules; simp)

lemma order_claim [keep_rules]: "preserves order_inv (claim_next_transaction E w i t d)"
proof -
  have "preserves order_inv (claim_candidates E w i t d lp rw cs)" for lp rw cs
  proof (induction cs)
    case Nil
    show ?case unfolding claim_candidates.simps by (intro keep_rules)
  next
    case (Cons c cs)
    then show ?case
      unfolding claim_candidates.simps acquire_mutation_lock_def operation_state_for_candidate_def
        bind_operation_state_def grant_lease_def persist_active_lease_def update_fairness_cursor_def
      by (intro keep_rules; auto simp: begun_def)
  qed
  then show ?thesis unfolding claim_next_transaction_def by (intro keep_rules)
qed

lemma ordered_receipt: "preserves ordered_store (commit_node_receipt_transaction E r j t)"
  unfolding commit_node_receipt_transaction_def apply_node_receipt_outcome_def
  by (intro ordered_advance exclusive_structure preserves_node_outcome preserves_conj keep_rules)

lemma ordered_reduce: "preserves ordered_store (reduce_attempt_transaction E a t)"
  unfolding reduce_attempt_transaction_def record_reduction_def
  by (intro ordered_advance exclusive_structure preserves_conj keep_rules) (auto simp: begun_def)


section \<open>The rows of a new attempt\<close>

text \<open>The row of a node of the policy, in its initial state.\<close>

definition row_of :: "admission \<Rightarrow> uuid \<Rightarrow> bool \<Rightarrow> int \<Rightarrow> workflow_node \<Rightarrow> node_row \<Rightarrow> bool" where
  "row_of ad a w t n row \<longleftrightarrow> node_key row = (a, n_node_id n) \<and> nd_kind row = n_kind n \<and>
     nd_activation row = n_activation n \<and> nd_state row = fst (initial_node_state ad w t (n_kind n))"

definition edges_of :: "uuid \<Rightarrow> workflow_node \<Rightarrow> dependency_row list" where
  "edges_of a n = map (\<lambda>d. \<lparr> dp_attempt_id = a, dp_node_id = n_node_id n, dp_dependency_node_id = d \<rparr>)
     (n_depends_on n)"

lemma insert_dependencies_Inr:
  "tx_each (\<lambda>d. insert_dependency (f d)) ds db = Inr (u, db') \<Longrightarrow>
   db' = db\<lparr>db_dependencies := db_dependencies db @ map f ds\<rparr>"
proof (induction ds arbitrary: db)
  case (Cons d ds)
  then obtain db1 where "insert_dependency (f d) db = Inr ((), db1)"
    "tx_each (\<lambda>d. insert_dependency (f d)) ds db1 = Inr (u, db')" by auto
  with Cons.IH [of db1] show ?case by (simp add: insert_dependency_def write_table_Inr_iff)
qed simp

lemma create_node_Inr:
  assumes "create_node m ad a w t (k, n) db = Inr (u, db')"
  obtains row where "row_of ad a w t n row"
    "db' = db\<lparr>db_nodes := db_nodes db @ [row], db_dependencies := db_dependencies db @ edges_of a n\<rparr>"
proof -
  obtain s out rc fin where init: "initial_node_state ad w t (n_kind n) = (s, out, rc, fin)"
    by (cases "initial_node_state ad w t (n_kind n)")
  from assms obtain row db1 where "insert_node_row row db = Inr ((), db1)" and row: "row_of ad a w t n row"
    and "tx_each (\<lambda>d. insert_dependency \<lparr> dp_attempt_id = a, dp_node_id = n_node_id n,
         dp_dependency_node_id = d \<rparr>) (n_depends_on n) db1 = Inr (u, db')"
    by (auto simp: create_node_def init tx_bind_Inr_iff row_of_def node_key_def)
  from this(1) insert_dependencies_Inr [OF this(3)]
  have "db' = db\<lparr>db_nodes := db_nodes db @ [row], db_dependencies := db_dependencies db @ edges_of a n\<rparr>"
    by (simp add: insert_node_row_def write_table_Inr_iff edges_of_def)
  with row show thesis by (rule that)
qed

lemma create_nodes_Inr:
  assumes "tx_each (create_node m ad a w t) (zip ks ns) db = Inr (u, db')" "length ks = length ns"
  shows "\<exists>rows. list_all2 (row_of ad a w t) ns rows \<and>
    db' = db\<lparr>db_nodes := db_nodes db @ rows,
       db_dependencies := db_dependencies db @ concat (map (edges_of a) ns)\<rparr>"
  using assms
proof (induction ns arbitrary: ks db)
  case Nil
  then show ?case by simp
next
  case (Cons n ns)
  then obtain k ks' where ks: "ks = k # ks'" by (cases ks) auto
  with Cons.prems(1) obtain db1 where db1: "create_node m ad a w t (k, n) db = Inr ((), db1)"
    "tx_each (create_node m ad a w t) (zip ks' ns) db1 = Inr (u, db')" by auto
  from db1(1) obtain row where row: "row_of ad a w t n row"
    "db1 = db\<lparr>db_nodes := db_nodes db @ [row], db_dependencies := db_dependencies db @ edges_of a n\<rparr>"
    by (rule create_node_Inr)
  from Cons.IH [OF db1(2)] ks Cons.prems(2) obtain rows where rows: "list_all2 (row_of ad a w t) ns rows"
    "db' = db1\<lparr>db_nodes := db_nodes db1 @ rows,
       db_dependencies := db_dependencies db1 @ concat (map (edges_of a) ns)\<rparr>" by auto
  show ?case by (rule exI [of _ "row # rows"]) (use row rows in simp)
qed

lemma create_attempt_Inr:
  assumes "create_attempt E m ad r a w t db = Inr (x, db')"
  obtains ns rows att where "ordered_nodes (pm_workflow m) = Inr ns" "list_all2 (row_of ad a w t) ns rows"
    "at_attempt_id att = a" "at_request_id att = r" "attempts_ok (db\<lparr>db_attempts := db_attempts db @ [att]\<rparr>)"
    "db_attempts db' = db_attempts db @ [att]" "db_requests db' = db_requests db"
    "db_nodes db' = db_nodes db @ rows"
    "db_dependencies db' = db_dependencies db @ concat (map (edges_of a) ns)"
proof -
  from assms obtain att db1 ns db2 db3 where "at_attempt_id att = a" "at_request_id att = r"
    and att: "insert_attempt att db = Inr ((), db1)"
    and ns: "ordered_nodes (pm_workflow m) = Inr ns"
    and nodes: "tx_each (create_node m ad a w t) (zip [0..<length ns] ns) db1 = Inr ((), db2)"
    and journal: "append_transition a (Subject_attempt a) None
      (attempt_state_name (if w then WaitingForMutation else Queued)) ''source_admitted''
      (Some (ad_source_attestation_digest ad)) t db2 = Inr ((), db3)" and "db' = db3"
    unfolding create_attempt_def Let_def by (force simp: tx_bind_Inr_iff)
  moreover from att have "db1 = db\<lparr>db_attempts := db_attempts db @ [att]\<rparr>" "attempts_ok db1"
    by (simp_all add: insert_attempt_def write_table_Inr_iff)
  moreover obtain rows where "list_all2 (row_of ad a w t) ns rows"
    "db2 = db1\<lparr>db_nodes := db_nodes db1 @ rows,
       db_dependencies := db_dependencies db1 @ concat (map (edges_of a) ns)\<rparr>"
    using create_nodes_Inr [OF nodes] by auto
  moreover from journal obtain tr where "db3 = db2\<lparr>db_transitions := db_transitions db2 @ [tr]\<rparr>"
    by (auto simp: append_transition_def tx_bind_Inr_iff insert_transition_def write_table_Inr_iff)
  ultimately show thesis by (intro that [of ns rows att]) simp_all
qed

text \<open>No row refers to an attempt that does not exist yet.\<close>

lemma fresh_attempt:
  assumes "schema_ok db" "attempts_ok (db\<lparr>db_attempts := db_attempts db @ [att]\<rparr>)"
  shows "\<And>x. x \<in> set (db_attempts db) \<Longrightarrow> at_attempt_id x \<noteq> at_attempt_id att"
    and "\<And>n. n \<in> set (db_nodes db) \<Longrightarrow> nd_attempt_id n \<noteq> at_attempt_id att"
    and "\<And>d. d \<in> set (db_dependencies db) \<Longrightarrow> dp_attempt_id d \<noteq> at_attempt_id att"
proof -
  from assms(2) have fresh: "at_attempt_id att \<notin> set (attempt_ids db)"
    by (simp add: attempts_ok_def attempt_ids_def)
  then show "at_attempt_id x \<noteq> at_attempt_id att" if "x \<in> set (db_attempts db)" for x
    using that by (metis attempt_ids_def image_eqI list.set_map)
  from assms(1) have "nd_attempt_id n \<in> set (attempt_ids db)" if "n \<in> set (db_nodes db)" for n
    using that by (auto simp: schema_ok_def nodes_ok_def list_all_iff)
  with fresh show nodes: "nd_attempt_id n \<noteq> at_attempt_id att" if "n \<in> set (db_nodes db)" for n
    using that by metis
  from assms(1) have "(dp_attempt_id d, dp_node_id d) \<in> set (node_keys db)" if "d \<in> set (db_dependencies db)" for d
    using that by (auto simp: schema_ok_def dependencies_ok_def list_all_iff)
  then have "\<exists>n\<in>set (db_nodes db). nd_attempt_id n = dp_attempt_id d" if "d \<in> set (db_dependencies db)" for d
    using that by (fastforce simp: node_keys_def node_key_def)
  with nodes show "dp_attempt_id d \<noteq> at_attempt_id att" if "d \<in> set (db_dependencies db)" for d
    using that by metis
qed

lemma mem_edges_of: "d \<in> set (edges_of a n) \<longleftrightarrow>
  dp_attempt_id d = a \<and> dp_node_id d = n_node_id n \<and> dp_dependency_node_id d \<in> set (n_depends_on n)"
  by (cases d) (auto simp: edges_of_def)

text \<open>In the rows of a new attempt, everything a node that may start depends on has succeeded.\<close>

lemma new_rows_met:
  assumes ns: "ordered_nodes policy = Inr ns" and rows: "list_all2 (row_of ad a w t) ns rows"
    and row: "row \<in> set rows" "begun row" and d: "d \<in> set (concat (map (edges_of a) ns))"
    and "dp_node_id d = nd_node_id row"
  shows "succeeded (a, dp_dependency_node_id d) rows"
proof -
  from rows row(1) obtain n where n: "n \<in> set ns" "row_of ad a w t n row" by (meson list_all2_ex2)
  from d obtain n' where n': "n' \<in> set ns" "dp_node_id d = n_node_id n'"
    "dp_dependency_node_id d \<in> set (n_depends_on n')" by (auto simp: mem_edges_of)
  from n(2) have kind: "nd_kind row = n_kind n" "nd_node_id row = n_node_id n"
    "nd_state row = fst (initial_node_state ad w t (n_kind n))" by (simp_all add: row_of_def node_key_def)
  with n' assms(6) n(1) ordered_nodes_Inr(3) [OF ns] have "n' = n" by (metis distinct_map_unique)
  from kind row(2) have "n_kind n = SourceAdmission \<or> n_kind n = HostPrepare"
    by (auto simp: begun_def initial_node_state_def split: if_splits)
  moreover have policy: "policy_validate policy = Inr ()" "n \<in> set (wp_nodes policy)"
    using ordered_nodes_Inr [OF ns] n(1) by simp_all
  ultimately obtain s where s: "s \<in> set ns" "n_kind s = SourceAdmission" "n_depends_on n = [n_node_id s]"
    using policy_first_stages [OF policy] n'(3) \<open>n' = n\<close> ordered_nodes_Inr(2) [OF ns] by auto
  from rows s(1) obtain srow where "srow \<in> set rows" "row_of ad a w t s srow" by (meson list_all2_ex1)
  with s n'(3) \<open>n' = n\<close> show ?thesis
    by (force simp: succeeded_def row_of_def initial_node_state_def)
qed

lemma order_create_attempt:
  "carries ordered_store (create_attempt E m ad r a w t) order_inv"
proof (rule carriesI)
  fix db x db'
  assume inv: "ordered_store db" and "create_attempt E m ad r a w t db = Inr (x, db')"
  then obtain ns rows att where ns: "ordered_nodes (pm_workflow m) = Inr ns" "list_all2 (row_of ad a w t) ns rows"
    and att: "at_attempt_id att = a" "attempts_ok (db\<lparr>db_attempts := db_attempts db @ [att]\<rparr>)"
    and db': "db_nodes db' = db_nodes db @ rows"
    "db_dependencies db' = db_dependencies db @ concat (map (edges_of a) ns)"
    by (metis create_attempt_Inr)
  note fresh = fresh_attempt [OF _ att(2), unfolded att(1)]
  show "order_inv db'" unfolding order_inv_def dependencies_met_def
  proof (intro ballI impI)
    fix n d
    assume n: "n \<in> set (db_nodes db')" "begun n" and d: "d \<in> set (db_dependencies db')"
      "dp_attempt_id d = nd_attempt_id n \<and> dp_node_id d = nd_node_id n"
    show "succeeded (nd_attempt_id n, dp_dependency_node_id d) (db_nodes db')"
    proof (cases "nd_attempt_id n = a")
      case True
      then have row: "n \<in> set rows" "d \<in> set (concat (map (edges_of a) ns))"
        using n(1) d fresh(2,3) inv by (auto simp: db')
      from new_rows_met [OF ns row(1) n(2) row(2)] d(2) True have "succeeded (a, dp_dependency_node_id d) rows" by simp
      with True show ?thesis by (auto simp: db' succeeded_def)
    next
      case False
      with ns(2) have "n \<notin> set rows" "d \<notin> set (concat (map (edges_of a) ns))"
        using d(2) by (auto simp: mem_edges_of row_of_def node_key_def dest!: list_all2_ex2)
      with n(1) d(1) have "n \<in> set (db_nodes db)" "d \<in> set (db_dependencies db)" by (simp_all add: db')
      with inv n(2) d(2) have "succeeded (nd_attempt_id n, dp_dependency_node_id d) (db_nodes db)"
        by (auto simp: order_inv_def dependencies_met_def)
      then show ?thesis by (simp add: db')
    qed
  qed
qed

lemma schema_create_attempt: "preserves schema_ok (create_attempt E m ad r a w t)"
  unfolding create_attempt_def Let_def by (intro schema_create_node keep_rules)

lemma ordered_create_attempt: "preserves ordered_store (create_attempt E m ad r a w t)"
  by (rule preserves_carries_conj [OF schema_create_attempt order_create_attempt])

lemma order_supersede [keep_rules]: "preserves order_inv (supersede_pre_mutation_attempts p mode r t)"
  unfolding supersede_pre_mutation_attempts_def supersede_attempt_def by (intro keep_rules)

lemma schema_supersede: "preserves schema_ok (supersede_pre_mutation_attempts p mode r t)"
  unfolding supersede_pre_mutation_attempts_def supersede_attempt_def by (intro keep_rules; simp)

lemma ordered_admit: "preserves ordered_store (admit_transaction E m j ad r a t)"
  unfolding admit_transaction_def record_trigger_def update_project_head_def
  by (intro ordered_create_attempt exclusive_structure preserves_conj schema_supersede keep_rules)

lemma ordered_others:
  "preserves ordered_store (claim_next_transaction E w i t d)"
  "preserves ordered_store (expire_leases_transaction E t)"
  "preserves ordered_store (renew_lease_transaction E l t d)"
  "preserves ordered_store (commit_cleanup_receipt_transaction E c j t)"
  by (rule preserves_conj; rule keep_rules)+

lemma order_empty: "order_inv empty_db"
  by (simp add: order_inv_def empty_db_def)

interpretation order: transaction_invariant E ordered_store for E :: "('j, 'x) sched_codec_scheme"
  by unfold_locales
    (rule ordered_admit ordered_others ordered_receipt ordered_reduce conjI [OF schema_empty order_empty])+

end
