(* ===== verification/Scheduler_Plan.thy ===== *)
theory Scheduler_Plan
  imports Scheduler_Order
begin

text \<open>
  The node and dependency rows of an attempt are the nodes and the edges of the manifest stored with its
  request; so, with \<open>Scheduler_Order\<close>, every earlier stage of an executor-mutation workflow has succeeded
  when a later one starts.
\<close>

section \<open>The rows of an attempt are its manifest\<close>

text \<open>The columns an attempt's plan is written in.\<close>

type_synonym 'j plan_view = "(uuid \<times> uuid) set \<times> (uuid \<times> 'j) set \<times>
  (uuid \<times> node_id \<times> node_kind \<times> node_activation) set \<times> dependency_row set"

definition plan_view :: "'j db \<Rightarrow> 'j plan_view" where
  "plan_view db =
     (set (map (\<lambda>x. (at_attempt_id x, at_request_id x)) (db_attempts db)),
      set (map (\<lambda>r. (rq_request_id r, rq_manifest_json r)) (db_requests db)),
      set (map (\<lambda>n. (nd_attempt_id n, nd_node_id n, nd_kind n, nd_activation n)) (db_nodes db)),
      set (db_dependencies db))"

text \<open>The rows of attempt \<open>a\<close> are the nodes and edges of the manifest with bytes \<open>j\<close>.\<close>

definition follows :: "('j, 'x) sched_codec_scheme \<Rightarrow> (uuid \<times> node_id \<times> node_kind \<times> node_activation) set \<Rightarrow>
    dependency_row set \<Rightarrow> uuid \<Rightarrow> 'j \<Rightarrow> bool" where
  "follows E nodes edges a j \<longleftrightarrow>
     (\<exists>m ns. manifest_decode_canonical E j = Inr m \<and> ordered_nodes (pm_workflow m) = Inr ns \<and>
        (\<forall>i k c. (a, i, k, c) \<in> nodes \<longleftrightarrow> (\<exists>n\<in>set ns. n_node_id n = i \<and> n_kind n = k \<and> n_activation n = c)) \<and>
        (\<forall>d. d \<in> edges \<and> dp_attempt_id d = a \<longleftrightarrow> d \<in> set (concat (map (edges_of a) ns))))"

definition planned :: "('j, 'x) sched_codec_scheme \<Rightarrow> 'j plan_view \<Rightarrow> bool" where
  "planned E = (\<lambda>(attempts, requests, nodes, edges). \<forall>a r j. (a, r) \<in> attempts \<longrightarrow> (r, j) \<in> requests \<longrightarrow>
     follows E nodes edges a j)"

lemma follows_cong:
  assumes "\<And>i k c. (a, i, k, c) \<in> nodes' \<longleftrightarrow> (a, i, k, c) \<in> nodes"
    and "\<And>d. d \<in> edges' \<and> dp_attempt_id d = a \<longleftrightarrow> d \<in> edges \<and> dp_attempt_id d = a"
  shows "follows E nodes' edges' a j \<longleftrightarrow> follows E nodes edges a j"
  unfolding follows_def assms ..

lemma view_update_attempts [keep_rules]:
  "(\<And>a. p a \<Longrightarrow> at_attempt_id (f a) = at_attempt_id a \<and> at_request_id (f a) = at_request_id a) \<Longrightarrow>
   preserves (\<lambda>db. plan_view db = v) (update_attempts p f)"
  unfolding update_attempts_def
  by (rule preserves_change_table) (simp add: plan_view_def map_update_where del: set_map)

lemma view_update_requests [keep_rules]:
  "(\<And>r. p r \<Longrightarrow> rq_request_id (f r) = rq_request_id r \<and> rq_manifest_json (f r) = rq_manifest_json r) \<Longrightarrow>
   preserves (\<lambda>db. plan_view db = v) (update_requests p f)"
  unfolding update_requests_def
  by (rule preserves_change_table) (simp add: plan_view_def map_update_where del: set_map)

lemma view_update_nodes [keep_rules]:
  "(\<And>n. p n \<Longrightarrow> nd_attempt_id (f n) = nd_attempt_id n \<and> nd_node_id (f n) = nd_node_id n \<and>
     nd_kind (f n) = nd_kind n \<and> nd_activation (f n) = nd_activation n) \<Longrightarrow>
   preserves (\<lambda>db. plan_view db = v) (update_nodes p f)"
  unfolding update_nodes_def
  by (rule preserves_change_table) (simp add: plan_view_def map_update_where del: set_map)

lemma view_other_writes [keep_rules]:
  "preserves (\<lambda>db. plan_view db = v) (update_leases pl fl)" "preserves (\<lambda>db. plan_view db = v) (write_cursor c w)"
  "preserves (\<lambda>db. plan_view db = v) (write_heads h)" "preserves (\<lambda>db. plan_view db = v) (insert_trigger tg)"
  "preserves (\<lambda>db. plan_view db = v) (insert_receipt rc)" "preserves (\<lambda>db. plan_view db = v) (insert_cleanup cl)"
  "preserves (\<lambda>db. plan_view db = v) (insert_binding ob)" "preserves (\<lambda>db. plan_view db = v) (insert_reduction rr)"
  "preserves (\<lambda>db. plan_view db = v) (insert_transition tr)" "preserves (\<lambda>db. plan_view db = v) (insert_lease lj)"
  "preserves (\<lambda>db. plan_view db = v) (insert_lock lk)" "preserves (\<lambda>db. plan_view db = v) (update_locks pk fk)"
  "preserves (\<lambda>db. plan_view db = v) (delete_locks pd)"
  unfolding statement_defs
  by (rule preserves_change_table preserves_write_table, simp add: plan_view_def)+

lemma view_steps [keep_rules]:
  "preserves (\<lambda>db. plan_view db = v) (append_transition a s f s2 r e t)"
  "preserves (\<lambda>db. plan_view db = v) (release_node a i)"
  "preserves (\<lambda>db. plan_view db = v) (cancel_open_nodes a t)"
  "preserves (\<lambda>db. plan_view db = v) (revoke_active_leases a t)"
  "preserves (\<lambda>db. plan_view db = v) (terminate_request_of a t)"
  "preserves (\<lambda>db. plan_view db = v) (wake_waiting_attempts t)"
  unfolding append_transition_def release_node_def cancel_open_nodes_def revoke_active_leases_def
    terminate_request_of_def wake_waiting_attempts_def wake_attempt_def
  by (intro keep_rules; simp)+

lemma view_ends [keep_rules]:
  "preserves (\<lambda>db. plan_view db = v) (fail_workflow a k c h t)"
  "preserves (\<lambda>db. plan_view db = v) (fail_terminal_workflow a c t)"
  "preserves (\<lambda>db. plan_view db = v) (complete_shadow_workflow E ctx t)"
  "preserves (\<lambda>db. plan_view db = v) (complete_workflow E a t)"
  unfolding fail_workflow_def fail_terminal_workflow_def mark_workflow_needs_reconcile_def
    complete_shadow_workflow_def complete_workflow_def
  by (intro keep_rules; simp)+

lemma view_transactions:
  "preserves (\<lambda>db. plan_view db = v) (expire_leases_transaction E t)"
  "preserves (\<lambda>db. plan_view db = v) (renew_lease_transaction E l t d)"
  "preserves (\<lambda>db. plan_view db = v) (commit_cleanup_receipt_transaction E c j t)"
  "preserves (\<lambda>db. plan_view db = v) (commit_node_receipt_transaction E r j t)"
  "preserves (\<lambda>db. plan_view db = v) (reduce_attempt_transaction E a t)"
  unfolding expire_leases_transaction_def expire_one_lease_def expire_mutation_lease_def expire_worker_lease_def
    expire_at_deadline_def close_leased_node_def renew_lease_transaction_def
    commit_cleanup_receipt_transaction_def commit_node_receipt_transaction_def persist_node_receipt_def
    apply_node_receipt_outcome_def touch_attempt_def reduce_attempt_transaction_def record_reduction_def
  by (intro keep_rules; simp)+

lemma view_claim: "preserves (\<lambda>db. plan_view db = v) (claim_next_transaction E w i t d)"
proof -
  have "preserves (\<lambda>db. plan_view db = v) (claim_candidates E w i t d lp rw cs)" for lp rw cs
  proof (induction cs)
    case Nil
    show ?case unfolding claim_candidates.simps by (intro keep_rules)
  next
    case (Cons c cs)
    then show ?case
      unfolding claim_candidates.simps acquire_mutation_lock_def operation_state_for_candidate_def
        bind_operation_state_def grant_lease_def persist_active_lease_def update_fairness_cursor_def
      by (intro keep_rules; simp)
  qed
  then show ?thesis unfolding claim_next_transaction_def by (intro keep_rules)
qed

lemma view_admission [keep_rules]:
  "preserves (\<lambda>db. plan_view db = v) (supersede_pre_mutation_attempts p mode r t)"
  "preserves (\<lambda>db. plan_view db = v) (record_trigger ad r t)"
  "preserves (\<lambda>db. plan_view db = v) (update_project_head ad r t)"
  unfolding supersede_pre_mutation_attempts_def supersede_attempt_def record_trigger_def update_project_head_def
  by (intro keep_rules; simp)+

definition plan_inv :: "('j, 'x) sched_codec_scheme \<Rightarrow> 'j db \<Rightarrow> bool" where
  "plan_inv E db \<longleftrightarrow> planned E (plan_view db)"

lemma plan_kept: "(\<And>v. preserves (\<lambda>db. plan_view db = v) m) \<Longrightarrow> preserves (plan_inv E) m"
  unfolding preserves_def plan_inv_def by metis

text \<open>A new request does not change the manifest of an attempt: it has a new identifier.\<close>

lemma plan_insert_request: "carries (\<lambda>db. schema_ok db \<and> plan_inv E db) (insert_request r) (plan_inv E)"
proof (rule carriesI)
  fix db x db'
  assume inv: "schema_ok db \<and> plan_inv E db" and "insert_request r db = Inr (x, db')"
  then have db': "db' = db\<lparr>db_requests := db_requests db @ [r]\<rparr>" "requests_ok db'"
    by (simp_all add: insert_request_def write_table_Inr_iff)
  then have "rq_request_id r \<notin> set (request_ids db)" by (simp add: requests_ok_def request_ids_def)
  moreover have "\<forall>a\<in>set (db_attempts db). at_request_id a \<in> set (request_ids db)"
    using inv by (simp add: schema_ok_def attempts_ok_def list_all_iff)
  ultimately have "\<forall>a\<in>set (db_attempts db). at_request_id a \<noteq> rq_request_id r" by metis
  with inv show "plan_inv E db'" unfolding plan_inv_def planned_def plan_view_def by (auto simp: db')
qed

text \<open>The new attempt has the rows of the manifest stored with its request.\<close>

definition stored :: "uuid \<Rightarrow> 'j \<Rightarrow> 'j db \<Rightarrow> bool" where
  "stored r j db \<longleftrightarrow>
     (\<forall>k. (r, k) \<in> set (map (\<lambda>q. (rq_request_id q, rq_manifest_json q)) (db_requests db)) \<longrightarrow> k = j)"

lemma plan_create_attempt:
  assumes decode: "manifest_decode_canonical E j = Inr m"
  shows "carries (\<lambda>db. schema_ok db \<and> plan_inv E db \<and> stored r j db) (create_attempt E m ad r a w t) (plan_inv E)"
proof (rule carriesI)
  fix db x db'
  assume inv: "schema_ok db \<and> plan_inv E db \<and> stored r j db" and "create_attempt E m ad r a w t db = Inr (x, db')"
  then obtain ns rows att where ns: "ordered_nodes (pm_workflow m) = Inr ns" "list_all2 (row_of ad a w t) ns rows"
    and att: "at_attempt_id att = a" "at_request_id att = r" "attempts_ok (db\<lparr>db_attempts := db_attempts db @ [att]\<rparr>)"
    and db': "db_attempts db' = db_attempts db @ [att]" "db_requests db' = db_requests db"
    "db_nodes db' = db_nodes db @ rows"
    "db_dependencies db' = db_dependencies db @ concat (map (edges_of a) ns)"
    by (metis create_attempt_Inr)
  note fresh = fresh_attempt [OF _ att(3), unfolded att(1)]
  let ?row = "\<lambda>n :: node_row. (nd_attempt_id n, nd_node_id n, nd_kind n, nd_activation n)"
  have rows: "?row ` set rows = (\<lambda>n. (a, n_node_id n, n_kind n, n_activation n)) ` set ns"
    using ns(2) by induction (auto simp: row_of_def node_key_def)
  have new: "(a, i, k, c) \<in> ?row ` set (db_nodes db') \<longleftrightarrow>
      (\<exists>n\<in>set ns. n_node_id n = i \<and> n_kind n = k \<and> n_activation n = c)" for i k c
    using fresh(2) inv rows by (auto simp: db' image_Un)
  have old: "(b, i, k, c) \<in> ?row ` set (db_nodes db') \<longleftrightarrow> (b, i, k, c) \<in> ?row ` set (db_nodes db)" if "b \<noteq> a" for b i k c
    using that rows by (auto simp: db' image_Un)
  have edges: "d \<in> set (db_dependencies db') \<and> dp_attempt_id d = b \<longleftrightarrow>
      (if b = a then d \<in> set (concat (map (edges_of a) ns)) else d \<in> set (db_dependencies db) \<and> dp_attempt_id d = b)" for b d
    using fresh(3) inv by (auto simp: db' mem_edges_of)
  have "follows E (?row ` set (db_nodes db')) (set (db_dependencies db')) a j"
    unfolding follows_def using decode ns(1) new edges [of _ a] by auto
  note own = this
  have others: "follows E (?row ` set (db_nodes db')) (set (db_dependencies db')) b q"
    if "b \<noteq> a" "(b, i) \<in> (\<lambda>x. (at_attempt_id x, at_request_id x)) ` set (db_attempts db)"
      "(i, q) \<in> (\<lambda>r. (rq_request_id r, rq_manifest_json r)) ` set (db_requests db)" for b i q
  proof -
    from inv that(2,3) have "follows E (?row ` set (db_nodes db)) (set (db_dependencies db)) b q"
      by (auto simp: plan_inv_def planned_def plan_view_def)
    then show ?thesis by (subst follows_cong [OF old [OF that(1)]]) (use edges [of _ b] that(1) in auto)
  qed
  show "plan_inv E db'" unfolding plan_inv_def planned_def plan_view_def prod.case set_map
  proof (intro allI impI)
    fix b i q
    assume b: "(b, i) \<in> (\<lambda>x. (at_attempt_id x, at_request_id x)) ` set (db_attempts db')"
      and q: "(i, q) \<in> (\<lambda>r. (rq_request_id r, rq_manifest_json r)) ` set (db_requests db')"
    show "follows E (?row ` set (db_nodes db')) (set (db_dependencies db')) b q"
    proof (cases "b = a")
      case True
      with b fresh(1) inv att(2) have "i = r" by (auto simp: db')
      with q inv have "q = j" by (auto simp: db' stored_def)
      with own True show ?thesis by simp
    next
      case False
      with b q att(1) others show ?thesis by (auto simp: db')
    qed
  qed
qed

abbreviation planned_store :: "('j, 'x) sched_codec_scheme \<Rightarrow> 'j db \<Rightarrow> bool" where
  "planned_store E db \<equiv> schema_ok db \<and> plan_inv E db"

lemma stored_view: "plan_view db' = plan_view db \<Longrightarrow> stored r j db \<Longrightarrow> stored r j db'"
  by (simp add: plan_view_def stored_def del: set_map)

lemma stored_insert_request:
  assumes "rq_request_id q = r" "rq_manifest_json q = j"
  shows "carries (planned_store E) (insert_request q) (\<lambda>db. planned_store E db \<and> stored r j db)"
proof (rule carriesI)
  fix db x db'
  assume inv: "planned_store E db" and m: "insert_request q db = Inr (x, db')"
  then have db': "db' = db\<lparr>db_requests := db_requests db @ [q]\<rparr>" "requests_ok db'"
    by (simp_all add: insert_request_def write_table_Inr_iff)
  then have "rq_request_id q \<notin> rq_request_id ` set (db_requests db)"
    by (simp add: requests_ok_def request_ids_def)
  then have "stored r j db'" using assms by (auto simp: stored_def db')
  moreover have "schema_ok db'" using preservesD [OF schema_insert_referenced(1) _ m] inv by blast
  ultimately show "planned_store E db' \<and> stored r j db'"
    using carriesD [OF plan_insert_request inv m] by simp
qed

lemma planned_new_attempt:
  assumes decode: "manifest_decode_canonical E j = Inr m"
    and q: "rq_request_id q = r" "rq_manifest_json q = j" and rest: "\<And>x. preserves (planned_store E) (f x)"
  shows "preserves (planned_store E) (tx_bind (insert_request q) (\<lambda>_.
    tx_bind (supersede_pre_mutation_attempts p mode r t) (\<lambda>w. tx_bind (create_attempt E m ad r a w t) f)))"
proof -
  have supersede: "preserves (\<lambda>db. planned_store E db \<and> stored r j db) (supersede_pre_mutation_attempts p mode r t)"
  proof (intro preserves_conj schema_supersede plan_kept keep_rules, rule preservesI)
    fix db x db'
    assume "stored r j db" and m: "supersede_pre_mutation_attempts p mode r t db = Inr (x, db')"
    from preservesD [OF view_admission(1) refl m] this(1) show "stored r j db'" by (rule stored_view)
  qed
  have create: "carries (\<lambda>db. planned_store E db \<and> stored r j db) (create_attempt E m ad r a w t) (planned_store E)" for w
    using carriesD [OF plan_create_attempt [OF decode]] preservesD [OF schema_create_attempt]
    unfolding carries_def by meson
  show ?thesis
    unfolding preserves_carries
    by (intro carries_bind [OF stored_insert_request [OF q]] carries_bind_kept [OF supersede]
        carries_bind [OF create] carries_preserved [OF rest])
qed

lemma planned_admit:
  assumes "manifest_decode_canonical E j = Inr m"
  shows "preserves (planned_store E) (admit_transaction E m j ad r a t)"
proof -
  have kept: "preserves (planned_store E) (record_trigger ad r t)" "preserves (planned_store E) (update_project_head ad r t)" for r
    by (intro preserves_conj plan_kept keep_rules; simp add: record_trigger_def update_project_head_def;
        intro keep_rules; simp)+
  show ?thesis unfolding admit_transaction_def
    by (intro planned_new_attempt [OF assms] preserves_bind preserves_simple preserves_option kept) simp_all
qed

lemma plan_empty: "plan_inv E empty_db"
  by (simp add: plan_inv_def planned_def plan_view_def empty_db_def)

lemma planned_others:
  "preserves (planned_store E) (claim_next_transaction E w i t d)"
  "preserves (planned_store E) (expire_leases_transaction E t)"
  "preserves (planned_store E) (renew_lease_transaction E l t d)"
  "preserves (planned_store E) (commit_cleanup_receipt_transaction E cr j t)"
  "preserves (planned_store E) (commit_node_receipt_transaction E nr j t)"
  "preserves (planned_store E) (reduce_attempt_transaction E at t)"
  by (rule preserves_conj, rule keep_rules, rule plan_kept, rule view_claim view_transactions)+

lemma plan_reachable:
  assumes "reads_back (manifest_json E) (manifest_jcs E)" "reachable E db"
  shows "planned_store E db"
proof -
  have decode: "manifest_decode_canonical E j = Inr m" if "manifest_validate m = Inr ()" "manifest_jcs E m = Inr j" for m j
    using assms(1) that by (simp add: manifest_decode_canonical_def reads_back_def)
  have "transaction_invariant E (planned_store E)"
    by unfold_locales
      (rule planned_admit decode planned_others conjI [OF schema_empty plan_empty] | assumption)+
  from transaction_invariant.reachable_keeps [OF this assms(2)] show ?thesis .
qed


section \<open>Stages\<close>

lemma attempt_manifest_follows:
  assumes "planned_store E db" "attempt_manifest E a db = Some m"
  obtains ns where "ordered_nodes (pm_workflow m) = Inr ns"
    "\<And>n. n \<in> set (db_nodes db) \<Longrightarrow> nd_attempt_id n = a \<Longrightarrow>
      \<exists>p\<in>set ns. n_node_id p = nd_node_id n \<and> n_kind p = nd_kind n"
    "\<And>p d. p \<in> set ns \<Longrightarrow> d \<in> set (n_depends_on p) \<Longrightarrow>
      \<lparr> dp_attempt_id = a, dp_node_id = n_node_id p, dp_dependency_node_id = d \<rparr> \<in> set (db_dependencies db)"
proof -
  from assms(2) obtain x r where x: "find_attempt a db = Some x" "find_request (at_request_id x) db = Some r"
    "manifest_decode_canonical E (rq_manifest_json r) = Inr m"
    by (auto simp: attempt_manifest_def split: option.splits sum.splits)
  then have "x \<in> set (db_attempts db)" "at_attempt_id x = a" "r \<in> set (db_requests db)" "rq_request_id r = at_request_id x"
    unfolding find_attempt_def find_request_def by (auto dest!: find_Some_mem)
  then have "(a, at_request_id x) \<in> (\<lambda>x. (at_attempt_id x, at_request_id x)) ` set (db_attempts db)"
    "(at_request_id x, rq_manifest_json r) \<in> (\<lambda>r. (rq_request_id r, rq_manifest_json r)) ` set (db_requests db)"
    by (auto intro: rev_image_eqI)
  with assms(1) have "follows E ((\<lambda>n. (nd_attempt_id n, nd_node_id n, nd_kind n, nd_activation n)) ` set (db_nodes db))
      (set (db_dependencies db)) a (rq_manifest_json r)"
    unfolding plan_inv_def planned_def plan_view_def by auto
  then obtain ns where ns: "ordered_nodes (pm_workflow m) = Inr ns"
    and nodes: "\<And>i k c. (a, i, k, c) \<in> (\<lambda>n. (nd_attempt_id n, nd_node_id n, nd_kind n, nd_activation n)) ` set (db_nodes db) \<longleftrightarrow>
      (\<exists>n\<in>set ns. n_node_id n = i \<and> n_kind n = k \<and> n_activation n = c)"
    and edges: "\<And>d. d \<in> set (db_dependencies db) \<and> dp_attempt_id d = a \<longleftrightarrow> d \<in> set (concat (map (edges_of a) ns))"
    unfolding follows_def x(3) by auto
  show thesis
  proof (rule that [OF ns])
    show "\<exists>p\<in>set ns. n_node_id p = nd_node_id n \<and> n_kind p = nd_kind n"
      if "n \<in> set (db_nodes db)" "nd_attempt_id n = a" for n
      using that nodes [of "nd_node_id n" "nd_kind n" "nd_activation n"] by (auto simp: image_iff)
    show "\<lparr> dp_attempt_id = a, dp_node_id = n_node_id p, dp_dependency_node_id = d \<rparr> \<in> set (db_dependencies db)"
      if "p \<in> set ns" "d \<in> set (n_depends_on p)" for p d
      using that edges [of "\<lparr> dp_attempt_id = a, dp_node_id = n_node_id p, dp_dependency_node_id = d \<rparr>"]
      by (auto simp: mem_edges_of)
  qed
qed

text \<open>Success spreads from a started node to everything it depends on, transitively.\<close>

lemma started_below:
  assumes inv: "order_inv db" "schema_ok db"
    and edges: "\<And>p d. p \<in> set nodes \<Longrightarrow> d \<in> set (n_depends_on p) \<Longrightarrow>
      \<lparr> dp_attempt_id = a, dp_node_id = n_node_id p, dp_dependency_node_id = d \<rparr> \<in> set (db_dependencies db)"
    and path: "(i, j) \<in> (dependency_edges nodes)\<^sup>+"
    and n: "n \<in> set (db_nodes db)" "node_key n = (a, j)" "nd_state n \<notin> {Dormant, Blocked, Cancelled}"
  shows "succeeded (a, i) (db_nodes db)"
proof -
  have one: "succeeded (a, i) (db_nodes db)" if "(i, j) \<in> dependency_edges nodes" "n \<in> set (db_nodes db)"
    "node_key n = (a, j)" "nd_state n \<notin> {Dormant, Blocked, Cancelled}" for i j n
  proof -
    from that(1) obtain p where p: "p \<in> set nodes" "j = n_node_id p" "i \<in> set (n_depends_on p)"
      by (auto simp: dependency_edges_def)
    from inv(1) that have "dependencies_met a j db" by (auto simp: order_inv_def begun_def node_key_def)
    with edges [OF p(1,3)] p(2) show ?thesis unfolding dependencies_met_def by fastforce
  qed
  from path show ?thesis
  proof (induction rule: converse_trancl_induct)
    case (base y)
    with one n show ?case by blast
  next
    case (step y z)
    then obtain q where "q \<in> set (db_nodes db)" "node_key q = (a, z)" "nd_state q = Node_Succeeded"
      by (auto simp: succeeded_def)
    with step.hyps(1) show ?case by (intro one [of y z q]) auto
  qed
qed

lemma succeeded_unique:
  assumes "schema_ok db" "succeeded (node_key n) (db_nodes db)" "n \<in> set (db_nodes db)"
  shows "nd_state n = Node_Succeeded"
proof -
  from assms(2) obtain q where "q \<in> set (db_nodes db)" "node_key q = node_key n" "nd_state q = Node_Succeeded"
    by (auto simp: succeeded_def)
  with assms(1,3) show ?thesis by (metis node_key_unique schema_ok_def)
qed

lemma earlier_stages_done:
  assumes inv: "order_inv db" "planned_store E db"
    and m: "attempt_manifest E a db = Some m" "wp_delivery_mode (pm_workflow m) = ExecutorMutation"
    and n: "n \<in> set (db_nodes db)" "nd_attempt_id n = a" "nd_state n \<notin> {Dormant, Blocked, Cancelled}"
    and n': "n' \<in> set (db_nodes db)" "nd_attempt_id n' = a" "stage (nd_kind n') < stage (nd_kind n)"
  shows "nd_state n' = Node_Succeeded"
proof -
  from inv(2) m(1) obtain ns where ns: "ordered_nodes (pm_workflow m) = Inr ns"
    and rows: "\<And>n. n \<in> set (db_nodes db) \<Longrightarrow> nd_attempt_id n = a \<Longrightarrow>
      \<exists>p\<in>set ns. n_node_id p = nd_node_id n \<and> n_kind p = nd_kind n"
    and edges: "\<And>p d. p \<in> set ns \<Longrightarrow> d \<in> set (n_depends_on p) \<Longrightarrow>
      \<lparr> dp_attempt_id = a, dp_node_id = n_node_id p, dp_dependency_node_id = d \<rparr> \<in> set (db_dependencies db)"
    by (rule attempt_manifest_follows) blast
  let ?nodes = "btree_nodes (wp_nodes (pm_workflow m))"
  have "set ns = set ?nodes" using ordered_nodes_Inr(2) [OF ns] by simp
  from rows [OF n(1,2)] rows [OF n'(1,2)] this obtain p p' where p: "p \<in> set ?nodes" "n_node_id p = nd_node_id n"
    "n_kind p = nd_kind n" and p': "p' \<in> set ?nodes" "n_node_id p' = nd_node_id n'" "n_kind p' = nd_kind n'" by auto
  from ordered_nodes_Inr(1) [OF ns]
  have "validate_executor_mutation_graph ?nodes (wp_execution_profiles (pm_workflow m)) = Inr ()"
    by (rule policy_validateE) (use m(2) in simp)
  from executor_graph_stages [OF this p'(1) p(1)] n'(3) p(3) p'(3) have "p' \<in> below ?nodes p" by simp
  then have "(nd_node_id n', nd_node_id n) \<in> (dependency_edges ?nodes)\<^sup>+" by (simp add: below_def p p')
  from started_below [OF inv(1) _ edges this n(1)] n(2,3) inv(2) \<open>set ns = set ?nodes\<close>
  have "succeeded (node_key n') (db_nodes db)" by (simp add: node_key_def n'(2))
  with inv(2) n'(1) show ?thesis by (blast intro: succeeded_unique)
qed

end
