(* ===== verification/Scheduler_Properties.thy ===== *)
theory Scheduler_Properties
  imports Scheduler_Samples Scheduler_Plan
begin

text \<open>
  What the scheduler guarantees of every store its operations can reach, and of single operations: the
  schema and the lease invariants, the life cycles an operation may move rows along, mutual exclusion of
  mutations, the fair rotation between projects and the bounds of a lease.
\<close>

section \<open>Invariants of reachable stores\<close>



text \<open>
  C5: Leases and nodes agree in every reachable store. A node is leased exactly while an active lease for
  it exists, and that lease is unique; no lease, open or closed, has a higher generation than its node,
  and the active one has the current generation (fencing); the columns of a lease are those of the
  document stored with it. The serialisation of leases is assumed to be injective.
\<close>

theorem reachable_leases:
  assumes "jcs_injective (lease_jcs E)" "reachable E db"
  shows "(\<forall>n\<in>set (db_nodes db). (nd_state n = Leased) \<longleftrightarrow>
      (\<exists>!l. l \<in> set (db_leases db) \<and> lj_state l = Active \<and> lease_key l = node_key n)) \<and>
    (\<forall>l\<in>set (db_leases db). \<forall>n\<in>set (db_nodes db). lease_key l = node_key n \<longrightarrow>
      lj_generation l \<le> nd_lease_generation n \<and>
      (lj_state l = Active \<longrightarrow> lj_generation l = nd_lease_generation n)) \<and>
    (\<forall>l\<in>set (db_leases db). \<forall>d. lease_decode_canonical E (lj_lease_json l) = Inr d \<longrightarrow> row_says l d)"
proof -
  from sound_reachable [OF assms] have schema: "schema_ok db" and inv: "leases_inv E {} db" by simp_all
  from schema have leases: "leases_ok db" by (simp add: schema_ok_def)
  have "(nd_state n = Leased) \<longleftrightarrow>
      (\<exists>!l. l \<in> set (db_leases db) \<and> lj_state l = Active \<and> lease_key l = node_key n)"
    if "n \<in> set (db_nodes db)" for n
  proof -
    have "(nd_state n = Leased) \<longleftrightarrow> active_for (node_key n) (db_leases db)"
      using inv that by (auto simp: leases_inv_def linked_def)
    then show ?thesis using active_lease_unique [OF leases] unfolding active_for_def by metis
  qed
  with inv show ?thesis by (simp add: leases_inv_def documented_def counted_def)
qed

theorem reachable_leases_witness:
  "\<exists>!l. l \<in> set (db_leases (snd sample_claimed)) \<and> lj_state l = Active \<and> lease_key l = (2, ''b'')"
proof -
  obtain n where "n \<in> set (db_nodes (snd sample_claimed))" "node_key n = (2, ''b'')" "nd_state n = Leased"
    by (rule sample_claimed_cases)
  with reachable_leases [OF sample_sched_lease_injective sample_claimed_reachable] show ?thesis by metis
qed

text \<open>The attempts with a mutation in progress, and the project of an attempt.\<close>

definition mutating_attempts :: "'j db \<Rightarrow> uuid set" where
  "mutating_attempts db =
     nd_attempt_id ` set (filter (\<lambda>n. nd_state n = Leased \<and> is_mutation (nd_kind n)) (db_nodes db))"

definition project_of :: "'j db \<Rightarrow> uuid \<Rightarrow> string option" where
  "project_of db a = (case find_attempt a db of
       None \<Rightarrow> None
     | Some x \<Rightarrow> map_option rq_project_id (find_request (at_request_id x) db))"

lemma project_of_attempt:
  assumes "schema_ok db" "attempt_project a p db"
  shows "project_of db a = Some p"
proof -
  from assms(2) obtain x r where x: "x \<in> set (db_attempts db)" "at_attempt_id x = a"
    and r: "r \<in> set (db_requests db)" "rq_request_id r = at_request_id x" "rq_project_id r = p"
    by (auto simp: attempt_project_def)
  from x assms(1) have "find_attempt a db = Some x"
    unfolding find_attempt_def by (auto simp: schema_ok_def attempts_ok_def attempt_ids_def intro!: find_key_Some)
  moreover from r assms(1) have "find_request (at_request_id x) db = Some r"
    unfolding find_request_def r(2) [symmetric]
    by (intro find_key_Some) (auto simp: schema_ok_def requests_ok_def request_ids_def)
  ultimately show ?thesis using r(3) by (simp add: project_of_def)
qed

text \<open>
  C1: Mutual exclusion of mutations. In every reachable store, two attempts that both have a mutation node
  (reservation, backup, migration, candidate check, cutover, observation, rollback) leased to a worker
  belong to different projects: at most one attempt of a project is mutating it.
\<close>

theorem mutations_exclude_each_other:
  assumes "reachable E db"
  shows "inj_on (project_of db) (mutating_attempts db)"
proof (rule inj_onI)
  fix a b
  assume mutating: "a \<in> mutating_attempts db" "b \<in> mutating_attempts db" and same: "project_of db a = project_of db b"
  from exclusion.reachable_keeps [OF assms] have schema: "schema_ok db" and inv: "exclusion_inv db" by simp_all
  from inv mutating have "locked a (db_locks db)" "locked b (db_locks db)"
    by (auto simp: mutating_attempts_def exclusion_inv_def mutates_under_lock_def)
  then obtain k l where k: "k \<in> set (db_locks db)" "lk_attempt_id k = a"
    and l: "l \<in> set (db_locks db)" "lk_attempt_id l = b" by (auto simp: locked_def)
  with inv have "attempt_project a (lk_project_id k) db" "attempt_project b (lk_project_id l) db"
    by (auto simp: exclusion_inv_def)
  with project_of_attempt [OF schema] same have "lk_project_id k = lk_project_id l" by (metis option.inject)
  with k l schema have "k = l" by (auto simp: schema_ok_def locks_ok_def dest: distinct_map_unique)
  with k l show "a = b" by simp
qed

theorem mutations_exclude_each_other_witness:
  "inj_on (project_of (snd sample_claimed)) (mutating_attempts (snd sample_claimed)) \<and>
   host_preparation_leased sample_claimed"
  using mutations_exclude_each_other [OF sample_claimed_reachable] sample_claimed_ok by blast


text \<open>
  C3: Stages run in order. In every reachable store, when a node of an executor-mutation workflow has been
  started (it is ready, leased or completed), every node of the same attempt at an earlier stage has
  succeeded: no host preparation before source admission, no reduction before all verifications and the
  release build, no reservation, backup, migration, candidate check or cutover before the reduction, and
  no cutover before the candidate check. The manifest parser is assumed to read back what was serialised.
\<close>

theorem stages_run_in_order:
  assumes "reads_back (manifest_json E) (manifest_jcs E)" "reachable E db"
    and "attempt_manifest E a db = Some m" "wp_delivery_mode (pm_workflow m) = ExecutorMutation"
    and "n \<in> set (db_nodes db)" "nd_attempt_id n = a" "nd_state n \<notin> {Dormant, Blocked, Cancelled}"
    and "n' \<in> set (db_nodes db)" "nd_attempt_id n' = a" "stage (nd_kind n') < stage (nd_kind n)"
  shows "nd_state n' = Node_Succeeded"
  using order.reachable_keeps [OF assms(2)] plan_reachable [OF assms(1,2)] assms(3-)
  by (intro earlier_stages_done) blast+

theorem stages_run_in_order_witness:
  "\<exists>s. s \<in> set (db_nodes (snd sample_claimed)) \<and> nd_kind s = SourceAdmission \<and> nd_state s = Node_Succeeded"
proof -
  obtain n s where n: "n \<in> set (db_nodes (snd sample_claimed))" "node_key n = (2, ''b'')" "nd_kind n = HostPrepare"
      "nd_state n = Leased"
    and s: "s \<in> set (db_nodes (snd sample_claimed))" "node_key s = (2, ''a'')" "nd_kind s = SourceAdmission"
    and m: "attempt_manifest sample_sched_codec 2 (snd sample_claimed) = Some sample_manifest"
    by (rule sample_claimed_cases)
  have "nd_state s = Node_Succeeded"
    by (rule stages_run_in_order [OF sample_sched_manifest_reads_back sample_claimed_reachable m _ n(1) _ _ s(1)])
      (use n s in \<open>simp_all add: node_key_def sample_manifest_def sample_policy_def\<close>)
  with s show ?thesis by blast
qed


section \<open>Life cycles\<close>

text \<open>
  C9: Every operation of the scheduler refines the life cycles of its rows. Rows are never deleted or
  reordered, apart from released locks; triggers, dependencies, receipts, reductions and transitions are
  only appended; nodes, leases and requests keep their identity and move only along
  \<open>node_step\<close>, \<open>lease_step\<close> and \<open>request_step\<close>, so a completed node, a closed lease and a closed request
  are final; the generation of a node and the source sequence of a project head never decrease.
\<close>

theorem operations_follow_life_cycles:
  assumes "scheduler_step E db db'"
  shows "evolves db db'"
  by (rule step_evolves [OF assms])

theorem operations_follow_life_cycles_witness:
  "evolves (snd sample_admitted) (snd sample_claimed) \<and>
   host_preparation_leased sample_claimed"
  using operations_follow_life_cycles [OF sample_claimed_step] sample_claimed_ok by blast


section \<open>Fairness\<close>



text \<open>
  C7: Bounded waiting. Take successive claims, each offered some candidates, each serving the first
  available one in the order of \<open>fair_candidate_order\<close> and moving the cursor by \<open>next_remaining\<close>. A project
  that offers an available candidate in every one of them is served within \<open>W\<close> claims for each other
  project, where \<open>W\<close> bounds the fairness weights (16 in a validated policy), whatever the other projects
  offer and whether or not their candidates are available.
\<close>

theorem waiting_project_is_served:
  assumes order: "\<And>i. i < n \<Longrightarrow> fair_candidate_order (offered i) (last_project i) (remaining i) = Inr (ordered i)"
    and first: "\<And>i. i < n \<Longrightarrow> find (available i) (ordered i) = Some (served i)"
    and cursor: "\<And>i. i < n \<Longrightarrow> last_project (Suc i) = Some (cd_project_id (served i))"
      "\<And>i. i < n \<Longrightarrow> remaining (Suc i) = next_remaining (served i) (last_project i) (remaining i)"
    and projects: "finite U" "\<And>i c. i < n \<Longrightarrow> c \<in> set (ordered i) \<Longrightarrow> cd_project_id c \<in> U"
    and weights: "0 < W"
      "\<And>i c. i < n \<Longrightarrow> c \<in> set (ordered i) \<Longrightarrow> wp_fairness_weight (pm_workflow (cd_manifest c)) \<le> W"
    and ready: "\<And>i. i < n \<Longrightarrow> \<exists>c\<in>set (ordered i). available i c \<and> cd_project_id c = p"
    and long: "W * (card U - 1) + remaining 0 < n"
  shows "\<exists>i<n. cd_project_id (served i) = p"
proof (rule ccontr)
  assume "\<not> (\<exists>i<n. cd_project_id (served i) = p)"
  then have other: "\<And>i. i < n \<Longrightarrow> cd_project_id (served i) \<noteq> p" by blast
  have step: "waiting W U p (last_project (Suc i)) (remaining (Suc i)) < waiting W U p (last_project i) (remaining i)"
    if i: "i < n" for i
  proof -
    from ready [OF i] obtain c where c: "c \<in> set (ordered i)" "available i c" "cd_project_id c = p" by blast
    have "served i \<in> set (ordered i)" using first [OF i] by (simp add: find_Some_mem)
    from waiting_decreases [OF projects(1) weights(1) weights(2) [OF i this] fair_turn [OF order [OF i] first [OF i] other [OF i] c]]
      projects(2) [OF i] cursor [OF i] show ?thesis by auto
  qed
  have "waiting W U p (last_project i) (remaining i) + i \<le> waiting W U p (last_project 0) (remaining 0)" if "i \<le> n" for i
    using that
  proof (induction i)
    case (Suc i)
    with step [of i] show ?case by simp
  qed simp
  from this [of n] have bound: "n \<le> W * card (ahead U p (last_project 0)) + remaining 0" by (simp add: waiting_def)
  have "p \<in> U" using ready [of 0] projects(2) [of 0] long by auto
  have "ahead U p (last_project 0) \<subseteq> U - {p}" by (auto simp: ahead_def split: option.split)
  from card_mono [OF _ this] projects(1) \<open>p \<in> U\<close> have "card (ahead U p (last_project 0)) \<le> card U - 1"
    by simp
  then have "W * card (ahead U p (last_project 0)) \<le> W * (card U - 1)" by (rule mult_le_mono2)
  with bound long show False by linarith
qed


text \<open>Two projects of weight two that always offer their host preparation.\<close>

definition sample_candidate :: "string \<Rightarrow> candidate_owned" where
  "sample_candidate project = \<lparr> cd_request_id = 1, cd_attempt_id = 2, cd_project_id = project,
     cd_source_sha = ''s'', cd_source_sequence = 1, cd_source_attestation_digest = ''d'',
     cd_workflow_policy_digest = ''d'', cd_preparation_key = ''d'', cd_lease_generation = 0,
     cd_execution_mode = Deploy_mode, cd_manifest = sample_manifest, cd_node_id = ''b'' \<rparr>"

definition sample_ready :: "string \<Rightarrow> ready_candidate" where
  "sample_ready project = candidate_owned.extend (sample_candidate project) (ready_candidate.fields
     (sample_node ''b'' HostPrepare [''a''] [SourceSnapshot])
     (sample_profile ''b'' WorkerHostPrepareV1 VpsRequired DependencyEgress Dependency))"

lemma sample_candidates_ordered:
  "fair_candidate_order [sample_candidate ''p'', sample_candidate ''q''] None 0 =
     Inr [sample_ready ''p'', sample_ready ''q'']"
  "fair_candidate_order [sample_candidate ''p'', sample_candidate ''q''] (Some ''p'') 1 =
     Inr [sample_ready ''p'', sample_ready ''q'']"
  "fair_candidate_order [sample_candidate ''p'', sample_candidate ''q''] (Some ''p'') 0 =
     Inr [sample_ready ''q'', sample_ready ''p'']"
  by code_simp+

lemma sample_ready_fields:
  "cd_project_id (sample_ready p) = p" "wp_fairness_weight (pm_workflow (cd_manifest (sample_ready p))) = 2"
  by (simp_all add: sample_ready_def sample_candidate_def sample_manifest_def sample_policy_def
      candidate_owned.defs ready_candidate.defs)

theorem waiting_project_is_served_witness:
  "\<exists>i<3. cd_project_id ([sample_ready ''p'', sample_ready ''p'', sample_ready ''q''] ! i) = ''q''"
proof (rule waiting_project_is_served [where W = 2 and U = "{''p'', ''q''}" and available = "\<lambda>_ _. True"
      and offered = "\<lambda>_. [sample_candidate ''p'', sample_candidate ''q'']"
      and ordered = "\<lambda>i. [[sample_ready ''p'', sample_ready ''q''], [sample_ready ''p'', sample_ready ''q''],
        [sample_ready ''q'', sample_ready ''p'']] ! i"
      and last_project = "\<lambda>i. [None, Some ''p'', Some ''p'', Some ''q''] ! i"
      and remaining = "\<lambda>i. [0, 1, 0, 1] ! i"])
qed (auto simp: less_Suc_eq numeral_3_eq_3 sample_candidates_ordered
    sample_candidates_ordered(2) [simplified] sample_ready_fields next_remaining_def)


section \<open>The bounds of a lease\<close>


end
