(* ===== verification/Scheduler_Expiry.thy ===== *)
theory Scheduler_Expiry
  imports Scheduler_Plan Scheduler_Samples
begin

text \<open>
  The sweep over expired leases. When a lease expires at its execution deadline the whole attempt fails
  and its other leases are revoked; a sweep that meets such a lease and another expired lease of the same
  attempt after it therefore fails as a whole, and with it every operation that sweeps first.
\<close>

section \<open>What a sweep leaves behind\<close>

lemma idle_update_nodes [keep_rules]:
  "(\<And>n. p n \<Longrightarrow> nd_attempt_id (f n) = nd_attempt_id n \<and> nd_state (f n) \<noteq> Leased) \<Longrightarrow>
   preserves (idle a) (update_nodes p f)"
  unfolding update_nodes_def by (rule preserves_change_table) (auto simp: idle_def)

lemma idle_other_writes [keep_rules]:
  "preserves (idle a) (update_leases pl fl)" "preserves (idle a) (update_attempts pa fa)"
  "preserves (idle a) (update_requests pr fr)" "preserves (idle a) (update_locks pk fk)"
  "preserves (idle a) (insert_transition tr)"
  unfolding statement_defs
  by (rule preserves_change_table preserves_write_table, simp add: idle_def)+

lemma idle_append_transition [keep_rules]: "preserves (idle b) (append_transition a s f s2 r e t)"
  unfolding append_transition_def by (intro keep_rules)

lemma idle_terminate [keep_rules]: "preserves (idle b) (terminate_request_of a t)"
  unfolding terminate_request_of_def by (intro keep_rules)

lemma idle_fail_terminal:
  "preserves (idle b) (fail_terminal_workflow a c t)" "carries (\<lambda>_. True) (fail_terminal_workflow a c t) (idle a)"
proof -
  show "preserves (idle b) (fail_terminal_workflow a c t)"
    unfolding fail_terminal_workflow_def revoke_active_leases_def cancel_open_nodes_def
    by (intro keep_rules; simp)
  have cancel: "carries (\<lambda>_. True) (cancel_open_nodes a t) (idle a)"
    unfolding cancel_open_nodes_def update_nodes_def
    by (intro carries_execute carries_change_table) (auto simp: idle_def node_open_def)
  have any: "preserves (\<lambda>_. True) m" for m :: "('x, 'e, 'y) tx" by (rule preservesI)
  show "carries (\<lambda>_. True) (fail_terminal_workflow a c t) (idle a)"
    unfolding fail_terminal_workflow_def Let_def
    by (intro carries_bind_kept [OF any] carries_bind [OF cancel] carries_preserved keep_rules)
qed

lemma idle_expire_one: "preserves (idle a) (expire_one_lease E t l)"
  unfolding expire_one_lease_def expire_mutation_lease_def expire_worker_lease_def expire_at_deadline_def
    close_leased_node_def
  by (intro idle_fail_terminal(1) keep_rules; simp)

lemma view_expire_one: "preserves (\<lambda>db. plan_view db = v) (expire_one_lease E t l)"
  unfolding expire_one_lease_def expire_mutation_lease_def expire_worker_lease_def expire_at_deadline_def
    close_leased_node_def
  by (intro keep_rules; simp)

text \<open>A lease that expires at its deadline, of a node that delivers nothing, ends the attempt.\<close>

definition plain_worker_node :: "node_kind \<Rightarrow> bool" where
  "plain_worker_node k \<longleftrightarrow> k \<in> {HostPrepare, Verification}"

lemma plain_not_uncertain: "plain_worker_node k \<Longrightarrow> \<not> uncertain_delivery c k"
  by (auto simp: plain_worker_node_def uncertain_delivery_def is_mutation_def is_self_update_handoff_release_def)

lemma expire_one_at_deadline:
  assumes "expire_one_lease E t l db = Inr (u, db')"
    and "lease_decode_canonical E (lj_lease_json l) = Inr d"
    and "execution_deadline_ms (ls_leased_at_ms d) (ls_timeout_ms d) = Inr (ls_expires_at_ms d)"
    and "\<And>n. find_node_row (lj_attempt_id l) (lj_node_id l) db = Some n \<Longrightarrow> plain_worker_node (nd_kind n)"
  shows "idle (lj_attempt_id l) db'"
proof -
  from assms obtain db1 db2 v w where expired: "expire_at_deadline (lj_attempt_id l) (lj_node_id l) (ls_lease_digest d) t db1 = Inr (v, db2)"
    and last: "append_transition (lj_attempt_id l) (Subject_lease (lj_lease_id l)) (Some ''active'') ''expired''
      ''execution_deadline_expired'' (Some (ls_lease_digest d)) t db2 = Inr (w, db')"
    by (auto simp: expire_one_lease_def Let_def tx_bind_Inr_iff plain_not_uncertain)
  from expired obtain db3 db4 x y where "fail_terminal_workflow (lj_attempt_id l) Pending t db3 = Inr (x, db4)"
    "append_transition (lj_attempt_id l) (Subject_node (lj_node_id l)) (Some ''leased'') (node_state_name Node_Failed)
       ''execution_deadline_expired'' (Some (ls_lease_digest d)) t db4 = Inr (y, db2)"
    by (auto simp: expire_at_deadline_def tx_bind_Inr_iff)
  with carriesD [OF idle_fail_terminal(2)] have "idle (lj_attempt_id l) db2"
    by (blast intro: preservesD [OF idle_append_transition])
  from preservesD [OF idle_append_transition this last] show ?thesis .
qed

lemma expire_one_refuses:
  assumes "idle (lj_attempt_id l) db"
  shows "expire_one_lease E t l db \<noteq> Inr (u, db')"
proof
  assume "expire_one_lease E t l db = Inr (u, db')"
  then obtain n where n: "find_node_row (lj_attempt_id l) (lj_node_id l) db = Some n" "nd_state n = Leased"
    by (auto simp: expire_one_lease_def tx_bind_Inr_iff)
  then have "n \<in> set (db_nodes db)" "nd_attempt_id n = lj_attempt_id l"
    by (auto simp: find_node_row_def dest!: find_Some_mem)
  with n(2) assms show False by (auto simp: idle_def)
qed

lemma sorted_key_split:
  fixes f :: "'a \<Rightarrow> 'b :: linorder"
  assumes "sorted (map f xs)" "x \<in> set xs" "y \<in> set xs" "f x < f y"
  shows "\<exists>pre mid post. xs = pre @ x # mid @ y # post"
proof -
  from assms(3) obtain as bs where xs: "xs = as @ y # bs" by (meson split_list)
  with assms have "x \<in> set as" by (auto simp: sorted_append)
  then obtain pre mid where "as = pre @ x # mid" by (meson split_list)
  with xs show ?thesis by auto
qed

lemma tx_each_append_Inr:
  "tx_each f (xs @ ys) s = Inr (u, s') \<Longrightarrow> \<exists>t. tx_each f xs s = Inr ((), t) \<and> tx_each f ys t = Inr (u, s')"
proof (induction xs arbitrary: s)
  case (Cons x xs)
  then obtain t where t: "f x s = Inr ((), t)" "tx_each f (xs @ ys) t = Inr (u, s')" by auto
  from Cons.IH [OF t(2)] t(1) show ?case by (auto simp: tx_bind_def)
qed simp

section \<open>A sweep that cannot finish\<close>

definition sweep_order :: "'j lease_row \<Rightarrow> int \<times> uuid" where
  "sweep_order l = (lj_expires_at_ms l, lj_lease_id l)"

text \<open>
  An active lease at its execution deadline and another expired lease of the same attempt that the sweep
  meets later.
\<close>

definition deadline_before :: "('j, 'x) sched_codec_scheme \<Rightarrow> int \<Rightarrow> 'j lease_row \<Rightarrow> lease \<Rightarrow> 'j lease_row \<Rightarrow> 'j db \<Rightarrow> bool" where
  "deadline_before E t l d l' db \<longleftrightarrow>
     l \<in> set (db_leases db) \<and> l' \<in> set (db_leases db) \<and> lj_state l = Active \<and> lj_state l' = Active \<and>
     lj_attempt_id l' = lj_attempt_id l \<and> sweep_order l < sweep_order l' \<and> lj_expires_at_ms l' \<le> t \<and>
     lease_decode_canonical E (lj_lease_json l) = Inr d \<and>
     execution_deadline_ms (ls_leased_at_ms d) (ls_timeout_ms d) = Inr (ls_expires_at_ms d) \<and>
     list_ex (\<lambda>n. node_key n = lease_key l \<and> plain_worker_node (nd_kind n)) (db_nodes db)"

lemma deadline_before_swept:
  assumes "deadline_before E t l d l' db"
  shows "\<exists>pre mid post. expired_leases t db = pre @ l # mid @ l' # post"
proof (rule sorted_key_split [where f = sweep_order])
  show "sorted (map sweep_order (expired_leases t db))"
    unfolding expired_leases_def sweep_order_def by (rule sorted_sort_key)
  from assms have "lj_expires_at_ms l \<le> lj_expires_at_ms l'" "lj_expires_at_ms l' \<le> t"
    by (auto simp: deadline_before_def sweep_order_def less_prod_def)
  with assms show "l \<in> set (expired_leases t db)" "l' \<in> set (expired_leases t db)" "sweep_order l < sweep_order l'"
    by (simp_all add: deadline_before_def expired_leases_def)
qed

lemma plain_node_kept:
  assumes "schema_ok db" "plan_view db' = plan_view db"
    and "n \<in> set (db_nodes db)" "node_key n = (a, i)" "find_node_row a i db' = Some n'"
  shows "nd_kind n' = nd_kind n"
proof -
  from assms(5) have "n' \<in> set (db_nodes db')" "nd_attempt_id n' = a" "nd_node_id n' = i"
    by (auto simp: find_node_row_def dest!: find_Some_mem)
  then have "(a, i, nd_kind n', nd_activation n') \<in>
      (\<lambda>n. (nd_attempt_id n, nd_node_id n, nd_kind n, nd_activation n)) ` set (db_nodes db')"
    by (auto intro: rev_image_eqI)
  with assms(2) obtain q where "q \<in> set (db_nodes db)" "node_key q = (a, i)" "nd_kind q = nd_kind n'"
    by (auto simp: plan_view_def node_key_def)
  with assms(1,3,4) show ?thesis by (metis node_key_unique schema_ok_def)
qed

lemma sweep_fails:
  assumes "schema_ok db" "deadline_before E t l d l' db"
  shows "\<exists>e. expire_leases_transaction E t db = Inl e"
proof (rule ccontr)
  assume "\<nexists>e. expire_leases_transaction E t db = Inl e"
  then obtain k db' where "expire_leases_transaction E t db = Inr (k, db')"
    by (cases "expire_leases_transaction E t db") auto
  moreover obtain pre mid post where "expired_leases t db = pre @ l # mid @ l' # post"
    using deadline_before_swept [OF assms(2)] by blast
  ultimately have "tx_each (expire_one_lease E t) (pre @ l # mid @ l' # post) db = Inr ((), db')"
    by (auto simp: expire_leases_transaction_def tx_bind_Inr_iff)
  then obtain db1 db2 db3 db4 where pre: "tx_each (expire_one_lease E t) pre db = Inr ((), db1)"
    and l: "expire_one_lease E t l db1 = Inr ((), db2)"
    and mid: "tx_each (expire_one_lease E t) mid db2 = Inr ((), db3)"
    and l': "expire_one_lease E t l' db3 = Inr ((), db4)"
    by (fastforce dest!: tx_each_append_Inr)
  note facts = assms(2) [unfolded deadline_before_def]
  have view: "plan_view db1 = plan_view db"
    by (rule preservesD [OF preserves_each [OF view_expire_one] refl pre])
  have plain: "plain_worker_node (nd_kind n)" if "find_node_row (lj_attempt_id l) (lj_node_id l) db1 = Some n" for n
    using plain_node_kept [OF assms(1) view _ _ that] facts by (auto simp: list_ex_iff lease_key_def)
  have "idle (lj_attempt_id l) db2"
    by (rule expire_one_at_deadline [OF l _ _ plain]) (use facts in blast)+
  from preservesD [OF preserves_each [OF idle_expire_one] this mid] have "idle (lj_attempt_id l') db3"
    using facts by simp
  from expire_one_refuses [OF this] l' show False by blast
qed


section \<open>A store in which the sweep fails\<close>

text \<open>Two verifications of one attempt, leased together and not renewed before their deadline.\<close>

definition sample_deadline_lease :: "uuid \<Rightarrow> node_id \<Rightarrow> lease" where
  "sample_deadline_lease i node =
     (case lease_reseal sample_sched_codec
         (sample_lease\<lparr>ls_lease_id := i, ls_node_id := node, ls_expires_at_ms := 600010\<rparr>) of
        Inr l \<Rightarrow> l
      | Inl _ \<Rightarrow> sample_lease)"

definition sample_lease_row :: "lease \<Rightarrow> sched_text lease_row" where
  "sample_lease_row l = \<lparr> lj_lease_id = ls_lease_id l, lj_attempt_id = ls_attempt_id l,
     lj_node_id = ls_node_id l, lj_generation = int (ls_lease_generation l),
     lj_worker_id = ls_worker_id l, lj_host_id = ls_host_id l,
     lj_expected_input_digest = ls_expected_input_digest l, lj_lease_digest = ls_lease_digest l,
     lj_lease_json = T_text (T_document (T_lease l)), lj_state = Active,
     lj_leased_at_ms = ls_leased_at_ms l, lj_expires_at_ms = ls_expires_at_ms l,
     lj_closed_at_ms = None, lj_receipt_digest = None \<rparr>"

definition sample_leased_node :: "node_id \<Rightarrow> int \<Rightarrow> node_row" where
  "sample_leased_node i ordinal = \<lparr> nd_attempt_id = 3, nd_node_id = i, nd_ordinal = ordinal,
     nd_kind = Verification, nd_activation = Always, nd_profile_id = ''c'', nd_worker_pool = BuildCompute,
     nd_state = Leased, nd_lease_generation = 1, nd_output_digest = None, nd_receipt_digest = None,
     nd_completed_at_ms = None \<rparr>"

definition sample_deadline_store :: "sched_text db" where
  "sample_deadline_store = empty_db\<lparr>
     db_requests := [\<lparr> rq_request_id = 2, rq_project_id = ''p'', rq_policy_digest = ''w'', rq_source_sha = ''s'',
       rq_operation_kind = Deploy_mode, rq_source_sequence = 5, rq_attestation_digest = ''a'',
       rq_manifest_json = T_text (T_manifest sample_manifest), rq_priority = 1, rq_state = Request_Active,
       rq_superseded_by = None, rq_created_at_ms = 0, rq_updated_at_ms = 0 \<rparr>],
     db_attempts := [\<lparr> at_attempt_id = 3, at_request_id = 2, at_attempt_number = 1, at_preparation_key = ''k'',
       at_state = Running, at_mutation_state = NotStarted, at_cleanup_state = Cleanup_Complete,
       at_created_at_ms = 0, at_updated_at_ms = 10, at_terminal_at_ms = None \<rparr>],
     db_nodes := [sample_leased_node ''c'' 0, sample_leased_node ''v'' 1],
     db_leases := [sample_lease_row (sample_deadline_lease 7 ''c''), sample_lease_row (sample_deadline_lease 8 ''v'')]\<rparr>"

lemma sample_deadline_schema: "schema_ok sample_deadline_store"
  by code_simp

lemma sample_deadline_pair:
  "deadline_before sample_sched_codec 600010 (sample_lease_row (sample_deadline_lease 7 ''c''))
     (sample_deadline_lease 7 ''c'') (sample_lease_row (sample_deadline_lease 8 ''v'')) sample_deadline_store"
  by code_simp



end
