(* ===== verification/Io_Steps.thy ===== *)
theory Io_Steps
  imports Prelude
begin

text \<open>
  Code that talks to the file system or to a service keeps what it did when it fails: there is no
  transaction to roll back. Such an operation takes the state to a result and the state it leaves,
  on both outcomes. A crash between two effects leaves the same state as the failure of the second
  one, so that what is proved of the state after a failure is what a restarted process finds.
\<close>

named_theorems io_simps \<open>evaluation of operations with effects\<close>
named_theorems io_rules \<open>what an operation leaves, along its structure\<close>

type_synonym ('s, 'e, 'a) io = "'s \<Rightarrow> ('e + 'a) \<times> 's"

definition io_return :: "'a \<Rightarrow> ('s, 'e, 'a) io" where
  "io_return x s = (Inr x, s)"

definition io_fail :: "'e \<Rightarrow> ('s, 'e, 'a) io" where
  "io_fail e s = (Inl e, s)"

definition io_bind :: "('s, 'e, 'a) io \<Rightarrow> ('a \<Rightarrow> ('s, 'e, 'b) io) \<Rightarrow> ('s, 'e, 'b) io" where
  "io_bind m f s = (case m s of (r, s') \<Rightarrow> (case r of Inl e \<Rightarrow> (Inl e, s') | Inr x \<Rightarrow> f x s'))"

definition io_lift :: "'e + 'a \<Rightarrow> ('s, 'e, 'a) io" where
  "io_lift r s = (r, s)"

definition io_get :: "('s \<Rightarrow> 'a) \<Rightarrow> ('s, 'e, 'a) io" where
  "io_get q s = (Inr (q s), s)"

definition io_modify :: "('s \<Rightarrow> 's) \<Rightarrow> ('s, 'e, unit) io" where
  "io_modify f s = (Inr (), f s)"

definition io_ensure :: "bool \<Rightarrow> 'e \<Rightarrow> ('s, 'e, unit) io" where
  "io_ensure b e s = (if b then Inr () else Inl e, s)"

definition io_when :: "bool \<Rightarrow> ('s, 'e, unit) io \<Rightarrow> ('s, 'e, unit) io" where
  "io_when b m = (if b then m else io_return ())"

definition io_map_err :: "('e \<Rightarrow> 'f) \<Rightarrow> ('s, 'e, 'a) io \<Rightarrow> ('s, 'f, 'a) io" where
  "io_map_err g m s = (case m s of (r, s') \<Rightarrow> (map_err g r, s'))"

text \<open>An operation on a part of the state.\<close>

definition io_zoom ::
  "('s \<Rightarrow> 't) \<Rightarrow> (('t \<Rightarrow> 't) \<Rightarrow> 's \<Rightarrow> 's) \<Rightarrow> ('t, 'e, 'a) io \<Rightarrow> ('s, 'e, 'a) io" where
  "io_zoom part update m s = (case m (part s) of (r, t) \<Rightarrow> (r, update (\<lambda>_. t) s))"

fun io_each :: "('a \<Rightarrow> ('s, 'e, unit) io) \<Rightarrow> 'a list \<Rightarrow> ('s, 'e, unit) io" where
  "io_each f [] = io_return ()"
| "io_each f (x # xs) = io_bind (f x) (\<lambda>_. io_each f xs)"

lemmas io_defs = io_return_def io_fail_def io_lift_def io_get_def io_modify_def io_ensure_def

lemma io_bind_return [io_simps]: "io_bind (io_return x) f = f x"
  by (rule ext) (simp add: io_bind_def io_return_def)

lemma io_bind_lift_Inr [io_simps]: "io_bind (io_lift (Inr x)) f = f x"
  by (rule ext) (simp add: io_bind_def io_lift_def)

lemma io_bind_fail [io_simps]: "io_bind (io_fail e) f = io_fail e"
  by (rule ext) (simp add: io_bind_def io_fail_def)

lemma io_bind_Inr:
  "io_bind m f s = (Inr y, t) \<longleftrightarrow> (\<exists>x s'. m s = (Inr x, s') \<and> f x s' = (Inr y, t))"
  by (auto simp: io_bind_def split: prod.splits sum.splits)

lemma io_bind_Inl:
  "io_bind m f s = (Inl e, t) \<longleftrightarrow>
     m s = (Inl e, t) \<or> (\<exists>x s'. m s = (Inr x, s') \<and> f x s' = (Inl e, t))"
  by (auto simp: io_bind_def split: prod.splits sum.splits)


section \<open>Triples\<close>

text \<open>
  From a state with \<open>P\<close>, a success leaves \<open>Q\<close> of its value and the state, a failure leaves \<open>E\<close> of
  the error and the state.
\<close>

definition io_triple ::
  "('s \<Rightarrow> bool) \<Rightarrow> ('s, 'e, 'a) io \<Rightarrow> ('a \<Rightarrow> 's \<Rightarrow> bool) \<Rightarrow> ('e \<Rightarrow> 's \<Rightarrow> bool) \<Rightarrow> bool" where
  "io_triple P m Q E \<longleftrightarrow>
     (\<forall>s. P s \<longrightarrow> (case m s of (Inl e, s') \<Rightarrow> E e s' | (Inr x, s') \<Rightarrow> Q x s'))"

text \<open>The state keeps \<open>I\<close> whatever the outcome.\<close>

abbreviation io_keeps :: "('s \<Rightarrow> bool) \<Rightarrow> ('s, 'e, 'a) io \<Rightarrow> bool" where
  "io_keeps I m \<equiv> io_triple I m (\<lambda>_. I) (\<lambda>_. I)"

lemma io_tripleI:
  assumes "\<And>s x s'. P s \<Longrightarrow> m s = (Inr x, s') \<Longrightarrow> Q x s'"
    and "\<And>s e s'. P s \<Longrightarrow> m s = (Inl e, s') \<Longrightarrow> E e s'"
  shows "io_triple P m Q E"
  using assms by (auto simp: io_triple_def split: prod.splits sum.splits)

lemma io_tripleD_ok: "io_triple P m Q E \<Longrightarrow> P s \<Longrightarrow> m s = (Inr x, s') \<Longrightarrow> Q x s'"
  unfolding io_triple_def by (drule spec [of _ s]) simp

lemma io_tripleD_err: "io_triple P m Q E \<Longrightarrow> P s \<Longrightarrow> m s = (Inl e, s') \<Longrightarrow> E e s'"
  unfolding io_triple_def by (drule spec [of _ s]) simp

lemma io_keepsD: "io_keeps I m \<Longrightarrow> I s \<Longrightarrow> I (snd (m s))"
proof -
  assume keeps: "io_keeps I m" and "I s"
  obtain r t where m: "m s = (r, t)" by (cases "m s")
  then show ?thesis
    using io_tripleD_ok [OF keeps \<open>I s\<close>] io_tripleD_err [OF keeps \<open>I s\<close>]
    by (cases r) simp_all
qed

lemma io_triple_bind [io_rules]:
  assumes "io_triple P m R E" and "\<And>x. io_triple (R x) (f x) Q E"
  shows "io_triple P (io_bind m f) Q E"
proof (rule io_tripleI)
  fix s y t assume "P s" "io_bind m f s = (Inr y, t)"
  then obtain x s' where "m s = (Inr x, s')" "f x s' = (Inr y, t)" by (auto simp: io_bind_Inr)
  with \<open>P s\<close> show "Q y t" by (blast intro: io_tripleD_ok [OF assms(2) io_tripleD_ok [OF assms(1)]])
next
  fix s e t assume "P s" "io_bind m f s = (Inl e, t)"
  then consider "m s = (Inl e, t)" | x s' where "m s = (Inr x, s')" "f x s' = (Inl e, t)"
    by (auto simp: io_bind_Inl)
  then show "E e t"
  proof cases
    case 1
    then show ?thesis by (rule io_tripleD_err [OF assms(1) \<open>P s\<close>])
  next
    case 2
    show ?thesis
      by (rule io_tripleD_err [OF assms(2) io_tripleD_ok [OF assms(1) \<open>P s\<close> 2(1)] 2(2)])
  qed
qed

lemma io_triple_return: "(\<And>s. P s \<Longrightarrow> Q x s) \<Longrightarrow> io_triple P (io_return x) Q E"
  by (simp add: io_triple_def io_return_def)

lemma io_triple_fail: "(\<And>s. P s \<Longrightarrow> E e s) \<Longrightarrow> io_triple P (io_fail e) Q E"
  by (simp add: io_triple_def io_fail_def)

lemma io_triple_lift:
  "(\<And>s x. P s \<Longrightarrow> r = Inr x \<Longrightarrow> Q x s) \<Longrightarrow> (\<And>s e. P s \<Longrightarrow> r = Inl e \<Longrightarrow> E e s) \<Longrightarrow>
   io_triple P (io_lift r) Q E"
  by (simp add: io_triple_def io_lift_def split: sum.splits)

lemma io_triple_ensure:
  "(\<And>s. P s \<Longrightarrow> b \<Longrightarrow> Q () s) \<Longrightarrow> (\<And>s. P s \<Longrightarrow> \<not> b \<Longrightarrow> E e s) \<Longrightarrow> io_triple P (io_ensure b e) Q E"
  by (simp add: io_triple_def io_ensure_def split: sum.splits)

lemma io_triple_modify: "(\<And>s. P s \<Longrightarrow> Q () (f s)) \<Longrightarrow> io_triple P (io_modify f) Q E"
  by (simp add: io_triple_def io_modify_def)

lemma io_triple_get: "(\<And>s. P s \<Longrightarrow> Q (q s) s) \<Longrightarrow> io_triple P (io_get q) Q E"
  by (simp add: io_triple_def io_get_def)

lemma io_triple_if:
  "(b \<Longrightarrow> io_triple P m Q E) \<Longrightarrow> (\<not> b \<Longrightarrow> io_triple P n Q E) \<Longrightarrow>
   io_triple P (if b then m else n) Q E"
  by simp

lemma io_triple_when:
  "(b \<Longrightarrow> io_triple P m Q E) \<Longrightarrow> (\<And>s. P s \<Longrightarrow> \<not> b \<Longrightarrow> Q () s) \<Longrightarrow> io_triple P (io_when b m) Q E"
  by (simp add: io_when_def io_triple_return)

lemma io_triple_option:
  "(x = None \<Longrightarrow> io_triple P m Q E) \<Longrightarrow> (\<And>v. x = Some v \<Longrightarrow> io_triple P (f v) Q E) \<Longrightarrow>
   io_triple P (case x of None \<Rightarrow> m | Some v \<Rightarrow> f v) Q E"
  by (cases x) simp_all

lemma io_triple_weaken:
  assumes "io_triple P' m Q' E'" "\<And>s. P s \<Longrightarrow> P' s"
    and "\<And>x s. Q' x s \<Longrightarrow> Q x s" "\<And>e s. E' e s \<Longrightarrow> E e s"
  shows "io_triple P m Q E"
  by (rule io_tripleI)
    (rule assms(3) [OF io_tripleD_ok [OF assms(1)]] assms(4) [OF io_tripleD_err [OF assms(1)]],
      erule assms(2), assumption)+

text \<open>A precondition that does not speak of the state is a fact of the context.\<close>

lemma io_triple_assume: "(A \<Longrightarrow> io_triple P m Q E) \<Longrightarrow> io_triple (\<lambda>s. A \<and> P s) m Q E"
  by (simp add: io_triple_def)

lemma io_triple_map_err:
  assumes m: "io_triple P m Q (\<lambda>e. E (g e))"
  shows "io_triple P (io_map_err g m) Q E"
proof (rule io_tripleI)
  fix s x t assume "P s" "io_map_err g m s = (Inr x, t)"
  then have "m s = (Inr x, t)"
    by (simp add: io_map_err_def map_err_def split: prod.splits sum.splits)
  then show "Q x t" by (rule io_tripleD_ok [OF m \<open>P s\<close>])
next
  fix s e t assume "P s" "io_map_err g m s = (Inl e, t)"
  then obtain e' where "m s = (Inl e', t)" "e = g e'"
    by (auto simp: io_map_err_def map_err_def split: prod.splits sum.splits)
  then show "E e t" using io_tripleD_err [OF m \<open>P s\<close>] by simp
qed

lemma io_triple_each:
  assumes "\<And>x. x \<in> set xs \<Longrightarrow> io_triple I (f x) (\<lambda>_. I) E"
  shows "io_triple I (io_each f xs) (\<lambda>_. I) E"
  using assms
proof (induction xs)
  case Nil
  then show ?case by (simp add: io_triple_return)
next
  case (Cons x xs)
  then show ?case
    unfolding io_each.simps by (intro io_triple_bind [where R = "\<lambda>_. I"]) simp_all
qed

lemma io_triple_zoom:
  assumes "\<And>s. P s \<Longrightarrow> io_triple (\<lambda>t. t = part s) m
    (\<lambda>x t. Q x (update (\<lambda>_. t) s)) (\<lambda>e t. E e (update (\<lambda>_. t) s))"
  shows "io_triple P (io_zoom part update m) Q E"
proof (rule io_tripleI)
  fix s x s' assume "P s" "io_zoom part update m s = (Inr x, s')"
  then obtain t where "m (part s) = (Inr x, t)" "s' = update (\<lambda>_. t) s"
    by (auto simp: io_zoom_def split: prod.splits)
  then show "Q x s'" using io_tripleD_ok [OF assms [OF \<open>P s\<close>] refl] by simp
next
  fix s e s' assume "P s" "io_zoom part update m s = (Inl e, s')"
  then obtain t where "m (part s) = (Inl e, t)" "s' = update (\<lambda>_. t) s"
    by (auto simp: io_zoom_def split: prod.splits)
  then show "E e s'" using io_tripleD_err [OF assms [OF \<open>P s\<close>] refl] by simp
qed

end
