(* ===== verification/Self_Update_Journal.thy ===== *)
theory Self_Update_Journal
  imports Io_Steps Std_Text Sealed_Documents "HOL-Library.Product_Lexorder"
begin

text \<open>
  The journal of self-updates, \<open>SelfUpdateRecordV1\<close> and \<open>SelfUpdateJournalV1\<close> of
  \<open>src/self_update.rs\<close>: the record of one update, its canonical document, and the directory that
  holds one file per update and is replaced a file at a time by renaming.

  The directory is an explicit list of files with the metadata the code checks. Each system call may
  fail: \<open>jr_faults\<close> lists what the next calls answer (an empty list: they succeed), so that a
  statement for every list covers an \<open>io::Error\<close>, or a crash, at every point. Calls that only read
  are one fault point per group. The mutex and the exclusive lock make the operations of one journal
  sequential. The JSON encoders, SHA-256, the text form of a \<open>Uuid\<close> and its random generator are
  arguments (\<open>update_codec\<close>).
\<close>

datatype self_update_error =
    InvalidManifest
  | InvalidDescriptor
  | InvalidPolicy
  | NoncanonicalDocument
  | InvalidSignature
  | PolicyMismatch
  | UnsafeHandoff
  | UnsafeStore
  | UnsafeJournal
  | JournalAlreadyOpen
  | JournalCapacityExceeded
  | MultipleActiveUpdates
  | UpdateAlreadyActive
  | RecoveryRequired
  | InvalidJournalRecord
  | InvalidJournalTransition
  | JournalRecordMissing
  | JournalRecordConflict
  | InvalidPlatformFailure
  | Platform string
  | Json
  | Io


section \<open>The record of an update\<close>

datatype self_update_phase =
    BackupPending
  | SwitchPending
  | StartPending
  | HealthPending
  | CommitPending
  | RollbackPending
  | RollbackHealthPending
  | Succeeded
  | RolledBack
  | NeedsReconcile

definition is_terminal :: "self_update_phase \<Rightarrow> bool" where
  "is_terminal p \<longleftrightarrow> p = Succeeded \<or> p = RolledBack \<or> p = NeedsReconcile"

definition valid_phase_transition :: "self_update_phase \<Rightarrow> self_update_phase \<Rightarrow> bool" where
  "valid_phase_transition from to \<longleftrightarrow>
     (from, to) \<in>
       {(BackupPending, SwitchPending),
        (SwitchPending, StartPending),
        (StartPending, HealthPending),
        (HealthPending, CommitPending), (HealthPending, RollbackPending),
        (CommitPending, Succeeded),
        (RollbackPending, RollbackHealthPending),
        (RollbackHealthPending, RolledBack), (NeedsReconcile, RolledBack)} \<or>
     (\<not> is_terminal from \<and> to = NeedsReconcile)"

record self_update_record =
  sr_purpose :: string
  sr_schema_version :: nat
  sr_operation_id :: uuid
  sr_candidate_release_digest :: evidence_digest
  sr_previous_release_digest :: evidence_digest
  sr_phase :: self_update_phase
  sr_backup_receipt_digest :: "evidence_digest option"
  sr_failure_reason :: "string option"
  sr_begun_at_ms :: int
  sr_updated_at_ms :: int
  sr_document_digest :: evidence_digest

record self_update_record_payload =
  sp_purpose :: string
  sp_schema_version :: nat
  sp_operation_id :: uuid
  sp_candidate_release_digest :: evidence_digest
  sp_previous_release_digest :: evidence_digest
  sp_phase :: self_update_phase
  sp_backup_receipt_digest :: "evidence_digest option"
  sp_failure_reason :: "string option"
  sp_begun_at_ms :: int
  sp_updated_at_ms :: int

record update_codec =
  uc_payload_jcs :: "self_update_record_payload \<Rightarrow> serde_error + string"
  uc_record_jcs :: "self_update_record \<Rightarrow> serde_error + string"
  uc_record_json :: "string \<Rightarrow> serde_error + self_update_record"
  uc_sha :: "string \<Rightarrow> string"
  uc_uuid_text :: "uuid \<Rightarrow> string"
  uc_parse_uuid :: "string \<Rightarrow> uuid option"
  uc_new_v4 :: "nat \<Rightarrow> uuid"

definition self_update_record_purpose :: string where
  "self_update_record_purpose = ''rdashboard.self-update-record.v1''"

definition self_update_record_schema_version :: nat where
  "self_update_record_schema_version = 1"

definition max_descriptor_bytes :: nat where
  "max_descriptor_bytes = 256 * 1024"

definition max_self_update_records :: nat where
  "max_self_update_records = 64"

definition valid_reason_code :: "string \<Rightarrow> bool" where
  "valid_reason_code value \<longleftrightarrow>
     1 \<le> length value \<and> length value \<le> 96 \<and>
     first_is is_ascii_lowercase value \<and>
     last_is (\<lambda>b. is_ascii_lowercase b \<or> is_ascii_digit b) value \<and>
     list_all (\<lambda>b. is_ascii_lowercase b \<or> is_ascii_digit b \<or> b = CHR ''_'') value"

definition record_payload :: "self_update_record \<Rightarrow> self_update_record_payload" where
  "record_payload r =
     \<lparr>sp_purpose = self_update_record_purpose,
      sp_schema_version = self_update_record_schema_version,
      sp_operation_id = sr_operation_id r,
      sp_candidate_release_digest = sr_candidate_release_digest r,
      sp_previous_release_digest = sr_previous_release_digest r,
      sp_phase = sr_phase r,
      sp_backup_receipt_digest = sr_backup_receipt_digest r,
      sp_failure_reason = sr_failure_reason r,
      sp_begun_at_ms = sr_begun_at_ms r,
      sp_updated_at_ms = sr_updated_at_ms r\<rparr>"

definition record_calculate_digest ::
  "update_codec \<Rightarrow> self_update_record \<Rightarrow> self_update_error + evidence_digest" where
  "record_calculate_digest C r =
     map_err (\<lambda>_. Json) (seal (uc_payload_jcs C) (uc_sha C) (record_payload r))"

definition record_shape :: "self_update_record \<Rightarrow> bool" where
  "record_shape r \<longleftrightarrow>
     sr_purpose r = self_update_record_purpose \<and>
     sr_schema_version r = self_update_record_schema_version \<and>
     \<not> is_nil (sr_operation_id r) \<and>
     sr_candidate_release_digest r \<noteq> sr_previous_release_digest r \<and>
     0 \<le> sr_begun_at_ms r \<and>
     sr_begun_at_ms r \<le> sr_updated_at_ms r \<and>
     \<not> (sr_phase r = BackupPending \<and> sr_backup_receipt_digest r \<noteq> None) \<and>
     \<not> (sr_phase r \<noteq> BackupPending \<and> sr_phase r \<noteq> NeedsReconcile \<and>
        sr_backup_receipt_digest r = None) \<and>
     (case sr_failure_reason r of None \<Rightarrow> True | Some reason \<Rightarrow> valid_reason_code reason) \<and>
     (sr_phase r \<in> {RollbackPending, RollbackHealthPending, RolledBack, NeedsReconcile}) =
       (sr_failure_reason r \<noteq> None)"

definition record_validate :: "update_codec \<Rightarrow> self_update_record \<Rightarrow> self_update_error + unit" where
  "record_validate C r =
     (if \<not> record_shape r then Inl InvalidJournalRecord
      else bind_res (record_calculate_digest C r) (\<lambda>digest.
        ensure (sr_document_digest r = digest) InvalidJournalRecord))"

definition record_begin ::
  "update_codec \<Rightarrow> uuid \<Rightarrow> evidence_digest \<Rightarrow> evidence_digest \<Rightarrow> int \<Rightarrow>
   self_update_error + self_update_record" where
  "record_begin C operation_id candidate previous now_ms =
     (let record =
       \<lparr>sr_purpose = self_update_record_purpose,
        sr_schema_version = self_update_record_schema_version,
        sr_operation_id = operation_id,
        sr_candidate_release_digest = candidate,
        sr_previous_release_digest = previous,
        sr_phase = BackupPending,
        sr_backup_receipt_digest = None,
        sr_failure_reason = None,
        sr_begun_at_ms = now_ms,
        sr_updated_at_ms = now_ms,
        sr_document_digest = evidence_digest_sha256 (uc_sha C) []\<rparr>
      in bind_res (record_calculate_digest C record) (\<lambda>digest.
         let record = record\<lparr>sr_document_digest := digest\<rparr>
         in bind_res (record_validate C record) (\<lambda>_. Inr record)))"

definition record_transitioned ::
  "update_codec \<Rightarrow> self_update_record \<Rightarrow> self_update_phase \<Rightarrow> evidence_digest option \<Rightarrow>
   string option \<Rightarrow> int \<Rightarrow> self_update_error + self_update_record" where
  "record_transitioned C r phase backup reason now_ms =
     bind_res (record_validate C r) (\<lambda>_.
     if \<not> valid_phase_transition (sr_phase r) phase \<or> now_ms < sr_updated_at_ms r
     then Inl InvalidJournalTransition
     else
       (let next = r\<lparr>sr_phase := phase, sr_backup_receipt_digest := backup,
                     sr_failure_reason := reason, sr_updated_at_ms := now_ms\<rparr>
        in bind_res (record_calculate_digest C next) (\<lambda>digest.
           let next = next\<lparr>sr_document_digest := digest\<rparr>
           in bind_res (record_validate C next) (\<lambda>_. Inr next))))"

definition record_canonical_bytes ::
  "update_codec \<Rightarrow> self_update_record \<Rightarrow> self_update_error + string" where
  "record_canonical_bytes C r =
     bind_res (record_validate C r) (\<lambda>_. map_err (\<lambda>_. Json) (uc_record_jcs C r))"

definition record_decode_canonical ::
  "update_codec \<Rightarrow> string \<Rightarrow> self_update_error + self_update_record" where
  "record_decode_canonical C bytes =
     (if bytes = [] \<or> max_descriptor_bytes < length bytes then Inl InvalidJournalRecord
      else bind_res (map_err (\<lambda>_. Json) (uc_record_json C bytes)) (\<lambda>record.
           bind_res (map_err (\<lambda>_. Json) (uc_record_jcs C record)) (\<lambda>encoded.
           if encoded \<noteq> bytes then Inl NoncanonicalDocument
           else bind_res (record_validate C record) (\<lambda>_. Inr record))))"


section \<open>The directory\<close>

record journal_file =
  jf_name :: string
  jf_regular :: bool
  jf_links :: nat
  jf_uid :: nat
  jf_mode :: nat
  jf_bytes :: string

record journal_root =
  jr_is_dir :: bool
  jr_uid :: nat
  jr_mode :: nat
  jr_same_inode :: bool
  jr_locked :: bool
  jr_files :: "journal_file list"
  jr_euid :: nat
  jr_drawn :: nat
  jr_faults :: "bool list"

type_synonym 'a journal_io = "(journal_root, self_update_error, 'a) io"

text \<open>A system call that may fail, and \<open>Uuid::new_v4\<close>.\<close>

definition sys :: "unit journal_io" where
  "sys j =
     (case jr_faults j of
        [] \<Rightarrow> (Inr (), j)
      | fault # faults \<Rightarrow> (if fault then Inl Io else Inr (), j\<lparr>jr_faults := faults\<rparr>))"

definition new_v4 :: "update_codec \<Rightarrow> uuid journal_io" where
  "new_v4 C j = (Inr (uc_new_v4 C (jr_drawn j)), j\<lparr>jr_drawn := jr_drawn j + 1\<rparr>)"

definition find_file :: "string \<Rightarrow> journal_root \<Rightarrow> journal_file option" where
  "find_file name j = find (\<lambda>f. jf_name f = name) (jr_files j)"

definition symlink_metadata :: "string \<Rightarrow> journal_file journal_io" where
  "symlink_metadata name =
     io_bind sys (\<lambda>_. io_bind (io_get (find_file name)) (\<lambda>f. io_lift (ok_or f Io)))"

text \<open>\<open>fs::symlink_metadata(path).is_ok()\<close>: a failing call reads as an absent file.\<close>

definition path_exists :: "string \<Rightarrow> bool journal_io" where
  "path_exists name j =
     (case sys j of (r, j') \<Rightarrow> (Inr (is_ok r \<and> find_file name j' \<noteq> None), j'))"

definition change_file :: "string \<Rightarrow> (journal_file \<Rightarrow> journal_file) \<Rightarrow> unit journal_io" where
  "change_file name g =
     io_bind sys (\<lambda>_.
     io_modify (\<lambda>j. j\<lparr>jr_files := update_where (\<lambda>f. jf_name f = name) g (jr_files j)\<rparr>))"

definition remove_file :: "string \<Rightarrow> unit journal_io" where
  "remove_file name =
     io_bind sys (\<lambda>_.
     io_modify (\<lambda>j. j\<lparr>jr_files := filter (\<lambda>f. jf_name f \<noteq> name) (jr_files j)\<rparr>))"

text \<open>\<open>OpenOptions::create_new\<close> with mode \<open>0o600\<close>, and \<open>fs::rename\<close>, which replaces the target.\<close>

definition create_new_file :: "string \<Rightarrow> unit journal_io" where
  "create_new_file name =
     io_bind sys (\<lambda>_.
     io_bind (io_get (find_file name)) (\<lambda>f.
     io_bind (io_ensure (f = None) Io) (\<lambda>_.
     io_modify (\<lambda>j. j\<lparr>jr_files := jr_files j @
       [\<lparr>jf_name = name, jf_regular = True, jf_links = 1, jf_uid = jr_euid j, jf_mode = 384,
         jf_bytes = []\<rparr>]\<rparr>))))"

definition rename_file :: "string \<Rightarrow> string \<Rightarrow> unit journal_io" where
  "rename_file old new =
     io_bind (symlink_metadata old) (\<lambda>_.
     io_modify (\<lambda>j. j\<lparr>jr_files :=
       map (\<lambda>f. if jf_name f = old then f\<lparr>jf_name := new\<rparr> else f)
         (filter (\<lambda>f. jf_name f \<noteq> new) (jr_files j))\<rparr>))"

definition validate_directory :: "nat \<Rightarrow> nat \<Rightarrow> unit journal_io" where
  "validate_directory owner_uid mode =
     io_bind sys (\<lambda>_.
     io_bind (io_get (\<lambda>j. jr_is_dir j \<and> jr_uid j = owner_uid \<and> jr_mode j = mode)) (\<lambda>safe.
     io_ensure safe UnsafeStore))"

definition revalidate_root :: "nat \<Rightarrow> unit journal_io" where
  "revalidate_root owner_uid =
     io_bind (validate_directory owner_uid 448) (\<lambda>_.
     io_bind sys (\<lambda>_.
     io_bind (io_get jr_same_inode) (\<lambda>same. io_ensure same UnsafeJournal)))"

definition read_stable_owner_file :: "nat \<Rightarrow> nat \<Rightarrow> nat \<Rightarrow> string \<Rightarrow> string journal_io" where
  "read_stable_owner_file owner_uid mode maximum_bytes name =
     io_bind (symlink_metadata name) (\<lambda>f.
     io_bind (io_ensure
       (jf_regular f \<and> jf_links f = 1 \<and> jf_uid f = owner_uid \<and> jf_mode f = mode \<and>
        jf_bytes f \<noteq> [] \<and> length (jf_bytes f) \<le> maximum_bytes) UnsafeHandoff) (\<lambda>_.
     io_bind sys (\<lambda>_.
     io_return (jf_bytes f))))"

definition validate_owner_file :: "nat \<Rightarrow> nat \<Rightarrow> nat \<Rightarrow> string \<Rightarrow> unit journal_io" where
  "validate_owner_file owner_uid mode expected_bytes name =
     io_bind (symlink_metadata name) (\<lambda>f.
     io_ensure (jf_regular f \<and> jf_links f = 1 \<and> jf_uid f = owner_uid \<and> jf_mode f = mode \<and>
       length (jf_bytes f) = expected_bytes) UnsafeStore)"


section \<open>The journal\<close>

type_synonym journal_records = "(uuid \<times> self_update_record) list"

definition active_record :: "journal_records \<Rightarrow> self_update_error + self_update_record option" where
  "active_record records =
     (case filter (\<lambda>r. \<not> is_terminal (sr_phase r)) (map snd records) of
        [] \<Rightarrow> Inr None
      | [r] \<Rightarrow> Inr (Some r)
      | _ \<Rightarrow> Inl MultipleActiveUpdates)"

definition record_name :: "update_codec \<Rightarrow> uuid \<Rightarrow> string" where
  "record_name C operation_id = uc_uuid_text C operation_id @ ''.jcs''"

definition temporary_name :: "update_codec \<Rightarrow> uuid \<Rightarrow> string" where
  "temporary_name C u = ''.record-'' @ uc_uuid_text C u @ ''.tmp''"

definition is_temporary_name :: "string \<Rightarrow> bool" where
  "is_temporary_name name \<longleftrightarrow>
     starts_with ''.record-'' name \<and>
     (case path_extension name of None \<Rightarrow> False | Some e \<Rightarrow> eq_ignore_ascii_case e ''tmp'')"

fun load_entries ::
  "update_codec \<Rightarrow> nat \<Rightarrow> journal_file list \<Rightarrow> journal_records \<Rightarrow> journal_records journal_io" where
  "load_entries C owner_uid [] records = io_return records"
| "load_entries C owner_uid (entry # entries) records =
     (if \<not> is_utf8 (jf_name entry) then io_fail UnsafeJournal
      else if is_temporary_name (jf_name entry) then
        io_bind (symlink_metadata (jf_name entry)) (\<lambda>f.
        io_bind (io_ensure (jf_regular f \<and> jf_uid f = owner_uid) UnsafeJournal) (\<lambda>_.
        io_bind (remove_file (jf_name entry)) (\<lambda>_.
        load_entries C owner_uid entries records)))
      else
        case Option.bind (strip_suffix ''.jcs'' (jf_name entry)) (uc_parse_uuid C) of
          None \<Rightarrow> io_fail UnsafeJournal
        | Some operation_id \<Rightarrow>
            io_bind (read_stable_owner_file owner_uid 256 max_descriptor_bytes (jf_name entry))
              (\<lambda>bytes.
            io_bind (io_lift (record_decode_canonical C bytes)) (\<lambda>record.
            if sr_operation_id record \<noteq> operation_id \<or> map_of records operation_id \<noteq> None
            then io_fail UnsafeJournal
            else load_entries C owner_uid entries
                   (insort_key fst (operation_id, record) records))))"

definition load_records :: "update_codec \<Rightarrow> nat \<Rightarrow> journal_records journal_io" where
  "load_records C owner_uid =
     io_bind (revalidate_root owner_uid) (\<lambda>_.
     io_bind sys (\<lambda>_.
     io_bind (io_get jr_files) (\<lambda>entries.
     io_bind (load_entries C owner_uid entries []) (\<lambda>records.
     io_bind (io_ensure (length records \<le> max_self_update_records) JournalCapacityExceeded) (\<lambda>_.
     io_bind (io_lift (active_record records)) (\<lambda>_.
     io_return records))))))"

definition journal_open :: "update_codec \<Rightarrow> nat \<Rightarrow> unit journal_io" where
  "journal_open C owner_uid =
     io_bind (validate_directory owner_uid 448) (\<lambda>_.
     io_bind sys (\<lambda>_.
     io_bind (io_get jr_locked) (\<lambda>locked.
     io_bind (io_ensure (\<not> locked) JournalAlreadyOpen) (\<lambda>_.
     io_bind (io_modify (\<lambda>j. j\<lparr>jr_locked := True, jr_same_inode := True\<rparr>)) (\<lambda>_.
     io_bind (load_records C owner_uid) (\<lambda>_. io_return ()))))))"

definition journal_active :: "update_codec \<Rightarrow> nat \<Rightarrow> self_update_record option journal_io" where
  "journal_active C owner_uid =
     io_bind (load_records C owner_uid) (\<lambda>records. io_lift (active_record records))"

definition journal_records :: "update_codec \<Rightarrow> nat \<Rightarrow> self_update_record list journal_io" where
  "journal_records C owner_uid =
     io_bind (load_records C owner_uid) (\<lambda>records. io_return (map snd records))"

definition publish_record ::
  "update_codec \<Rightarrow> nat \<Rightarrow> self_update_record \<Rightarrow> bool \<Rightarrow> unit journal_io" where
  "publish_record C owner_uid record create_new =
     io_bind (io_lift (record_validate C record)) (\<lambda>_.
     io_bind (revalidate_root owner_uid) (\<lambda>_.
     let final_path = record_name C (sr_operation_id record)
     in io_bind (path_exists final_path) (\<lambda>existing.
        if create_new = existing then io_fail JournalRecordConflict
        else
          io_bind (new_v4 C) (\<lambda>u.
          let temporary = temporary_name C u
          in io_bind (create_new_file temporary) (\<lambda>_.
             io_bind (io_lift (record_canonical_bytes C record)) (\<lambda>bytes.
             io_bind (change_file temporary (\<lambda>f. f\<lparr>jf_bytes := bytes\<rparr>)) (\<lambda>_.
             io_bind (change_file temporary (\<lambda>f. f\<lparr>jf_mode := 256\<rparr>)) (\<lambda>_.
             io_bind (io_when (\<not> create_new)
               (io_bind (symlink_metadata final_path) (\<lambda>f.
                validate_owner_file owner_uid 256 (length (jf_bytes f)) final_path))) (\<lambda>_.
             io_bind (rename_file temporary final_path) (\<lambda>_.
             sys))))))))))"

definition remove_terminal_record ::
  "update_codec \<Rightarrow> nat \<Rightarrow> self_update_record \<Rightarrow> unit journal_io" where
  "remove_terminal_record C owner_uid record =
     io_bind (io_lift (record_validate C record)) (\<lambda>_.
     if \<not> is_terminal (sr_phase record) then io_fail InvalidJournalTransition
     else
       (let path = record_name C (sr_operation_id record)
        in io_bind (read_stable_owner_file owner_uid 256 max_descriptor_bytes path) (\<lambda>bytes.
           io_bind (io_lift (record_decode_canonical C bytes)) (\<lambda>stored.
           if stored \<noteq> record then io_fail JournalRecordConflict
           else io_bind (remove_file path) (\<lambda>_. sys)))))"

definition removable_records :: "journal_records \<Rightarrow> self_update_record list" where
  "removable_records records =
     (if max_self_update_records \<le> length records
      then take (length records - (max_self_update_records - 1))
             (sort_key (\<lambda>r. (sr_updated_at_ms r, sr_operation_id r))
               (filter (\<lambda>r. sr_phase r = Succeeded \<or> sr_phase r = RolledBack) (map snd records)))
      else [])"

definition journal_begin ::
  "update_codec \<Rightarrow> nat \<Rightarrow> evidence_digest \<Rightarrow> evidence_digest \<Rightarrow> int \<Rightarrow>
   self_update_record journal_io" where
  "journal_begin C owner_uid candidate previous now_ms =
     io_bind (load_records C owner_uid) (\<lambda>records.
     io_bind (io_lift (active_record records)) (\<lambda>active.
     if active \<noteq> None then io_fail UpdateAlreadyActive
     else if list_ex (\<lambda>(_, r). sr_phase r = NeedsReconcile) records then io_fail RecoveryRequired
     else
       io_bind (io_each (remove_terminal_record C owner_uid) (removable_records records)) (\<lambda>_.
       io_bind (new_v4 C) (\<lambda>u.
       io_bind (io_lift (record_begin C u candidate previous now_ms)) (\<lambda>record.
       io_bind (publish_record C owner_uid record True) (\<lambda>_.
       io_return record))))))"

definition journal_transition ::
  "update_codec \<Rightarrow> nat \<Rightarrow> self_update_record \<Rightarrow> self_update_phase \<Rightarrow> evidence_digest option \<Rightarrow>
   string option \<Rightarrow> int \<Rightarrow> self_update_record journal_io" where
  "journal_transition C owner_uid record phase backup reason now_ms =
     io_bind (load_records C owner_uid) (\<lambda>records.
     io_bind (io_lift (ok_or (map_of records (sr_operation_id record)) JournalRecordMissing))
       (\<lambda>current.
     if current \<noteq> record \<or> is_terminal (sr_phase current) then io_fail JournalRecordConflict
     else
       io_bind (io_lift (record_transitioned C current phase backup reason now_ms)) (\<lambda>next.
       io_bind (publish_record C owner_uid next False) (\<lambda>_.
       io_return next))))"

definition mark_recovered_rollback ::
  "update_codec \<Rightarrow> nat \<Rightarrow> self_update_record \<Rightarrow> int \<Rightarrow> self_update_record journal_io" where
  "mark_recovered_rollback C owner_uid record now_ms =
     io_bind (load_records C owner_uid) (\<lambda>records.
     io_bind (io_lift (ok_or (map_of records (sr_operation_id record)) JournalRecordMissing))
       (\<lambda>current.
     if current \<noteq> record \<or> sr_phase current \<noteq> NeedsReconcile \<or>
        sr_backup_receipt_digest current = None
     then io_fail JournalRecordConflict
     else
       io_bind (io_lift (record_transitioned C current RolledBack
         (sr_backup_receipt_digest current) (sr_failure_reason current) now_ms)) (\<lambda>next.
       io_bind (publish_record C owner_uid next False) (\<lambda>_.
       io_return next))))"

end
