(* ===== verification/Self_Update_History.thy ===== *)
theory Self_Update_History
  imports Self_Update_Journal
begin

text \<open>
  What the journal directory stands for: the list of update records it holds. Every operation, with
  any of its system calls failing, takes that list along an abstract step (\<open>history_step\<close>) or leaves
  it, so that a restarted process finds a history it can load.
\<close>

section \<open>Hypotheses on the encoders\<close>

text \<open>
  Uuids print as hexadecimal digits and hyphens and parse back; a record reads back from its
  encoding; the encoding of a valid record is at most a descriptor long. The types of the source
  keep a digest at 64 hexadecimal digits and a time within 64 bits; on a record outside them, which
  only the wider types of the model have, an encoder answers an error.
\<close>

definition uuid_text_laws :: "update_codec \<Rightarrow> bool" where
  "uuid_text_laws C \<longleftrightarrow>
     (\<forall>u. uc_parse_uuid C (uc_uuid_text C u) = Some u) \<and>
     (\<forall>u. list_all (\<lambda>c. is_ascii_alphanumeric c \<or> c = CHR ''-'') (uc_uuid_text C u))"

definition record_fits :: "update_codec \<Rightarrow> bool" where
  "record_fits C \<longleftrightarrow>
     (\<forall>r bytes. record_validate C r = Inr () \<longrightarrow> uc_record_jcs C r = Inr bytes \<longrightarrow>
        bytes \<noteq> [] \<and> length bytes \<le> max_descriptor_bytes)"

definition codec_laws :: "update_codec \<Rightarrow> bool" where
  "codec_laws C \<longleftrightarrow>
     reads_back (uc_record_json C) (uc_record_jcs C) \<and> uuid_text_laws C \<and> record_fits C"


section \<open>Records and names\<close>

lemma record_canonical_bytes_Inr:
  "record_canonical_bytes C r = Inr bytes \<longleftrightarrow>
     record_validate C r = Inr () \<and> uc_record_jcs C r = Inr bytes"
  by (auto simp: record_canonical_bytes_def bind_res_def map_err_def split: sum.splits)

lemma record_decode_encoded:
  "codec_laws C \<Longrightarrow> record_canonical_bytes C r = Inr bytes \<Longrightarrow>
   record_decode_canonical C bytes = Inr r"
proof -
  assume "codec_laws C" "record_canonical_bytes C r = Inr bytes"
  then have "record_validate C r = Inr ()" "uc_record_jcs C r = Inr bytes"
    "uc_record_json C bytes = Inr r" "bytes \<noteq> []" "length bytes \<le> max_descriptor_bytes"
    unfolding codec_laws_def record_fits_def reads_back_def record_canonical_bytes_Inr by blast+
  then show ?thesis by (simp add: record_decode_canonical_def bind_res_def map_err_def)
qed

lemma record_validate_shape: "record_validate C r = Inr () \<Longrightarrow> record_shape r"
  by (simp add: record_validate_def split: if_splits)

lemma record_begin_Inr:
  assumes "record_begin C u candidate previous now = Inr r"
  shows "record_validate C r = Inr ()" "sr_operation_id r = u" "sr_phase r = BackupPending"
    "sr_candidate_release_digest r = candidate" "sr_previous_release_digest r = previous"
    "sr_backup_receipt_digest r = None" "sr_failure_reason r = None"
  using assms by (auto simp: record_begin_def Let_def bind_res_def split: sum.splits)

lemma record_transitioned_Inr:
  assumes "record_transitioned C r phase backup reason now = Inr n"
  shows "record_validate C n = Inr ()" "sr_operation_id n = sr_operation_id r" "sr_phase n = phase"
    "valid_phase_transition (sr_phase r) phase"
    "sr_candidate_release_digest n = sr_candidate_release_digest r"
    "sr_previous_release_digest n = sr_previous_release_digest r"
    "sr_backup_receipt_digest n = backup" "sr_failure_reason n = reason"
    "sr_updated_at_ms r \<le> now"
  using assms
  by (auto simp: record_transitioned_def Let_def bind_res_def split: sum.splits if_splits)

lemma uuid_text_chars:
  assumes "codec_laws C" "c \<in> set (uc_uuid_text C u)"
  shows "byte c < 0x80" "c \<noteq> CHR ''.''"
proof -
  have "is_ascii_alphanumeric c \<or> c = CHR ''-''"
    using assms by (auto simp: codec_laws_def uuid_text_laws_def list_all_iff)
  then show "byte c < 0x80" "c \<noteq> CHR ''.''"
    by (auto simp: is_ascii_alphanumeric_def is_ascii_lowercase_def is_ascii_uppercase_def
        is_ascii_digit_def byte_def)
qed

lemma uuid_text_inj: "codec_laws C \<Longrightarrow> uc_uuid_text C u = uc_uuid_text C v \<longleftrightarrow> u = v"
  unfolding codec_laws_def uuid_text_laws_def by (metis option.inject)

lemma record_name_inj: "codec_laws C \<Longrightarrow> record_name C u = record_name C v \<longleftrightarrow> u = v"
  by (simp add: record_name_def uuid_text_inj)

lemma record_name_utf8: "codec_laws C \<Longrightarrow> is_utf8 (record_name C u)"
  by (rule ascii_is_utf8)
    (auto simp: record_name_def list_all_iff byte_def dest: uuid_text_chars(1) [unfolded byte_def])

lemma temporary_name_utf8: "codec_laws C \<Longrightarrow> is_utf8 (temporary_name C u)"
  by (rule ascii_is_utf8)
    (auto simp: temporary_name_def list_all_iff byte_def
      dest: uuid_text_chars(1) [unfolded byte_def])

lemma temporary_name_is_temporary: "is_temporary_name (temporary_name C u)"
proof -
  have "path_extension (temporary_name C u) = Some ''tmp''"
    using path_extension_append [of "''tmp''" "''.record-'' @ uc_uuid_text C u"]
    by (simp add: temporary_name_def)
  then show ?thesis
    by (simp add: is_temporary_name_def temporary_name_def starts_with_def eq_ignore_ascii_case_def)
qed

lemma record_name_not_temporary:
  assumes "codec_laws C"
  shows "\<not> is_temporary_name (record_name C u)"
proof
  assume "is_temporary_name (record_name C u)"
  then have "take 8 (record_name C u) = ''.record-''"
    by (simp add: is_temporary_name_def starts_with_def eval_nat_numeral)
  then have "hd (record_name C u) = CHR ''.''" by (cases "record_name C u") simp_all
  then have "uc_uuid_text C u = []"
    using uuid_text_chars(2) [OF assms, of "CHR ''.''" u]
    by (cases "uc_uuid_text C u") (auto simp: record_name_def)
  with \<open>take 8 (record_name C u) = ''.record-''\<close> show False by (simp add: record_name_def)
qed

lemma temporary_name_not_record: "codec_laws C \<Longrightarrow> temporary_name C v \<noteq> record_name C u"
  using temporary_name_is_temporary record_name_not_temporary by metis


section \<open>The history a directory holds\<close>

definition record_file :: "update_codec \<Rightarrow> nat \<Rightarrow> self_update_record \<Rightarrow> journal_file \<Rightarrow> bool" where
  "record_file C uid r f \<longleftrightarrow>
     jf_name f = record_name C (sr_operation_id r) \<and> jf_regular f \<and> jf_links f = 1 \<and>
     jf_uid f = uid \<and> jf_mode f = 256 \<and> record_canonical_bytes C r = Inr (jf_bytes f)"

definition temporary_file :: "update_codec \<Rightarrow> nat \<Rightarrow> journal_file \<Rightarrow> bool" where
  "temporary_file C uid f \<longleftrightarrow>
     (\<exists>u. jf_name f = temporary_name C u) \<and> jf_regular f \<and> jf_uid f = uid"

definition record_of :: "update_codec \<Rightarrow> journal_file \<Rightarrow> self_update_record option" where
  "record_of C f =
     (if is_temporary_name (jf_name f) then None
      else case record_decode_canonical C (jf_bytes f) of Inl _ \<Rightarrow> None | Inr r \<Rightarrow> Some r)"

definition held :: "update_codec \<Rightarrow> journal_root \<Rightarrow> self_update_record list" where
  "held C j = List.map_filter (record_of C) (jr_files j)"

definition sound_file :: "update_codec \<Rightarrow> nat \<Rightarrow> journal_file \<Rightarrow> bool" where
  "sound_file C uid f \<longleftrightarrow> temporary_file C uid f \<or> (\<exists>r. record_file C uid r f)"

definition sound_directory :: "update_codec \<Rightarrow> nat \<Rightarrow> journal_root \<Rightarrow> bool" where
  "sound_directory C uid j \<longleftrightarrow>
     jr_is_dir j \<and> jr_uid j = uid \<and> jr_mode j = 448 \<and> jr_same_inode j \<and> jr_euid j = uid \<and>
     list_all (sound_file C uid) (jr_files j) \<and> distinct (map jf_name (jr_files j))"

lemma sound_directory_ignores [simp]:
  "sound_directory C uid (j\<lparr>jr_faults := fs\<rparr>) = sound_directory C uid j"
  "sound_directory C uid (j\<lparr>jr_drawn := n\<rparr>) = sound_directory C uid j"
  "sound_directory C uid (j\<lparr>jr_locked := b\<rparr>) = sound_directory C uid j"
  "held C (j\<lparr>jr_faults := fs\<rparr>) = held C j"
  "held C (j\<lparr>jr_drawn := n\<rparr>) = held C j"
  "held C (j\<lparr>jr_locked := b\<rparr>) = held C j"
  by (simp_all add: sound_directory_def held_def)

lemma record_of_temporary: "temporary_file C uid f \<Longrightarrow> record_of C f = None"
  by (auto simp: temporary_file_def record_of_def temporary_name_is_temporary)

lemma record_of_record: "codec_laws C \<Longrightarrow> record_file C uid r f \<Longrightarrow> record_of C f = Some r"
  by (auto simp: record_file_def record_of_def record_name_not_temporary record_decode_encoded)

lemma sound_file_cases:
  assumes "sound_file C uid f" "codec_laws C"
  obtains "temporary_file C uid f" "record_of C f = None"
  | r where "record_file C uid r f" "record_of C f = Some r"
  using assms unfolding sound_file_def
  by (auto simp: record_of_temporary record_of_record)

text \<open>The held records validate, and their identifiers are distinct since the names are.\<close>

lemma held_mem:
  assumes "codec_laws C" "sound_directory C uid j"
  shows "r \<in> set (held C j) \<longleftrightarrow> (\<exists>f \<in> set (jr_files j). record_file C uid r f)"
proof
  assume "r \<in> set (held C j)"
  then obtain f where f: "f \<in> set (jr_files j)" "record_of C f = Some r"
    by (auto simp: held_def List.map_filter_def)
  then have "sound_file C uid f" using assms(2) by (simp add: sound_directory_def list_all_iff)
  then show "\<exists>f \<in> set (jr_files j). record_file C uid r f"
    using f by (cases rule: sound_file_cases [OF \<open>sound_file C uid f\<close> assms(1)]) auto
next
  assume "\<exists>f \<in> set (jr_files j). record_file C uid r f"
  then show "r \<in> set (held C j)"
    using record_of_record [OF assms(1)] by (force simp: held_def List.map_filter_def)
qed

lemma held_valid:
  "codec_laws C \<Longrightarrow> sound_directory C uid j \<Longrightarrow> r \<in> set (held C j) \<Longrightarrow> record_validate C r = Inr ()"
  by (auto simp: held_mem record_file_def record_canonical_bytes_Inr)

lemma held_names:
  assumes "codec_laws C" "list_all (sound_file C uid) fs"
  shows "map (\<lambda>r. record_name C (sr_operation_id r)) (List.map_filter (record_of C) fs) =
    map jf_name (filter (\<lambda>f. \<not> is_temporary_name (jf_name f)) fs)"
  using assms(2)
proof (induction fs)
  case (Cons f fs)
  then have f: "sound_file C uid f" by simp
  show ?case
    using Cons by (cases rule: sound_file_cases [OF f assms(1)])
      (auto simp: map_filter_simps temporary_file_def temporary_name_is_temporary record_file_def
        record_name_not_temporary [OF assms(1)])
qed (simp add: map_filter_simps)

lemma held_distinct:
  assumes "codec_laws C" "sound_directory C uid j"
  shows "distinct (map sr_operation_id (held C j))"
proof -
  have "distinct (map jf_name (filter (\<lambda>f. \<not> is_temporary_name (jf_name f)) (jr_files j)))"
    using assms(2) by (simp add: sound_directory_def distinct_map_filter)
  then have "distinct (map (record_name C) (map sr_operation_id (held C j)))"
    using held_names [OF assms(1), of uid "jr_files j"] assms(2)
    by (simp add: sound_directory_def held_def comp_def)
  then show ?thesis by (rule distinct_map [THEN iffD1, THEN conjunct1])
qed

lemma find_file_sound:
  assumes "codec_laws C" "sound_directory C uid j"
  shows "find_file (record_name C u) j \<noteq> None \<longleftrightarrow> u \<in> sr_operation_id ` set (held C j)"
proof -
  have "find_file (record_name C u) j \<noteq> None \<longleftrightarrow>
      (\<exists>f \<in> set (jr_files j). jf_name f = record_name C u)"
    by (auto simp: find_file_def find_None_iff)
  also have "\<dots> \<longleftrightarrow> (\<exists>f \<in> set (jr_files j). \<exists>r. record_file C uid r f \<and> sr_operation_id r = u)"
  proof (rule bex_cong [OF refl])
    fix f assume "f \<in> set (jr_files j)"
    then have f: "sound_file C uid f" using assms(2) by (simp add: sound_directory_def list_all_iff)
    show "jf_name f = record_name C u \<longleftrightarrow> (\<exists>r. record_file C uid r f \<and> sr_operation_id r = u)"
      by (cases rule: sound_file_cases [OF f assms(1)])
        (auto simp: temporary_file_def record_file_def record_name_inj [OF assms(1)]
          temporary_name_not_record [OF assms(1)] temporary_name_not_record [OF assms(1), symmetric])
  qed
  also have "\<dots> \<longleftrightarrow> u \<in> sr_operation_id ` set (held C j)"
    unfolding image_iff Bex_def held_mem [OF assms] by blast
  finally show ?thesis .
qed


section \<open>Abstract steps\<close>

abbreviation unfinished :: "self_update_record \<Rightarrow> bool" where
  "unfinished r \<equiv> \<not> is_terminal (sr_phase r)"

definition without :: "self_update_record list \<Rightarrow> uuid \<Rightarrow> self_update_record list" where
  "without hs u = filter (\<lambda>r. sr_operation_id r \<noteq> u) hs"

definition put :: "self_update_record list \<Rightarrow> self_update_record \<Rightarrow> self_update_record list" where
  "put hs r = without hs (sr_operation_id r) @ [r]"

definition resolved :: "self_update_record \<Rightarrow> bool" where
  "resolved r \<longleftrightarrow> sr_phase r = Succeeded \<or> sr_phase r = RolledBack"

inductive history_step ::
  "update_codec \<Rightarrow> self_update_record list \<Rightarrow> self_update_record list \<Rightarrow> bool"
  for C where
  forget: "list_all resolved hs \<Longrightarrow> length hs = max_self_update_records \<Longrightarrow> r \<in> set hs \<Longrightarrow>
    history_step C hs (without hs (sr_operation_id r))"
| start: "list_all resolved hs \<Longrightarrow> length hs < max_self_update_records \<Longrightarrow>
    record_begin C u candidate previous now = Inr r \<Longrightarrow> history_step C hs (put hs r)"
| advance: "r \<in> set hs \<Longrightarrow> unfinished r \<Longrightarrow>
    record_transitioned C r phase backup reason now = Inr n \<Longrightarrow> history_step C hs (put hs n)"
| recover: "r \<in> set hs \<Longrightarrow> sr_phase r = NeedsReconcile \<Longrightarrow> sr_backup_receipt_digest r \<noteq> None \<Longrightarrow>
    record_transitioned C r RolledBack (sr_backup_receipt_digest r) (sr_failure_reason r) now =
      Inr n \<Longrightarrow> history_step C hs (put hs n)"

definition sound_history :: "self_update_record list \<Rightarrow> bool" where
  "sound_history hs \<longleftrightarrow>
     distinct (map sr_operation_id hs) \<and> length hs \<le> max_self_update_records \<and>
     length (filter unfinished hs) \<le> 1"

lemma mem_put: "x \<in> set (put hs r) \<longleftrightarrow>
    x = r \<or> (x \<in> set hs \<and> sr_operation_id x \<noteq> sr_operation_id r)"
  by (auto simp: put_def without_def)

lemma distinct_put: "distinct (map sr_operation_id hs) \<Longrightarrow> distinct (map sr_operation_id (put hs r))"
  by (auto simp: put_def without_def distinct_map_filter)

lemma length_without_mem: "r \<in> set hs \<Longrightarrow> length (without hs (sr_operation_id r)) < length hs"
  unfolding without_def by (rule length_filter_less) auto

lemma length_put_mem:
  "r \<in> set hs \<Longrightarrow> sr_operation_id n = sr_operation_id r \<Longrightarrow> length (put hs n) \<le> length hs"
  using length_without_mem [of r hs] by (simp add: put_def)

lemma resolved_finished: "list_all resolved hs \<Longrightarrow> filter unfinished hs = []"
  by (auto simp: list_all_iff resolved_def is_terminal_def filter_empty_conv)

lemma filter_without: "length (filter P (without hs u)) \<le> length (filter P hs)"
  unfolding without_def filter_filter by (induction hs) auto

lemma others_finished:
  assumes "length (filter unfinished hs) \<le> 1" "r \<in> set hs" "unfinished r"
  shows "filter unfinished (without hs (sr_operation_id r)) = []"
proof -
  have "r \<in> set (filter unfinished hs)" using assms(2,3) by simp
  then have "filter unfinished hs = [r]"
    using assms(1) by (cases "filter unfinished hs"; cases "tl (filter unfinished hs)") auto
  then have "x = r" if "x \<in> set hs" "unfinished x" for x
    using that set_filter [of unfinished hs] by auto
  then show ?thesis by (auto simp: filter_empty_conv without_def)
qed

lemma history_step_sound:
  assumes "history_step C hs hs'" "sound_history hs"
  shows "sound_history hs'"
  using assms
proof cases
  case (forget r)
  then show ?thesis
    using assms(2) length_without_mem [of r hs] filter_without [of unfinished hs "sr_operation_id r"]
    by (simp add: sound_history_def) (simp add: without_def distinct_map_filter)
next
  case (start u candidate previous now r)
  have "length (without hs (sr_operation_id r)) \<le> length hs" by (simp add: without_def)
  then show ?thesis
    using start assms(2) filter_without [of unfinished hs "sr_operation_id r"]
    by (simp add: sound_history_def distinct_put resolved_finished) (simp add: put_def)
next
  case (advance r phase backup reason now n)
  note n = record_transitioned_Inr [OF advance(4)]
  show ?thesis
    using advance assms(2) n(2) length_put_mem [of r hs n] others_finished [of hs r]
    by (simp add: sound_history_def distinct_put) (simp add: put_def)
next
  case (recover r now n)
  note n = record_transitioned_Inr [OF recover(5)]
  have "\<not> unfinished n" using n(3) by (simp add: is_terminal_def)
  then show ?thesis
    using recover assms(2) n(2) length_put_mem [of r hs n]
      filter_without [of unfinished hs "sr_operation_id n"]
    by (simp add: sound_history_def distinct_put) (simp add: put_def)
qed


end
