(* ===== verification/Self_Update_Crashes.thy ===== *)
theory Self_Update_Crashes
  imports Self_Update_History "HOL-Library.Multiset"
begin

text \<open>
  The operations of the journal under any list of failing system calls: what each leaves in the
  directory when it succeeds and when it fails.
\<close>

section \<open>System calls\<close>

text \<open>With \<open>F\<close> no system call fails; without it any may, and then the only error is \<open>Io\<close>.\<close>

definition calm :: "bool \<Rightarrow> journal_root \<Rightarrow> bool" where
  "calm F j \<longleftrightarrow> (F \<longrightarrow> True \<notin> set (jr_faults j))"

definition state_at :: "bool \<Rightarrow> (journal_root \<Rightarrow> bool) \<Rightarrow> journal_root \<Rightarrow> bool" where
  "state_at F K j \<longleftrightarrow> calm F j \<and> K j"

definition framed :: "(journal_root \<Rightarrow> bool) \<Rightarrow> bool" where
  "framed K \<longleftrightarrow> (\<forall>j fs. K j \<longrightarrow> K (j\<lparr>jr_faults := fs\<rparr>))"

definition settled :: "update_codec \<Rightarrow> nat \<Rightarrow> self_update_record list \<Rightarrow> journal_root \<Rightarrow> bool" where
  "settled C uid hs j \<longleftrightarrow> sound_directory C uid j \<and> held C j = hs"

lemma settled_ignores [simp]:
  "settled C uid hs (j\<lparr>jr_faults := fs\<rparr>) = settled C uid hs j"
  "settled C uid hs (j\<lparr>jr_drawn := n\<rparr>) = settled C uid hs j"
  "settled C uid hs (j\<lparr>jr_locked := b\<rparr>) = settled C uid hs j"
  "calm F (j\<lparr>jr_drawn := n\<rparr>) = calm F j"
  "calm F (j\<lparr>jr_locked := b\<rparr>) = calm F j"
  "calm F (j\<lparr>jr_files := fs'\<rparr>) = calm F j"
  by (simp_all add: settled_def calm_def)

lemma find_file_ignores [simp]:
  "find_file name (j\<lparr>jr_faults := fs\<rparr>) = find_file name j"
  "find_file name (j\<lparr>jr_drawn := n\<rparr>) = find_file name j"
  by (simp_all add: find_file_def)

lemma framed_rules [intro, simp]:
  "framed (settled C uid hs)"
  "framed (\<lambda>j. find_file name j = x)"
  "framed (\<lambda>j. set fs \<subseteq> set (jr_files j))"
  "framed (\<lambda>j. P (jr_files j))"
  "framed (\<lambda>_. A)"
  "framed K \<Longrightarrow> framed L \<Longrightarrow> framed (\<lambda>j. K j \<and> L j)"
  by (simp_all add: framed_def)

definition failing :: "bool \<Rightarrow> (journal_root \<Rightarrow> bool) \<Rightarrow> (self_update_error \<Rightarrow> journal_root \<Rightarrow> bool) \<Rightarrow> bool" where
  "failing F K E \<longleftrightarrow> (\<not> F \<longrightarrow> (\<forall>j. K j \<longrightarrow> E Io j))"

lemma failing_mono: "failing F K E \<Longrightarrow> (\<And>j. K' j \<Longrightarrow> K j) \<Longrightarrow> failing F K' E"
  by (auto simp: failing_def)

lemma sys_rule:
  assumes "framed K" "failing F K E"
  shows "io_triple (state_at F K) sys (\<lambda>_. state_at F K) E"
  using assms
  by (auto simp: io_triple_def sys_def state_at_def calm_def framed_def failing_def split: list.splits)

lemma sys_bind:
  assumes "framed K" "failing F K E" "io_triple (state_at F K) (f ()) Q E"
  shows "io_triple (state_at F K) (io_bind sys f) Q E"
  by (rule io_triple_bind [OF sys_rule]) (use assms in simp_all)

lemma metadata_bind:
  assumes "framed K" "failing F K E"
    and "\<And>j. K j \<Longrightarrow> find_file name j \<noteq> None"
    and "\<And>f. io_triple (state_at F (\<lambda>j. K j \<and> find_file name j = Some f)) (g f) Q E"
  shows "io_triple (state_at F K) (io_bind (symlink_metadata name) g) Q E"
proof -
  have "io_triple (state_at F K) (symlink_metadata name)
      (\<lambda>f. state_at F (\<lambda>j. K j \<and> find_file name j = Some f)) E"
    unfolding symlink_metadata_def
    by (rule sys_bind [OF assms(1,2)],
        rule io_triple_bind [where R = "\<lambda>x. state_at F (\<lambda>j. K j \<and> find_file name j = x)"])
      (auto simp: io_triple_def io_get_def io_lift_def ok_or_def state_at_def
        split: option.splits dest: assms(3))
  then show ?thesis by (rule io_triple_bind) (rule assms(4))
qed

lemma state_at_vacuous: "(\<And>j. \<not> K j) \<Longrightarrow> io_triple (state_at F K) m Q E"
  by (simp add: io_triple_def state_at_def)

lemma metadata_found:
  assumes "framed K" "failing F K E" and found: "\<And>j. K j \<Longrightarrow> find_file name j = Some f"
    and cont: "io_triple (state_at F K) (g f) Q E"
  shows "io_triple (state_at F K) (io_bind (symlink_metadata name) g) Q E"
proof (rule metadata_bind [OF assms(1,2)])
  fix f'
  show "io_triple (state_at F (\<lambda>j. K j \<and> find_file name j = Some f')) (g f') Q E"
  proof (cases "f' = f")
    case True
    then show ?thesis by (auto intro: io_triple_weaken [OF cont] simp: state_at_def)
  next
    case False
    then have "\<not> (K j \<and> find_file name j = Some f')" for j using found [of j] by auto
    then show ?thesis by (rule state_at_vacuous)
  qed
qed (use found in simp)

lemma metadata_any:
  assumes "framed K" "failing F K E" "\<And>j. K j \<Longrightarrow> E Io j"
    and "\<And>f. io_triple (state_at F K) (g f) Q E"
  shows "io_triple (state_at F K) (io_bind (symlink_metadata name) g) Q E"
proof -
  have "io_triple (state_at F K) (symlink_metadata name) (\<lambda>_. state_at F K) E"
    unfolding symlink_metadata_def
    by (rule sys_bind [OF assms(1,2)])
      (auto simp: io_triple_def io_bind_def io_get_def io_lift_def ok_or_def state_at_def
        split: option.splits dest: assms(3))
  then show ?thesis by (rule io_triple_bind) (rule assms(4))
qed

lemma modify_rule:
  assumes "\<And>j. K j \<Longrightarrow> L (f j)" "\<And>j. calm F (f j) = calm F j"
  shows "io_triple (state_at F K) (io_modify f) (\<lambda>_. state_at F L) E"
  using assms by (simp add: io_triple_def io_modify_def state_at_def)

lemma ensure_bind:
  assumes "\<And>j. K j \<Longrightarrow> \<not> b \<Longrightarrow> E e j" "b \<Longrightarrow> io_triple (state_at F K) (f ()) Q E"
  shows "io_triple (state_at F K) (io_bind (io_ensure b e) f) Q E"
  using assms by (auto simp: io_triple_def io_bind_def io_ensure_def state_at_def)

lemma lift_bind:
  assumes "\<And>j e. K j \<Longrightarrow> r = Inl e \<Longrightarrow> E e j"
    and "\<And>x. r = Inr x \<Longrightarrow> io_triple (state_at F K) (f x) Q E"
  shows "io_triple (state_at F K) (io_bind (io_lift r) f) Q E"
  using assms by (cases r) (auto simp: io_triple_def io_bind_def io_lift_def state_at_def)

lemma get_bind:
  assumes "\<And>x. io_triple (state_at F (\<lambda>j. K j \<and> q j = x)) (f x) Q E"
  shows "io_triple (state_at F K) (io_bind (io_get q) f) Q E"
  using assms by (auto simp: io_triple_def io_bind_def io_get_def state_at_def)

lemma revalidate_root_bind:
  assumes "\<And>j. K j \<Longrightarrow> sound_directory C uid j" "framed K" "failing F K E"
    and "io_triple (state_at F K) (f ()) Q E"
  shows "io_triple (state_at F K) (io_bind (revalidate_root uid) f) Q E"
proof -
  have safe: "K j \<Longrightarrow> jr_is_dir j \<and> jr_uid j = uid \<and> jr_mode j = 448 \<and> jr_same_inode j" for j
    using assms(1) [of j] by (simp add: sound_directory_def)
  have "io_triple (state_at F K) (revalidate_root uid) (\<lambda>_. state_at F K) E"
    unfolding revalidate_root_def validate_directory_def
    apply (rule io_triple_bind [where R = "\<lambda>_. state_at F K"])
     apply (rule sys_bind [OF assms(2,3)])
     apply (rule io_tripleI)
      apply (auto simp: io_bind_def io_get_def io_ensure_def state_at_def dest: safe)[2]
    apply (rule sys_bind [OF assms(2,3)])
    apply (rule io_tripleI)
     apply (auto simp: io_bind_def io_get_def io_ensure_def state_at_def dest: safe)[2]
    done
  then show ?thesis by (rule io_triple_bind) (use assms(4) in simp)
qed


section \<open>Loading\<close>

definition loaded :: "self_update_record list \<Rightarrow> journal_records \<Rightarrow> bool" where
  "loaded hs records \<longleftrightarrow>
     mset (map snd records) = mset hs \<and> list_all (\<lambda>(u, r). u = sr_operation_id r) records"

lemma find_file_mem:
  "distinct (map jf_name (jr_files j)) \<Longrightarrow> f \<in> set (jr_files j) \<Longrightarrow> find_file (jf_name f) j = Some f"
proof -
  have "distinct (map jf_name fs) \<Longrightarrow> f \<in> set fs \<Longrightarrow> find (\<lambda>g. jf_name g = jf_name f) fs = Some f" for fs
    by (induction fs) (auto simp: image_iff)
  then show "distinct (map jf_name (jr_files j)) \<Longrightarrow> f \<in> set (jr_files j) \<Longrightarrow> ?thesis"
    by (simp add: find_file_def)
qed

lemma settled_find_file:
  "settled C uid hs j \<Longrightarrow> f \<in> set (jr_files j) \<Longrightarrow> find_file (jf_name f) j = Some f"
  by (simp add: settled_def sound_directory_def find_file_mem)

lemma settled_remove_temporary:
  assumes "settled C uid hs j" "is_temporary_name name"
  shows "settled C uid hs (j\<lparr>jr_files := filter (\<lambda>f. jf_name f \<noteq> name) (jr_files j)\<rparr>)"
proof -
  have "record_of C f = None" if "jf_name f = name" for f
    using that assms(2) by (simp add: record_of_def)
  then have "List.map_filter (record_of C) (filter (\<lambda>f. jf_name f \<noteq> name) fs) =
      List.map_filter (record_of C) fs" for fs
    by (induction fs) (auto simp: map_filter_simps split: option.splits)
  then show ?thesis
    using assms(1)
    by (auto simp: settled_def sound_directory_def held_def list_all_iff distinct_map_filter)
qed

lemma remove_file_bind:
  assumes "framed K" "failing F K E"
    and "\<And>j. K j \<Longrightarrow> L (j\<lparr>jr_files := filter (\<lambda>f. jf_name f \<noteq> name) (jr_files j)\<rparr>)"
    and "io_triple (state_at F L) (f ()) Q E"
  shows "io_triple (state_at F K) (io_bind (remove_file name) f) Q E"
proof -
  have "io_triple (state_at F K) (remove_file name) (\<lambda>_. state_at F L) E"
    unfolding remove_file_def
    by (rule sys_bind [OF assms(1,2)], rule modify_rule) (simp_all add: assms(3))
  then show ?thesis by (rule io_triple_bind) (use assms(4) in simp)
qed

lemma loaded_insort:
  "loaded (map snd (insort_key fst (u, r) acc) @ hs) rs = loaded (map snd acc @ r # hs) rs"
proof -
  have "mset (map snd (insort_key fst (u, r) acc)) = add_mset r (mset (map snd acc))"
    by (induction acc) auto
  then show ?thesis by (simp add: loaded_def)
qed

lemma sound_record_readable:
  assumes "codec_laws C" "record_file C uid r f"
  shows "jf_bytes f \<noteq> []" "length (jf_bytes f) \<le> max_descriptor_bytes"
    "record_decode_canonical C (jf_bytes f) = Inr r"
    "Option.bind (strip_suffix ''.jcs'' (jf_name f)) (uc_parse_uuid C) = Some (sr_operation_id r)"
  using assms record_decode_encoded [OF assms(1), of r "jf_bytes f"]
  by (auto simp: record_file_def record_canonical_bytes_Inr codec_laws_def record_fits_def
      record_name_def uuid_text_laws_def)

lemma read_bind:
  assumes "codec_laws C" "record_file C uid r f"
    and "framed K" "failing F K E" "\<And>j. K j \<Longrightarrow> find_file (jf_name f) j = Some f"
    and "io_triple (state_at F K) (g (jf_bytes f)) Q E"
  shows "io_triple (state_at F K)
    (io_bind (read_stable_owner_file uid 256 max_descriptor_bytes (jf_name f)) g) Q E"
proof -
  have "io_triple (state_at F K) (read_stable_owner_file uid 256 max_descriptor_bytes (jf_name f))
      (\<lambda>bytes j. bytes = jf_bytes f \<and> state_at F K j) E"
    unfolding read_stable_owner_file_def
    by (rule metadata_found [OF assms(3-5)], assumption, rule ensure_bind)
      (use assms(2) sound_record_readable [OF assms(1,2)] in
        \<open>auto intro!: sys_bind assms(3,4) io_triple_return simp: record_file_def\<close>)
  then show ?thesis
    by (rule io_triple_bind) (use assms(6) in \<open>auto simp: io_triple_def\<close>)
qed

lemma load_entries_rule:
  assumes C: "codec_laws C" and fail: "failing F (settled C uid hs) E"
  shows "list_all (sound_file C uid) entries \<Longrightarrow> distinct (map jf_name entries) \<Longrightarrow>
    list_all (\<lambda>(u, r). u = sr_operation_id r \<and> record_name C u \<notin> jf_name ` set entries) acc \<Longrightarrow>
    io_triple (state_at F (\<lambda>j. settled C uid hs j \<and> set entries \<subseteq> set (jr_files j)))
      (load_entries C uid entries acc)
      (\<lambda>rs. state_at F (\<lambda>j. settled C uid hs j \<and>
        loaded (map snd acc @ List.map_filter (record_of C) entries) rs)) E"
proof (induction entries arbitrary: acc)
  case Nil
  then show ?case
    by (auto intro!: io_triple_return simp: state_at_def loaded_def map_filter_simps list_all_iff)
next
  case (Cons f fs)
  let ?K = "\<lambda>j. settled C uid hs j \<and> set (f # fs) \<subseteq> set (jr_files j)"
  let ?L = "\<lambda>j. settled C uid hs j \<and> set fs \<subseteq> set (jr_files j)"
  have K: "framed ?K" "failing F ?K E" by (auto intro: failing_mono [OF fail])
  have find: "?K j \<Longrightarrow> find_file (jf_name f) j = Some f" for j
    by (rule settled_find_file [of C uid hs]) simp_all
  have f: "sound_file C uid f" using Cons.prems by simp
  then show ?case
  proof (cases rule: sound_file_cases [OF f C])
    case 1
    then have tmp: "is_temporary_name (jf_name f)" "is_utf8 (jf_name f)" "jf_regular f" "jf_uid f = uid"
      using temporary_name_is_temporary temporary_name_utf8 [OF C] by (auto simp: temporary_file_def)
    have "list_all (\<lambda>(u, r). u = sr_operation_id r \<and> record_name C u \<notin> jf_name ` set fs) acc"
      using Cons.prems(3) by (auto simp: list_all_iff)
    then have IH: "io_triple (state_at F ?L) (load_entries C uid fs acc)
      (\<lambda>rs. state_at F (\<lambda>j. settled C uid hs j \<and>
        loaded (map snd acc @ List.map_filter (record_of C) (f # fs)) rs)) E"
      using Cons.IH [of acc] Cons.prems(1,2) 1(2) by (simp add: map_filter_simps)
    have "?L (j\<lparr>jr_files := filter (\<lambda>g. jf_name g \<noteq> jf_name f) (jr_files j)\<rparr>)" if "?K j" for j
      using that tmp(1) Cons.prems(2) by (auto simp: settled_remove_temporary image_iff)
    then have "io_triple (state_at F ?K) (io_bind (remove_file (jf_name f)) (\<lambda>_. load_entries C uid fs acc))
      (\<lambda>rs. state_at F (\<lambda>j. settled C uid hs j \<and>
        loaded (map snd acc @ List.map_filter (record_of C) (f # fs)) rs)) E"
      by (rule remove_file_bind [OF K _ IH])
    then have "io_triple (state_at F ?K) (io_bind (symlink_metadata (jf_name f)) (\<lambda>f'.
        io_bind (io_ensure (jf_regular f' \<and> jf_uid f' = uid) UnsafeJournal) (\<lambda>_.
        io_bind (remove_file (jf_name f)) (\<lambda>_. load_entries C uid fs acc))))
      (\<lambda>rs. state_at F (\<lambda>j. settled C uid hs j \<and>
        loaded (map snd acc @ List.map_filter (record_of C) (f # fs)) rs)) E"
      by (intro metadata_found [OF K find] ensure_bind) (simp_all add: tmp(3,4))
    then show ?thesis using tmp(1,2) by simp
  next
    case (2 r)
    have name: "\<not> is_temporary_name (jf_name f)" "is_utf8 (jf_name f)"
      "jf_name f = record_name C (sr_operation_id r)"
      using 2 record_name_not_temporary [OF C] record_name_utf8 [OF C] by (auto simp: record_file_def)
    note read = sound_record_readable [OF C 2(1)]
    have fresh: "map_of acc (sr_operation_id r) = None"
      using Cons.prems(3) name(3) by (auto simp: map_of_eq_None_iff list_all_iff)
    have "list_all (\<lambda>(u, r). u = sr_operation_id r \<and> record_name C u \<notin> jf_name ` set fs)
        (insort_key fst (sr_operation_id r, r) acc)"
      using Cons.prems(2,3) name(3) by (auto simp: list_all_iff set_insort_key)
    then have IH: "io_triple (state_at F ?L)
        (load_entries C uid fs (insort_key fst (sr_operation_id r, r) acc))
      (\<lambda>rs. state_at F (\<lambda>j. settled C uid hs j \<and>
        loaded (map snd acc @ List.map_filter (record_of C) (f # fs)) rs)) E"
      using Cons.IH [of "insort_key fst (sr_operation_id r, r) acc"] Cons.prems(1,2) 2(2)
      by (simp add: loaded_insort map_filter_simps)
    have "io_triple (state_at F ?K)
        (load_entries C uid fs (insort_key fst (sr_operation_id r, r) acc))
      (\<lambda>rs. state_at F (\<lambda>j. settled C uid hs j \<and>
        loaded (map snd acc @ List.map_filter (record_of C) (f # fs)) rs)) E"
      by (rule io_triple_weaken [OF IH]) (auto simp: state_at_def)
    then have "io_triple (state_at F ?K)
      (io_bind (io_lift (record_decode_canonical C (jf_bytes f))) (\<lambda>record.
        if sr_operation_id record \<noteq> sr_operation_id r \<or> map_of acc (sr_operation_id r) \<noteq> None
        then io_fail UnsafeJournal
        else load_entries C uid fs (insort_key fst (sr_operation_id r, record) acc)))
      (\<lambda>rs. state_at F (\<lambda>j. settled C uid hs j \<and>
        loaded (map snd acc @ List.map_filter (record_of C) (f # fs)) rs)) E"
      by (simp add: read(3) fresh io_bind_lift_Inr)
    then have "io_triple (state_at F ?K)
      (io_bind (read_stable_owner_file uid 256 max_descriptor_bytes (jf_name f)) (\<lambda>bytes.
        io_bind (io_lift (record_decode_canonical C bytes)) (\<lambda>record.
        if sr_operation_id record \<noteq> sr_operation_id r \<or> map_of acc (sr_operation_id r) \<noteq> None
        then io_fail UnsafeJournal
        else load_entries C uid fs (insort_key fst (sr_operation_id r, record) acc))))
      (\<lambda>rs. state_at F (\<lambda>j. settled C uid hs j \<and>
        loaded (map snd acc @ List.map_filter (record_of C) (f # fs)) rs)) E"
      by (intro read_bind [OF C 2(1) K find])
    then show ?thesis using name(1,2) read(4) by simp
  qed
qed

lemma active_record_loaded:
  assumes "loaded hs rs" "sound_history hs"
  obtains "active_record rs = Inr None" "filter unfinished hs = []"
  | r where "active_record rs = Inr (Some r)" "filter unfinished hs = [r]"
proof -
  have "mset (filter unfinished (map snd rs)) = mset (filter unfinished hs)"
    using assms(1) by (simp add: loaded_def mset_filter)
  note same = this
  have "length (filter unfinished hs) \<le> 1" using assms(2) by (simp add: sound_history_def)
  then consider "filter unfinished hs = []" | r where "filter unfinished hs = [r]"
    by (cases "filter unfinished hs"; cases "tl (filter unfinished hs)") auto
  then show ?thesis
  proof cases
    case 1
    then have "filter unfinished (map snd rs) = []" using same by simp
    then show ?thesis using that(1) 1 by (simp add: active_record_def)
  next
    case (2 r)
    then have "filter unfinished (map snd rs) = [r]"
      using same by (simp del: filter_map mset_filter mset_map)
    then show ?thesis using that(2) [of r] 2 by (simp add: active_record_def)
  qed
qed

lemma load_records_bind:
  assumes C: "codec_laws C" and hs: "sound_history hs" and fail: "failing F (settled C uid hs) E"
    and cont: "\<And>rs. loaded hs rs \<Longrightarrow> io_triple (state_at F (settled C uid hs)) (f rs) Q E"
  shows "io_triple (state_at F (settled C uid hs)) (io_bind (load_records C uid) f) Q E"
proof -
  let ?K = "settled C uid hs"
  let ?R = "\<lambda>rs. state_at F (\<lambda>j. ?K j \<and> loaded hs rs)"
  have entries: "io_triple (state_at F (\<lambda>j. ?K j \<and> jr_files j = fs)) (load_entries C uid fs []) ?R E"
    for fs
  proof (cases "list_all (sound_file C uid) fs \<and> distinct (map jf_name fs) \<and>
      List.map_filter (record_of C) fs = hs")
    case True
    then have "io_triple (state_at F (\<lambda>j. ?K j \<and> set fs \<subseteq> set (jr_files j)))
        (load_entries C uid fs []) ?R E"
      using load_entries_rule [OF C fail, of fs "[]"] by simp
    then show ?thesis by (rule io_triple_weaken) (simp_all add: state_at_def)
  next
    case False
    then have "\<not> (?K j \<and> jr_files j = fs)" for j
      by (auto simp: settled_def sound_directory_def held_def)
    then show ?thesis by (rule state_at_vacuous)
  qed
  have checked: "io_triple (?R rs)
      (io_bind (io_ensure (length rs \<le> max_self_update_records) JournalCapacityExceeded) (\<lambda>_.
        io_bind (io_lift (active_record rs)) (\<lambda>_. io_return rs))) ?R E" for rs
  proof (cases "loaded hs rs")
    case True
    then have "size (mset (map snd rs)) = size (mset hs)" by (simp only: loaded_def)
    then have "length rs = length hs" by simp
    then show ?thesis
      using hs
      by (cases rule: active_record_loaded [OF True hs])
        (simp_all add: io_triple_def io_bind_def io_ensure_def io_lift_def io_return_def
          state_at_def sound_history_def)
  qed (simp add: io_triple_def state_at_def)
  have "io_triple (state_at F ?K) (load_records C uid) ?R E"
    unfolding load_records_def
    by (rule revalidate_root_bind [of ?K C], simp add: settled_def, rule framed_rules, rule fail,
        rule sys_bind, rule framed_rules, rule fail, rule get_bind,
        rule io_triple_bind [OF entries checked])
  then show ?thesis
    by (rule io_triple_bind) (use cont in \<open>auto simp: io_triple_def state_at_def\<close>)
qed


section \<open>Publishing\<close>

definition written :: "nat \<Rightarrow> string \<Rightarrow> nat \<Rightarrow> string \<Rightarrow> journal_file" where
  "written uid name mode bytes =
     \<lparr>jf_name = name, jf_regular = True, jf_links = 1, jf_uid = uid, jf_mode = mode,
      jf_bytes = bytes\<rparr>"

lemma map_filter_append:
  "List.map_filter f (xs @ ys) = List.map_filter f xs @ List.map_filter f ys"
  by (simp add: List.map_filter_def)

text \<open>The directory while a temporary file is being written: the old history and that file.\<close>

definition pending ::
  "update_codec \<Rightarrow> nat \<Rightarrow> self_update_record list \<Rightarrow> uuid \<Rightarrow> nat \<Rightarrow> string \<Rightarrow> journal_root \<Rightarrow> bool" where
  "pending C uid hs u mode bytes j \<longleftrightarrow>
     (\<exists>fs. jr_files j = fs @ [written uid (temporary_name C u) mode bytes] \<and>
        settled C uid hs (j\<lparr>jr_files := fs\<rparr>) \<and> temporary_name C u \<notin> jf_name ` set fs)"

lemma framed_pending [simp]: "framed (pending C uid hs u mode bytes)"
proof -
  have "settled C uid hs (j\<lparr>jr_faults := x, jr_files := fs\<rparr>) =
      settled C uid hs (j\<lparr>jr_files := fs\<rparr>)" for j x fs
    by (simp add: settled_def sound_directory_def held_def)
  then show ?thesis by (simp add: framed_def pending_def)
qed

lemma pending_settled:
  assumes "pending C uid hs u mode bytes j"
  shows "settled C uid hs j"
proof -
  from assms obtain fs where fs: "jr_files j = fs @ [written uid (temporary_name C u) mode bytes]"
    "settled C uid hs (j\<lparr>jr_files := fs\<rparr>)" "temporary_name C u \<notin> jf_name ` set fs"
    by (auto simp: pending_def)
  have tmp: "temporary_file C uid (written uid (temporary_name C u) mode bytes)"
    by (auto simp: temporary_file_def written_def)
  then show ?thesis
    using fs record_of_temporary [OF tmp]
    by (simp add: settled_def sound_directory_def held_def sound_file_def map_filter_append
        map_filter_simps) (simp add: written_def)
qed

lemma pending_find: "pending C uid hs u mode bytes j \<Longrightarrow> find_file (temporary_name C u) j \<noteq> None"
  by (auto simp: pending_def find_file_def find_None_iff written_def)

lemma held_without:
  assumes "codec_laws C" "list_all (sound_file C uid) fs"
  shows "List.map_filter (record_of C) (filter (\<lambda>f. jf_name f \<noteq> record_name C u) fs) =
    without (List.map_filter (record_of C) fs) u"
  using assms(2)
proof (induction fs)
  case (Cons f fs)
  then have f: "sound_file C uid f" by simp
  show ?case
    using Cons by (cases rule: sound_file_cases [OF f assms(1)])
      (auto simp: map_filter_simps without_def record_file_def record_name_inj [OF assms(1)])
qed (simp add: map_filter_simps without_def)

lemma pending_renamed:
  assumes C: "codec_laws C" and j: "pending C uid hs u 256 bytes j"
    and r: "record_canonical_bytes C r = Inr bytes"
  shows "settled C uid (put hs r) (j\<lparr>jr_files :=
    map (\<lambda>f. if jf_name f = temporary_name C u
             then f\<lparr>jf_name := record_name C (sr_operation_id r)\<rparr> else f)
      (filter (\<lambda>f. jf_name f \<noteq> record_name C (sr_operation_id r)) (jr_files j))\<rparr>)"
proof -
  let ?n = "record_name C (sr_operation_id r)" and ?t = "temporary_name C u"
  from j obtain fs where fs: "jr_files j = fs @ [written uid ?t 256 bytes]"
    "settled C uid hs (j\<lparr>jr_files := fs\<rparr>)" "?t \<notin> jf_name ` set fs"
    by (auto simp: pending_def)
  have others: "map (\<lambda>f. if jf_name f = ?t then f\<lparr>jf_name := ?n\<rparr> else f)
      (filter (\<lambda>f. jf_name f \<noteq> ?n) fs) = filter (\<lambda>f. jf_name f \<noteq> ?n) fs"
    by (rule map_idI) (use fs(3) in \<open>auto simp: image_iff\<close>)
  have new: "map (\<lambda>f. if jf_name f = ?t then f\<lparr>jf_name := ?n\<rparr> else f)
      (filter (\<lambda>f. jf_name f \<noteq> ?n) (jr_files j)) =
      filter (\<lambda>f. jf_name f \<noteq> ?n) fs @ [written uid ?n 256 bytes]"
    using others temporary_name_not_record [OF C] by (simp add: fs(1)) (simp add: written_def)
  have stored: "record_file C uid r (written uid ?n 256 bytes)"
    using r by (simp add: record_file_def written_def)
  have sound: "list_all (sound_file C uid) fs" using fs(2) by (simp add: settled_def sound_directory_def)
  then have "List.map_filter (record_of C) (filter (\<lambda>f. jf_name f \<noteq> ?n) fs @ [written uid ?n 256 bytes]) =
      put hs r"
    using fs(2) held_without [OF C sound, of "sr_operation_id r"] record_of_record [OF C stored]
    by (simp add: map_filter_append map_filter_simps put_def settled_def held_def)
  then show ?thesis
    unfolding new using fs(2) sound stored
    by (auto simp: settled_def sound_directory_def held_def list_all_iff distinct_map_filter
        sound_file_def written_def)
qed

lemma change_file_bind:
  assumes "framed K" "failing F K E"
    and "\<And>j. K j \<Longrightarrow> L (j\<lparr>jr_files := update_where (\<lambda>f. jf_name f = name) g (jr_files j)\<rparr>)"
    and "io_triple (state_at F L) (f ()) Q E"
  shows "io_triple (state_at F K) (io_bind (change_file name g) f) Q E"
proof -
  have "io_triple (state_at F K) (change_file name g) (\<lambda>_. state_at F L) E"
    unfolding change_file_def
    by (rule sys_bind [OF assms(1,2)], rule modify_rule) (simp_all add: assms(3))
  then show ?thesis by (rule io_triple_bind) (use assms(4) in simp)
qed

lemma pending_changed:
  assumes "pending C uid hs u mode bytes j"
    and "g (written uid (temporary_name C u) mode bytes) = written uid (temporary_name C u) mode' bytes'"
  shows "pending C uid hs u mode' bytes'
    (j\<lparr>jr_files := update_where (\<lambda>f. jf_name f = temporary_name C u) g (jr_files j)\<rparr>)"
proof -
  from assms(1) obtain fs where fs: "jr_files j = fs @ [written uid (temporary_name C u) mode bytes]"
    "settled C uid hs (j\<lparr>jr_files := fs\<rparr>)" "temporary_name C u \<notin> jf_name ` set fs"
    by (auto simp: pending_def)
  have "map (\<lambda>f. if jf_name f = temporary_name C u then g f else f) fs = fs"
    by (rule map_idI) (use fs(3) in \<open>auto simp: image_iff\<close>)
  moreover have "jf_name (written uid (temporary_name C u) mode bytes) = temporary_name C u"
    by (simp add: written_def)
  ultimately show ?thesis
    using fs assms(2) by (simp add: pending_def update_where_def)
qed

lemma create_new_file_bind:
  assumes "framed K" "failing F K E" "\<And>j. K j \<Longrightarrow> E Io j"
    and K: "\<And>j. K j \<Longrightarrow> settled C uid hs j"
    and "io_triple (state_at F (pending C uid hs u 384 [])) (f ()) Q E"
  shows "io_triple (state_at F K) (io_bind (create_new_file (temporary_name C u)) f) Q E"
proof -
  have created: "pending C uid hs u 384 [] (j\<lparr>jr_files := jr_files j @
      [\<lparr>jf_name = temporary_name C u, jf_regular = True, jf_links = 1, jf_uid = jr_euid j,
        jf_mode = 384, jf_bytes = []\<rparr>]\<rparr>)"
    if "K j" "find_file (temporary_name C u) j = None" for j
    using K [OF that(1)] that(2)
    by (auto simp: pending_def written_def find_file_def find_None_iff settled_def
        sound_directory_def)
  have "io_triple (state_at F K) (create_new_file (temporary_name C u))
      (\<lambda>_. state_at F (pending C uid hs u 384 [])) E"
    unfolding create_new_file_def
    by (intro sys_bind [OF assms(1,2)] get_bind ensure_bind modify_rule)
      (use created assms(3) in simp_all)
  then show ?thesis by (rule io_triple_bind) (use assms(5) in simp)
qed

lemma path_exists_bind:
  assumes "framed K" "\<And>b. io_triple (state_at F K) (f b) Q E"
  shows "io_triple (state_at F K) (io_bind (path_exists name) f) Q E"
proof -
  have "io_triple (state_at F K) (path_exists name) (\<lambda>_. state_at F K) E"
    using assms(1)
    by (auto simp: io_triple_def path_exists_def sys_def state_at_def framed_def calm_def
        split: list.splits)
  then show ?thesis by (rule io_triple_bind) (rule assms(2))
qed

lemma new_v4_bind:
  assumes "\<And>j n. K j \<Longrightarrow> K (j\<lparr>jr_drawn := n\<rparr>)" "\<And>u. io_triple (state_at F K) (f u) Q E"
  shows "io_triple (state_at F K) (io_bind (new_v4 C) f) Q E"
proof -
  have "io_triple (state_at F K) (new_v4 C) (\<lambda>_. state_at F K) E"
    using assms(1) by (simp add: io_triple_def new_v4_def state_at_def)
  then show ?thesis by (rule io_triple_bind) (rule assms(2))
qed

lemma publish_record_rule:
  assumes C: "codec_laws C"
    and E: "\<And>e j. settled C uid hs j \<Longrightarrow> E e j" "\<And>e j. settled C uid (put hs r) j \<Longrightarrow> E e j"
  shows "io_triple (state_at F (settled C uid hs)) (publish_record C uid r create_new)
    (\<lambda>_. state_at F (settled C uid (put hs r))) E"
proof -
  have fail: "failing F (settled C uid hs) E" "failing F (settled C uid (put hs r)) E"
    "failing F (pending C uid hs u mode bytes) E" for u mode bytes
    using E pending_settled by (auto simp: failing_def)
  let ?n = "record_name C (sr_operation_id r)"
  have renamed: "io_triple (state_at F (pending C uid hs u 256 bytes))
      (io_bind (rename_file (temporary_name C u) ?n) (\<lambda>_. sys))
      (\<lambda>_. state_at F (settled C uid (put hs r))) E"
    if "record_canonical_bytes C r = Inr bytes" for u bytes
  proof (rule io_triple_bind)
    show "io_triple (state_at F (pending C uid hs u 256 bytes)) (rename_file (temporary_name C u) ?n)
        (\<lambda>_. state_at F (settled C uid (put hs r))) E"
      unfolding rename_file_def
      by (intro metadata_bind [OF framed_pending fail(3)] modify_rule)
        (auto dest: pending_find pending_renamed [OF C _ that])
    show "io_triple (state_at F (settled C uid (put hs r))) sys
        (\<lambda>_. state_at F (settled C uid (put hs r))) E"
      by (rule sys_rule [OF framed_rules(1) fail(2)])
  qed
  have kept: "io_triple (state_at F (pending C uid hs u 256 bytes))
      (io_ensure b e) (\<lambda>_. state_at F (pending C uid hs u 256 bytes)) E" for u bytes b e
    by (rule io_triple_ensure) (auto simp: state_at_def dest: pending_settled E(1))
  have checked: "io_triple (state_at F (pending C uid hs u 256 bytes))
      (io_when (\<not> create_new) (io_bind (symlink_metadata ?n) (\<lambda>f.
         validate_owner_file uid 256 (length (jf_bytes f)) ?n)))
      (\<lambda>_. state_at F (pending C uid hs u 256 bytes)) E" for u bytes
    unfolding validate_owner_file_def
    by (intro io_triple_when metadata_any [OF framed_pending fail(3)] kept)
      (auto dest: pending_settled E(1))
  have step: "io_triple (state_at F (pending C uid hs u m b))
      (io_bind (change_file (temporary_name C u) g) f) (\<lambda>_. state_at F (settled C uid (put hs r))) E"
    if "g (written uid (temporary_name C u) m b) = written uid (temporary_name C u) m' b'"
      and "io_triple (state_at F (pending C uid hs u m' b')) (f ())
        (\<lambda>_. state_at F (settled C uid (put hs r))) E"
    for u m b g m' b' and f :: "unit \<Rightarrow> unit journal_io"
    by (rule change_file_bind [where L = "pending C uid hs u m' b'", OF framed_pending fail(3)])
      (erule pending_changed, rule that(1), rule that(2))
  have moved: "io_triple (state_at F (pending C uid hs u 384 bytes))
      (io_bind (change_file (temporary_name C u) (\<lambda>f. f\<lparr>jf_mode := 256\<rparr>)) (\<lambda>_.
       io_bind (io_when (\<not> create_new) (io_bind (symlink_metadata ?n) (\<lambda>f.
         validate_owner_file uid 256 (length (jf_bytes f)) ?n))) (\<lambda>_.
       io_bind (rename_file (temporary_name C u) ?n) (\<lambda>_. sys))))
      (\<lambda>_. state_at F (settled C uid (put hs r))) E"
    if "record_canonical_bytes C r = Inr bytes" for u bytes
    by (rule step [where m' = 256 and b' = bytes])
      (auto intro: io_triple_bind [OF checked renamed [OF that]] simp: written_def)
  have written: "io_triple (state_at F (pending C uid hs u 384 []))
      (io_bind (io_lift (record_canonical_bytes C r)) (\<lambda>bytes.
       io_bind (change_file (temporary_name C u) (\<lambda>f. f\<lparr>jf_bytes := bytes\<rparr>)) (\<lambda>_.
       io_bind (change_file (temporary_name C u) (\<lambda>f. f\<lparr>jf_mode := 256\<rparr>)) (\<lambda>_.
       io_bind (io_when (\<not> create_new) (io_bind (symlink_metadata ?n) (\<lambda>f.
         validate_owner_file uid 256 (length (jf_bytes f)) ?n))) (\<lambda>_.
       io_bind (rename_file (temporary_name C u) ?n) (\<lambda>_. sys))))))
      (\<lambda>_. state_at F (settled C uid (put hs r))) E" for u
    by (rule lift_bind, erule E(1) [OF pending_settled], rule step)
      (auto intro: moved simp: written_def)
  have safe: "settled C uid hs j \<Longrightarrow> sound_directory C uid j" for j by (simp add: settled_def)
  show ?thesis
    unfolding publish_record_def Let_def
    by (rule lift_bind, erule E(1), rule revalidate_root_bind [OF safe framed_rules(1) fail(1)],
        assumption, rule path_exists_bind [OF framed_rules(1)], rule io_triple_if,
        rule io_triple_fail, simp add: state_at_def E(1), rule new_v4_bind, simp,
        rule create_new_file_bind [OF framed_rules(1) fail(1) E(1) _ written])
qed

end
