(* ===== verification/Self_Update_Runs.thy ===== *)
theory Self_Update_Runs
  imports Self_Update_Crashes
begin

text \<open>
  The public operations of the journal refine the abstract steps, failing calls included, and the
  journals they reach.
\<close>

definition evolved ::
  "update_codec \<Rightarrow> nat \<Rightarrow> self_update_record list \<Rightarrow> journal_root \<Rightarrow> bool" where
  "evolved C uid hs j \<longleftrightarrow> (\<exists>hs'. (history_step C)\<^sup>*\<^sup>* hs hs' \<and> settled C uid hs' j)"

lemma evolved_refl: "settled C uid hs j \<Longrightarrow> evolved C uid hs j"
  by (auto simp: evolved_def)

lemma evolved_step: "history_step C hs hs' \<Longrightarrow> settled C uid hs' j \<Longrightarrow> evolved C uid hs j"
  by (auto simp: evolved_def)

lemma evolved_trans: "(history_step C)\<^sup>*\<^sup>* hs hs' \<Longrightarrow> evolved C uid hs' j \<Longrightarrow> evolved C uid hs j"
  by (auto simp: evolved_def intro: rtranclp_trans)

lemma failing_any: "(\<And>e j. K j \<Longrightarrow> E e j) \<Longrightarrow> failing F K E"
  by (simp add: failing_def)

lemma loaded_mem: "loaded hs rs \<Longrightarrow> r \<in> snd ` set rs \<longleftrightarrow> r \<in> set hs"
  unfolding loaded_def by (metis set_map set_mset_mset)

lemma loaded_length: "loaded hs rs \<Longrightarrow> length rs = length hs"
  unfolding loaded_def by (metis length_map size_mset)

lemma loaded_lookup:
  assumes "loaded hs rs" "map_of rs u = Some r"
  shows "r \<in> set hs" "sr_operation_id r = u"
proof -
  have "(u, r) \<in> set rs" using assms(2) by (rule map_of_SomeD)
  then show "r \<in> set hs" "sr_operation_id r = u"
    using assms(1) loaded_mem [OF assms(1), of r] by (force simp: loaded_def list_all_iff)+
qed

text \<open>A change of one record: load, look it up, compute the next one and publish it.\<close>

lemma replace_record_rule:
  assumes C: "codec_laws C" and hs: "sound_history hs"
  shows "io_triple (state_at F (settled C uid hs))
    (io_bind (load_records C uid) (\<lambda>records.
     io_bind (io_lift (ok_or (map_of records (sr_operation_id r)) JournalRecordMissing)) (\<lambda>current.
     if current \<noteq> r \<or> refused then io_fail JournalRecordConflict
     else
       io_bind (io_lift result) (\<lambda>n.
       io_bind (publish_record C uid n False) (\<lambda>_.
       io_return n)))))
    (\<lambda>n j. r \<in> set hs \<and> \<not> refused \<and> result = Inr n \<and> state_at F (settled C uid (put hs n)) j)
    (\<lambda>_ j. settled C uid hs j \<or>
      (\<exists>n. r \<in> set hs \<and> \<not> refused \<and> result = Inr n \<and> settled C uid (put hs n) j))"
    (is "io_triple _ _ ?Q ?E")
proof (rule load_records_bind [OF C hs])
  show "failing F (settled C uid hs) ?E" by (rule failing_any) simp
next
  fix rs assume rs: "loaded hs rs"
  show "io_triple (state_at F (settled C uid hs))
    (io_bind (io_lift (ok_or (map_of rs (sr_operation_id r)) JournalRecordMissing)) (\<lambda>current.
     if current \<noteq> r \<or> refused then io_fail JournalRecordConflict
     else io_bind (io_lift result) (\<lambda>n.
       io_bind (publish_record C uid n False) (\<lambda>_. io_return n)))) ?Q ?E"
  proof (rule lift_bind)
    fix current assume "ok_or (map_of rs (sr_operation_id r)) JournalRecordMissing = Inr current"
    then have current: "current \<in> set hs"
      using loaded_lookup(1) [OF rs] by (auto simp: ok_or_def split: option.splits)
    have published: "io_triple (state_at F (settled C uid hs)) (io_bind (publish_record C uid n False)
        (\<lambda>_. io_return n)) ?Q ?E" if "current = r" "\<not> refused" "result = Inr n" for n
      by (rule io_triple_bind, rule publish_record_rule [OF C])
        (use that current in \<open>auto intro!: io_triple_return\<close>)
    show "io_triple (state_at F (settled C uid hs))
      (if current \<noteq> r \<or> refused then io_fail JournalRecordConflict
       else io_bind (io_lift result) (\<lambda>n.
         io_bind (publish_record C uid n False) (\<lambda>_. io_return n))) ?Q ?E"
    proof (cases "current \<noteq> r \<or> refused")
      case True
      then show ?thesis
        by (simp only: if_True) (rule io_triple_fail, simp add: state_at_def)
    next
      case False
      then show ?thesis
        by (simp only: if_False) (rule lift_bind, simp, rule published, simp_all)
    qed
  qed simp
qed

lemma journal_transition_rule:
  assumes "codec_laws C" "sound_history hs"
  shows "io_triple (state_at F (settled C uid hs))
    (journal_transition C uid r phase backup reason now)
    (\<lambda>n j. r \<in> set hs \<and> \<not> is_terminal (sr_phase r) \<and>
      record_transitioned C r phase backup reason now = Inr n \<and>
      state_at F (settled C uid (put hs n)) j)
    (\<lambda>_ j. settled C uid hs j \<or> (\<exists>n. r \<in> set hs \<and> \<not> is_terminal (sr_phase r) \<and>
      record_transitioned C r phase backup reason now = Inr n \<and> settled C uid (put hs n) j))"
proof -
  have "journal_transition C uid r phase backup reason now =
    io_bind (load_records C uid) (\<lambda>records.
     io_bind (io_lift (ok_or (map_of records (sr_operation_id r)) JournalRecordMissing)) (\<lambda>current.
     if current \<noteq> r \<or> is_terminal (sr_phase r) then io_fail JournalRecordConflict
     else
       io_bind (io_lift (record_transitioned C r phase backup reason now)) (\<lambda>n.
       io_bind (publish_record C uid n False) (\<lambda>_.
       io_return n))))"
    unfolding journal_transition_def
    by (intro arg_cong2 [where f = io_bind] refl ext) auto
  then show ?thesis by (simp only: replace_record_rule [OF assms])
qed

lemma mark_recovered_rollback_rule:
  assumes "codec_laws C" "sound_history hs"
  shows "io_triple (state_at F (settled C uid hs))
    (mark_recovered_rollback C uid r now)
    (\<lambda>n j. r \<in> set hs \<and>
      \<not> (sr_phase r \<noteq> NeedsReconcile \<or> sr_backup_receipt_digest r = None) \<and>
      record_transitioned C r RolledBack (sr_backup_receipt_digest r) (sr_failure_reason r) now =
        Inr n \<and> state_at F (settled C uid (put hs n)) j)
    (\<lambda>_ j. settled C uid hs j \<or> (\<exists>n. r \<in> set hs \<and>
      \<not> (sr_phase r \<noteq> NeedsReconcile \<or> sr_backup_receipt_digest r = None) \<and>
      record_transitioned C r RolledBack (sr_backup_receipt_digest r) (sr_failure_reason r) now =
        Inr n \<and> settled C uid (put hs n) j))"
proof -
  have "mark_recovered_rollback C uid r now =
    io_bind (load_records C uid) (\<lambda>records.
     io_bind (io_lift (ok_or (map_of records (sr_operation_id r)) JournalRecordMissing)) (\<lambda>current.
     if current \<noteq> r \<or> (sr_phase r \<noteq> NeedsReconcile \<or> sr_backup_receipt_digest r = None)
     then io_fail JournalRecordConflict
     else
       io_bind (io_lift (record_transitioned C r RolledBack
         (sr_backup_receipt_digest r) (sr_failure_reason r) now)) (\<lambda>n.
       io_bind (publish_record C uid n False) (\<lambda>_.
       io_return n))))"
    unfolding mark_recovered_rollback_def
    by (intro arg_cong2 [where f = io_bind] refl ext) auto
  then show ?thesis by (simp only: replace_record_rule [OF assms])
qed


section \<open>Beginning an update\<close>

lemma settled_remove_record:
  assumes C: "codec_laws C" and j: "settled C uid hs j"
  shows "settled C uid (without hs u)
    (j\<lparr>jr_files := filter (\<lambda>f. jf_name f \<noteq> record_name C u) (jr_files j)\<rparr>)"
  using j held_without [OF C, of uid "jr_files j" u]
  by (auto simp: settled_def sound_directory_def held_def list_all_iff distinct_map_filter)

lemma read_any_bind:
  assumes "framed K" "\<And>e j. K j \<Longrightarrow> E e j" "\<And>bytes. io_triple (state_at F K) (g bytes) Q E"
  shows "io_triple (state_at F K) (io_bind (read_stable_owner_file uid mode n name) g) Q E"
proof -
  have "io_triple (state_at F K) (read_stable_owner_file uid mode n name) (\<lambda>_. state_at F K) E"
    unfolding read_stable_owner_file_def
    by (intro metadata_any sys_bind ensure_bind failing_any io_triple_return)
      (use assms(1,2) in simp_all)
  then show ?thesis by (rule io_triple_bind) (rule assms(3))
qed

lemma remove_terminal_record_rule:
  assumes C: "codec_laws C" and E: "\<And>e j. settled C uid hs j \<Longrightarrow> E e j"
    "\<And>e j. settled C uid (without hs (sr_operation_id r)) j \<Longrightarrow> E e j"
  shows "io_triple (state_at F (settled C uid hs)) (remove_terminal_record C uid r)
    (\<lambda>_. state_at F (settled C uid (without hs (sr_operation_id r)))) E"
proof -
  let ?n = "record_name C (sr_operation_id r)"
  have removed: "io_triple (state_at F (settled C uid hs)) (io_bind (remove_file ?n) (\<lambda>_. sys))
      (\<lambda>_. state_at F (settled C uid (without hs (sr_operation_id r)))) E"
    by (rule remove_file_bind [where L = "settled C uid (without hs (sr_operation_id r))",
          OF framed_rules(1) failing_any])
      (auto intro: E settled_remove_record [OF C] sys_rule failing_any)
  have failed: "io_triple (state_at F (settled C uid hs)) (io_fail e)
      (\<lambda>_. state_at F (settled C uid (without hs (sr_operation_id r)))) E" for e
    by (rule io_triple_fail) (simp add: state_at_def E(1))
  have compared: "io_triple (state_at F (settled C uid hs))
      (io_bind (io_lift (record_decode_canonical C bytes)) (\<lambda>stored.
        if stored \<noteq> r then io_fail JournalRecordConflict
        else io_bind (remove_file ?n) (\<lambda>_. sys)))
      (\<lambda>_. state_at F (settled C uid (without hs (sr_operation_id r)))) E" for bytes
    by (rule lift_bind, erule E(1), rule io_triple_if, rule failed, rule removed)
  show ?thesis
    unfolding remove_terminal_record_def Let_def
    by (rule lift_bind, erule E(1), rule io_triple_if, rule failed,
        rule read_any_bind [OF framed_rules(1) E(1) compared])
qed

lemma resolved_iff:
  "list_all resolved hs \<longleftrightarrow>
     filter unfinished hs = [] \<and> \<not> list_ex (\<lambda>r. sr_phase r = NeedsReconcile) hs"
  by (auto simp: list_all_iff list_ex_iff filter_empty_conv resolved_def is_terminal_def)

lemma removable_records_cases:
  assumes rs: "loaded hs rs" and "list_all resolved hs" "length hs \<le> max_self_update_records"
  obtains "removable_records rs = []" "length hs < max_self_update_records"
  | r where "removable_records rs = [r]" "r \<in> set hs" "length hs = max_self_update_records"
proof (cases "length hs < max_self_update_records")
  case True
  then show ?thesis using that(1) loaded_length [OF rs] by (simp add: removable_records_def)
next
  case False
  let ?sorted = "sort_key (\<lambda>r. (sr_updated_at_ms r, sr_operation_id r))
    (filter (\<lambda>r. sr_phase r = Succeeded \<or> sr_phase r = RolledBack) (map snd rs))"
  have len: "length hs = max_self_update_records" using False assms(3) by simp
  have "list_all resolved (map snd rs)"
    using assms(2) loaded_mem [OF rs] by (auto simp: list_all_iff)
  then have "filter (\<lambda>r. sr_phase r = Succeeded \<or> sr_phase r = RolledBack) (map snd rs) = map snd rs"
    by (simp add: filter_id_conv list_all_iff resolved_def)
  then have "set ?sorted = set hs" "length ?sorted = max_self_update_records"
    using loaded_mem [OF rs] loaded_length [OF rs] len by auto
  moreover have "removable_records rs = take 1 ?sorted"
    using loaded_length [OF rs] len by (simp add: removable_records_def max_self_update_records_def)
  ultimately show ?thesis
    using that(2) [of "hd ?sorted"] len
    by (cases ?sorted) (auto simp: max_self_update_records_def)
qed

text \<open>What a beginning leaves when it fails: some resolved records forgotten, or the new record.\<close>

definition begun_or_not ::
  "update_codec \<Rightarrow> nat \<Rightarrow> evidence_digest \<Rightarrow> evidence_digest \<Rightarrow> int \<Rightarrow> self_update_record list \<Rightarrow>
   journal_root \<Rightarrow> bool" where
  "begun_or_not C uid candidate previous now hs j \<longleftrightarrow>
     (\<exists>hs'. (history_step C)\<^sup>*\<^sup>* hs hs' \<and> set hs' \<subseteq> set hs \<and>
        (settled C uid hs' j \<or>
         (list_all resolved hs \<and> (\<exists>u r. record_begin C u candidate previous now = Inr r \<and>
            history_step C hs' (put hs' r) \<and> settled C uid (put hs' r) j))))"

lemma begun_or_not_evolved: "begun_or_not C uid candidate previous now hs j \<Longrightarrow> evolved C uid hs j"
  unfolding begun_or_not_def by (blast intro: evolved_trans evolved_refl evolved_step)

lemma begun_or_notI:
  assumes "(history_step C)\<^sup>*\<^sup>* hs hs'" "set hs' \<subseteq> set hs" "settled C uid hs' j"
  shows "begun_or_not C uid candidate previous now hs j"
  using assms unfolding begun_or_not_def by blast

lemma journal_begin_rule:
  assumes C: "codec_laws C" and hs: "sound_history hs"
  shows "io_triple (state_at F (settled C uid hs)) (journal_begin C uid candidate previous now)
    (\<lambda>r j. list_all resolved hs \<and> (\<exists>hs' u. (history_step C)\<^sup>*\<^sup>* hs hs' \<and> set hs' \<subseteq> set hs \<and>
      record_begin C u candidate previous now = Inr r \<and> history_step C hs' (put hs' r) \<and>
      state_at F (settled C uid (put hs' r)) j))
    (\<lambda>_. begun_or_not C uid candidate previous now hs)" (is "io_triple _ _ ?Q ?E")
proof -
  have E: "settled C uid hs j \<Longrightarrow> begun_or_not C uid candidate previous now hs j" for j
    by (rule begun_or_notI) auto
  have published: "io_triple (state_at F (settled C uid hs'))
      (io_bind (new_v4 C) (\<lambda>u.
       io_bind (io_lift (record_begin C u candidate previous now)) (\<lambda>record.
       io_bind (publish_record C uid record True) (\<lambda>_. io_return record)))) ?Q ?E"
    if hs': "(history_step C)\<^sup>*\<^sup>* hs hs'" "set hs' \<subseteq> set hs" "list_all resolved hs"
      "length hs' < max_self_update_records" for hs'
  proof (rule new_v4_bind, simp, rule lift_bind)
    fix u r assume r: "record_begin C u candidate previous now = Inr r"
    have all: "list_all resolved hs'" using hs'(2,3) by (auto simp: list_all_iff)
    then have step: "history_step C hs' (put hs' r)" by (rule history_step.start) (use hs'(4) r in auto)
    have "io_triple (state_at F (settled C uid hs')) (publish_record C uid r True)
        (\<lambda>_. state_at F (settled C uid (put hs' r))) ?E"
      by (rule publish_record_rule [OF C])
        (use hs'(1-3) r step in \<open>auto simp: begun_or_not_def\<close>)
    then show "io_triple (state_at F (settled C uid hs'))
        (io_bind (publish_record C uid r True) (\<lambda>_. io_return r)) ?Q ?E"
      by (rule io_triple_bind, intro io_triple_return) (use hs' r step in auto)
  qed (auto intro: begun_or_notI [OF hs'(1,2)])
  have pruned: "io_triple (state_at F (settled C uid hs))
      (io_bind (io_each (remove_terminal_record C uid) (removable_records rs)) (\<lambda>_.
       io_bind (new_v4 C) (\<lambda>u.
       io_bind (io_lift (record_begin C u candidate previous now)) (\<lambda>record.
       io_bind (publish_record C uid record True) (\<lambda>_. io_return record))))) ?Q ?E"
    if rs: "loaded hs rs" and all: "list_all resolved hs" for rs
  proof -
    have len: "length hs \<le> max_self_update_records" using hs by (simp add: sound_history_def)
    show ?thesis
    proof (cases rule: removable_records_cases [OF rs all len])
      case 1
      then show ?thesis
        using published [OF rtranclp.rtrancl_refl subset_refl all 1(2)] by (simp add: io_simps)
    next
      case (2 r)
      let ?w = "without hs (sr_operation_id r)"
      have step: "history_step C hs ?w" by (rule history_step.forget [OF all 2(3,2)])
      then have steps: "(history_step C)\<^sup>*\<^sup>* hs ?w" by (rule r_into_rtranclp)
      have "length ?w < max_self_update_records" "set ?w \<subseteq> set hs"
        using length_without_mem [OF 2(2)] 2(3) by (auto simp: without_def)
      from this(2) published [OF steps this(2) all this(1)] have cont: "io_triple (state_at F (settled C uid ?w))
          (io_bind (new_v4 C) (\<lambda>u.
           io_bind (io_lift (record_begin C u candidate previous now)) (\<lambda>record.
           io_bind (publish_record C uid record True) (\<lambda>_. io_return record)))) ?Q ?E"
        by simp
      have "io_triple (state_at F (settled C uid hs))
          (io_each (remove_terminal_record C uid) (removable_records rs))
          (\<lambda>_. state_at F (settled C uid ?w)) ?E"
        unfolding 2(1) io_each.simps
        by (rule io_triple_bind [OF remove_terminal_record_rule [OF C]])
          (auto intro: io_triple_return E begun_or_notI [OF steps \<open>set ?w \<subseteq> set hs\<close>])
      then show ?thesis by (rule io_triple_bind) (rule cont)
    qed
  qed
  show ?thesis
    unfolding journal_begin_def
  proof (rule load_records_bind [OF C hs failing_any], erule E)
    fix rs assume rs: "loaded hs rs"
    have reconcile: "list_ex (\<lambda>(_, r). sr_phase r = NeedsReconcile) rs \<longleftrightarrow>
        list_ex (\<lambda>r. sr_phase r = NeedsReconcile) hs"
      using loaded_mem [OF rs] by (force simp: list_ex_iff)
    show "io_triple (state_at F (settled C uid hs))
      (io_bind (io_lift (active_record rs)) (\<lambda>active.
       if active \<noteq> None then io_fail UpdateAlreadyActive
       else if list_ex (\<lambda>(_, r). sr_phase r = NeedsReconcile) rs then io_fail RecoveryRequired
       else
         io_bind (io_each (remove_terminal_record C uid) (removable_records rs)) (\<lambda>_.
         io_bind (new_v4 C) (\<lambda>u.
         io_bind (io_lift (record_begin C u candidate previous now)) (\<lambda>record.
         io_bind (publish_record C uid record True) (\<lambda>_. io_return record)))))) ?Q ?E"
    proof (rule lift_bind, erule E, rule io_triple_if, rule io_triple_fail, simp add: state_at_def E,
        rule io_triple_if, rule io_triple_fail, simp add: state_at_def E, rule pruned [OF rs])
      fix active assume "active_record rs = Inr active" "\<not> active \<noteq> None"
        "\<not> list_ex (\<lambda>(_, r). sr_phase r = NeedsReconcile) rs"
      then show "list_all resolved hs"
        by (cases rule: active_record_loaded [OF rs hs]) (auto simp: resolved_iff reconcile)
    qed
  qed
qed


section \<open>Reachable journals\<close>

text \<open>
  What may happen to a journal: its operations with any arguments, each with any list of failing
  calls, a restart (which releases the lock), and opening it again. It starts as an empty directory.
\<close>

inductive journal_reachable :: "update_codec \<Rightarrow> nat \<Rightarrow> journal_root \<Rightarrow> bool" for C uid where
  empty: "jr_is_dir j \<Longrightarrow> jr_uid j = uid \<Longrightarrow> jr_mode j = 448 \<Longrightarrow> jr_same_inode j \<Longrightarrow>
    jr_euid j = uid \<Longrightarrow> jr_files j = [] \<Longrightarrow> journal_reachable C uid j"
| restart: "journal_reachable C uid j \<Longrightarrow>
    journal_reachable C uid (j\<lparr>jr_locked := False, jr_faults := faults\<rparr>)"
| opened: "journal_reachable C uid j \<Longrightarrow> journal_reachable C uid (snd (journal_open C uid j))"
| active: "journal_reachable C uid j \<Longrightarrow> journal_reachable C uid (snd (journal_active C uid j))"
| records: "journal_reachable C uid j \<Longrightarrow> journal_reachable C uid (snd (journal_records C uid j))"
| begun: "journal_reachable C uid j \<Longrightarrow>
    journal_reachable C uid (snd (journal_begin C uid candidate previous now j))"
| transition: "journal_reachable C uid j \<Longrightarrow>
    journal_reachable C uid (snd (journal_transition C uid r phase backup reason now j))"
| recovered: "journal_reachable C uid j \<Longrightarrow>
    journal_reachable C uid (snd (mark_recovered_rollback C uid r now j))"

definition journal_ok :: "update_codec \<Rightarrow> nat \<Rightarrow> journal_root \<Rightarrow> bool" where
  "journal_ok C uid j \<longleftrightarrow> (\<exists>hs. (history_step C)\<^sup>*\<^sup>* [] hs \<and> settled C uid hs j)"

lemma histories_sound: "(history_step C)\<^sup>*\<^sup>* hs hs' \<Longrightarrow> sound_history hs \<Longrightarrow> sound_history hs'"
  by (induction rule: rtranclp_induct) (auto dest: history_step_sound)

lemma sound_history_Nil: "sound_history []"
  by (simp add: sound_history_def)

lemma journal_okE:
  assumes "journal_ok C uid j"
  obtains hs where "(history_step C)\<^sup>*\<^sup>* [] hs" "settled C uid hs j" "sound_history hs"
  using assms histories_sound [OF _ sound_history_Nil] unfolding journal_ok_def by blast

lemma triple_journal_ok:
  assumes "\<And>hs. sound_history hs \<Longrightarrow> io_triple (state_at False (settled C uid hs)) m
      (\<lambda>_. evolved C uid hs) (\<lambda>_. evolved C uid hs)"
    and "journal_ok C uid j"
  shows "journal_ok C uid (snd (m j))"
proof -
  obtain hs where hs: "(history_step C)\<^sup>*\<^sup>* [] hs" "settled C uid hs j" "sound_history hs"
    using assms(2) by (rule journal_okE)
  have "state_at False (settled C uid hs) j" using hs(2) by (simp add: state_at_def calm_def)
  then have "evolved C uid hs (snd (m j))"
    using io_tripleD_ok [OF assms(1) [OF hs(3)], of j] io_tripleD_err [OF assms(1) [OF hs(3)], of j]
    by (cases "m j", cases "fst (m j)") simp_all
  then show ?thesis
    using hs(1) by (auto simp: evolved_def journal_ok_def intro: rtranclp_trans)
qed

lemma load_evolved:
  assumes C: "codec_laws C" and hs: "sound_history hs"
    and "\<And>rs. loaded hs rs \<Longrightarrow> io_triple (state_at F (settled C uid hs)) (f rs)
      (\<lambda>_. evolved C uid hs) (\<lambda>_. evolved C uid hs)"
  shows "io_triple (state_at F (settled C uid hs)) (io_bind (load_records C uid) f)
    (\<lambda>_. evolved C uid hs) (\<lambda>_. evolved C uid hs)"
  by (rule load_records_bind [OF C hs failing_any], erule evolved_refl) (rule assms(3))

lemma operations_evolve:
  assumes C: "codec_laws C" and hs: "sound_history hs"
  shows "io_triple (state_at F (settled C uid hs)) (journal_active C uid)
      (\<lambda>_. evolved C uid hs) (\<lambda>_. evolved C uid hs)" (is ?active)
    "io_triple (state_at F (settled C uid hs)) (journal_records C uid)
      (\<lambda>_. evolved C uid hs) (\<lambda>_. evolved C uid hs)" (is ?records)
    "io_triple (state_at F (settled C uid hs)) (journal_begin C uid candidate previous now)
      (\<lambda>_. evolved C uid hs) (\<lambda>_. evolved C uid hs)" (is ?starts)
    "io_triple (state_at F (settled C uid hs)) (journal_transition C uid r phase backup reason now)
      (\<lambda>_. evolved C uid hs) (\<lambda>_. evolved C uid hs)" (is ?transition)
    "io_triple (state_at F (settled C uid hs)) (mark_recovered_rollback C uid r now)
      (\<lambda>_. evolved C uid hs) (\<lambda>_. evolved C uid hs)" (is ?recovered)
proof -
  show ?active
    unfolding journal_active_def
    by (intro load_evolved [OF C hs] io_triple_lift) (simp_all add: state_at_def evolved_refl)
  show ?records
    unfolding journal_records_def
    by (intro load_evolved [OF C hs] io_triple_return) (simp_all add: state_at_def evolved_refl)
  show ?starts
  proof (rule io_triple_weaken [OF journal_begin_rule [OF C hs]])
    fix n j assume "list_all resolved hs \<and> (\<exists>hs' u. (history_step C)\<^sup>*\<^sup>* hs hs' \<and> set hs' \<subseteq> set hs \<and>
      record_begin C u candidate previous now = Inr n \<and> history_step C hs' (put hs' n) \<and>
      state_at F (settled C uid (put hs' n)) j)"
    then obtain hs' where "(history_step C)\<^sup>*\<^sup>* hs hs'" "history_step C hs' (put hs' n)"
      "settled C uid (put hs' n) j" by (auto simp: state_at_def)
    then show "evolved C uid hs j" by (blast intro: evolved_trans evolved_step)
  qed (auto intro: begun_or_not_evolved)
  show ?transition
    by (rule io_triple_weaken [OF journal_transition_rule [OF C hs]])
      (auto simp: state_at_def intro: evolved_refl evolved_step history_step.advance)
  show ?recovered
    by (rule io_triple_weaken [OF mark_recovered_rollback_rule [OF C hs]])
      (auto simp: state_at_def intro: evolved_refl evolved_step history_step.recover)
qed

lemma journal_open_rule:
  assumes C: "codec_laws C" and hs: "sound_history hs"
    and E: "\<And>e j. \<not> F \<Longrightarrow> settled C uid hs j \<Longrightarrow> E e j"
    and locked: "\<And>j. settled C uid hs j \<Longrightarrow> jr_locked j \<Longrightarrow> E JournalAlreadyOpen j"
  shows "io_triple (state_at F (settled C uid hs)) (journal_open C uid)
    (\<lambda>_. state_at F (settled C uid hs)) E"
proof -
  let ?K = "settled C uid hs"
  have fail: "failing F ?K E" using E by (simp add: failing_def)
  have valid: "io_triple (state_at F ?K) (validate_directory uid 448) (\<lambda>_. state_at F ?K) E"
    unfolding validate_directory_def
    by (rule sys_bind [OF framed_rules(1) fail], rule get_bind, rule io_triple_ensure)
      (auto simp: state_at_def settled_def sound_directory_def)
  have lock: "io_triple (state_at F (\<lambda>j. ?K j \<and> jr_locked j = b))
      (io_bind (io_ensure (\<not> b) JournalAlreadyOpen) (\<lambda>_.
       io_bind (io_modify (\<lambda>j. j\<lparr>jr_locked := True, jr_same_inode := True\<rparr>)) (\<lambda>_.
       io_bind (load_records C uid) (\<lambda>_. io_return ()))))
      (\<lambda>_. state_at F ?K) E" for b
  proof (rule ensure_bind)
    have "settled C uid hs (j\<lparr>jr_locked := True, jr_same_inode := True\<rparr>)" if "?K j" for j
      using that by (simp add: settled_def sound_directory_def held_def)
    then have "io_triple (state_at F (\<lambda>j. ?K j \<and> jr_locked j = b))
        (io_modify (\<lambda>j. j\<lparr>jr_locked := True, jr_same_inode := True\<rparr>)) (\<lambda>_. state_at F ?K) E"
      by (intro modify_rule) (auto simp: calm_def)
    then show "io_triple (state_at F (\<lambda>j. ?K j \<and> jr_locked j = b))
        (io_bind (io_modify (\<lambda>j. j\<lparr>jr_locked := True, jr_same_inode := True\<rparr>)) (\<lambda>_.
         io_bind (load_records C uid) (\<lambda>_. io_return ()))) (\<lambda>_. state_at F ?K) E"
      by (rule io_triple_bind)
        (intro load_records_bind [OF C hs fail] io_triple_return, assumption)
  qed (use locked in auto)
  show ?thesis
    unfolding journal_open_def
    by (rule io_triple_bind [OF valid], rule sys_bind [OF framed_rules(1) fail], rule get_bind,
        rule lock)
qed

lemma reachable_ok:
  assumes C: "codec_laws C" and "journal_reachable C uid j"
  shows "journal_ok C uid j"
  using assms(2)
proof induction
  case (empty j)
  then have "settled C uid [] j"
    by (simp add: settled_def sound_directory_def held_def map_filter_simps)
  then show ?case by (auto simp: journal_ok_def)
next
  case (restart j faults)
  then show ?case by (simp add: journal_ok_def)
next
  case (opened j)
  show ?case
    by (rule triple_journal_ok [OF _ opened.IH],
        rule io_triple_weaken [OF journal_open_rule [OF C, where E = "\<lambda>_. settled C uid _"]])
      (auto simp: state_at_def intro: evolved_refl)
qed (auto intro: triple_journal_ok [OF operations_evolve(1) [OF C]]
    triple_journal_ok [OF operations_evolve(2) [OF C]] triple_journal_ok [OF operations_evolve(3) [OF C]]
    triple_journal_ok [OF operations_evolve(4) [OF C]] triple_journal_ok [OF operations_evolve(5) [OF C]])

end
