(* ===== verification/Self_Update_Coordinator.thy ===== *)
theory Self_Update_Coordinator
  imports Self_Update_Runs
begin

text \<open>
  The coordinator of a self-update, \<open>SelfUpdateCoordinatorV1\<close> of \<open>src/self_update.rs\<close>, and the
  recovery entry points of \<open>src/self_update_recovery.rs\<close>. The platform is the trait
  \<open>SelfUpdatePlatformV1\<close>: a record of operations over a state of their own, which keep their
  effects when they fail. The world is the journal directory and the platform's state.
\<close>

record 'p self_update_platform =
  active_release :: "('p, string, evidence_digest) io"
  backup_state :: "uuid \<Rightarrow> evidence_digest \<Rightarrow> ('p, string, evidence_digest) io"
  activate_release :: "evidence_digest \<Rightarrow> ('p, string, unit) io"
  start_release :: "evidence_digest \<Rightarrow> ('p, string, unit) io"
  release_is_healthy :: "evidence_digest \<Rightarrow> ('p, string, bool) io"
  commit_release :: "evidence_digest \<Rightarrow> evidence_digest \<Rightarrow> ('p, string, unit) io"
  restore_release :: "evidence_digest \<Rightarrow> evidence_digest \<Rightarrow> ('p, string, unit) io"

record 'p update_world =
  uw_journal :: journal_root
  uw_platform :: 'p

type_synonym ('p, 'a) update_io = "('p update_world, self_update_error, 'a) io"

definition in_journal :: "'a journal_io \<Rightarrow> ('p, 'a) update_io" where
  "in_journal m = io_zoom uw_journal uw_journal_update m"

definition on_platform :: "('p, string, 'a) io \<Rightarrow> ('p, 'a) update_io" where
  "on_platform m = io_map_err Platform (io_zoom uw_platform uw_platform_update m)"

datatype self_update_outcome = Outcome_Succeeded | Outcome_RolledBack | Outcome_NeedsReconcile

fun terminal_outcome :: "self_update_phase \<Rightarrow> self_update_outcome option" where
  "terminal_outcome Succeeded = Some Outcome_Succeeded"
| "terminal_outcome RolledBack = Some Outcome_RolledBack"
| "terminal_outcome NeedsReconcile = Some Outcome_NeedsReconcile"
| "terminal_outcome _ = None"

definition needs_reconcile ::
  "update_codec \<Rightarrow> nat \<Rightarrow> self_update_record \<Rightarrow> string \<Rightarrow> int \<Rightarrow>
   ('p, self_update_record) update_io" where
  "needs_reconcile C uid record reason now_ms =
     in_journal (journal_transition C uid record NeedsReconcile (sr_backup_receipt_digest record)
       (Some reason) now_ms)"

definition advance ::
  "update_codec \<Rightarrow> nat \<Rightarrow> 'p self_update_platform \<Rightarrow> self_update_record \<Rightarrow> int \<Rightarrow>
   ('p, self_update_record) update_io" where
  "advance C uid P record now_ms =
     io_bind (on_platform (active_release P)) (\<lambda>active.
     let backup = sr_backup_receipt_digest record;
         candidate = sr_candidate_release_digest record;
         previous = sr_previous_release_digest record;
         transition = (\<lambda>phase backup reason.
           in_journal (journal_transition C uid record phase backup reason now_ms))
     in case sr_phase record of
       BackupPending \<Rightarrow>
         if active \<noteq> previous then needs_reconcile C uid record ''active_release_changed'' now_ms
         else
           io_bind (on_platform (backup_state P (sr_operation_id record) candidate)) (\<lambda>receipt.
           transition SwitchPending (Some receipt) None)
     | SwitchPending \<Rightarrow>
         if active = previous then
           io_bind (on_platform (activate_release P candidate)) (\<lambda>_.
           transition StartPending backup None)
         else if active \<noteq> candidate then
           needs_reconcile C uid record ''active_release_unknown'' now_ms
         else transition StartPending backup None
     | StartPending \<Rightarrow>
         if active \<noteq> candidate then needs_reconcile C uid record ''candidate_not_active'' now_ms
         else
           io_bind (on_platform (start_release P candidate)) (\<lambda>_.
           transition HealthPending backup None)
     | HealthPending \<Rightarrow>
         if active \<noteq> candidate then needs_reconcile C uid record ''candidate_not_active'' now_ms
         else
           io_bind (on_platform (release_is_healthy P candidate)) (\<lambda>healthy.
           if healthy then transition CommitPending backup None
           else transition RollbackPending backup (Some ''candidate_unhealthy''))
     | CommitPending \<Rightarrow>
         if active \<noteq> candidate then needs_reconcile C uid record ''candidate_not_active'' now_ms
         else
           io_bind (on_platform (commit_release P candidate previous)) (\<lambda>_.
           transition Succeeded backup None)
     | RollbackPending \<Rightarrow>
         if active = candidate then
           io_bind (io_lift (ok_or backup InvalidJournalRecord)) (\<lambda>receipt.
           io_bind (on_platform (restore_release P previous receipt)) (\<lambda>_.
           transition RollbackHealthPending backup (sr_failure_reason record)))
         else if active \<noteq> previous then
           needs_reconcile C uid record ''rollback_release_unknown'' now_ms
         else transition RollbackHealthPending backup (sr_failure_reason record)
     | RollbackHealthPending \<Rightarrow>
         if active \<noteq> previous then needs_reconcile C uid record ''rollback_not_active'' now_ms
         else
           io_bind (on_platform (start_release P previous)) (\<lambda>_.
           io_bind (on_platform (release_is_healthy P previous)) (\<lambda>healthy.
           if healthy then transition RolledBack backup (sr_failure_reason record)
           else needs_reconcile C uid record ''rollback_unhealthy'' now_ms))
     | _ \<Rightarrow> io_return record)"

fun apply_loop ::
  "update_codec \<Rightarrow> nat \<Rightarrow> 'p self_update_platform \<Rightarrow> int \<Rightarrow> nat \<Rightarrow> self_update_record \<Rightarrow>
   ('p, self_update_outcome) update_io" where
  "apply_loop C uid P now_ms 0 record = io_fail InvalidJournalTransition"
| "apply_loop C uid P now_ms (Suc n) record =
     (case terminal_outcome (sr_phase record) of
        Some outcome \<Rightarrow> io_return outcome
      | None \<Rightarrow> io_bind (advance C uid P record now_ms) (apply_loop C uid P now_ms n))"

definition apply_update ::
  "update_codec \<Rightarrow> nat \<Rightarrow> 'p self_update_platform \<Rightarrow> evidence_digest \<Rightarrow> int \<Rightarrow>
   ('p, self_update_outcome) update_io" where
  "apply_update C uid P candidate now_ms =
     io_bind (in_journal (journal_active C uid)) (\<lambda>active.
     io_bind
       (case active of
          Some record \<Rightarrow>
            if sr_candidate_release_digest record \<noteq> candidate then io_fail UpdateAlreadyActive
            else io_return record
        | None \<Rightarrow>
            io_bind (on_platform (active_release P)) (\<lambda>previous.
            in_journal (journal_begin C uid candidate previous now_ms)))
       (apply_loop C uid P now_ms 16))"


section \<open>Recovery\<close>

datatype self_update_recovery_error =
    NoActiveOperation
  | ActiveOperationExists
  | OperationMissing
  | BackupUnavailable
  | OperationNotRecoverable
  | RestoredReleaseUnhealthy
  | CurrentReleaseUnhealthy
  | Recovery_Platform string
  | Recovery_SelfUpdate self_update_error

type_synonym ('p, 'a) recovery_io = "('p update_world, self_update_recovery_error, 'a) io"

definition self_update_call :: "('p, 'a) update_io \<Rightarrow> ('p, 'a) recovery_io" where
  "self_update_call m = io_map_err Recovery_SelfUpdate m"

definition platform_call :: "('p, string, 'a) io \<Rightarrow> ('p, 'a) recovery_io" where
  "platform_call m = io_map_err Recovery_Platform (io_zoom uw_platform uw_platform_update m)"

definition resume_active_update ::
  "update_codec \<Rightarrow> nat \<Rightarrow> 'p self_update_platform \<Rightarrow> int \<Rightarrow> ('p, self_update_outcome) recovery_io"
  where
  "resume_active_update C uid P now_ms =
     io_bind (self_update_call (in_journal (journal_active C uid))) (\<lambda>active.
     io_bind (io_lift (ok_or active NoActiveOperation)) (\<lambda>record.
     self_update_call (apply_update C uid P (sr_candidate_release_digest record) now_ms)))"

definition restore_reconciled_operation ::
  "update_codec \<Rightarrow> nat \<Rightarrow> 'p self_update_platform \<Rightarrow> uuid \<Rightarrow> evidence_digest \<Rightarrow> int \<Rightarrow>
   ('p, self_update_record) recovery_io" where
  "restore_reconciled_operation C uid P operation_id last_known_good now_ms =
     io_bind (self_update_call (in_journal (journal_active C uid))) (\<lambda>active.
     if active \<noteq> None then io_fail ActiveOperationExists
     else
       io_bind (self_update_call (in_journal (journal_records C uid))) (\<lambda>records.
       io_bind (io_lift (ok_or (find (\<lambda>r. sr_operation_id r = operation_id) records)
         OperationMissing)) (\<lambda>record.
       io_bind (io_lift (ok_or (sr_backup_receipt_digest record) BackupUnavailable)) (\<lambda>backup.
       if sr_phase record \<noteq> NeedsReconcile \<or>
          sr_previous_release_digest record \<noteq> last_known_good
       then io_fail OperationNotRecoverable
       else
         io_bind (platform_call (restore_release P last_known_good backup)) (\<lambda>_.
         io_bind (platform_call (start_release P last_known_good)) (\<lambda>_.
         io_bind (platform_call (release_is_healthy P last_known_good)) (\<lambda>healthy.
         if \<not> healthy then io_fail RestoredReleaseUnhealthy
         else self_update_call (in_journal (mark_recovered_rollback C uid record now_ms)))))))))"

definition restart_exact_current_release ::
  "'p self_update_platform \<Rightarrow> ('p, evidence_digest) recovery_io" where
  "restart_exact_current_release P =
     io_bind (platform_call (active_release P)) (\<lambda>current.
     io_bind (platform_call (activate_release P current)) (\<lambda>_.
     io_bind (platform_call (start_release P current)) (\<lambda>_.
     io_bind (platform_call (release_is_healthy P current)) (\<lambda>healthy.
     if \<not> healthy then io_fail CurrentReleaseUnhealthy
     else io_return current))))"


section \<open>The bound of the loop\<close>

fun phase_rank :: "self_update_phase \<Rightarrow> nat" where
  "phase_rank BackupPending = 6"
| "phase_rank SwitchPending = 5"
| "phase_rank StartPending = 4"
| "phase_rank HealthPending = 3"
| "phase_rank CommitPending = 2"
| "phase_rank RollbackPending = 2"
| "phase_rank RollbackHealthPending = 1"
| "phase_rank _ = 0"

lemma terminal_outcome_None: "terminal_outcome p = None \<longleftrightarrow> \<not> is_terminal p"
  by (cases p) (simp_all add: is_terminal_def)

lemma transition_lowers_rank:
  "valid_phase_transition from to \<Longrightarrow> \<not> is_terminal from \<Longrightarrow> phase_rank to < phase_rank from"
  by (cases "from"; cases "to") (simp_all add: valid_phase_transition_def is_terminal_def)

lemma in_journal_Inr:
  "in_journal m w = (Inr x, w') \<longleftrightarrow>
     (\<exists>j. m (uw_journal w) = (Inr x, j) \<and> w' = w\<lparr>uw_journal := j\<rparr>)"
  by (cases "m (uw_journal w)") (auto simp: in_journal_def io_zoom_def)

lemma on_platform_Inr:
  "on_platform m w = (Inr x, w') \<longleftrightarrow>
     (\<exists>p. m (uw_platform w) = (Inr x, p) \<and> w' = w\<lparr>uw_platform := p\<rparr>)"
  by (cases "m (uw_platform w)")
    (auto simp: on_platform_def io_map_err_def map_err_def io_zoom_def split: sum.splits)

lemma journal_transition_Inr:
  assumes "journal_transition C uid r phase backup reason now j = (Inr n, j')"
  shows "record_transitioned C r phase backup reason now = Inr n" "\<not> is_terminal (sr_phase r)"
  using assms
  by (auto simp: journal_transition_def io_bind_Inr io_lift_def ok_or_def io_fail_def io_return_def
      split: if_splits option.splits)

lemma transition_rank:
  assumes "in_journal (journal_transition C uid r phase backup reason now) w = (Inr n, w')"
  shows "phase_rank (sr_phase n) < phase_rank (sr_phase r)"
proof -
  obtain j where j: "journal_transition C uid r phase backup reason now (uw_journal w) = (Inr n, j)"
    using assms by (auto simp: in_journal_Inr)
  note n = record_transitioned_Inr [OF journal_transition_Inr(1) [OF j]]
  show ?thesis
    using transition_lowers_rank [OF n(4) journal_transition_Inr(2) [OF j]] n(3) by simp
qed

lemma advance_rank:
  assumes "advance C uid P r now w = (Inr n, w')" "\<not> is_terminal (sr_phase r)"
  shows "phase_rank (sr_phase n) < phase_rank (sr_phase r)"
  using assms
  by (cases "sr_phase r")
    (auto simp: advance_def Let_def io_bind_Inr needs_reconcile_def is_terminal_def
      dest!: transition_rank split: if_splits)

lemma apply_loop_enough:
  "phase_rank (sr_phase r) < n \<Longrightarrow> phase_rank (sr_phase r) < m \<Longrightarrow>
   apply_loop C uid P now n r w = apply_loop C uid P now m r w"
proof (induction n arbitrary: m r w)
  case (Suc n)
  then obtain k where m: "m = Suc k" by (cases m) simp_all
  show ?case
  proof (cases "is_terminal (sr_phase r)")
    case True
    then obtain outcome where "terminal_outcome (sr_phase r) = Some outcome"
      using terminal_outcome_None [of "sr_phase r"] by blast
    then show ?thesis by (simp add: m)
  next
    case False
    have "apply_loop C uid P now n r' w' = apply_loop C uid P now k r' w'"
      if "advance C uid P r now w = (Inr r', w')" for r' w'
      using Suc.IH [of r' k w'] Suc.prems advance_rank [OF that False] by (simp add: m)
    then show ?thesis
      using False terminal_outcome_None [of "sr_phase r"]
      by (auto simp: m io_bind_def split: prod.splits sum.splits)
  qed
qed simp

end
