(* ===== verification/Self_Update_Safety.thy ===== *)
theory Self_Update_Safety
  imports Self_Update_Coordinator
begin

text \<open>
  The contract between the coordinator and its platform, and what the coordinator guarantees under
  it: which release the \<open>current\<close> pointer names in every phase, whatever call fails and however
  often the update is resumed.
\<close>

text \<open>The release that is active in a phase of an update.\<close>

fun pointer_fits :: "self_update_record \<Rightarrow> evidence_digest option \<Rightarrow> bool" where
  "pointer_fits r p =
     (let candidate = Some (sr_candidate_release_digest r);
          previous = Some (sr_previous_release_digest r)
      in case sr_phase r of
        BackupPending \<Rightarrow> p = previous
      | SwitchPending \<Rightarrow> p = previous \<or> p = candidate
      | StartPending \<Rightarrow> p = candidate
      | HealthPending \<Rightarrow> p = candidate
      | CommitPending \<Rightarrow> p = candidate
      | Succeeded \<Rightarrow> p = candidate
      | RollbackPending \<Rightarrow> p = candidate \<or> p = previous
      | RollbackHealthPending \<Rightarrow> p = previous
      | RolledBack \<Rightarrow> p = previous
      | NeedsReconcile \<Rightarrow> p = previous \<and> sr_failure_reason r = Some ''rollback_unhealthy'' \<and>
          sr_backup_receipt_digest r \<noteq> None)"

declare pointer_fits.simps [simp del]

text \<open>At most one update is unresolved, and the pointer fits it.\<close>

definition fits :: "self_update_record list \<Rightarrow> evidence_digest option \<Rightarrow> bool" where
  "fits hs p \<longleftrightarrow>
     (\<forall>r \<in> set hs. \<not> resolved r \<longrightarrow>
        pointer_fits r p \<and> (\<forall>q \<in> set hs. \<not> resolved q \<longrightarrow> q = r))"

lemma unfinished_unresolved: "unfinished r \<Longrightarrow> \<not> resolved r"
  by (auto simp: resolved_def is_terminal_def)

lemma fits_put:
  assumes "fits hs p" "r \<in> set hs" "\<not> resolved r" "sr_operation_id n = sr_operation_id r"
    and "pointer_fits n p'"
  shows "fits (put hs n) p'"
proof -
  have "resolved q" if "q \<in> set hs" "sr_operation_id q \<noteq> sr_operation_id n" for q
    using assms(1-4) that unfolding fits_def by metis
  then show ?thesis using assms(5) by (auto simp: fits_def mem_put)
qed

lemma fits_resolved: "list_all resolved hs \<Longrightarrow> pointer_fits n p \<Longrightarrow> fits (put hs n) p"
  by (auto simp: fits_def mem_put list_all_iff)

lemma fits_move:
  assumes "fits hs p" "r \<in> set hs" "\<not> resolved r" "pointer_fits r p'"
  shows "fits hs p'"
  using assms unfolding fits_def by metis


text \<open>The journal directory holds the history \<open>hs\<close>, the platform's pointer is \<open>p\<close>, and they fit.\<close>

definition world ::
  "('p \<Rightarrow> evidence_digest option) \<Rightarrow> update_codec \<Rightarrow> nat \<Rightarrow> self_update_record list \<Rightarrow>
   evidence_digest option \<Rightarrow> 'p update_world \<Rightarrow> bool" where
  "world pointer C uid hs p w \<longleftrightarrow>
     settled C uid hs (uw_journal w) \<and> sound_history hs \<and> fits hs p \<and> pointer (uw_platform w) = p"

definition steady ::
  "('p \<Rightarrow> evidence_digest option) \<Rightarrow> update_codec \<Rightarrow> nat \<Rightarrow> 'p update_world \<Rightarrow> bool" where
  "steady pointer C uid w \<longleftrightarrow> (\<exists>hs p. world pointer C uid hs p w)"

lemma world_steady: "world pointer C uid hs p w \<Longrightarrow> steady pointer C uid w"
  by (auto simp: steady_def)

lemma io_triple_assuming:
  assumes "\<And>w. P w \<Longrightarrow> A" "A \<Longrightarrow> io_triple P m Q E"
  shows "io_triple P m Q E"
  using assms by (cases A) (auto simp: io_triple_def)

lemma world_shape:
  "world pointer C uid hs p w \<Longrightarrow> codec_laws C \<Longrightarrow> r \<in> set hs \<Longrightarrow> record_shape r"
  by (auto simp: world_def settled_def intro: record_validate_shape held_valid)

lemma pointer_fits_next:
  assumes "record_transitioned C r phase backup reason now = Inr n"
  shows "pointer_fits n p \<longleftrightarrow> pointer_fits
    (r\<lparr>sr_phase := phase, sr_backup_receipt_digest := backup, sr_failure_reason := reason\<rparr>) p"
  using record_transitioned_Inr(3,5-8) [OF assms]
  by (cases phase) (simp_all add: pointer_fits.simps)

lemma steady_triple:
  assumes "\<And>hs p. fits hs p \<Longrightarrow> io_triple (world pointer C uid hs p) m Q E"
  shows "io_triple (steady pointer C uid) m Q E"
proof (rule io_tripleI)
  fix w x w' assume "steady pointer C uid w" and m: "m w = (Inr x, w')"
  then obtain hs p where w: "world pointer C uid hs p w" "fits hs p"
    by (auto simp: steady_def world_def)
  show "Q x w'" by (rule io_tripleD_ok [OF assms [OF w(2)] w(1) m])
next
  fix w e w' assume "steady pointer C uid w" and m: "m w = (Inl e, w')"
  then obtain hs p where w: "world pointer C uid hs p w" "fits hs p"
    by (auto simp: steady_def world_def)
  show "E e w'" by (rule io_tripleD_err [OF assms [OF w(2)] w(1) m])
qed

locale release_pointer =
  fixes P :: "'p self_update_platform"
    and pointer :: "'p \<Rightarrow> evidence_digest option"
  assumes active_ok: "active_release P s = (Inr d, s') \<Longrightarrow> pointer s = Some d"
    and active_keeps: "pointer (snd (active_release P s)) = pointer s"
    and backup_keeps: "pointer (snd (backup_state P u d s)) = pointer s"
    and activate_ok: "activate_release P d s = (Inr x, s') \<Longrightarrow> pointer s' = Some d"
    and activate_moves:
      "pointer (snd (activate_release P d s)) = pointer s \<or>
       pointer (snd (activate_release P d s)) = Some d"
    and start_keeps: "pointer (snd (start_release P d s)) = pointer s"
    and healthy_keeps: "pointer (snd (release_is_healthy P d s)) = pointer s"
    and commit_keeps: "pointer (snd (commit_release P d e s)) = pointer s"
    and restore_ok: "restore_release P d b s = (Inr x, s') \<Longrightarrow> pointer s' = Some d"
    and restore_moves:
      "pointer (snd (restore_release P d b s)) = pointer s \<or>
       pointer (snd (restore_release P d b s)) = Some d"
begin

lemma transition_world:
  assumes C: "codec_laws C" and r: "r \<in> set hs" "unfinished r"
    and fit: "\<And>n. record_transitioned C r phase backup reason now = Inr n \<Longrightarrow> pointer_fits n p"
  shows "io_triple (world pointer C uid hs p)
    (in_journal (journal_transition C uid r phase backup reason now))
    (\<lambda>n w. record_transitioned C r phase backup reason now = Inr n \<and> world pointer C uid (put hs n) p w)
    (\<lambda>_. steady pointer C uid)"
  unfolding in_journal_def
proof (rule io_triple_zoom)
  fix w assume w: "world pointer C uid hs p w"
  then have hs: "sound_history hs" and f: "fits hs p" by (simp_all add: world_def)
  have put: "sound_history (put hs n)" "fits (put hs n) p"
    if "record_transitioned C r phase backup reason now = Inr n" for n
    using history_step_sound [OF history_step.advance [OF r that] hs]
      fits_put [OF f r(1) unfinished_unresolved [OF r(2)] record_transitioned_Inr(2) [OF that] fit [OF that]]
    by simp_all
  show "io_triple (\<lambda>t. t = uw_journal w) (journal_transition C uid r phase backup reason now)
    (\<lambda>n j. record_transitioned C r phase backup reason now = Inr n \<and>
      world pointer C uid (put hs n) p (uw_journal_update (\<lambda>_. j) w))
    (\<lambda>_ j. steady pointer C uid (uw_journal_update (\<lambda>_. j) w))"
    by (rule io_triple_weaken [OF journal_transition_rule [OF C hs, of False]])
      (use w put in \<open>auto simp: state_at_def calm_def world_def steady_def\<close>)
qed

lemma platform_world:
  assumes "\<And>s x s'. pointer s = p \<Longrightarrow> m s = (Inr x, s') \<Longrightarrow> pointer s' = q \<and> Q x"
    and "\<And>s e s'. pointer s = p \<Longrightarrow> m s = (Inl e, s') \<Longrightarrow> fits hs (pointer s')"
    and "fits hs q"
  shows "io_triple (world pointer C uid hs p) (on_platform m)
      (\<lambda>x w. Q x \<and> world pointer C uid hs q w) (\<lambda>_. steady pointer C uid)"
    "io_triple (world pointer C uid hs p) (platform_call m)
      (\<lambda>x w. Q x \<and> world pointer C uid hs q w) (\<lambda>_. steady pointer C uid)"
proof -
  have "io_triple (world pointer C uid hs p) (io_map_err g (io_zoom uw_platform uw_platform_update m))
      (\<lambda>x w. Q x \<and> world pointer C uid hs q w) (\<lambda>_. steady pointer C uid)" for g :: "string \<Rightarrow> 'e"
  proof (rule io_triple_map_err, rule io_triple_zoom)
    fix w assume w: "world pointer C uid hs p w"
    show "io_triple (\<lambda>t. t = uw_platform w) m
      (\<lambda>x t. Q x \<and> world pointer C uid hs q (uw_platform_update (\<lambda>_. t) w))
      (\<lambda>e t. steady pointer C uid (uw_platform_update (\<lambda>_. t) w))"
    proof (rule io_tripleI)
      fix s x s' assume s: "s = uw_platform w" "m s = (Inr x, s')"
      with w assms(1) [OF _ s(2)] assms(3)
      show "Q x \<and> world pointer C uid hs q (uw_platform_update (\<lambda>_. s') w)"
        by (simp add: world_def)
    next
      fix s e s' assume s: "s = uw_platform w" "m s = (Inl e, s')"
      have "pointer s = p" using w s(1) by (simp add: world_def)
      then have "fits hs (pointer s')" by (rule assms(2)) (rule s(2))
      with w show "steady pointer C uid (uw_platform_update (\<lambda>_. s') w)"
        unfolding steady_def by (auto simp: world_def)
    qed
  qed
  then show "io_triple (world pointer C uid hs p) (on_platform m)
      (\<lambda>x w. Q x \<and> world pointer C uid hs q w) (\<lambda>_. steady pointer C uid)"
    "io_triple (world pointer C uid hs p) (platform_call m)
      (\<lambda>x w. Q x \<and> world pointer C uid hs q w) (\<lambda>_. steady pointer C uid)"
    by (simp_all add: on_platform_def platform_call_def)
qed

lemma keeping_world:
  assumes "\<And>s. pointer (snd (m s)) = pointer s" "fits hs p"
  shows "io_triple (world pointer C uid hs p) (on_platform m) (\<lambda>_. world pointer C uid hs p)
      (\<lambda>_. steady pointer C uid)"
    "io_triple (world pointer C uid hs p) (platform_call m) (\<lambda>_. world pointer C uid hs p)
      (\<lambda>_. steady pointer C uid)"
proof -
  have kept: "pointer s' = pointer s" if "m s = (r, s')" for s r s'
    using assms(1) [of s] that by simp
  have *: "pointer s' = p \<and> True" if "pointer s = p" "m s = (Inr x, s')" for s x s'
    using kept [OF that(2)] that(1) by simp
  have **: "fits hs (pointer s')" if "pointer s = p" "m s = (Inl e, s')" for s e s'
    using kept [OF that(2)] that(1) assms(2) by simp
  show "io_triple (world pointer C uid hs p) (on_platform m) (\<lambda>_. world pointer C uid hs p)
      (\<lambda>_. steady pointer C uid)"
    "io_triple (world pointer C uid hs p) (platform_call m) (\<lambda>_. world pointer C uid hs p)
      (\<lambda>_. steady pointer C uid)"
    using platform_world [where Q = "\<lambda>_. True", OF * ** assms(2)] by simp_all
qed

lemma active_world:
  assumes "fits hs p"
  shows "io_triple (world pointer C uid hs p) (on_platform (active_release P))
      (\<lambda>d w. p = Some d \<and> world pointer C uid hs p w) (\<lambda>_. steady pointer C uid)"
    "io_triple (world pointer C uid hs p) (platform_call (active_release P))
      (\<lambda>d w. p = Some d \<and> world pointer C uid hs p w) (\<lambda>_. steady pointer C uid)"
proof -
  have *: "pointer s' = p \<and> p = Some d" if s: "pointer s = p" "active_release P s = (Inr d, s')" for s d s'
    using active_ok [OF s(2)] active_keeps [of s] s by simp
  have **: "fits hs (pointer s')" if s: "pointer s = p" "active_release P s = (Inl e, s')" for s e s'
    using active_keeps [of s] s assms by simp
  show "io_triple (world pointer C uid hs p) (on_platform (active_release P))
      (\<lambda>d w. p = Some d \<and> world pointer C uid hs p w) (\<lambda>_. steady pointer C uid)"
    "io_triple (world pointer C uid hs p) (platform_call (active_release P))
      (\<lambda>d w. p = Some d \<and> world pointer C uid hs p w) (\<lambda>_. steady pointer C uid)"
    by (rule platform_world [OF * ** assms], assumption+)+
qed

text \<open>Making the release active that already is leaves the pointer, whatever fails.\<close>

lemma same_release_world:
  assumes "fits hs (Some d)"
  shows "io_triple (world pointer C uid hs (Some d)) (platform_call (activate_release P d))
      (\<lambda>_. world pointer C uid hs (Some d)) (\<lambda>_. steady pointer C uid)"
    "io_triple (world pointer C uid hs (Some d)) (platform_call (restore_release P d b))
      (\<lambda>_. world pointer C uid hs (Some d)) (\<lambda>_. steady pointer C uid)"
proof -
  have activate: "pointer s' = Some d" if "pointer s = Some d" "activate_release P d s = (r, s')" for s r s'
    using activate_moves [of d s] that by simp
  have restore: "pointer s' = Some d" if "pointer s = Some d" "restore_release P d b s = (r, s')" for s r s'
    using restore_moves [of d b s] that by simp
  have "io_triple (world pointer C uid hs (Some d)) (platform_call (activate_release P d))
      (\<lambda>x w. True \<and> world pointer C uid hs (Some d) w) (\<lambda>_. steady pointer C uid)"
    by (rule platform_world(2)) (use assms in \<open>simp_all add: activate\<close>)
  then show "io_triple (world pointer C uid hs (Some d)) (platform_call (activate_release P d))
      (\<lambda>_. world pointer C uid hs (Some d)) (\<lambda>_. steady pointer C uid)" by simp
  have "io_triple (world pointer C uid hs (Some d)) (platform_call (restore_release P d b))
      (\<lambda>x w. True \<and> world pointer C uid hs (Some d) w) (\<lambda>_. steady pointer C uid)"
    by (rule platform_world(2)) (use assms in \<open>simp_all add: restore\<close>)
  then show "io_triple (world pointer C uid hs (Some d)) (platform_call (restore_release P d b))
      (\<lambda>_. world pointer C uid hs (Some d)) (\<lambda>_. steady pointer C uid)" by simp
qed

text \<open>
  One step of the coordinator on the unfinished record \<open>r\<close>: the next record is in the journal, is
  about the same two releases, and the pointer fits it.
\<close>

definition stepped ::
  "update_codec \<Rightarrow> nat \<Rightarrow> self_update_record \<Rightarrow> self_update_record \<Rightarrow> 'p update_world \<Rightarrow> bool" where
  "stepped C uid r n w \<longleftrightarrow>
     (\<exists>hs p. world pointer C uid hs p w \<and> n \<in> set hs \<and> pointer_fits n p) \<and>
     sr_candidate_release_digest n = sr_candidate_release_digest r \<and>
     sr_previous_release_digest n = sr_previous_release_digest r"

lemma transition_steps:
  assumes C: "codec_laws C" and r: "r \<in> set hs" "unfinished r"
    and fit: "pointer_fits
      (r\<lparr>sr_phase := phase, sr_backup_receipt_digest := backup, sr_failure_reason := reason\<rparr>) p"
  shows "io_triple (world pointer C uid hs p)
    (in_journal (journal_transition C uid r phase backup reason now))
    (stepped C uid r) (\<lambda>_. steady pointer C uid)"
proof (rule io_triple_weaken [OF transition_world [OF C r]])
  fix n w
  assume n: "record_transitioned C r phase backup reason now = Inr n \<and> world pointer C uid (put hs n) p w"
  then have "n \<in> set (put hs n)" "pointer_fits n p" by (auto simp: mem_put fit pointer_fits_next)
  then show "stepped C uid r n w"
    using n record_transitioned_Inr(5,6) unfolding stepped_def by blast
qed (use fit pointer_fits_next in auto)

text \<open>The platform calls that move the pointer, in the phase that makes them.\<close>

lemma activated:
  assumes "fits hs p" "r \<in> set hs" "sr_phase r = SwitchPending"
  shows "io_triple (world pointer C uid hs (Some (sr_previous_release_digest r)))
    (on_platform (activate_release P (sr_candidate_release_digest r)))
    (\<lambda>_. world pointer C uid hs (Some (sr_candidate_release_digest r))) (\<lambda>_. steady pointer C uid)"
proof -
  let ?c = "sr_candidate_release_digest r" and ?p = "sr_previous_release_digest r"
  have "\<not> resolved r" using assms(3) by (simp add: resolved_def)
  note fits' = fits_move [OF assms(1,2) this]
  have "io_triple (world pointer C uid hs (Some ?p)) (on_platform (activate_release P ?c))
      (\<lambda>x w. True \<and> world pointer C uid hs (Some ?c) w) (\<lambda>_. steady pointer C uid)"
  proof (rule platform_world(1))
    fix s e s' assume s: "pointer s = Some ?p" "activate_release P ?c s = (Inl e, s')"
    then show "fits hs (pointer s')"
      using activate_moves [of ?c s] fits' assms(3) by (auto simp: pointer_fits.simps)
  qed (use activate_ok fits' assms(3) in \<open>auto simp: pointer_fits.simps\<close>)
  then show ?thesis by simp
qed

lemma restored:
  assumes "fits hs p" "r \<in> set hs" "sr_phase r = RollbackPending"
  shows "io_triple (world pointer C uid hs (Some (sr_candidate_release_digest r)))
    (on_platform (restore_release P (sr_previous_release_digest r) b))
    (\<lambda>_. world pointer C uid hs (Some (sr_previous_release_digest r))) (\<lambda>_. steady pointer C uid)"
proof -
  let ?c = "sr_candidate_release_digest r" and ?p = "sr_previous_release_digest r"
  have "\<not> resolved r" using assms(3) by (simp add: resolved_def)
  note fits' = fits_move [OF assms(1,2) this]
  have "io_triple (world pointer C uid hs (Some ?c)) (on_platform (restore_release P ?p b))
      (\<lambda>x w. True \<and> world pointer C uid hs (Some ?p) w) (\<lambda>_. steady pointer C uid)"
  proof (rule platform_world(1))
    fix s e s' assume s: "pointer s = Some ?c" "restore_release P ?p b s = (Inl e, s')"
    then show "fits hs (pointer s')"
      using restore_moves [of ?p b s] fits' assms(3) by (auto simp: pointer_fits.simps)
  qed (use restore_ok fits' assms(3) in \<open>auto simp: pointer_fits.simps\<close>)
  then show ?thesis by simp
qed

lemma advance_steps:
  assumes C: "codec_laws C" and r: "r \<in> set hs" "unfinished r" and f: "fits hs p"
  shows "io_triple (world pointer C uid hs p) (advance C uid P r now)
    (stepped C uid r) (\<lambda>_. steady pointer C uid)"
proof -
  let ?c = "sr_candidate_release_digest r" and ?p = "sr_previous_release_digest r"
  have fit: "pointer_fits r p" using f r unfinished_unresolved [OF r(2)] by (simp add: fits_def)
  note move = transition_steps [OF C r, where now = now]
  note keep = keeping_world(1) [OF backup_keeps f] keeping_world(1) [OF start_keeps f]
    keeping_world(1) [OF healthy_keeps f] keeping_world(1) [OF commit_keeps f]
  show ?thesis
    unfolding advance_def Let_def needs_reconcile_def
  proof (rule io_triple_bind [OF active_world(1) [OF f]], rule io_triple_assume,
      rule io_triple_assuming [where A = "record_shape r"], erule world_shape [OF _ C r(1)],
      goal_cases)
    case (1 d)
    note d = 1(1) and shape = 1(2)
    have other: "?c \<noteq> ?p" using shape by (simp add: record_shape_def)
    show ?case
    proof (cases "sr_phase r")
      case BackupPending
      then have "d = ?p" using fit d by (simp add: pointer_fits.simps)
      then show ?thesis
        using BackupPending
        by simp (rule io_triple_bind [OF keep(1) move], simp add: d pointer_fits.simps)
    next
      case SwitchPending
      then consider "d = ?p" | "d = ?c" "d \<noteq> ?p" using fit d other by (auto simp: pointer_fits.simps)
      then show ?thesis
      proof cases
        case 1
        then show ?thesis
          using SwitchPending d
          by simp (rule io_triple_bind [OF activated [OF f r(1) SwitchPending] move],
              simp add: pointer_fits.simps)
      next
        case 2
        then show ?thesis
          using SwitchPending other
          by simp (rule move, simp add: d pointer_fits.simps)
      qed
    next
      case StartPending
      then have "d = ?c" using fit d by (simp add: pointer_fits.simps)
      then show ?thesis
        using StartPending
        by simp (rule io_triple_bind [OF keep(2) move], simp add: d pointer_fits.simps)
    next
      case HealthPending
      then have "d = ?c" using fit d by (simp add: pointer_fits.simps)
      then show ?thesis
        using HealthPending
        by simp (rule io_triple_bind [OF keep(3)], rule io_triple_if; rule move;
            simp add: d pointer_fits.simps)
    next
      case CommitPending
      then have "d = ?c" using fit d by (simp add: pointer_fits.simps)
      then show ?thesis
        using CommitPending
        by simp (rule io_triple_bind [OF keep(4) move], simp add: d pointer_fits.simps)
    next
      case RollbackPending
      then obtain b where b: "sr_backup_receipt_digest r = Some b"
        using shape by (auto simp: record_shape_def)
      consider "d = ?c" | "d = ?p" "d \<noteq> ?c" using RollbackPending fit d other
        by (auto simp: pointer_fits.simps)
      then show ?thesis
      proof cases
        case 1
        then show ?thesis
          using RollbackPending d b
          by (simp add: ok_or_def io_simps)
            (rule io_triple_bind [OF restored [OF f r(1) RollbackPending] move],
              simp add: pointer_fits.simps)
      next
        case 2
        then show ?thesis
          using RollbackPending other
          by simp (rule move, simp add: d pointer_fits.simps)
      qed
    next
      case RollbackHealthPending
      then obtain b where b: "sr_backup_receipt_digest r = Some b"
        using shape by (auto simp: record_shape_def)
      have "d = ?p" using RollbackHealthPending fit d by (simp add: pointer_fits.simps)
      then show ?thesis
        using RollbackHealthPending
        by simp (rule io_triple_bind [OF keep(2)], rule io_triple_bind [OF keep(3)],
            rule io_triple_if; rule move; simp add: d b pointer_fits.simps)
    qed (use r(2) in \<open>simp_all add: is_terminal_def\<close>)
  qed
qed

text \<open>The journal holds the record \<open>r\<close>, and the pointer fits it.\<close>

definition standing :: "update_codec \<Rightarrow> nat \<Rightarrow> self_update_record \<Rightarrow> 'p update_world \<Rightarrow> bool" where
  "standing C uid r w \<longleftrightarrow> (\<exists>hs p. world pointer C uid hs p w \<and> r \<in> set hs \<and> pointer_fits r p)"

lemma standing_advance:
  assumes C: "codec_laws C" and "unfinished r"
  shows "io_triple (standing C uid r) (advance C uid P r now)
    (\<lambda>n w. standing C uid n w \<and>
      sr_candidate_release_digest n = sr_candidate_release_digest r \<and>
      sr_previous_release_digest n = sr_previous_release_digest r) (\<lambda>_. steady pointer C uid)"
proof (rule io_tripleI)
  fix w n w' assume w: "standing C uid r w" "advance C uid P r now w = (Inr n, w')"
  then obtain hs p where *: "world pointer C uid hs p w" "r \<in> set hs" "fits hs p"
    by (auto simp: standing_def world_def)
  show "standing C uid n w' \<and> sr_candidate_release_digest n = sr_candidate_release_digest r \<and>
      sr_previous_release_digest n = sr_previous_release_digest r"
    using io_tripleD_ok [OF advance_steps [OF C *(2) assms(2) *(3)] *(1) w(2)]
    by (simp add: stepped_def standing_def)
next
  fix w e w' assume w: "standing C uid r w" "advance C uid P r now w = (Inl e, w')"
  then obtain hs p where *: "world pointer C uid hs p w" "r \<in> set hs" "fits hs p"
    by (auto simp: standing_def world_def)
  show "steady pointer C uid w'"
    by (rule io_tripleD_err [OF advance_steps [OF C *(2) assms(2) *(3)] *(1) w(2)])
qed

lemma standing_steady: "standing C uid r w \<Longrightarrow> steady pointer C uid w"
  by (auto simp: standing_def steady_def)

text \<open>The record an update ends with.\<close>

definition ended ::
  "update_codec \<Rightarrow> nat \<Rightarrow> evidence_digest \<Rightarrow> self_update_outcome \<Rightarrow> 'p update_world \<Rightarrow> bool" where
  "ended C uid candidate outcome w \<longleftrightarrow>
     (\<exists>n. standing C uid n w \<and> terminal_outcome (sr_phase n) = Some outcome \<and>
        sr_candidate_release_digest n = candidate)"

lemma apply_loop_ends:
  assumes C: "codec_laws C"
  shows "io_triple (standing C uid r) (apply_loop C uid P now k r)
    (ended C uid (sr_candidate_release_digest r)) (\<lambda>_. steady pointer C uid)"
proof (induction k arbitrary: r)
  case 0
  show ?case by (simp add: io_triple_fail standing_steady)
next
  case (Suc k)
  show ?case
  proof (cases "terminal_outcome (sr_phase r)")
    case None
    then have r: "unfinished r" by (simp add: terminal_outcome_None)
    have "io_triple (standing C uid r) (io_bind (advance C uid P r now) (apply_loop C uid P now k))
        (ended C uid (sr_candidate_release_digest r)) (\<lambda>_. steady pointer C uid)"
    proof (rule io_triple_bind [OF standing_advance [OF C r]])
      fix n
      show "io_triple (\<lambda>w. standing C uid n w \<and>
          sr_candidate_release_digest n = sr_candidate_release_digest r \<and>
          sr_previous_release_digest n = sr_previous_release_digest r) (apply_loop C uid P now k n)
          (ended C uid (sr_candidate_release_digest r)) (\<lambda>_. steady pointer C uid)"
        by (rule io_triple_assuming [where A = "sr_candidate_release_digest n = sr_candidate_release_digest r"])
          (auto intro: io_triple_weaken [OF Suc.IH [of n]])
    qed
    with None show ?thesis by simp
  next
    case (Some outcome)
    then show ?thesis by (auto simp: ended_def intro!: io_triple_return)
  qed
qed

text \<open>Operations of the journal that leave its history, at the level of the world.\<close>

lemma journal_world:
  assumes "\<And>hs. sound_history hs \<Longrightarrow> io_triple (state_at False (settled C uid hs)) m
    (\<lambda>x j. R hs x \<and> state_at False (settled C uid hs) j) (\<lambda>_. settled C uid hs)"
  shows "io_triple (world pointer C uid hs p) (in_journal m)
    (\<lambda>x w. R hs x \<and> world pointer C uid hs p w) (\<lambda>_. steady pointer C uid)"
  unfolding in_journal_def
proof (rule io_triple_zoom)
  fix w assume w: "world pointer C uid hs p w"
  then have hs: "sound_history hs" by (simp add: world_def)
  show "io_triple (\<lambda>t. t = uw_journal w) m
    (\<lambda>x t. R hs x \<and> world pointer C uid hs p (uw_journal_update (\<lambda>_. t) w))
    (\<lambda>_ t. steady pointer C uid (uw_journal_update (\<lambda>_. t) w))"
    by (rule io_triple_weaken [OF assms [OF hs]])
      (use w in \<open>auto simp: state_at_def calm_def world_def steady_def\<close>)
qed

lemma journal_active_world:
  assumes C: "codec_laws C"
  shows "io_triple (world pointer C uid hs p) (in_journal (journal_active C uid))
    (\<lambda>x w. (case x of None \<Rightarrow> filter unfinished hs = [] | Some r \<Rightarrow> r \<in> set hs \<and> unfinished r) \<and>
      world pointer C uid hs p w) (\<lambda>_. steady pointer C uid)"
proof (rule journal_world)
  fix hs :: "self_update_record list" assume hs: "sound_history hs"
  show "io_triple (state_at False (settled C uid hs)) (journal_active C uid)
    (\<lambda>x j. (case x of None \<Rightarrow> filter unfinished hs = [] | Some r \<Rightarrow> r \<in> set hs \<and> unfinished r) \<and>
      state_at False (settled C uid hs) j) (\<lambda>_. settled C uid hs)"
    unfolding journal_active_def
  proof (rule load_records_bind [OF C hs failing_any], assumption)
    fix rs assume rs: "loaded hs rs"
    have mem: "r \<in> set hs \<and> unfinished r" if "filter unfinished hs = [r]" for r
      using set_filter [of unfinished hs] that by auto
    show "io_triple (state_at False (settled C uid hs)) (io_lift (active_record rs))
      (\<lambda>x j. (case x of None \<Rightarrow> filter unfinished hs = [] | Some r \<Rightarrow> r \<in> set hs \<and> unfinished r) \<and>
        state_at False (settled C uid hs) j) (\<lambda>_. settled C uid hs)"
      by (cases rule: active_record_loaded [OF rs hs])
        (auto intro!: io_triple_lift simp: state_at_def dest: mem)
  qed
qed

lemma begun_fits:
  assumes "record_begin C u candidate previous now = Inr r"
  shows "pointer_fits r (Some previous)"
  using record_begin_Inr [OF assms] by (simp add: pointer_fits.simps)

lemma fits_subset: "fits hs p \<Longrightarrow> set hs' \<subseteq> set hs \<Longrightarrow> fits hs' p"
  by (auto simp: fits_def)

lemma journal_begin_world:
  assumes C: "codec_laws C"
  shows "io_triple (world pointer C uid hs (Some previous))
    (in_journal (journal_begin C uid candidate previous now))
    (\<lambda>r w. standing C uid r w \<and> sr_candidate_release_digest r = candidate)
    (\<lambda>_. steady pointer C uid)"
  unfolding in_journal_def
proof (rule io_triple_zoom)
  fix w assume w: "world pointer C uid hs (Some previous) w"
  then have hs: "sound_history hs" and f: "fits hs (Some previous)" by (simp_all add: world_def)
  have new: "world pointer C uid (put hs' r) (Some previous) (uw_journal_update (\<lambda>_. j) w)"
    if "(history_step C)\<^sup>*\<^sup>* hs hs'" "set hs' \<subseteq> set hs" "list_all resolved hs"
      "record_begin C u candidate previous now = Inr r" "history_step C hs' (put hs' r)"
      "settled C uid (put hs' r) j" for hs' u r j
  proof -
    have "list_all resolved hs'" using that(2,3) by (auto simp: list_all_iff)
    then have "fits (put hs' r) (Some previous)" by (rule fits_resolved) (rule begun_fits [OF that(4)])
    moreover have "sound_history (put hs' r)"
      by (rule history_step_sound [OF that(5) histories_sound [OF that(1) hs]])
    ultimately show ?thesis using w that(6) by (simp add: world_def)
  qed
  have old: "world pointer C uid hs' (Some previous) (uw_journal_update (\<lambda>_. j) w)"
    if "(history_step C)\<^sup>*\<^sup>* hs hs'" "set hs' \<subseteq> set hs" "settled C uid hs' j" for hs' j
    using w that histories_sound [OF that(1) hs] fits_subset [OF f that(2)] by (simp add: world_def)
  show "io_triple (\<lambda>t. t = uw_journal w) (journal_begin C uid candidate previous now)
    (\<lambda>r t. standing C uid r (uw_journal_update (\<lambda>_. t) w) \<and> sr_candidate_release_digest r = candidate)
    (\<lambda>_ t. steady pointer C uid (uw_journal_update (\<lambda>_. t) w))"
  proof (rule io_triple_weaken [OF journal_begin_rule [OF C hs, of False]])
    fix r j assume "list_all resolved hs \<and> (\<exists>hs' u. (history_step C)\<^sup>*\<^sup>* hs hs' \<and> set hs' \<subseteq> set hs \<and>
      record_begin C u candidate previous now = Inr r \<and> history_step C hs' (put hs' r) \<and>
      state_at False (settled C uid (put hs' r)) j)"
    then obtain hs' u where *: "(history_step C)\<^sup>*\<^sup>* hs hs'" "set hs' \<subseteq> set hs" "list_all resolved hs"
      "record_begin C u candidate previous now = Inr r" "history_step C hs' (put hs' r)"
      "settled C uid (put hs' r) j" by (auto simp: state_at_def)
    have "r \<in> set (put hs' r)" by (simp add: mem_put)
    then show "standing C uid r (uw_journal_update (\<lambda>_. j) w) \<and>
        sr_candidate_release_digest r = candidate"
      using new [OF *] begun_fits [OF *(4)] record_begin_Inr(4) [OF *(4)]
      unfolding standing_def by blast
  next
    fix j assume "begun_or_not C uid candidate previous now hs j"
    then show "steady pointer C uid (uw_journal_update (\<lambda>_. j) w)"
      unfolding begun_or_not_def steady_def by (blast dest: new old)
  qed (use w in \<open>simp add: state_at_def calm_def world_def\<close>)
qed

lemma world_standing:
  "world pointer C uid hs p w \<Longrightarrow> r \<in> set hs \<Longrightarrow> unfinished r \<Longrightarrow> standing C uid r w"
  unfolding standing_def by (auto simp: world_def fits_def dest: unfinished_unresolved)

text \<open>An update from any steady world, new or resumed.\<close>

lemma apply_update_ends:
  assumes C: "codec_laws C"
  shows "io_triple (steady pointer C uid) (apply_update C uid P candidate now)
    (ended C uid candidate) (\<lambda>_. steady pointer C uid)"
proof -
  have "io_triple (world pointer C uid hs p) (apply_update C uid P candidate now)
      (ended C uid candidate) (\<lambda>_. steady pointer C uid)" if f: "fits hs p" for hs p
    unfolding apply_update_def
  proof (rule io_triple_bind [OF journal_active_world [OF C]], rule io_triple_assume,
      rule io_triple_bind [where R = "\<lambda>r w. standing C uid r w \<and> sr_candidate_release_digest r = candidate"])
    fix active :: "self_update_record option"
    assume active: "case active of None \<Rightarrow> filter unfinished hs = []
      | Some r \<Rightarrow> r \<in> set hs \<and> unfinished r"
    show "io_triple (world pointer C uid hs p)
      (case active of
          Some record \<Rightarrow>
            if sr_candidate_release_digest record \<noteq> candidate then io_fail UpdateAlreadyActive
            else io_return record
        | None \<Rightarrow>
            io_bind (on_platform (active_release P)) (\<lambda>previous.
            in_journal (journal_begin C uid candidate previous now)))
      (\<lambda>r w. standing C uid r w \<and> sr_candidate_release_digest r = candidate)
      (\<lambda>_. steady pointer C uid)"
    proof (cases active)
      case None
      then show ?thesis
        by simp (rule io_triple_bind [OF active_world(1) [OF f]], rule io_triple_assume,
            simp add: journal_begin_world [OF C])
    next
      case (Some r)
      then show ?thesis
        using active
        by (auto intro!: io_triple_fail io_triple_return intro: world_steady world_standing)
    qed
  next
    fix r
    show "io_triple (\<lambda>w. standing C uid r w \<and> sr_candidate_release_digest r = candidate)
      (apply_loop C uid P now 16 r) (ended C uid candidate) (\<lambda>_. steady pointer C uid)"
      by (rule io_triple_assuming [where A = "sr_candidate_release_digest r = candidate"])
        (auto intro: io_triple_weaken [OF apply_loop_ends [OF C, of uid r now 16]])
  qed
  then show ?thesis by (rule steady_triple)
qed

text \<open>The recovery entry points keep the world steady.\<close>

lemma ended_steady: "ended C uid candidate outcome w \<Longrightarrow> steady pointer C uid w"
  by (auto simp: ended_def intro: standing_steady)

lemma self_update_call_steady:
  assumes "io_triple K m Q (\<lambda>_. steady pointer C uid)"
  shows "io_triple K (self_update_call m) Q (\<lambda>_. steady pointer C uid)"
  unfolding self_update_call_def by (rule io_triple_map_err) (rule assms)

lemma resume_active_update_steady:
  assumes C: "codec_laws C"
  shows "io_triple (steady pointer C uid) (resume_active_update C uid P now)
    (\<lambda>_. steady pointer C uid) (\<lambda>_. steady pointer C uid)"
proof (rule steady_triple)
  fix hs p assume f: "fits hs p"
  have applied: "io_triple (world pointer C uid hs p)
      (self_update_call (apply_update C uid P candidate now))
      (\<lambda>_. steady pointer C uid) (\<lambda>_. steady pointer C uid)" for candidate
    by (rule self_update_call_steady, rule io_triple_weaken [OF apply_update_ends [OF C]])
      (auto intro: world_steady ended_steady)
  show "io_triple (world pointer C uid hs p) (resume_active_update C uid P now)
    (\<lambda>_. steady pointer C uid) (\<lambda>_. steady pointer C uid)"
    unfolding resume_active_update_def
    by (rule io_triple_bind [OF self_update_call_steady [OF journal_active_world [OF C]]],
        rule io_triple_assume,
        rule io_triple_bind [where R = "\<lambda>_. world pointer C uid hs p"], rule io_triple_lift)
      (auto intro: world_steady applied)
qed

lemma restart_exact_current_release_steady:
  "io_triple (steady pointer C uid) (restart_exact_current_release P)
    (\<lambda>_. steady pointer C uid) (\<lambda>_. steady pointer C uid)"
proof (rule steady_triple)
  fix hs p assume f: "fits hs p"
  show "io_triple (world pointer C uid hs p) (restart_exact_current_release P)
    (\<lambda>_. steady pointer C uid) (\<lambda>_. steady pointer C uid)"
    unfolding restart_exact_current_release_def
  proof (rule io_triple_bind [OF active_world(2) [OF f]], rule io_triple_assume)
    fix d assume d: "p = Some d"
    note f' = f [unfolded d]
    show "io_triple (world pointer C uid hs p)
      (io_bind (platform_call (activate_release P d)) (\<lambda>_.
       io_bind (platform_call (start_release P d)) (\<lambda>_.
       io_bind (platform_call (release_is_healthy P d)) (\<lambda>healthy.
       if \<not> healthy then io_fail CurrentReleaseUnhealthy else io_return d))))
      (\<lambda>_. steady pointer C uid) (\<lambda>_. steady pointer C uid)"
      unfolding d
      by (rule io_triple_bind [OF same_release_world(1) [OF f']],
          rule io_triple_bind [OF keeping_world(2) [OF start_keeps f']],
          rule io_triple_bind [OF keeping_world(2) [OF healthy_keeps f']], rule io_triple_if,
          rule io_triple_fail, erule world_steady, rule io_triple_return, erule world_steady)
  qed
qed

lemma journal_records_world:
  assumes C: "codec_laws C"
  shows "io_triple (world pointer C uid hs p) (in_journal (journal_records C uid))
    (\<lambda>rs w. set rs = set hs \<and> world pointer C uid hs p w) (\<lambda>_. steady pointer C uid)"
proof (rule journal_world)
  fix hs :: "self_update_record list" assume hs: "sound_history hs"
  show "io_triple (state_at False (settled C uid hs)) (journal_records C uid)
    (\<lambda>x j. set x = set hs \<and> state_at False (settled C uid hs) j) (\<lambda>_. settled C uid hs)"
    unfolding journal_records_def
    by (rule load_records_bind [OF C hs failing_any], assumption, rule io_triple_return)
      (auto dest: loaded_mem)
qed

lemma recovered_world:
  assumes C: "codec_laws C" and r: "r \<in> set hs" "sr_phase r = NeedsReconcile"
    and p: "p = Some (sr_previous_release_digest r)"
  shows "io_triple (world pointer C uid hs p) (in_journal (mark_recovered_rollback C uid r now))
    (\<lambda>_. steady pointer C uid) (\<lambda>_. steady pointer C uid)"
  unfolding in_journal_def
proof (rule io_triple_zoom)
  fix w assume w: "world pointer C uid hs p w"
  then have hs: "sound_history hs" and f: "fits hs p" by (simp_all add: world_def)
  have unresolved: "\<not> resolved r" using r(2) by (simp add: resolved_def)
  have put: "steady pointer C uid (uw_journal_update (\<lambda>_. j) w)"
    if n: "record_transitioned C r RolledBack (sr_backup_receipt_digest r) (sr_failure_reason r) now =
        Inr n" and "sr_backup_receipt_digest r \<noteq> None" "settled C uid (put hs n) j" for n j
  proof -
    have "pointer_fits n p"
      using record_transitioned_Inr(3,6) [OF n] by (simp add: pointer_fits.simps p)
    then have "fits (put hs n) p"
      by (rule fits_put [OF f r(1) unresolved record_transitioned_Inr(2) [OF n]])
    moreover have "sound_history (put hs n)"
      by (rule history_step_sound [OF history_step.recover [OF r that(2) n] hs])
    ultimately show ?thesis using w that(3) by (auto simp: steady_def world_def)
  qed
  show "io_triple (\<lambda>t. t = uw_journal w) (mark_recovered_rollback C uid r now)
    (\<lambda>n j. steady pointer C uid (uw_journal_update (\<lambda>_. j) w))
    (\<lambda>_ j. steady pointer C uid (uw_journal_update (\<lambda>_. j) w))"
    by (rule io_triple_weaken [OF mark_recovered_rollback_rule [OF C hs, of False]])
      (use w put in \<open>auto simp: state_at_def calm_def world_def steady_def\<close>)
qed

lemma restore_reconciled_operation_steady:
  assumes C: "codec_laws C"
  shows "io_triple (steady pointer C uid)
    (restore_reconciled_operation C uid P operation_id last_known_good now)
    (\<lambda>_. steady pointer C uid) (\<lambda>_. steady pointer C uid)"
proof (rule steady_triple)
  fix hs p assume f: "fits hs p"
  have failed: "io_triple (world pointer C uid hs p) (io_fail e) (\<lambda>_. steady pointer C uid)
      (\<lambda>_. steady pointer C uid)" for e
    by (rule io_triple_fail) (rule world_steady)
  have restored: "io_triple (world pointer C uid hs p)
      (io_bind (platform_call (restore_release P last_known_good backup)) (\<lambda>_.
       io_bind (platform_call (start_release P last_known_good)) (\<lambda>_.
       io_bind (platform_call (release_is_healthy P last_known_good)) (\<lambda>healthy.
       if \<not> healthy then io_fail RestoredReleaseUnhealthy
       else self_update_call (in_journal (mark_recovered_rollback C uid r now))))))
      (\<lambda>_. steady pointer C uid) (\<lambda>_. steady pointer C uid)"
    if r: "r \<in> set hs" "sr_phase r = NeedsReconcile" "sr_previous_release_digest r = last_known_good"
    for r backup
  proof -
    have "pointer_fits r p" using f r by (auto simp: fits_def resolved_def)
    then have p: "p = Some last_known_good" using r by (simp add: pointer_fits.simps)
    note f' = f [unfolded p]
    have marked: "io_triple (world pointer C uid hs (Some last_known_good))
        (self_update_call (in_journal (mark_recovered_rollback C uid r now)))
        (\<lambda>_. steady pointer C uid) (\<lambda>_. steady pointer C uid)"
      by (rule self_update_call_steady, rule recovered_world [OF C r(1,2)]) (simp add: r(3))
    show ?thesis
      unfolding p
      by (rule io_triple_bind [OF same_release_world(2) [OF f']],
          rule io_triple_bind [OF keeping_world(2) [OF start_keeps f']],
          rule io_triple_bind [OF keeping_world(2) [OF healthy_keeps f']], rule io_triple_if,
          rule failed [unfolded p], rule marked)
  qed
  have chosen: "io_triple (world pointer C uid hs p)
      (io_bind (io_lift (ok_or (find (\<lambda>r. sr_operation_id r = operation_id) records)
         OperationMissing)) (\<lambda>record.
       io_bind (io_lift (ok_or (sr_backup_receipt_digest record) BackupUnavailable)) (\<lambda>backup.
       if sr_phase record \<noteq> NeedsReconcile \<or>
          sr_previous_release_digest record \<noteq> last_known_good
       then io_fail OperationNotRecoverable
       else
         io_bind (platform_call (restore_release P last_known_good backup)) (\<lambda>_.
         io_bind (platform_call (start_release P last_known_good)) (\<lambda>_.
         io_bind (platform_call (release_is_healthy P last_known_good)) (\<lambda>healthy.
         if \<not> healthy then io_fail RestoredReleaseUnhealthy
         else self_update_call (in_journal (mark_recovered_rollback C uid record now))))))))
      (\<lambda>_. steady pointer C uid) (\<lambda>_. steady pointer C uid)"
    if "set records = set hs" for records
  proof (rule io_triple_bind [where R = "\<lambda>r w. r \<in> set hs \<and> world pointer C uid hs p w"])
    show "io_triple (world pointer C uid hs p)
      (io_lift (ok_or (find (\<lambda>r. sr_operation_id r = operation_id) records) OperationMissing))
      (\<lambda>r w. r \<in> set hs \<and> world pointer C uid hs p w) (\<lambda>_. steady pointer C uid)"
      by (rule io_triple_lift)
        (use that in \<open>auto simp: ok_or_def find_Some_iff intro: world_steady split: option.splits\<close>)
  qed (rule io_triple_assume, rule io_triple_bind [where R = "\<lambda>_. world pointer C uid hs p"],
      rule io_triple_lift, assumption, erule world_steady, rule io_triple_if, rule failed,
      rule restored, auto)
  show "io_triple (world pointer C uid hs p)
    (restore_reconciled_operation C uid P operation_id last_known_good now)
    (\<lambda>_. steady pointer C uid) (\<lambda>_. steady pointer C uid)"
    unfolding restore_reconciled_operation_def
    by (rule io_triple_bind [OF self_update_call_steady [OF journal_active_world [OF C]]],
        rule io_triple_assume, rule io_triple_if, rule failed,
        rule io_triple_bind [OF self_update_call_steady [OF journal_records_world [OF C]]],
        rule io_triple_assume, rule chosen)
qed

end


section \<open>Reachable worlds\<close>

text \<open>
  Updates, resumptions, recoveries and restarts in any order, with any failing call, while whatever
  else happens on the machine (services that run, data they write, staging of releases) leaves the
  pointer alone.
\<close>

inductive update_reachable ::
  "update_codec \<Rightarrow> nat \<Rightarrow> 'p self_update_platform \<Rightarrow> ('p \<Rightarrow> evidence_digest option) \<Rightarrow>
   'p update_world \<Rightarrow> bool" for C uid P pointer where
  initial: "jr_is_dir j \<Longrightarrow> jr_uid j = uid \<Longrightarrow> jr_mode j = 448 \<Longrightarrow> jr_same_inode j \<Longrightarrow>
    jr_euid j = uid \<Longrightarrow> jr_files j = [] \<Longrightarrow>
    update_reachable C uid P pointer \<lparr>uw_journal = j, uw_platform = s\<rparr>"
| restart: "update_reachable C uid P pointer w \<Longrightarrow>
    update_reachable C uid P pointer
      (w\<lparr>uw_journal := (uw_journal w)\<lparr>jr_locked := False, jr_faults := faults\<rparr>\<rparr>)"
| opened: "update_reachable C uid P pointer w \<Longrightarrow>
    update_reachable C uid P pointer (w\<lparr>uw_journal := snd (journal_open C uid (uw_journal w))\<rparr>)"
| outside: "update_reachable C uid P pointer w \<Longrightarrow> pointer s = pointer (uw_platform w) \<Longrightarrow>
    update_reachable C uid P pointer (w\<lparr>uw_platform := s\<rparr>)"
| updated: "update_reachable C uid P pointer w \<Longrightarrow>
    update_reachable C uid P pointer (snd (apply_update C uid P candidate now w))"
| resumed: "update_reachable C uid P pointer w \<Longrightarrow>
    update_reachable C uid P pointer (snd (resume_active_update C uid P now w))"
| restored: "update_reachable C uid P pointer w \<Longrightarrow>
    update_reachable C uid P pointer
      (snd (restore_reconciled_operation C uid P operation_id last_known_good now w))"
| restarted: "update_reachable C uid P pointer w \<Longrightarrow>
    update_reachable C uid P pointer (snd (restart_exact_current_release P w))"

context release_pointer
begin

lemma reachable_steady:
  assumes C: "codec_laws C" and "update_reachable C uid P pointer w"
  shows "steady pointer C uid w"
  using assms(2)
proof induction
  case (initial j s)
  then have "world pointer C uid [] (pointer s) \<lparr>uw_journal = j, uw_platform = s\<rparr>"
    by (simp add: world_def settled_def sound_directory_def held_def map_filter_simps
        sound_history_Nil fits_def)
  then show ?case by (rule world_steady)
next
  case (restart w faults)
  then show ?case by (auto simp: steady_def world_def)
next
  case (opened w)
  then obtain hs p where w: "world pointer C uid hs p w" by (auto simp: steady_def)
  then have hs: "sound_history hs" by (simp add: world_def)
  have "io_keeps (settled C uid hs) (journal_open C uid)"
    by (rule io_triple_weaken [OF journal_open_rule [OF C hs, of False uid "\<lambda>_. settled C uid hs"]])
      (auto simp: state_at_def calm_def)
  then have "settled C uid hs (snd (journal_open C uid (uw_journal w)))"
    by (rule io_keepsD) (use w in \<open>simp add: world_def\<close>)
  then show ?case using w by (auto simp: steady_def world_def)
next
  case (outside w s)
  then show ?case by (auto simp: steady_def world_def)
next
  case (updated w candidate now)
  have "io_keeps (steady pointer C uid) (apply_update C uid P candidate now)"
    by (rule io_triple_weaken [OF apply_update_ends [OF C]]) (auto intro: ended_steady)
  then show ?case using updated.IH by (rule io_keepsD)
next
  case (resumed w now)
  show ?case by (rule io_keepsD [OF resume_active_update_steady [OF C] resumed.IH])
next
  case (restored w operation_id last_known_good now)
  show ?case by (rule io_keepsD [OF restore_reconciled_operation_steady [OF C] restored.IH])
next
  case (restarted w)
  show ?case by (rule io_keepsD [OF restart_exact_current_release_steady restarted.IH])
qed

end

end
