(* ===== verification/Self_Update_Platform.thy ===== *)
theory Self_Update_Platform
  imports Self_Update_Safety Project_Manifest
begin

text \<open>
  The installed platform of a self-update, \<open>src/self_update_runtime.rs\<close>: the two release pointers
  (symbolic links that are replaced by renaming) and the receipts of backups; the backup and the
  restoration of the state databases follow in \<open>Self_Update_Backup\<close>. \<open>release_pointer\<close>, the
  contract the coordinator relies on, is interpreted for it in \<open>Self_Update_Links\<close>.

  The state lists the directories and files the code looks at, with the metadata it checks; each
  system call may fail (\<open>in_faults\<close>). A directory, link or file is found by the components of its
  path, a backup by its name in the backup directory. The services are
  the trait \<open>SelfUpdateServiceRuntimeV1\<close>; SQLite (the online backup and the integrity check), the
  JSON encoders and SHA-256 are fields of \<open>platform_codec\<close>. Whether a release directory passes
  \<open>SelfReleaseStoreV1::verify_staged\<close> is a part of the state (\<open>in_staged\<close>). The value of an
  \<open>EvidenceDigest\<close> is a valid digest by its type; \<open>switch_release_link\<close> states it as a guard.
\<close>

datatype self_update_runtime_error =
    InvalidConfiguration
  | UnsafeReleasePointer
  | UnsafeDatabase
  | UnsafeBackupStore
  | BackupConflict
  | BackupMissing
  | InvalidBackupReceipt
  | BackupBinding
  | DatabaseIntegrity
  | Runtime_NoncanonicalDocument
  | Runtime_SelfUpdate
  | Runtime_Platform string
  | Runtime_Sqlite
  | Runtime_Json
  | Runtime_Io
  | Runtime_Errno


section \<open>Configuration and receipts\<close>

record state_database =
  sd_name :: string
  sd_path :: string
  sd_maximum_bytes :: nat

record state_backup_file =
  bf_name :: string
  bf_bytes :: nat
  bf_sha256 :: evidence_digest

record state_backup_receipt =
  br_purpose :: string
  br_schema_version :: nat
  br_operation_id :: uuid
  br_candidate_release_digest :: evidence_digest
  br_files :: "state_backup_file list"
  br_receipt_digest :: evidence_digest

record state_backup_receipt_payload =
  bp_purpose :: string
  bp_schema_version :: nat
  bp_operation_id :: uuid
  bp_candidate_release_digest :: evidence_digest
  bp_files :: "state_backup_file list"

record private_file =
  pf_regular :: bool
  pf_links :: nat
  pf_uid :: nat
  pf_gid :: nat
  pf_mode :: nat
  pf_bytes :: string

record platform_codec =
  pc_payload_jcs :: "state_backup_receipt_payload \<Rightarrow> serde_error + string"
  pc_receipt_jcs :: "state_backup_receipt \<Rightarrow> serde_error + string"
  pc_receipt_json :: "string \<Rightarrow> serde_error + state_backup_receipt"
  pc_sha :: "string \<Rightarrow> string"
  pc_uuid_text :: "uuid \<Rightarrow> string"
  pc_parse_uuid :: "string \<Rightarrow> uuid option"
  pc_new_v4 :: "nat \<Rightarrow> uuid"
  pc_sqlite_backup :: "(path_component list \<Rightarrow> private_file option) \<Rightarrow> string \<Rightarrow> string option"
  pc_sqlite_integrity :: "string \<Rightarrow> bool"

record runtime_paths =
  rp_root :: string
  rp_releases :: string
  rp_backups :: string
  rp_current_link :: string
  rp_last_known_good_link :: string
  rp_databases :: "state_database list"

definition max_backup_databases :: nat where "max_backup_databases = 16"

definition max_backup_database_bytes :: nat where
  "max_backup_database_bytes = 4 * 1024 * 1024 * 1024"

definition max_backup_receipt_bytes :: nat where "max_backup_receipt_bytes = 128 * 1024"

definition valid_database_name :: "string \<Rightarrow> bool" where
  "valid_database_name value \<longleftrightarrow>
     1 \<le> length value \<and> length value \<le> 64 \<and>
     first_is is_ascii_lowercase value \<and>
     last_is (\<lambda>b. is_ascii_lowercase b \<or> is_ascii_digit b) value \<and>
     list_all (\<lambda>b. is_ascii_lowercase b \<or> is_ascii_digit b \<or> b = CHR ''-'') value"

text \<open>\<open>Path::parent\<close>: the components but the last.\<close>

definition path_parent :: "string \<Rightarrow> path_component list option" where
  "path_parent value =
     (case rev (path_components value) of
        [] \<Rightarrow> None
      | RootDir # _ \<Rightarrow> None
      | _ # parents \<Rightarrow> Some (rev parents))"

definition state_database_validate :: "state_database \<Rightarrow> bool" where
  "state_database_validate d \<longleftrightarrow>
     valid_database_name (sd_name d) \<and>
     first_is (\<lambda>c. c = CHR ''/'') (sd_path d) \<and>
     (case file_name (sd_path d) of None \<Rightarrow> False | Some name \<Rightarrow> is_utf8 name) \<and>
     sd_maximum_bytes d \<noteq> 0 \<and> sd_maximum_bytes d \<le> max_backup_database_bytes"

definition runtime_paths_validate :: "runtime_paths \<Rightarrow> self_update_runtime_error + unit" where
  "runtime_paths_validate paths =
     (let root = Some (path_components (rp_root paths)) in
      if path_parent (rp_releases paths) \<noteq> root \<or> path_parent (rp_backups paths) \<noteq> root \<or>
         path_parent (rp_current_link paths) \<noteq> root \<or>
         path_parent (rp_last_known_good_link paths) \<noteq> root \<or>
         path_components (rp_current_link paths) = path_components (rp_last_known_good_link paths) \<or>
         rp_databases paths = [] \<or> max_backup_databases < length (rp_databases paths) \<or>
         \<not> list_all state_database_validate (rp_databases paths)
      then Inl InvalidConfiguration
      else ensure (strictly_sorted_unique (sort (map sd_name (rp_databases paths))))
             InvalidConfiguration)"

definition receipt_payload :: "state_backup_receipt \<Rightarrow> state_backup_receipt_payload" where
  "receipt_payload r =
     \<lparr>bp_purpose = ''rdashboard.self-update-state-backup.v1'', bp_schema_version = 1,
      bp_operation_id = br_operation_id r,
      bp_candidate_release_digest = br_candidate_release_digest r, bp_files = br_files r\<rparr>"

definition receipt_calculate_digest ::
  "platform_codec \<Rightarrow> state_backup_receipt \<Rightarrow> self_update_runtime_error + evidence_digest" where
  "receipt_calculate_digest K r =
     map_err (\<lambda>_. Runtime_Json) (seal (pc_payload_jcs K) (pc_sha K) (receipt_payload r))"

definition receipt_validate ::
  "platform_codec \<Rightarrow> state_backup_receipt \<Rightarrow> self_update_runtime_error + unit" where
  "receipt_validate K r =
     (if br_purpose r \<noteq> ''rdashboard.self-update-state-backup.v1'' \<or> br_schema_version r \<noteq> 1 \<or>
         is_nil (br_operation_id r) \<or>
         br_files r = [] \<or> max_backup_databases < length (br_files r) \<or>
         \<not> strictly_sorted_unique (map bf_name (br_files r)) \<or>
         list_ex (\<lambda>f. \<not> valid_database_name (bf_name f) \<or> bf_bytes f = 0 \<or>
           max_backup_database_bytes < bf_bytes f) (br_files r)
      then Inl InvalidBackupReceipt
      else bind_res (receipt_calculate_digest K r) (\<lambda>digest.
        ensure (br_receipt_digest r = digest) InvalidBackupReceipt))"

definition receipt_new ::
  "platform_codec \<Rightarrow> uuid \<Rightarrow> evidence_digest \<Rightarrow> state_backup_file list \<Rightarrow>
   self_update_runtime_error + state_backup_receipt" where
  "receipt_new K operation_id candidate files =
     (let receipt =
       \<lparr>br_purpose = ''rdashboard.self-update-state-backup.v1'', br_schema_version = 1,
        br_operation_id = operation_id, br_candidate_release_digest = candidate,
        br_files = sort_key bf_name files,
        br_receipt_digest = evidence_digest_sha256 (pc_sha K) []\<rparr>
      in bind_res (receipt_calculate_digest K receipt) (\<lambda>digest.
         let receipt = receipt\<lparr>br_receipt_digest := digest\<rparr>
         in bind_res (receipt_validate K receipt) (\<lambda>_. Inr receipt)))"

definition receipt_canonical_bytes ::
  "platform_codec \<Rightarrow> state_backup_receipt \<Rightarrow> self_update_runtime_error + string" where
  "receipt_canonical_bytes K r =
     bind_res (receipt_validate K r) (\<lambda>_. map_err (\<lambda>_. Runtime_Json) (pc_receipt_jcs K r))"

definition receipt_decode_canonical ::
  "platform_codec \<Rightarrow> string \<Rightarrow> self_update_runtime_error + state_backup_receipt" where
  "receipt_decode_canonical K bytes =
     (if bytes = [] \<or> max_backup_receipt_bytes < length bytes then Inl InvalidBackupReceipt
      else bind_res (map_err (\<lambda>_. Runtime_Json) (pc_receipt_json K bytes)) (\<lambda>receipt.
           bind_res (map_err (\<lambda>_. Runtime_Json) (pc_receipt_jcs K receipt)) (\<lambda>encoded.
           if encoded \<noteq> bytes then Inl Runtime_NoncanonicalDocument
           else bind_res (receipt_validate K receipt) (\<lambda>_. Inr receipt))))"


section \<open>The installed paths\<close>

definition installed_state_databases :: "state_database list" where
  "installed_state_databases =
     map (\<lambda>(name, path).
         \<lparr>sd_name = name, sd_path = path, sd_maximum_bytes = max_backup_database_bytes\<rparr>)
       [(''control'', ''/var/lib/rdashboard/control.sqlite''),
        (''integrations'', ''/var/lib/rdashboard/integrations.sqlite''),
        (''metrics'', ''/var/lib/rdashboard/metrics.sqlite''),
        (''executor-security'', ''/var/lib/rdashboard-executor/security.sqlite''),
        (''source'', ''/var/lib/rdashboard-source/source.sqlite'')]"

definition runtime_paths_installed :: runtime_paths where
  "runtime_paths_installed =
     \<lparr>rp_root = ''/var/lib/rdashboard-bootstrap'',
      rp_releases = ''/var/lib/rdashboard-bootstrap/releases'',
      rp_backups = ''/var/lib/rdashboard-bootstrap/backups'',
      rp_current_link = ''/var/lib/rdashboard-bootstrap/current'',
      rp_last_known_good_link = ''/var/lib/rdashboard-bootstrap/last-known-good'',
      rp_databases = installed_state_databases\<rparr>"


section \<open>The machine\<close>

record directory_meta =
  dm_is_dir :: bool
  dm_uid :: nat
  dm_mode :: nat

record release_link =
  rl_is_symlink :: bool
  rl_uid :: nat
  rl_target :: string

record backup_directory =
  bk_meta :: directory_meta
  bk_files :: "(string \<times> private_file) list"

type_synonym path_key = "path_component list"

record 'r installed_state =
  in_directories :: "path_key \<Rightarrow> directory_meta option"
  in_links :: "(path_key \<times> release_link) list"
  in_staged :: "evidence_digest \<Rightarrow> bool"
  in_backups :: "(string \<times> backup_directory) list"
  in_files :: "path_key \<Rightarrow> private_file option"
  in_services :: 'r
  in_euid :: nat
  in_egid :: nat
  in_drawn :: nat
  in_faults :: "bool list"

type_synonym ('r, 'a) installed_io = "('r installed_state, self_update_runtime_error, 'a) io"

definition os_call :: "('r, unit) installed_io" where
  "os_call s =
     (case in_faults s of
        [] \<Rightarrow> (Inr (), s)
      | fault # faults \<Rightarrow> (if fault then Inl Runtime_Io else Inr (), s\<lparr>in_faults := faults\<rparr>))"

text \<open>A call that reads; the entry it names may be absent.\<close>

definition os_read :: "('r installed_state \<Rightarrow> 'a option) \<Rightarrow> ('r, 'a) installed_io" where
  "os_read q = io_bind os_call (\<lambda>_. io_bind (io_get q) (\<lambda>x. io_lift (ok_or x Runtime_Io)))"

text \<open>A call that changes the file system, all or nothing.\<close>

definition os_write :: "('r installed_state \<Rightarrow> 'r installed_state) \<Rightarrow> ('r, unit) installed_io" where
  "os_write f = io_bind os_call (\<lambda>_. io_modify f)"

text \<open>\<open>let _ = ...\<close>: the error of a call is dropped, its effects stay.\<close>

definition io_ignore :: "('s, 'e, 'a) io \<Rightarrow> ('s, 'f, unit) io" where
  "io_ignore m s = (Inr (), snd (m s))"

text \<open>\<open>if result.is_err() { cleanup }\<close>, the error is returned after the cleanup.\<close>

definition io_on_error :: "('s, 'e, 'a) io \<Rightarrow> ('s, 'e, unit) io \<Rightarrow> ('s, 'e, 'a) io" where
  "io_on_error m cleanup s =
     (case m s of (Inl e, s') \<Rightarrow> (Inl e, snd (cleanup s')) | (Inr x, s') \<Rightarrow> (Inr x, s'))"

definition verify_staged :: "evidence_digest \<Rightarrow> ('r, unit) installed_io" where
  "verify_staged digest =
     io_bind os_call (\<lambda>_.
     io_bind (io_get (\<lambda>s. in_staged s digest)) (\<lambda>staged. io_ensure staged Runtime_SelfUpdate))"

definition directory_is :: "nat \<Rightarrow> nat \<Rightarrow> directory_meta \<Rightarrow> bool" where
  "directory_is owner_uid mode d \<longleftrightarrow> dm_is_dir d \<and> dm_uid d = owner_uid \<and> dm_mode d = mode"

definition validate_runtime_root :: "path_key \<Rightarrow> nat \<Rightarrow> ('r, unit) installed_io" where
  "validate_runtime_root path owner_uid =
     io_bind (os_read (\<lambda>s. in_directories s path)) (\<lambda>root.
     io_ensure (directory_is owner_uid 457 root) UnsafeBackupStore)"

definition runtime_new_v4 :: "platform_codec \<Rightarrow> ('r, uuid) installed_io" where
  "runtime_new_v4 K =
     io_bind (io_get in_drawn) (\<lambda>n.
     io_bind (io_modify (\<lambda>s. s\<lparr>in_drawn := n + 1\<rparr>)) (\<lambda>_. io_return (pc_new_v4 K n)))"


section \<open>Release pointers\<close>

text \<open>The digest a link target names: \<open>releases\<close> and one more component.\<close>

definition link_digest :: "string \<Rightarrow> evidence_digest option" where
  "link_digest target =
     (case path_components target of
        [Normal prefix, Normal digest] \<Rightarrow>
          if prefix = ''releases'' \<and> evidence_digest_validate digest then Some digest else None
      | _ \<Rightarrow> None)"

definition read_release_link ::
  "string \<Rightarrow> string \<Rightarrow> nat \<Rightarrow> ('r, evidence_digest) installed_io" where
  "read_release_link link releases owner_uid =
     io_bind (os_read (\<lambda>s. map_of (in_links s) (path_components link))) (\<lambda>l.
     io_bind (io_ensure (rl_is_symlink l \<and> rl_uid l = owner_uid) UnsafeReleasePointer) (\<lambda>_.
     io_bind os_call (\<lambda>_.
     io_bind (io_lift (ok_or (link_digest (rl_target l)) UnsafeReleasePointer)) (\<lambda>digest.
     io_bind (io_ensure (path_parent link = path_parent releases) InvalidConfiguration) (\<lambda>_.
     io_bind (verify_staged digest) (\<lambda>_. io_return digest))))))"

definition read_optional_release_link ::
  "string \<Rightarrow> string \<Rightarrow> nat \<Rightarrow> ('r, evidence_digest option) installed_io" where
  "read_optional_release_link link releases owner_uid =
     io_bind os_call (\<lambda>_.
     io_bind (io_get (\<lambda>s. map_of (in_links s) (path_components link))) (\<lambda>l.
     case l of
       None \<Rightarrow> io_return None
     | Some _ \<Rightarrow>
         io_bind (read_release_link link releases owner_uid) (\<lambda>digest. io_return (Some digest))))"

definition without_key :: "'k \<Rightarrow> ('k \<times> 'v) list \<Rightarrow> ('k \<times> 'v) list" where
  "without_key key entries = filter (\<lambda>(k, _). k \<noteq> key) entries"

definition rename_key :: "'k \<Rightarrow> 'k \<Rightarrow> ('k \<times> 'v) list \<Rightarrow> ('k \<times> 'v) list" where
  "rename_key old new entries =
     (if old = new then entries
      else map (\<lambda>(k, v). (if k = old then new else k, v)) (without_key new entries))"

definition remove_link :: "path_key \<Rightarrow> ('r, unit) installed_io" where
  "remove_link path = os_write (\<lambda>s. s\<lparr>in_links := without_key path (in_links s)\<rparr>)"

definition symlink :: "string \<Rightarrow> path_key \<Rightarrow> ('r, unit) installed_io" where
  "symlink target path =
     io_bind os_call (\<lambda>_.
     io_bind (io_get (\<lambda>s. map_of (in_links s) path)) (\<lambda>existing.
     io_bind (io_ensure (existing = None) Runtime_Io) (\<lambda>_.
     io_modify (\<lambda>s. s\<lparr>in_links := in_links s @
       [(path, \<lparr>rl_is_symlink = True, rl_uid = in_euid s, rl_target = target\<rparr>)]\<rparr>))))"

definition switch_release_link ::
  "platform_codec \<Rightarrow> string \<Rightarrow> string \<Rightarrow> evidence_digest \<Rightarrow> nat \<Rightarrow> ('r, unit) installed_io" where
  "switch_release_link K link releases digest owner_uid =
     io_bind (io_ensure (evidence_digest_validate digest) UnsafeReleasePointer) (\<lambda>_.
     io_bind (io_lift (ok_or (path_parent link) InvalidConfiguration)) (\<lambda>parent.
     io_bind (validate_runtime_root parent owner_uid) (\<lambda>_.
     io_bind (io_ensure (path_parent releases = Some parent) InvalidConfiguration) (\<lambda>_.
     io_bind (os_read (\<lambda>s. in_directories s (path_components releases @ [Normal digest]))) (\<lambda>release.
     io_bind (io_ensure (directory_is owner_uid 365 release) UnsafeReleasePointer) (\<lambda>_.
     io_bind (runtime_new_v4 K) (\<lambda>identifier.
     let temporary = parent @ [Normal (''.link-'' @ pc_uuid_text K identifier)] in
     io_bind (symlink (''releases/'' @ digest) temporary) (\<lambda>_.
     io_bind (os_read (\<lambda>s. map_of (in_links s) temporary)) (\<lambda>l.
     if \<not> rl_is_symlink l \<or> rl_uid l \<noteq> owner_uid then
       io_bind (io_ignore (remove_link temporary)) (\<lambda>_. io_fail UnsafeReleasePointer)
     else
       io_bind
         (io_on_error
           (os_write (\<lambda>s. s\<lparr>in_links := rename_key temporary (path_components link) (in_links s)\<rparr>))
           (remove_link temporary))
         (\<lambda>_. os_call))))))))))"

text \<open>Links that an interrupted switch left behind, among the entries of the root.\<close>

fun reconcile_link_entries ::
  "platform_codec \<Rightarrow> path_key \<Rightarrow> nat \<Rightarrow> (path_key \<times> release_link) list \<Rightarrow> ('r, bool) installed_io" where
  "reconcile_link_entries K root owner_uid [] = io_return False"
| "reconcile_link_entries K root owner_uid ((path, l) # entries) =
     (let name = component_text (last path) in
      io_bind os_call (\<lambda>_.
      io_bind (io_ensure (is_utf8 name) UnsafeReleasePointer) (\<lambda>_.
      case strip_prefix ''.link-'' name of
        None \<Rightarrow> reconcile_link_entries K root owner_uid entries
      | Some identifier \<Rightarrow>
          io_bind (io_ensure (pc_parse_uuid K identifier \<noteq> None) UnsafeReleasePointer) (\<lambda>_.
          io_bind os_call (\<lambda>_.
          io_bind (io_ensure (rl_is_symlink l \<and> rl_uid l = owner_uid) UnsafeReleasePointer) (\<lambda>_.
          io_bind os_call (\<lambda>_.
          io_bind (io_ensure (link_digest (rl_target l) \<noteq> None) UnsafeReleasePointer) (\<lambda>_.
          io_bind (remove_link path) (\<lambda>_.
          io_bind (reconcile_link_entries K root owner_uid entries) (\<lambda>_. io_return True))))))))))"

definition reconcile_release_link_temporaries ::
  "platform_codec \<Rightarrow> path_key \<Rightarrow> nat \<Rightarrow> ('r, unit) installed_io" where
  "reconcile_release_link_temporaries K root owner_uid =
     io_bind os_call (\<lambda>_.
     io_bind (io_get (\<lambda>s. filter (\<lambda>(path, _). path \<noteq> [] \<and> butlast path = root) (in_links s))) (\<lambda>entries.
     io_bind (reconcile_link_entries K root owner_uid entries) (\<lambda>removed.
     io_when removed os_call)))"

definition read_current_release ::
  "runtime_paths \<Rightarrow> nat \<Rightarrow> ('r, evidence_digest) installed_io" where
  "read_current_release paths owner_uid =
     io_bind (io_lift (runtime_paths_validate paths)) (\<lambda>_.
     read_release_link (rp_current_link paths) (rp_releases paths) owner_uid)"

definition read_last_known_good_release ::
  "runtime_paths \<Rightarrow> nat \<Rightarrow> ('r, evidence_digest) installed_io" where
  "read_last_known_good_release paths owner_uid =
     io_bind (io_lift (runtime_paths_validate paths)) (\<lambda>_.
     read_release_link (rp_last_known_good_link paths) (rp_releases paths) owner_uid)"

definition initialize_release_pointers ::
  "platform_codec \<Rightarrow> runtime_paths \<Rightarrow> nat \<Rightarrow> evidence_digest \<Rightarrow> ('r, unit) installed_io" where
  "initialize_release_pointers K paths owner_uid release_digest =
     (let switch = (\<lambda>link. switch_release_link K link (rp_releases paths) release_digest owner_uid);
          read = (\<lambda>link. read_optional_release_link link (rp_releases paths) owner_uid)
      in
      io_bind (io_lift (runtime_paths_validate paths)) (\<lambda>_.
      io_bind (reconcile_release_link_temporaries K (path_components (rp_root paths)) owner_uid) (\<lambda>_.
      io_bind (verify_staged release_digest) (\<lambda>_.
      io_bind (read (rp_current_link paths)) (\<lambda>current.
      io_bind (read (rp_last_known_good_link paths)) (\<lambda>last_known_good.
      io_bind
        (if current = None \<and> last_known_good = None then
           io_bind (switch (rp_last_known_good_link paths)) (\<lambda>_. switch (rp_current_link paths))
         else if current = None \<and> last_known_good = Some release_digest then
           switch (rp_current_link paths)
         else if current = Some release_digest \<and> last_known_good = Some release_digest then
           io_return ()
         else io_fail UnsafeReleasePointer) (\<lambda>_.
      io_bind (read_current_release paths owner_uid) (\<lambda>c.
      if c \<noteq> release_digest then io_fail UnsafeReleasePointer
      else
        io_bind (read_last_known_good_release paths owner_uid) (\<lambda>l.
        if l \<noteq> release_digest then io_fail UnsafeReleasePointer else io_return ())))))))))"

end
