(* ===== verification/Self_Update_Backup.thy ===== *)
theory Self_Update_Backup
  imports Self_Update_Platform
begin

text \<open>
  The backup of the state databases and its restoration, the installed service runtime and the
  installed platform, \<open>src/self_update_runtime.rs\<close>.
\<close>

section \<open>Files\<close>

definition state_backup_receipt_file :: string where
  "state_backup_receipt_file = ''receipt.jcs''"

definition sync_directory :: "('r, unit) installed_io" where
  "sync_directory = io_bind os_call (\<lambda>_. os_call)"

definition validate_private_directory :: "directory_meta option \<Rightarrow> nat \<Rightarrow> ('r, unit) installed_io" where
  "validate_private_directory entry owner_uid =
     io_bind (os_read (\<lambda>_. entry)) (\<lambda>meta.
     io_ensure (directory_is owner_uid 448 meta) UnsafeBackupStore)"

definition private_file_is :: "nat \<Rightarrow> nat \<Rightarrow> nat \<Rightarrow> private_file \<Rightarrow> bool" where
  "private_file_is owner_uid mode maximum_bytes f \<longleftrightarrow>
     pf_regular f \<and> pf_links f = 1 \<and> pf_uid f = owner_uid \<and> pf_mode f = mode \<and>
     pf_bytes f \<noteq> [] \<and> length (pf_bytes f) \<le> maximum_bytes"

definition find_backup_file ::
  "string \<Rightarrow> string \<Rightarrow> 'r installed_state \<Rightarrow> private_file option" where
  "find_backup_file operation name s =
     Option.bind (map_of (in_backups s) operation) (\<lambda>b. map_of (bk_files b) name)"

definition backup_meta :: "string \<Rightarrow> 'r installed_state \<Rightarrow> directory_meta option" where
  "backup_meta operation s = map_option bk_meta (map_of (in_backups s) operation)"

definition hash_private_file ::
  "platform_codec \<Rightarrow> string \<Rightarrow> string \<Rightarrow> nat \<Rightarrow> nat \<Rightarrow> nat \<Rightarrow>
   ('r, evidence_digest \<times> nat) installed_io" where
  "hash_private_file K operation name owner_uid mode maximum_bytes =
     io_bind (os_read (find_backup_file operation name)) (\<lambda>f.
     io_bind (io_ensure (private_file_is owner_uid mode maximum_bytes f) UnsafeBackupStore) (\<lambda>_.
     io_bind os_call (\<lambda>_.
     io_bind os_call (\<lambda>_.
     io_bind os_call (\<lambda>_.
     io_return (evidence_digest_sha256 (pc_sha K) (pf_bytes f), length (pf_bytes f)))))))"

definition read_private_file ::
  "string \<Rightarrow> string \<Rightarrow> nat \<Rightarrow> nat \<Rightarrow> nat \<Rightarrow> ('r, string) installed_io" where
  "read_private_file operation name owner_uid mode maximum_bytes =
     io_bind (os_read (find_backup_file operation name)) (\<lambda>f.
     io_bind (io_ensure (private_file_is owner_uid mode maximum_bytes f) UnsafeBackupStore) (\<lambda>_.
     io_bind os_call (\<lambda>_.
     io_bind os_call (\<lambda>_.
     io_bind os_call (\<lambda>_. io_return (pf_bytes f))))))"

definition verify_sqlite_integrity ::
  "platform_codec \<Rightarrow> ('r installed_state \<Rightarrow> private_file option) \<Rightarrow> ('r, unit) installed_io" where
  "verify_sqlite_integrity K file_at =
     io_bind (io_map_err (\<lambda>_. Runtime_Sqlite) (os_read file_at)) (\<lambda>f.
     io_bind (io_map_err (\<lambda>_. Runtime_Sqlite) os_call) (\<lambda>_.
     io_ensure (pc_sqlite_integrity K (pf_bytes f)) DatabaseIntegrity))"

definition update_backup ::
  "string \<Rightarrow> (backup_directory \<Rightarrow> backup_directory) \<Rightarrow> 'r installed_state \<Rightarrow> 'r installed_state" where
  "update_backup operation f s =
     s\<lparr>in_backups := map (\<lambda>(n, b). if n = operation then (n, f b) else (n, b)) (in_backups s)\<rparr>"

definition put_backup_file ::
  "string \<Rightarrow> string \<Rightarrow> ('r installed_state \<Rightarrow> private_file) \<Rightarrow> ('r, unit) installed_io" where
  "put_backup_file operation name file_of =
     os_write (\<lambda>s. update_backup operation
       (\<lambda>b. b\<lparr>bk_files := without_key name (bk_files b) @ [(name, file_of s)]\<rparr>) s)"

definition chmod_backup_file :: "string \<Rightarrow> string \<Rightarrow> nat \<Rightarrow> ('r, unit) installed_io" where
  "chmod_backup_file operation name mode =
     os_write (update_backup operation (\<lambda>b. b\<lparr>bk_files :=
       map (\<lambda>(n, f). if n = name then (n, f\<lparr>pf_mode := mode\<rparr>) else (n, f)) (bk_files b)\<rparr>))"

definition new_private_file :: "string \<Rightarrow> 'r installed_state \<Rightarrow> private_file" where
  "new_private_file bytes s =
     \<lparr>pf_regular = True, pf_links = 1, pf_uid = in_euid s, pf_gid = in_egid s, pf_mode = 384,
      pf_bytes = bytes\<rparr>"

definition write_private_document ::
  "string \<Rightarrow> string \<Rightarrow> string \<Rightarrow> nat \<Rightarrow> ('r, unit) installed_io" where
  "write_private_document operation name bytes owner_uid =
     io_bind (io_get (find_backup_file operation name)) (\<lambda>existing.
     io_bind (io_ensure (existing = None) Runtime_Io) (\<lambda>_.
     io_bind (put_backup_file operation name (new_private_file [])) (\<lambda>_.
     io_bind (put_backup_file operation name (new_private_file bytes)) (\<lambda>_.
     io_bind os_call (\<lambda>_.
     io_bind (chmod_backup_file operation name 256) (\<lambda>_.
     io_bind (os_read (find_backup_file operation name)) (\<lambda>f.
     io_ensure (pf_uid f = owner_uid \<and> pf_links f = 1 \<and> pf_mode f = 256) UnsafeBackupStore)))))))"

text \<open>\<open>fs::remove_dir_all\<close>: the files one by one, then the directory.\<close>

definition remove_dir_all :: "string \<Rightarrow> ('r, unit) installed_io" where
  "remove_dir_all operation =
     io_bind (os_read (\<lambda>s. map_of (in_backups s) operation)) (\<lambda>b.
     io_bind
       (io_each (\<lambda>(name, _). os_write (update_backup operation
          (\<lambda>b. b\<lparr>bk_files := without_key name (bk_files b)\<rparr>))) (bk_files b)) (\<lambda>_.
     os_write (\<lambda>s. s\<lparr>in_backups := without_key operation (in_backups s)\<rparr>)))"

definition remove_owned_operation_tree :: "string \<Rightarrow> nat \<Rightarrow> ('r, unit) installed_io" where
  "remove_owned_operation_tree operation owner_uid =
     io_ignore
       (io_bind (os_read (backup_meta operation)) (\<lambda>meta.
        io_bind (validate_private_directory (Some meta) owner_uid) (\<lambda>_.
        remove_dir_all operation)))"


section \<open>Backup\<close>

definition validate_database_source :: "state_database \<Rightarrow> ('r, private_file) installed_io" where
  "validate_database_source d =
     io_bind (io_ensure (state_database_validate d) InvalidConfiguration) (\<lambda>_.
     io_bind (os_read (\<lambda>s. in_files s (path_components (sd_path d)))) (\<lambda>f.
     io_bind (io_ensure (pf_regular f \<and> pf_links f = 1 \<and> pf_bytes f \<noteq> [] \<and>
       length (pf_bytes f) \<le> sd_maximum_bytes d \<and>
       even (pf_mode f div 2) \<and> even (pf_mode f div 16)) UnsafeDatabase) (\<lambda>_.
     io_return f)))"

definition backup_name :: "string \<Rightarrow> string" where
  "backup_name name = name @ ''.sqlite''"

definition read_backup_receipt ::
  "platform_codec \<Rightarrow> nat \<Rightarrow> string \<Rightarrow> ('r, state_backup_receipt) installed_io" where
  "read_backup_receipt K owner_uid operation =
     io_bind (os_read (backup_meta operation)) (\<lambda>meta.
     io_bind (io_ensure (directory_is owner_uid 448 meta) UnsafeBackupStore) (\<lambda>_.
     io_bind (read_private_file operation state_backup_receipt_file owner_uid 256
       max_backup_receipt_bytes) (\<lambda>bytes.
     io_lift (receipt_decode_canonical K bytes))))"

definition verify_backup_files ::
  "platform_codec \<Rightarrow> runtime_paths \<Rightarrow> nat \<Rightarrow> string \<Rightarrow> state_backup_receipt \<Rightarrow>
   ('r, unit) installed_io" where
  "verify_backup_files K paths owner_uid operation receipt =
     io_bind (io_lift (receipt_validate K receipt)) (\<lambda>_.
     io_bind (io_ensure (length (br_files receipt) = length (rp_databases paths)) InvalidBackupReceipt) (\<lambda>_.
     io_bind (io_ensure (set (map sd_name (rp_databases paths)) = set (map bf_name (br_files receipt)))
       InvalidBackupReceipt) (\<lambda>_.
     io_each (\<lambda>f.
       io_bind (io_lift (ok_or (find (\<lambda>d. sd_name d = bf_name f) (rp_databases paths))
         InvalidBackupReceipt)) (\<lambda>database.
       io_bind (hash_private_file K operation (backup_name (bf_name f)) owner_uid 256
         (sd_maximum_bytes database)) (\<lambda>(digest, bytes).
       io_bind (io_ensure (digest = bf_sha256 f \<and> bytes = bf_bytes f) BackupBinding) (\<lambda>_.
       verify_sqlite_integrity K (find_backup_file operation (backup_name (bf_name f)))))))
       (br_files receipt))))"

text \<open>One database: the online backup, its mode, its hash and its integrity.\<close>

definition backup_database ::
  "platform_codec \<Rightarrow> nat \<Rightarrow> string \<Rightarrow> state_database \<Rightarrow> ('r, state_backup_file) installed_io" where
  "backup_database K owner_uid operation database =
     (let destination = backup_name (sd_name database) in
      io_bind (validate_database_source database) (\<lambda>_.
      io_bind (io_map_err (\<lambda>_. Runtime_Sqlite)
        (os_read (\<lambda>s. pc_sqlite_backup K (in_files s) (sd_path database)))) (\<lambda>snapshot.
      io_bind (io_map_err (\<lambda>_. Runtime_Sqlite)
        (put_backup_file operation destination (new_private_file snapshot))) (\<lambda>_.
      io_bind (chmod_backup_file operation destination 256) (\<lambda>_.
      io_bind (hash_private_file K operation destination owner_uid 256
        (sd_maximum_bytes database)) (\<lambda>(sha256, bytes).
      io_bind (verify_sqlite_integrity K (find_backup_file operation destination)) (\<lambda>_.
      io_return \<lparr>bf_name = sd_name database, bf_bytes = bytes, bf_sha256 = sha256\<rparr>)))))))"

fun backup_databases ::
  "platform_codec \<Rightarrow> nat \<Rightarrow> string \<Rightarrow> state_database list \<Rightarrow>
   ('r, state_backup_file list) installed_io" where
  "backup_databases K owner_uid operation [] = io_return []"
| "backup_databases K owner_uid operation (d # ds) =
     io_bind (backup_database K owner_uid operation d) (\<lambda>f.
     io_bind (backup_databases K owner_uid operation ds) (\<lambda>fs. io_return (f # fs)))"

definition write_backup ::
  "platform_codec \<Rightarrow> runtime_paths \<Rightarrow> nat \<Rightarrow> uuid \<Rightarrow> evidence_digest \<Rightarrow>
   ('r, evidence_digest) installed_io" where
  "write_backup K paths owner_uid operation_id candidate =
     (let operation = pc_uuid_text K operation_id in
      io_bind (backup_databases K owner_uid operation (rp_databases paths)) (\<lambda>files.
      io_bind (io_lift (receipt_new K operation_id candidate files)) (\<lambda>receipt.
      io_bind (io_lift (receipt_canonical_bytes K receipt)) (\<lambda>bytes.
      io_bind (write_private_document operation state_backup_receipt_file bytes owner_uid) (\<lambda>_.
      io_bind sync_directory (\<lambda>_.
      io_bind sync_directory (\<lambda>_. io_return (br_receipt_digest receipt))))))))"

definition create_backup ::
  "platform_codec \<Rightarrow> runtime_paths \<Rightarrow> nat \<Rightarrow> uuid \<Rightarrow> evidence_digest \<Rightarrow>
   ('r, evidence_digest) installed_io" where
  "create_backup K paths owner_uid operation_id candidate =
     (let operation = pc_uuid_text K operation_id in
      io_bind (io_get (\<lambda>s. map_of (in_backups s) operation)) (\<lambda>existing.
      io_bind (io_ensure (existing = None) Runtime_Io) (\<lambda>_.
      io_bind (os_write (\<lambda>s. s\<lparr>in_backups := in_backups s @ [(operation,
        \<lparr>bk_meta = \<lparr>dm_is_dir = True, dm_uid = in_euid s, dm_mode = 493\<rparr>, bk_files = []\<rparr>)]\<rparr>)) (\<lambda>_.
      io_bind (os_write (update_backup operation
        (\<lambda>b. b\<lparr>bk_meta := (bk_meta b)\<lparr>dm_mode := 448\<rparr>\<rparr>))) (\<lambda>_.
      io_on_error (write_backup K paths owner_uid operation_id candidate)
        (remove_owned_operation_tree operation owner_uid))))))"

text \<open>\<open>fs::symlink_metadata(..).is_ok()\<close>: a failing call answers as a missing file.\<close>

definition os_exists :: "('r installed_state \<Rightarrow> 'a option) \<Rightarrow> ('r, bool) installed_io" where
  "os_exists q s = (case os_read q s of (Inl _, s') \<Rightarrow> (Inr False, s') | (Inr _, s') \<Rightarrow> (Inr True, s'))"

definition backup_state_checked ::
  "platform_codec \<Rightarrow> runtime_paths \<Rightarrow> nat \<Rightarrow> uuid \<Rightarrow> evidence_digest \<Rightarrow>
   ('r, evidence_digest) installed_io" where
  "backup_state_checked K paths owner_uid operation_id candidate =
     (let operation = pc_uuid_text K operation_id in
      io_bind (os_exists (backup_meta operation)) (\<lambda>present.
      if present then
        io_bind (os_exists (find_backup_file operation state_backup_receipt_file)) (\<lambda>complete.
        if \<not> complete then
          io_bind (io_get (backup_meta operation)) (\<lambda>meta.
          io_bind (validate_private_directory meta owner_uid) (\<lambda>_.
          io_bind (remove_owned_operation_tree operation owner_uid) (\<lambda>_.
          create_backup K paths owner_uid operation_id candidate)))
        else
          io_bind (read_backup_receipt K owner_uid operation) (\<lambda>receipt.
          if br_operation_id receipt \<noteq> operation_id \<or>
             br_candidate_release_digest receipt \<noteq> candidate
          then io_fail BackupConflict
          else
            io_bind (verify_backup_files K paths owner_uid operation receipt) (\<lambda>_.
            io_return (br_receipt_digest receipt))))
      else create_backup K paths owner_uid operation_id candidate))"


section \<open>Restoration\<close>

fun find_receipt_in ::
  "platform_codec \<Rightarrow> nat \<Rightarrow> evidence_digest \<Rightarrow> string list \<Rightarrow>
   (string \<times> state_backup_receipt) option \<Rightarrow>
   ('r, (string \<times> state_backup_receipt) option) installed_io" where
  "find_receipt_in K owner_uid digest [] found = io_return found"
| "find_receipt_in K owner_uid digest (operation # operations) found =
     io_bind os_call (\<lambda>_.
     io_bind (os_read (backup_meta operation)) (\<lambda>meta.
     io_bind (io_ensure (dm_is_dir meta \<and> dm_uid meta = owner_uid) UnsafeBackupStore) (\<lambda>_.
     io_bind (read_backup_receipt K owner_uid operation) (\<lambda>receipt.
     if br_receipt_digest receipt = digest then
       if found \<noteq> None then io_fail BackupConflict
       else find_receipt_in K owner_uid digest operations (Some (operation, receipt))
     else find_receipt_in K owner_uid digest operations found))))"

definition find_backup_receipt ::
  "platform_codec \<Rightarrow> nat \<Rightarrow> evidence_digest \<Rightarrow> ('r, string \<times> state_backup_receipt) installed_io" where
  "find_backup_receipt K owner_uid digest =
     io_bind os_call (\<lambda>_.
     io_bind (io_get (\<lambda>s. map fst (in_backups s))) (\<lambda>operations.
     io_bind (find_receipt_in K owner_uid digest operations None) (\<lambda>found.
     io_lift (ok_or found BackupMissing))))"

definition remove_path :: "path_key \<Rightarrow> ('r, unit) installed_io" where
  "remove_path path = os_write (\<lambda>s. s\<lparr>in_files := (in_files s)(path := None)\<rparr>)"

definition reconcile_restore_temporary ::
  "path_key \<Rightarrow> nat \<Rightarrow> private_file \<Rightarrow> nat \<Rightarrow> ('r, unit) installed_io" where
  "reconcile_restore_temporary path bootstrap_uid target maximum_bytes =
     io_bind os_call (\<lambda>_.
     io_bind (io_get (\<lambda>s. in_files s path)) (\<lambda>existing.
     case existing of
       None \<Rightarrow> io_return ()
     | Some f \<Rightarrow>
         let bootstrap_owned = pf_uid f = bootstrap_uid \<and> pf_mode f = 384;
             target_identity = pf_uid f = pf_uid target \<and> pf_gid f = pf_gid target;
             target_owned = target_identity \<and> (pf_mode f = 384 \<or> pf_mode f = pf_mode target)
         in if \<not> pf_regular f \<or> pf_links f \<noteq> 1 \<or> maximum_bytes < length (pf_bytes f) \<or>
               \<not> bootstrap_owned \<and> \<not> target_owned
            then io_fail UnsafeDatabase
            else remove_path path))"

definition remove_database_sidecar :: "string \<Rightarrow> string \<Rightarrow> ('r, unit) installed_io" where
  "remove_database_sidecar database suffix =
     (let sidecar = path_components (database @ suffix) in
      io_bind os_call (\<lambda>_.
      io_bind (io_get (\<lambda>s. in_files s sidecar)) (\<lambda>existing.
      case existing of
        None \<Rightarrow> io_return ()
      | Some f \<Rightarrow>
          io_bind (io_ensure (pf_regular f \<and> pf_links f = 1) UnsafeDatabase) (\<lambda>_.
          remove_path sidecar))))"

definition hash_file_unowned ::
  "platform_codec \<Rightarrow> path_key \<Rightarrow> nat \<Rightarrow> ('r, evidence_digest \<times> nat) installed_io" where
  "hash_file_unowned K path maximum_bytes =
     io_bind (os_read (\<lambda>s. in_files s path)) (\<lambda>f.
     io_bind (io_ensure (pf_regular f \<and> pf_links f = 1 \<and> pf_bytes f \<noteq> [] \<and>
       length (pf_bytes f) \<le> maximum_bytes) UnsafeDatabase) (\<lambda>_.
     io_bind os_call (\<lambda>_.
     io_bind os_call (\<lambda>_.
     io_return (evidence_digest_sha256 (pc_sha K) (pf_bytes f), length (pf_bytes f))))))"

definition write_file ::
  "path_key \<Rightarrow> ('r installed_state \<Rightarrow> private_file \<Rightarrow> private_file) \<Rightarrow> ('r, unit) installed_io" where
  "write_file path f =
     io_bind (os_read (\<lambda>s. in_files s path)) (\<lambda>_.
     io_modify (\<lambda>s. s\<lparr>in_files := (in_files s)(path := map_option (f s) (in_files s path))\<rparr>))"

definition remove_open_file_if_still_named :: "path_key \<Rightarrow> ('r, unit) installed_io" where
  "remove_open_file_if_still_named path =
     io_ignore
       (io_bind (os_read (\<lambda>s. in_files s path)) (\<lambda>f.
        io_when (pf_regular f \<and> pf_links f = 1) (remove_path path)))"

text \<open>The copy next to the database is checked, given the owner and mode of the database, and renamed.\<close>

definition replace_database ::
  "platform_codec \<Rightarrow> state_database \<Rightarrow> state_backup_file \<Rightarrow> private_file \<Rightarrow> path_key \<Rightarrow>
   ('r, unit) installed_io" where
  "replace_database K database backup target temporary =
     io_bind (verify_sqlite_integrity K (\<lambda>s. in_files s temporary)) (\<lambda>_.
     io_bind (hash_file_unowned K temporary (sd_maximum_bytes database)) (\<lambda>(digest, bytes).
     io_bind (io_ensure (digest = bf_sha256 backup \<and> bytes = bf_bytes backup) BackupBinding) (\<lambda>_.
     io_bind (remove_database_sidecar (sd_path database) ''-wal'') (\<lambda>_.
     io_bind (remove_database_sidecar (sd_path database) ''-shm'') (\<lambda>_.
     io_bind (io_map_err (\<lambda>_. Runtime_Errno) (write_file temporary (\<lambda>_ f.
       f\<lparr>pf_uid := pf_uid target, pf_gid := pf_gid target\<rparr>))) (\<lambda>_.
     io_bind (write_file temporary (\<lambda>_ f. f\<lparr>pf_mode := pf_mode target\<rparr>)) (\<lambda>_.
     io_bind (io_bind (os_read (\<lambda>s. in_files s temporary)) (\<lambda>f.
       io_modify (\<lambda>s. s\<lparr>in_files := (in_files s)
         (temporary := None, path_components (sd_path database) := Some f)\<rparr>))) (\<lambda>_.
     sync_directory))))))))"

definition restore_database ::
  "platform_codec \<Rightarrow> nat \<Rightarrow> string \<Rightarrow> state_database \<Rightarrow> state_backup_file \<Rightarrow> uuid \<Rightarrow>
   ('r, unit) installed_io" where
  "restore_database K owner_uid operation database backup operation_id =
     (let source = backup_name (sd_name database) in
      io_bind (validate_database_source database) (\<lambda>target.
      io_bind (hash_private_file K operation source owner_uid 256 (sd_maximum_bytes database))
        (\<lambda>(digest, bytes).
      io_bind (io_ensure (digest = bf_sha256 backup \<and> bytes = bf_bytes backup) BackupBinding) (\<lambda>_.
      io_bind (io_lift (ok_or (path_parent (sd_path database)) InvalidConfiguration)) (\<lambda>parent.
      let temporary = parent @ [Normal (''.self-update-'' @ pc_uuid_text K operation_id @ ''-'' @
            sd_name database @ ''.sqlite'')]
      in
      io_bind (reconcile_restore_temporary temporary owner_uid target (sd_maximum_bytes database)) (\<lambda>_.
      io_bind (os_read (find_backup_file operation source)) (\<lambda>f.
      io_bind (io_get (\<lambda>s. in_files s temporary)) (\<lambda>existing.
      io_bind (io_ensure (existing = None) Runtime_Io) (\<lambda>_.
      io_bind (os_write (\<lambda>s. s\<lparr>in_files := (in_files s)(temporary \<mapsto> new_private_file [] s)\<rparr>)) (\<lambda>_.
      io_bind (write_file temporary (\<lambda>_ t. t\<lparr>pf_bytes := pf_bytes f\<rparr>)) (\<lambda>_.
      io_bind os_call (\<lambda>_.
      io_on_error (replace_database K database backup target temporary)
        (remove_open_file_if_still_named temporary)))))))))))))"


section \<open>Services\<close>

record 'r service_runtime =
  stop_services :: "('r, string, unit) io"
  start_services :: "('r, string, unit) io"
  services_are_healthy :: "('r, string, bool) io"

definition self_update_service_order :: "string list" where
  "self_update_service_order =
     [''rdashboard-source.service'', ''rdashboard-observer.service'', ''rdashboard-executor.service'',
      ''rdashboard-notify.service'', ''rdashboard-workflow-launcher.service'',
      ''rdashboard-workflow-gateway.service'', ''rdashboard-dependency-fetcher.service'',
      ''rdashboard-worker.service'', ''rdashboard-source-dispatcher.service'',
      ''rdashboard-source-ingress.service'', ''rdashboard.service'']"

definition self_update_quiesce_only_services :: "string list" where
  "self_update_quiesce_only_services = [''rdashboard-rimg-health.service'']"

definition health_attempts :: nat where "health_attempts = 20"

text \<open>
  The installed runtime runs \<open>systemctl\<close> and probes the health address. The command is a parameter:
  its arguments and the machine give the exit status (\<open>None\<close> when it cannot be started) and the
  machine after it; so is the probe.
\<close>

record 'm service_host =
  sh_systemctl :: "string list \<Rightarrow> 'm \<Rightarrow> bool option \<times> 'm"
  sh_probe :: "'m \<Rightarrow> bool option \<times> 'm"

definition run_systemctl :: "'m service_host \<Rightarrow> string list \<Rightarrow> string \<Rightarrow> ('m, string, unit) io" where
  "run_systemctl H arguments reason m =
     (case sh_systemctl H arguments m of
        (status, m') \<Rightarrow> (if status = Some True then Inr () else Inl reason, m'))"

definition installed_stop_services :: "'m service_host \<Rightarrow> ('m, string, unit) io" where
  "installed_stop_services H =
     io_bind (io_each (\<lambda>service. run_systemctl H [''stop'', service] ''service_stop_failed'')
       (rev self_update_service_order)) (\<lambda>_.
     io_each (\<lambda>service. run_systemctl H [''stop'', service] ''service_stop_failed'')
       self_update_quiesce_only_services)"

definition installed_start_services :: "'m service_host \<Rightarrow> ('m, string, unit) io" where
  "installed_start_services H =
     io_bind (run_systemctl H [''daemon-reload''] ''daemon_reload_failed'') (\<lambda>_.
     io_each (\<lambda>service. run_systemctl H [''start'', service] ''service_start_failed'')
       self_update_service_order)"

fun probe_attempts :: "'m service_host \<Rightarrow> nat \<Rightarrow> ('m, string, bool) io" where
  "probe_attempts H 0 m = (Inr False, m)"
| "probe_attempts H (Suc n) m =
     (case sh_probe H m of
        (answer, m') \<Rightarrow> if answer = Some True then (Inr True, m') else probe_attempts H n m')"

fun all_active :: "'m service_host \<Rightarrow> string list \<Rightarrow> ('m, string, bool) io" where
  "all_active H [] m = (Inr True, m)"
| "all_active H (service # services) m =
     (case sh_systemctl H [''is-active'', ''--quiet'', service] m of
        (None, m') \<Rightarrow> (Inl ''service_status_failed'', m')
      | (Some success, m') \<Rightarrow>
          if success then all_active H services m' else (Inr False, m'))"

definition installed_services_are_healthy :: "'m service_host \<Rightarrow> ('m, string, bool) io" where
  "installed_services_are_healthy H =
     io_bind (all_active H self_update_service_order) (\<lambda>active.
     if active then probe_attempts H health_attempts else io_return False)"

definition installed_service_runtime :: "'m service_host \<Rightarrow> 'm service_runtime" where
  "installed_service_runtime H =
     \<lparr>stop_services = installed_stop_services H, start_services = installed_start_services H,
      services_are_healthy = installed_services_are_healthy H\<rparr>"


section \<open>The platform\<close>

definition call_services :: "('r, string, 'a) io \<Rightarrow> ('r installed_state, string, 'a) io" where
  "call_services m = io_zoom in_services in_services_update m"

definition active_release_checked :: "runtime_paths \<Rightarrow> nat \<Rightarrow> ('r, evidence_digest) installed_io" where
  "active_release_checked paths owner_uid =
     read_release_link (rp_current_link paths) (rp_releases paths) owner_uid"

definition restore_release_checked ::
  "platform_codec \<Rightarrow> runtime_paths \<Rightarrow> nat \<Rightarrow> 'r service_runtime \<Rightarrow> evidence_digest \<Rightarrow>
   evidence_digest \<Rightarrow> ('r, unit) installed_io" where
  "restore_release_checked K paths owner_uid R previous backup_receipt_digest =
     io_bind (verify_staged previous) (\<lambda>_.
     io_bind (find_backup_receipt K owner_uid backup_receipt_digest) (\<lambda>(operation, receipt).
     io_bind (verify_backup_files K paths owner_uid operation receipt) (\<lambda>_.
     io_bind (io_map_err Runtime_Platform (call_services (stop_services R))) (\<lambda>_.
     io_bind (io_each (\<lambda>database.
         io_bind (io_lift (ok_or (find (\<lambda>f. bf_name f = sd_name database) (br_files receipt))
           InvalidBackupReceipt)) (\<lambda>backup.
         restore_database K owner_uid operation database backup (br_operation_id receipt)))
       (rp_databases paths)) (\<lambda>_.
     switch_release_link K (rp_current_link paths) (rp_releases paths) previous owner_uid)))))"

definition checked_release ::
  "runtime_paths \<Rightarrow> nat \<Rightarrow> evidence_digest \<Rightarrow> string \<Rightarrow> ('r installed_state, string, unit) io" where
  "checked_release paths owner_uid release mismatch =
     io_bind (io_map_err (\<lambda>_. ''active_release_invalid'') (active_release_checked paths owner_uid)) (\<lambda>active.
     io_ensure (active = release) mismatch)"

definition installed_platform ::
  "platform_codec \<Rightarrow> runtime_paths \<Rightarrow> nat \<Rightarrow> 'r service_runtime \<Rightarrow>
   'r installed_state self_update_platform" where
  "installed_platform K paths owner_uid R =
     \<lparr>active_release =
        io_map_err (\<lambda>_. ''active_release_invalid'') (active_release_checked paths owner_uid),
      backup_state = (\<lambda>operation_id candidate.
        io_map_err (\<lambda>_. ''state_backup_failed'')
          (backup_state_checked K paths owner_uid operation_id candidate)),
      activate_release = (\<lambda>candidate.
        io_bind (io_map_err (\<lambda>_. ''candidate_release_invalid'') (verify_staged candidate)) (\<lambda>_.
        io_bind (call_services (stop_services R)) (\<lambda>_.
        io_map_err (\<lambda>_. ''release_switch_failed'')
          (switch_release_link K (rp_current_link paths) (rp_releases paths) candidate owner_uid)))),
      start_release = (\<lambda>release.
        io_bind (checked_release paths owner_uid release ''release_start_mismatch'') (\<lambda>_.
        call_services (start_services R))),
      release_is_healthy = (\<lambda>release.
        io_bind (checked_release paths owner_uid release ''release_health_mismatch'') (\<lambda>_.
        call_services (services_are_healthy R))),
      commit_release = (\<lambda>candidate previous.
        io_bind (checked_release paths owner_uid candidate ''release_commit_mismatch'') (\<lambda>_.
        io_bind (io_map_err (\<lambda>_. ''previous_release_invalid'') (verify_staged previous)) (\<lambda>_.
        io_map_err (\<lambda>_. ''lkg_switch_failed'')
          (switch_release_link K (rp_last_known_good_link paths) (rp_releases paths) previous owner_uid)))),
      restore_release = (\<lambda>previous backup_receipt_digest.
        io_map_err (\<lambda>_. ''release_restore_failed'')
          (restore_release_checked K paths owner_uid R previous backup_receipt_digest))\<rparr>"

definition validate_database_contract :: "runtime_paths \<Rightarrow> self_update_runtime_error + unit" where
  "validate_database_contract paths =
     each_res (\<lambda>d.
       bind_res (ensure (state_database_validate d) InvalidConfiguration) (\<lambda>_.
       bind_res (ok_or (path_parent (sd_path d)) InvalidConfiguration) (\<lambda>parent.
       ensure (first_is (\<lambda>c. c = RootDir) parent \<and> parent \<noteq> [RootDir]) InvalidConfiguration)))
     (rp_databases paths)"

definition platform_open ::
  "platform_codec \<Rightarrow> runtime_paths \<Rightarrow> nat \<Rightarrow> ('r, unit) installed_io \<Rightarrow> ('r, unit) installed_io" where
  "platform_open K paths owner_uid open_store =
     io_bind (io_lift (runtime_paths_validate paths)) (\<lambda>_.
     io_bind (validate_runtime_root (path_components (rp_root paths)) owner_uid) (\<lambda>_.
     io_bind (reconcile_release_link_temporaries K (path_components (rp_root paths)) owner_uid) (\<lambda>_.
     io_bind (io_get (\<lambda>s. in_directories s (path_components (rp_backups paths)))) (\<lambda>backups.
     io_bind (validate_private_directory backups owner_uid) (\<lambda>_.
     io_bind open_store (\<lambda>_.
     io_lift (validate_database_contract paths)))))))"

end
