(* ===== verification/Self_Update_Frames.thy ===== *)
theory Self_Update_Frames
  imports Self_Update_Backup
begin

text \<open>
  Which part of the machine each operation of the installed platform leaves alone, on success and
  on failure.
\<close>

named_theorems frame_rules \<open>operations that leave a part of the state alone\<close>

definition frames :: "('s \<Rightarrow> 'g) \<Rightarrow> ('s, 'e, 'a) io \<Rightarrow> bool" where
  "frames g m \<longleftrightarrow> (\<forall>s. g (snd (m s)) = g s)"

lemma framesD: "frames g m \<Longrightarrow> m s = (r, s') \<Longrightarrow> g s' = g s"
  unfolding frames_def by (drule spec [of _ s]) simp

lemma frames_triple:
  assumes "frames g m"
  shows "io_keeps (\<lambda>s. P (g s)) m"
  by (rule io_tripleI) (auto dest!: framesD [OF assms])

lemma frames_bind [frame_rules]:
  assumes "frames g m" "\<And>x. frames g (f x)"
  shows "frames g (io_bind m f)"
  unfolding frames_def io_bind_def
  by (auto split: prod.split sum.split dest!: framesD [OF assms(1)]
      simp: assms(2) [unfolded frames_def, rule_format])

lemma frames_basic [frame_rules]:
  "frames g (io_return x)" "frames g (io_fail e)" "frames g (io_lift r)" "frames g (io_get q)"
  "frames g (io_ensure b e)"
  by (simp_all add: frames_def io_defs)

lemma frames_modify [frame_rules]: "(\<And>s. g (f s) = g s) \<Longrightarrow> frames g (io_modify f)"
  by (simp add: frames_def io_defs)

lemma frames_when [frame_rules]: "frames g m \<Longrightarrow> frames g (io_when b m)"
  by (simp add: io_when_def frames_basic)

lemma frames_map_err [frame_rules]:
  assumes "frames g m"
  shows "frames g (io_map_err h m)"
  by (auto simp: frames_def io_map_err_def split: prod.split dest!: framesD [OF assms])

lemma frames_ignore [frame_rules]: "frames g m \<Longrightarrow> frames g (io_ignore m)"
  by (simp add: frames_def io_ignore_def)

lemma frames_on_error [frame_rules]:
  assumes "frames g m" "frames g cleanup"
  shows "frames g (io_on_error m cleanup)"
  by (auto simp: frames_def io_on_error_def assms(2) [unfolded frames_def, rule_format]
      split: prod.split sum.split dest!: framesD [OF assms(1)])

lemma frames_each [frame_rules]:
  assumes "\<And>x. frames g (f x)"
  shows "frames g (io_each f xs)"
proof (induction xs)
  case Nil
  show ?case unfolding io_each.simps by (rule frames_basic)
next
  case (Cons x xs)
  show ?case unfolding io_each.simps by (rule frames_bind [OF assms Cons.IH])
qed

lemma frames_cases [frame_rules]:
  "frames g m \<Longrightarrow> frames g n \<Longrightarrow> frames g (if b then m else n)"
  "frames g m \<Longrightarrow> (\<And>v. frames g (f v)) \<Longrightarrow> frames g (case x of None \<Rightarrow> m | Some v \<Rightarrow> f v)"
  "(\<And>a b. frames g (h a b)) \<Longrightarrow> frames g (case p of (a, b) \<Rightarrow> h a b)"
  by (auto split: option.split prod.split)

lemma frames_os_call:
  "(\<And>s fs. g (s\<lparr>in_faults := fs\<rparr>) = g s) \<Longrightarrow> frames g os_call"
  by (simp add: frames_def os_call_def split: list.split)

lemma frames_os_read [frame_rules]: "frames g os_call \<Longrightarrow> frames g (os_read q)"
  unfolding os_read_def by (intro frame_rules)

lemma frames_os_write [frame_rules]:
  "frames g os_call \<Longrightarrow> (\<And>s. g (f s) = g s) \<Longrightarrow> frames g (os_write f)"
  unfolding os_write_def by (intro frames_bind frames_modify)

lemma frames_os_exists [frame_rules]:
  assumes "frames g os_call"
  shows "frames g (os_exists q)"
  by (auto simp: frames_def os_exists_def split: prod.split sum.split
      dest!: framesD [OF frames_os_read [OF assms]])

lemma frames_services [frame_rules]:
  "(\<And>s r. g (s\<lparr>in_services := r\<rparr>) = g s) \<Longrightarrow> frames g (call_services m)"
  by (simp add: frames_def call_services_def io_zoom_def split: prod.split)

text \<open>The definitions of the operations that are sequences of calls.\<close>

lemmas read_defs = verify_staged_def validate_runtime_root_def runtime_new_v4_def
  read_release_link_def read_optional_release_link_def active_release_checked_def
  sync_directory_def validate_private_directory_def hash_private_file_def read_private_file_def
  verify_sqlite_integrity_def validate_database_source_def read_backup_receipt_def
  verify_backup_files_def find_backup_receipt_def hash_file_unowned_def checked_release_def

lemmas backup_defs = put_backup_file_def chmod_backup_file_def write_private_document_def
  remove_dir_all_def remove_owned_operation_tree_def backup_database_def

lemmas file_defs = remove_path_def reconcile_restore_temporary_def remove_database_sidecar_def
  write_file_def remove_open_file_if_still_named_def replace_database_def restore_database_def

lemma frames_find_receipt_in [frame_rules]:
  assumes "frames g os_call"
  shows "frames g (find_receipt_in K uid digest operations found)"
proof (induction operations arbitrary: found)
  case Nil
  show ?case unfolding find_receipt_in.simps by (intro frame_rules)
next
  case (Cons operation operations)
  show ?case unfolding find_receipt_in.simps read_defs by (intro frame_rules Cons.IH assms)
qed

lemma frames_call:
  "frames in_links os_call" "frames in_files os_call" "frames in_backups os_call"
  "frames in_staged os_call" "frames in_euid os_call"
  by (simp_all add: frames_os_call)

text \<open>What only reads.\<close>

lemma frames_reads [frame_rules]:
  assumes "frames g os_call"
  shows "frames g (verify_staged d)" "frames g (validate_runtime_root path uid)"
    "frames g (read_release_link link releases uid)"
    "frames g (read_optional_release_link link releases uid)"
    "frames g (active_release_checked paths uid)" "frames g sync_directory"
    "frames g (validate_private_directory entry uid)"
    "frames g (hash_private_file K operation name uid mode n)"
    "frames g (read_private_file operation name uid mode n)"
    "frames g (verify_sqlite_integrity K file_at)" "frames g (validate_database_source d')"
    "frames g (read_backup_receipt K uid operation)"
    "frames g (verify_backup_files K paths uid operation receipt)"
    "frames g (find_backup_receipt K uid digest)" "frames g (hash_file_unowned K path' n)"
    "frames g (checked_release paths uid d mismatch)"
  unfolding read_defs by (intro frame_rules assms)+

text \<open>A backup changes the backup directory alone.\<close>

lemma frames_backup_database [frame_rules]:
  assumes "frames g os_call" "\<And>s f. g (update_backup operation f s) = g s"
  shows "frames g (backup_database K uid operation d)"
  unfolding backup_database_def put_backup_file_def chmod_backup_file_def Let_def
  by (intro frame_rules assms)

lemma frames_backup_databases [frame_rules]:
  assumes "frames g os_call" "\<And>s f. g (update_backup operation f s) = g s"
  shows "frames g (backup_databases K uid operation ds)"
proof (induction ds)
  case Nil
  show ?case unfolding backup_databases.simps by (intro frame_rules)
next
  case (Cons d ds)
  show ?case unfolding backup_databases.simps by (intro frame_rules assms Cons.IH)
qed

lemma frames_write_backup [frame_rules]:
  assumes "frames g os_call" "\<And>s f. g (update_backup (pc_uuid_text K u) f s) = g s"
  shows "frames g (write_backup K paths uid u c)"
  unfolding write_backup_def write_private_document_def put_backup_file_def chmod_backup_file_def Let_def
  by (intro frame_rules assms)

lemma frames_remove_owned_operation_tree [frame_rules]:
  assumes "frames g os_call" "\<And>s f. g (update_backup operation f s) = g s"
    and "\<And>s bs. g (s\<lparr>in_backups := bs\<rparr>) = g s"
  shows "frames g (remove_owned_operation_tree operation uid)"
  unfolding remove_owned_operation_tree_def remove_dir_all_def by (intro frame_rules assms)

lemma frames_backup_state [frame_rules]:
  assumes "frames g os_call" "\<And>s bs. g (s\<lparr>in_backups := bs\<rparr>) = g s"
  shows "frames g (backup_state_checked K paths uid u c)"
proof -
  have update: "g (update_backup operation f s) = g s" for operation f s
    by (simp add: update_backup_def assms(2))
  show ?thesis
    unfolding backup_state_checked_def create_backup_def Let_def by (intro frame_rules assms update)
qed

text \<open>A restoration of a database changes files alone.\<close>

lemma frames_files:
  assumes "frames g os_call" "\<And>s fs. g (s\<lparr>in_files := fs\<rparr>) = g s"
  shows "frames g (remove_path path)" "frames g (reconcile_restore_temporary path uid target n)"
    "frames g (remove_database_sidecar database suffix)" "frames g (write_file path f)"
    "frames g (remove_open_file_if_still_named path)"
    "frames g (replace_database K d b target path)"
  unfolding file_defs Let_def by (intro frame_rules assms)+

lemma frames_restore_database [frame_rules]:
  assumes "frames g os_call" "\<And>s fs. g (s\<lparr>in_files := fs\<rparr>) = g s"
  shows "frames g (restore_database K uid operation d b u)"
  unfolding restore_database_def Let_def by (intro frame_rules frames_files assms)

end
