(* ===== verification/Self_Update_Links.thy ===== *)
theory Self_Update_Links
  imports Self_Update_Frames
begin

text \<open>
  What reading, reconciling and switching a release pointer do to the links, whichever call fails,
  and the interpretation of the contract \<open>release_pointer\<close> for the installed platform.
\<close>

section \<open>Links\<close>

lemma link_digest_release:
  assumes "evidence_digest_validate d"
  shows "link_digest (''releases/'' @ d) = Some d"
proof -
  have d: "length d = 64" "CHR ''/'' \<notin> set d"
    using assms
    by (auto simp: evidence_digest_validate_def list_all_iff is_lower_hex_def is_ascii_digit_def byte_def
        dest!: bspec [of _ _ "CHR ''/''"])
  have "split_on CHR ''/'' (''releases'' @ CHR ''/'' # d) = [''releases'', d]"
    using d(2) by (subst split_on_append) (simp_all add: split_on_no_sep_single)
  moreover have "d \<noteq> []" "d \<noteq> ''.''" "d \<noteq> ''..''" using d(1) by auto
  ultimately show ?thesis
    using assms by (simp add: link_digest_def path_components_def component_of_def)
qed

lemma map_of_without_key: "map_of (without_key key xs) k = (if k = key then None else map_of xs k)"
  by (induction xs) (auto simp: without_key_def)

lemma map_of_moved_key:
  "new \<notin> fst ` set ys \<Longrightarrow> old \<noteq> new \<Longrightarrow>
   map_of (map (\<lambda>(k, v). (if k = old then new else k, v)) ys) k =
     (if k = new then map_of ys old else if k = old then None else map_of ys k)"
proof (induction ys)
  case (Cons y ys)
  have y: "fst y \<noteq> new" "new \<notin> fst ` set ys" using Cons.prems by auto
  show ?case
    using Cons.IH [OF y(2) Cons.prems(2)] y(1)
    by (cases y; cases "k = new"; cases "k = old"; cases "fst y = old") simp_all
qed simp

lemma map_of_rename_key:
  assumes "old \<noteq> new"
  shows "map_of (rename_key old new xs) k =
    (if k = new then map_of xs old else if k = old then None else map_of xs k)"
proof -
  have "new \<notin> fst ` set (without_key new xs)" by (auto simp: without_key_def)
  then show ?thesis using assms by (simp add: rename_key_def map_of_moved_key map_of_without_key)
qed

definition temporary_key :: "path_key \<Rightarrow> bool" where
  "temporary_key k \<longleftrightarrow> k \<noteq> [] \<and> starts_with ''.link-'' (component_text (last k))"

definition agree :: "(path_key \<times> release_link) list \<Rightarrow> (path_key \<times> release_link) list \<Rightarrow> bool" where
  "agree L ls \<longleftrightarrow> (\<forall>k. \<not> temporary_key k \<longrightarrow> map_of ls k = map_of L k)"

definition pointed ::
  "path_key \<Rightarrow> evidence_digest \<Rightarrow> nat \<Rightarrow> (path_key \<times> release_link) list \<Rightarrow>
   (path_key \<times> release_link) list \<Rightarrow> bool" where
  "pointed link d uid L ls \<longleftrightarrow>
     (\<forall>k. \<not> temporary_key k \<longrightarrow> k \<noteq> link \<longrightarrow> map_of ls k = map_of L k) \<and>
     map_of ls link = Some \<lparr>rl_is_symlink = True, rl_uid = uid, rl_target = ''releases/'' @ d\<rparr> \<and>
     evidence_digest_validate d"

definition linked ::
  "path_key \<Rightarrow> string \<Rightarrow> (path_key \<times> release_link) list \<Rightarrow> (path_key \<times> release_link) list \<Rightarrow> bool" where
  "linked t target L ls \<longleftrightarrow>
     agree L ls \<and> (\<exists>l. map_of ls t = Some l \<and> rl_target l = target \<and> rl_is_symlink l)"

text \<open>A call that leaves \<open>g\<close> alone, in front of others.\<close>

lemma frames_first:
  assumes "frames g m" "\<And>x. io_triple (\<lambda>s. P (g s)) (f x) Q E" "\<And>e s. P (g s) \<Longrightarrow> E e s"
  shows "io_triple (\<lambda>s. P (g s)) (io_bind m f) Q E"
  by (rule io_triple_bind [OF io_triple_weaken [OF frames_triple [OF assms(1), of P]] assms(2)])
    (simp_all add: assms(3))

lemma ensure_first:
  assumes "b \<Longrightarrow> io_triple P (f ()) Q E" "\<And>s. P s \<Longrightarrow> E e s"
  shows "io_triple P (io_bind (io_ensure b e) f) Q E"
proof (rule io_triple_bind [where R = "\<lambda>_ s. b \<and> P s"])
  show "io_triple P (io_ensure b e) (\<lambda>_ s. b \<and> P s) E"
    by (rule io_triple_ensure) (simp_all add: assms(2))
  show "io_triple (\<lambda>s. b \<and> P s) (f x) Q E" for x
    by (rule io_triple_assume) (cases x, simp add: assms(1))
qed

lemma os_call_cases: "os_call s = (r, s') \<Longrightarrow> \<exists>fs. s' = s\<lparr>in_faults := fs\<rparr>"
  by (cases "in_faults s")
    (auto simp: os_call_def split: if_splits intro: exI [of _ "in_faults s"] exI [of _ "tl (in_faults s)"])

lemma os_read_Inr:
  "os_read q s = (Inr x, s') \<Longrightarrow> \<exists>fs. s' = s\<lparr>in_faults := fs\<rparr> \<and> q s' = Some x"
  by (auto simp: os_read_def io_bind_Inr io_defs ok_or_def split: option.splits dest!: os_call_cases)

lemma symlink_rule:
  assumes "temporary_key t"
  shows "io_triple (\<lambda>s. agree L (in_links s)) (symlink target t)
    (\<lambda>_ s. linked t target L (in_links s)) (\<lambda>_ s. agree L (in_links s))"
proof (rule io_tripleI)
  fix s e s' assume "agree L (in_links s)" "symlink target t s = (Inl e, s')"
  then show "agree L (in_links s')"
    by (auto simp: symlink_def io_bind_Inl io_defs split: if_splits dest!: os_call_cases)
next
  fix s x s' assume "agree L (in_links s)" "symlink target t s = (Inr x, s')"
  then show "linked t target L (in_links s')"
    using assms
    by (auto simp: linked_def symlink_def io_bind_Inr io_defs agree_def map_add_def
        split: if_splits option.splits dest!: os_call_cases)
qed

lemma remove_link_keeps: "temporary_key t \<Longrightarrow> io_keeps (\<lambda>s. agree L (in_links s)) (remove_link t)"
  unfolding remove_link_def os_write_def
  by (rule frames_first [OF frames_call(1)], rule io_triple_modify)
    (auto simp: agree_def map_of_without_key)

lemma io_triple_on_error:
  assumes "io_triple P m Q E'" "\<And>e. io_triple (E' e) cleanup (\<lambda>_. E e) (\<lambda>_. E e)"
  shows "io_triple P (io_on_error m cleanup) Q E"
proof (rule io_tripleI)
  fix s x s' assume "P s" "io_on_error m cleanup s = (Inr x, s')"
  then have "m s = (Inr x, s')" by (auto simp: io_on_error_def split: prod.splits sum.splits)
  then show "Q x s'" by (rule io_tripleD_ok [OF assms(1) \<open>P s\<close>])
next
  fix s e s' assume "P s" "io_on_error m cleanup s = (Inl e, s')"
  then obtain t where t: "m s = (Inl e, t)" "s' = snd (cleanup t)"
    by (auto simp: io_on_error_def split: prod.splits sum.splits)
  obtain r where r: "cleanup t = (r, s')" using t(2) by (cases "cleanup t") simp
  note E' = io_tripleD_err [OF assms(1) \<open>P s\<close> t(1)]
  show "E e s'"
    using io_tripleD_ok [OF assms(2) E'] io_tripleD_err [OF assms(2) E'] r by (cases r) auto
qed

lemma io_triple_ignore:
  assumes "io_triple P m (\<lambda>_. Q) (\<lambda>_. Q)"
  shows "io_triple P (io_ignore m) (\<lambda>_. Q) E"
proof (rule io_tripleI)
  fix s x s' assume s: "P s" "io_ignore m s = (Inr x, s')"
  obtain r where "m s = (r, s')" using s(2) by (cases "m s") (simp add: io_ignore_def)
  then show "Q s'"
    using io_tripleD_ok [OF assms s(1)] io_tripleD_err [OF assms s(1)] by (cases r) auto
qed (simp add: io_ignore_def)

lemma os_read_triple:
  assumes "\<And>s fs. P s \<Longrightarrow> P (s\<lparr>in_faults := fs\<rparr>)"
  shows "io_triple P (os_read q) (\<lambda>x s. P s \<and> q s = Some x) (\<lambda>_. P)"
proof (rule io_tripleI)
  fix s e s' assume "P s" "os_read q s = (Inl e, s')"
  then show "P s'"
    by (auto simp: os_read_def io_bind_Inl io_defs dest!: os_call_cases intro: assms)
qed (auto dest!: os_read_Inr intro: assms)

text \<open>The last steps of a switch: the new link is checked and renamed over the pointer.\<close>

lemma rename_link_rule:
  assumes t: "temporary_key t" and link: "\<not> temporary_key link" and d: "evidence_digest_validate d"
  shows "io_triple
    (\<lambda>s. linked t (''releases/'' @ d) L (in_links s))
    (io_bind (os_read (\<lambda>s. map_of (in_links s) t)) (\<lambda>l.
      if \<not> rl_is_symlink l \<or> rl_uid l \<noteq> uid then
        io_bind (io_ignore (remove_link t)) (\<lambda>_. io_fail UnsafeReleasePointer)
      else io_bind (io_on_error
          (os_write (\<lambda>s. s\<lparr>in_links := rename_key t link (in_links s)\<rparr>))
          (remove_link t)) (\<lambda>_. os_call)))
    (\<lambda>_ s. pointed link d uid L (in_links s))
    (\<lambda>_ s. agree L (in_links s) \<or> pointed link d uid L (in_links s))"
    (is "io_triple ?A _ (\<lambda>_. ?D) (\<lambda>_. ?E)")
proof (rule io_triple_bind)
  have "io_triple ?A (os_read (\<lambda>s. map_of (in_links s) t))
      (\<lambda>l s. ?A s \<and> map_of (in_links s) t = Some l) (\<lambda>_. ?A)"
    by (rule os_read_triple) simp
  then show "io_triple ?A (os_read (\<lambda>s. map_of (in_links s) t))
      (\<lambda>l s. ?A s \<and> map_of (in_links s) t = Some l) (\<lambda>_. ?E)"
    by (rule io_triple_weaken) (auto simp: linked_def)
next
  fix l
  let ?B = "\<lambda>s. ?A s \<and> map_of (in_links s) t = Some l"
  show "io_triple ?B
    (if \<not> rl_is_symlink l \<or> rl_uid l \<noteq> uid then
        io_bind (io_ignore (remove_link t)) (\<lambda>_. io_fail UnsafeReleasePointer)
      else io_bind (io_on_error
          (os_write (\<lambda>s. s\<lparr>in_links := rename_key t link (in_links s)\<rparr>))
          (remove_link t)) (\<lambda>_. os_call)) (\<lambda>_. ?D) (\<lambda>_. ?E)"
  proof (rule io_triple_if)
    show "io_triple ?B (io_bind (io_ignore (remove_link t)) (\<lambda>_. io_fail UnsafeReleasePointer))
        (\<lambda>_. ?D) (\<lambda>_. ?E)"
    proof (rule io_triple_bind, rule io_triple_ignore)
      show "io_triple ?B (remove_link t) (\<lambda>_ s. agree L (in_links s)) (\<lambda>_ s. agree L (in_links s))"
        by (rule io_triple_weaken [OF remove_link_keeps [OF t, of L]]) (simp_all add: linked_def)
    qed (simp add: io_triple_fail)
  next
    assume l: "\<not> (\<not> rl_is_symlink l \<or> rl_uid l \<noteq> uid)"
    let ?C = "\<lambda>ls. agree L ls \<and> map_of ls t = Some l \<and> rl_target l = ''releases/'' @ d"
    have renamed: "pointed link d uid L (rename_key t link ls)"
      if "agree L ls" "map_of ls t = Some l" "rl_target l = ''releases/'' @ d" for ls
    proof -
      have "t \<noteq> link" using t link by auto
      note rename = map_of_rename_key [OF this]
      have "map_of (rename_key t link ls) k = map_of L k" if "\<not> temporary_key k" "k \<noteq> link" for k
        using that \<open>agree L ls\<close> t by (auto simp: rename agree_def)
      moreover have "l = \<lparr>rl_is_symlink = True, rl_uid = uid, rl_target = ''releases/'' @ d\<rparr>"
        using l that(3) by simp
      ultimately show ?thesis using that(2) d by (simp add: pointed_def rename)
    qed
    have "io_triple ?B (os_write (\<lambda>s. s\<lparr>in_links := rename_key t link (in_links s)\<rparr>))
        (\<lambda>_. ?D) (\<lambda>_ s. agree L (in_links s))"
      unfolding os_write_def
    proof (rule io_triple_weaken [where P' = "\<lambda>s. ?C (in_links s)"], rule frames_first [OF frames_call(1)])
      show "io_triple (\<lambda>s. ?C (in_links s))
          (io_modify (\<lambda>s. s\<lparr>in_links := rename_key t link (in_links s)\<rparr>)) (\<lambda>_. ?D)
          (\<lambda>_ s. agree L (in_links s))"
        by (rule io_triple_modify) (simp add: renamed)
    qed (auto simp: linked_def)
    then have "io_triple ?B (io_on_error
          (os_write (\<lambda>s. s\<lparr>in_links := rename_key t link (in_links s)\<rparr>)) (remove_link t))
        (\<lambda>_. ?D) (\<lambda>_ s. agree L (in_links s))"
      by (rule io_triple_on_error) (rule remove_link_keeps [OF t])
    then have "io_triple ?B (io_on_error
          (os_write (\<lambda>s. s\<lparr>in_links := rename_key t link (in_links s)\<rparr>)) (remove_link t))
        (\<lambda>_. ?D) (\<lambda>_. ?E)"
      by (rule io_triple_weaken) simp_all
    then show "io_triple ?B (io_bind (io_on_error
          (os_write (\<lambda>s. s\<lparr>in_links := rename_key t link (in_links s)\<rparr>))
          (remove_link t)) (\<lambda>_. os_call)) (\<lambda>_. ?D) (\<lambda>_. ?E)"
      by (rule io_triple_bind)
        (rule io_triple_weaken [OF frames_triple [OF frames_call(1), of "pointed link d uid L"]], simp_all)
  qed
qed

lemma switch_release_link_rule:
  assumes link: "\<not> temporary_key (path_components link)"
  shows "io_triple (\<lambda>s. agree L (in_links s)) (switch_release_link K link releases d uid)
    (\<lambda>_ s. pointed (path_components link) d uid L (in_links s))
    (\<lambda>_ s. agree L (in_links s) \<or> pointed (path_components link) d uid L (in_links s))"
    (is "io_triple ?A _ (\<lambda>_. ?D) ?E")
  unfolding switch_release_link_def Let_def
proof (rule ensure_first, goal_cases)
  case 1
  have t: "temporary_key (parent @ [Normal (''.link-'' @ name)])" for parent name
    by (simp add: temporary_key_def starts_with_def)
  have new: "frames in_links (runtime_new_v4 K)"
    unfolding runtime_new_v4_def by (intro frame_rules) simp_all
  note first = frames_first [where g = in_links and P = "agree L"]
  have made: "io_triple ?A (symlink (''releases/'' @ d) (parent @ [Normal (''.link-'' @ name)]))
      (\<lambda>_ s. linked (parent @ [Normal (''.link-'' @ name)]) (''releases/'' @ d) L (in_links s)) ?E" for parent name
    by (rule io_triple_weaken [OF symlink_rule [OF t, of L]]) simp_all
  show ?case
    by (rule first [OF frames_basic(3)], rule first [OF frames_reads(2) [OF frames_call(1)]],
        rule first [OF frames_basic(5)], rule first [OF frames_os_read [OF frames_call(1)]],
        rule first [OF frames_basic(5)], rule first [OF new],
        rule io_triple_bind [OF made rename_link_rule [OF t link 1]]) simp_all
qed simp



section \<open>The pointer of the installed platform\<close>

definition current_release :: "runtime_paths \<Rightarrow> 'r installed_state \<Rightarrow> evidence_digest option" where
  "current_release paths s =
     Option.bind (map_of (in_links s) (path_components (rp_current_link paths)))
       (\<lambda>l. link_digest (rl_target l))"

lemma installed_keys:
  "path_components (rp_current_link runtime_paths_installed) =
     [RootDir, Normal ''var'', Normal ''lib'', Normal ''rdashboard-bootstrap'', Normal ''current'']"
  "path_components (rp_last_known_good_link runtime_paths_installed) =
     [RootDir, Normal ''var'', Normal ''lib'', Normal ''rdashboard-bootstrap'', Normal ''last-known-good'']"
  by (simp_all add: runtime_paths_installed_def path_components_def component_of_def)

lemma installed_not_temporary:
  "\<not> temporary_key (path_components (rp_current_link runtime_paths_installed))"
  "\<not> temporary_key (path_components (rp_last_known_good_link runtime_paths_installed))"
  by (simp_all add: installed_keys temporary_key_def starts_with_def)

lemma installed_distinct:
  "path_components (rp_current_link runtime_paths_installed) \<noteq>
   path_components (rp_last_known_good_link runtime_paths_installed)"
  by (simp add: installed_keys)

lemma current_release_agree:
  "agree (in_links s) (in_links s') \<Longrightarrow>
   current_release runtime_paths_installed s' = current_release runtime_paths_installed s"
  by (simp add: current_release_def agree_def installed_not_temporary)

lemma current_release_pointed:
  "pointed (path_components (rp_current_link runtime_paths_installed)) d uid L (in_links s) \<Longrightarrow>
   current_release runtime_paths_installed s = Some d"
  by (auto simp add: current_release_def pointed_def link_digest_release [simplified])

lemma current_release_other:
  "pointed (path_components (rp_last_known_good_link runtime_paths_installed)) d uid (in_links s) (in_links s') \<Longrightarrow>
   current_release runtime_paths_installed s' = current_release runtime_paths_installed s"
  using installed_not_temporary(1) installed_distinct by (auto simp: current_release_def pointed_def)

lemma frames_current: "frames in_links m \<Longrightarrow> frames (current_release paths) m"
  by (simp add: frames_def current_release_def)

lemma switch_current:
  assumes "switch_release_link K (rp_current_link runtime_paths_installed) releases d uid s = (r, s')"
  shows "current_release runtime_paths_installed s' = current_release runtime_paths_installed s \<or>
     current_release runtime_paths_installed s' = Some d"
    and "r = Inr x \<Longrightarrow> current_release runtime_paths_installed s' = Some d"
proof -
  note rule = switch_release_link_rule [OF installed_not_temporary(1), of "in_links s" K releases d uid]
  have start: "agree (in_links s) (in_links s)" by (simp add: agree_def)
  show "r = Inr x \<Longrightarrow> current_release runtime_paths_installed s' = Some d"
    using io_tripleD_ok [OF rule start] assms by (auto intro: current_release_pointed)
  show "current_release runtime_paths_installed s' = current_release runtime_paths_installed s \<or>
     current_release runtime_paths_installed s' = Some d"
    using io_tripleD_ok [OF rule start] io_tripleD_err [OF rule start] assms
    by (cases r) (auto dest: current_release_pointed current_release_agree)
qed

lemma switch_last_known_good:
  assumes "switch_release_link K (rp_last_known_good_link runtime_paths_installed) releases d uid s = (r, s')"
  shows "current_release runtime_paths_installed s' = current_release runtime_paths_installed s"
proof -
  note rule = switch_release_link_rule [OF installed_not_temporary(2), of "in_links s" K releases d uid]
  have start: "agree (in_links s) (in_links s)" by (simp add: agree_def)
  show ?thesis
    using io_tripleD_ok [OF rule start] io_tripleD_err [OF rule start] assms
    by (cases r) (auto dest: current_release_other current_release_agree)
qed

lemma active_release_checked_ok:
  assumes "active_release_checked paths uid s = (Inr d, s')"
  shows "current_release paths s = Some d"
  using assms
  by (auto simp: active_release_checked_def read_release_link_def io_bind_Inr io_defs current_release_def
      ok_or_def split: if_splits option.splits dest!: os_read_Inr)

text \<open>
  An operation that moves a part of the state, if at all, to the value \<open>v\<close>; an operation after whose
  success it has that value.
\<close>

definition moves :: "('s \<Rightarrow> 'g) \<Rightarrow> 'g \<Rightarrow> ('s, 'e, 'a) io \<Rightarrow> bool" where
  "moves g v m \<longleftrightarrow> (\<forall>s. g (snd (m s)) = g s \<or> g (snd (m s)) = v)"

definition lands :: "('s \<Rightarrow> 'g) \<Rightarrow> 'g \<Rightarrow> ('s, 'e, 'a) io \<Rightarrow> bool" where
  "lands g v m \<longleftrightarrow> (\<forall>s x s'. m s = (Inr x, s') \<longrightarrow> g s' = v)"

lemma moves_after:
  assumes "frames g m" "\<And>x. moves g v (f x)"
  shows "moves g v (io_bind m f)"
  unfolding moves_def
proof
  fix s
  obtain r t where m: "m s = (r, t)" by (cases "m s")
  have t: "g t = g s" by (rule framesD [OF assms(1) m])
  show "g (snd (io_bind m f s)) = g s \<or> g (snd (io_bind m f s)) = v"
    using assms(2) t unfolding moves_def io_bind_def m by (cases r) (simp_all, metis)
qed

lemma lands_after: "(\<And>x. lands g v (f x)) \<Longrightarrow> lands g v (io_bind m f)"
  unfolding lands_def by (auto simp: io_bind_Inr)

lemma moves_map_err: "moves g v m \<Longrightarrow> moves g v (io_map_err h m)"
  by (simp add: moves_def io_map_err_def split: prod.split) (metis snd_conv)

lemma lands_map_err: "lands g v m \<Longrightarrow> lands g v (io_map_err h m)"
  unfolding lands_def by (auto simp: io_map_err_def map_err_def split: prod.splits sum.splits)

lemma switch_moves:
  "moves (current_release runtime_paths_installed) (Some d)
     (switch_release_link K (rp_current_link runtime_paths_installed) releases d uid)"
  "lands (current_release runtime_paths_installed) (Some d)
     (switch_release_link K (rp_current_link runtime_paths_installed) releases d uid)"
  unfolding moves_def lands_def using switch_current by (metis prod.collapse)+

lemma restore_moves_current:
  fixes R :: "'r service_runtime"
  shows "moves (current_release runtime_paths_installed) (Some d)
      (restore_release_checked K runtime_paths_installed uid R d b)" (is ?moves)
    and "lands (current_release runtime_paths_installed) (Some d)
      (restore_release_checked K runtime_paths_installed uid R d b)" (is ?lands)
proof -
  have stop: "frames in_links (io_map_err Runtime_Platform (call_services (stop_services R)))"
    by (intro frame_rules) simp
  have restored: "frames in_links (io_each (\<lambda>database.
         io_bind (io_lift (ok_or (find (\<lambda>f. bf_name f = sd_name database) (br_files receipt))
           InvalidBackupReceipt)) (\<lambda>backup.
         restore_database K uid operation database backup (br_operation_id receipt))) ds)"
    for receipt operation ds
    by (intro frame_rules frames_call) simp
  note reads = frames_reads [OF frames_call(1)]
  note after = moves_after [OF frames_current]
  show ?moves
    unfolding restore_release_checked_def
    by (rule after [OF reads(1)], rule after [OF reads(14)])
      (simp split: prod.split, intro allI impI after [OF reads(13)] after [OF stop] after [OF restored] switch_moves)
  show ?lands
    unfolding restore_release_checked_def
    by (intro lands_after) (auto split: prod.split intro!: lands_after switch_moves)
qed

interpretation installed: release_pointer
  "installed_platform K runtime_paths_installed uid R" "current_release runtime_paths_installed"
  for K :: platform_codec and uid :: nat and R :: "'r service_runtime"
proof -
  let ?P = "installed_platform K runtime_paths_installed uid R"
  let ?cur = "current_release runtime_paths_installed :: 'r installed_state \<Rightarrow> _"
  note reads = frames_reads [OF frames_call(1)]
  have call: "frames in_links (call_services m)" for m :: "('r, string, 'b) io"
    by (intro frame_rules) simp
  have keeps: "frames ?cur (active_release ?P)" "frames ?cur (backup_state ?P u d)"
    "frames ?cur (start_release ?P d)" "frames ?cur (release_is_healthy ?P d)" for u d
    unfolding installed_platform_def
    by (simp_all, (intro frames_current frame_rules frames_call call; simp)+)
  have commit: "frames ?cur (commit_release ?P d e)" for d e
    unfolding installed_platform_def
    by (simp, intro frames_bind frames_map_err frames_current [OF reads(16)] frames_current [OF reads(1)])
      (simp add: frames_def switch_last_known_good [OF surjective_pairing])
  have activate: "moves ?cur (Some d) (activate_release ?P d)" "lands ?cur (Some d) (activate_release ?P d)"
    and restore: "moves ?cur (Some d) (restore_release ?P d b)" "lands ?cur (Some d) (restore_release ?P d b)"
    for d b
    unfolding installed_platform_def
    by (simp_all add: moves_map_err lands_map_err restore_moves_current lands_after switch_moves)
      (intro moves_after frames_map_err frames_current call reads(1) moves_map_err switch_moves)+
  show "release_pointer ?P ?cur"
  proof
    fix s d s' assume "active_release ?P s = (Inr d, s')"
    then show "?cur s = Some d"
      by (auto simp: installed_platform_def io_map_err_def map_err_def split: prod.splits sum.splits
          intro: active_release_checked_ok)
  qed (use keeps commit activate restore in \<open>simp_all add: frames_def moves_def lands_def\<close>)
qed

end
