(* ===== verification/Self_Update_Samples.thy ===== *)
theory Self_Update_Samples
  imports Self_Update_Links
begin

text \<open>
  A concrete machine for the properties of the self-update: encoders for the records of one update,
  an empty journal, and an installed release whose \<open>current\<close> pointer is in place.
\<close>

definition trial_candidate :: evidence_digest where
  "trial_candidate = replicate 64 CHR ''a''"

definition trial_previous :: evidence_digest where
  "trial_previous = replicate 64 CHR ''b''"

definition trial_sha :: "string \<Rightarrow> string" where
  "trial_sha bytes = replicate 32 CHR 0x00"

definition trial_begun :: self_update_record where
  "trial_begun =
     \<lparr>sr_purpose = self_update_record_purpose,
      sr_schema_version = self_update_record_schema_version, sr_operation_id = 1,
      sr_candidate_release_digest = trial_candidate, sr_previous_release_digest = trial_previous,
      sr_phase = BackupPending, sr_backup_receipt_digest = None, sr_failure_reason = None,
      sr_begun_at_ms = 5, sr_updated_at_ms = 5,
      sr_document_digest = evidence_digest_sha256 trial_sha []\<rparr>"

definition trial_failed :: self_update_record where
  "trial_failed =
     trial_begun\<lparr>sr_phase := NeedsReconcile, sr_failure_reason := Some ''active_release_changed''\<rparr>"

definition trial_codec :: update_codec where
  "trial_codec =
     \<lparr>uc_payload_jcs = (\<lambda>_. Inr []),
      uc_record_jcs = (\<lambda>r. if r = trial_begun then Inr ''b'' else if r = trial_failed then Inr ''f''
        else Inl Serde_error),
      uc_record_json = (\<lambda>b. if b = ''b'' then Inr trial_begun else if b = ''f'' then Inr trial_failed
        else Inl Serde_error),
      uc_sha = trial_sha, uc_uuid_text = (\<lambda>u. replicate u CHR ''a''),
      uc_parse_uuid = (\<lambda>t. Some (length t)), uc_new_v4 = Suc\<rparr>"

definition trial_journal :: journal_root where
  "trial_journal =
     \<lparr>jr_is_dir = True, jr_uid = 0, jr_mode = 448, jr_same_inode = True, jr_locked = True,
      jr_files = [], jr_euid = 0, jr_drawn = 0, jr_faults = []\<rparr>"

lemma trial_codec_laws: "codec_laws trial_codec"
  by (auto simp: codec_laws_def trial_codec_def reads_back_def uuid_text_laws_def record_fits_def
      max_descriptor_bytes_def list_all_iff is_ascii_alphanumeric_def is_ascii_lowercase_def byte_def
      split: if_splits)

lemma trial_reachable: "journal_reachable trial_codec 0 trial_journal"
  by (rule journal_reachable.empty) (simp_all add: trial_journal_def)

lemma trial_digests:
  "evidence_digest_validate trial_previous" "evidence_digest_validate trial_candidate"
  "trial_candidate \<noteq> trial_previous"
  by (simp_all add: trial_previous_def trial_candidate_def evidence_digest_validate_def list_all_iff
      is_lower_hex_def byte_def is_ascii_digit_def)

lemma trial_record_begin: "record_begin trial_codec 1 trial_candidate trial_previous 5 = Inr trial_begun"
  by (simp add: record_begin_def record_validate_def record_shape_def trial_digests is_nil_def
      record_calculate_digest_def seal_def trial_codec_def map_err_def bind_res_def ensure_def
      record_payload_def trial_begun_def)

lemma trial_canonical: "record_canonical_bytes trial_codec trial_begun = Inr ''b''"
  "record_validate trial_codec trial_begun = Inr ()"
  using record_begin_Inr(1) [OF trial_record_begin]
  by (simp_all add: record_canonical_bytes_def bind_res_def map_err_def trial_codec_def)

definition trial_begun_journal :: journal_root where
  "trial_begun_journal =
     trial_journal\<lparr>jr_drawn := 2, jr_files :=
       [\<lparr>jf_name = ''a.jcs'', jf_regular = True, jf_links = 1, jf_uid = 0, jf_mode = 256,
         jf_bytes = ''b''\<rparr>]\<rparr>"

lemmas trial_journal_evals = load_records_def revalidate_root_def validate_directory_def sys_def
  io_bind_def io_defs active_record_def removable_records_def max_self_update_records_def
  new_v4_def publish_record_def path_exists_def find_file_def temporary_name_def record_name_def
  create_new_file_def change_file_def rename_file_def symlink_metadata_def ok_or_def update_where_def
  io_when_def trial_canonical trial_record_begin

lemma trial_journal_begin:
  "journal_begin trial_codec 0 trial_candidate trial_previous 5 trial_journal =
     (Inr trial_begun, trial_begun_journal)"
proof -
  have codec: "uc_new_v4 trial_codec n = Suc n" "uc_uuid_text trial_codec n = replicate n CHR ''a''" for n
    by (simp_all add: trial_codec_def)
  have begun: "sr_operation_id trial_begun = 1" by (simp add: trial_begun_def)
  show ?thesis
    by (simp add: journal_begin_def trial_journal_evals trial_journal_def trial_begun_journal_def codec begun
        trial_record_begin [simplified] is_ok_def Let_def eval_nat_numeral)
qed

lemma trial_held: "held trial_codec trial_begun_journal = [trial_begun]"
  using trial_canonical
  by (simp add: held_def trial_begun_journal_def record_of_def map_filter_simps is_temporary_name_def
      starts_with_def record_decode_encoded [OF trial_codec_laws])

lemma trial_journal_active: "journal_active trial_codec 0 trial_journal = (Inr None, trial_journal)"
  by (simp add: journal_active_def trial_journal_evals trial_journal_def)


text \<open>The pointer was changed by hand: the update ends in \<open>NeedsReconcile\<close>, without a backup.\<close>

lemma trial_failed_valid: "record_validate trial_codec trial_failed = Inr ()"
  by (simp add: record_validate_def record_shape_def trial_digests is_nil_def
      record_calculate_digest_def seal_def trial_codec_def map_err_def bind_res_def ensure_def
      record_payload_def trial_begun_def trial_failed_def valid_reason_code_def first_is_def last_is_def
      is_ascii_lowercase_def byte_def)

lemma trial_transitioned:
  "record_transitioned trial_codec trial_begun NeedsReconcile None (Some ''active_release_changed'') 5 =
     Inr trial_failed"
proof -
  have digest: "record_calculate_digest trial_codec r = Inr (evidence_digest_sha256 trial_sha [])" for r
    by (simp add: record_calculate_digest_def seal_def trial_codec_def map_err_def bind_res_def)
  have begun: "sr_phase trial_begun = BackupPending" "sr_updated_at_ms trial_begun = 5"
    by (simp_all add: trial_begun_def)
  have failed: "trial_begun\<lparr>sr_phase := NeedsReconcile, sr_backup_receipt_digest := None,
      sr_failure_reason := Some ''active_release_changed'', sr_updated_at_ms := 5,
      sr_document_digest := evidence_digest_sha256 trial_sha []\<rparr> = trial_failed"
    by (simp add: trial_begun_def trial_failed_def)
  show ?thesis
    by (simp add: record_transitioned_def trial_canonical bind_res_def valid_phase_transition_def begun
        digest failed [simplified] trial_failed_valid is_terminal_def)
qed

definition trial_failed_journal :: journal_root where
  "trial_failed_journal =
     trial_begun_journal\<lparr>jr_drawn := 3, jr_files :=
       [\<lparr>jf_name = ''a.jcs'', jf_regular = True, jf_links = 1, jf_uid = 0, jf_mode = 256,
         jf_bytes = ''f''\<rparr>]\<rparr>"

lemma trial_load:
  "load_records trial_codec 0 trial_begun_journal = (Inr [(1, trial_begun)], trial_begun_journal)"
proof -
  have decode: "record_decode_canonical trial_codec ''b'' = Inr trial_begun"
    by (rule record_decode_encoded [OF trial_codec_laws trial_canonical(1)])
  have parse: "uc_parse_uuid trial_codec ''a'' = Some 1" by (simp add: trial_codec_def)
  have begun: "sr_phase trial_begun = BackupPending" "sr_operation_id trial_begun = 1"
    by (simp_all add: trial_begun_def)
  have name: "strip_suffix ''.jcs'' ''a.jcs'' = Some ''a''" "is_utf8 ''a.jcs''"
    by (simp_all add: strip_suffix_def ascii_is_utf8 byte_def)
  let ?f = "\<lparr>jf_name = ''a.jcs'', jf_regular = True, jf_links = 1, jf_uid = 0, jf_mode = 256, jf_bytes = ''b''\<rparr>"
  have files: "jr_files trial_begun_journal = [?f]" by (simp add: trial_begun_journal_def)
  have sys: "sys trial_begun_journal = (Inr (), trial_begun_journal)"
    by (simp add: sys_def trial_begun_journal_def trial_journal_def)
  have root: "revalidate_root 0 trial_begun_journal = (Inr (), trial_begun_journal)"
    by (simp add: revalidate_root_def validate_directory_def io_bind_def io_defs sys)
      (simp add: trial_begun_journal_def trial_journal_def)
  have read: "read_stable_owner_file 0 256 max_descriptor_bytes ''a.jcs'' trial_begun_journal = (Inr ''b'', trial_begun_journal)"
    by (simp add: read_stable_owner_file_def symlink_metadata_def io_bind_def io_defs sys find_file_def files ok_or_def max_descriptor_bytes_def)
  have entries: "load_entries trial_codec 0 [?f] [] trial_begun_journal = (Inr [(1, trial_begun)], trial_begun_journal)"
    using name by (simp add: is_temporary_name_def starts_with_def parse [simplified] decode begun io_bind_def io_defs read del: is_utf8.simps)
  show ?thesis
    by (simp add: load_records_def io_bind_def io_defs sys root files entries [unfolded One_nat_def]
        active_record_def max_self_update_records_def begun is_terminal_def del: load_entries.simps)
qed

lemma trial_journal_transition:
  "journal_transition trial_codec 0 trial_begun NeedsReconcile None (Some ''active_release_changed'') 5
     trial_begun_journal = (Inr trial_failed, trial_failed_journal)"
proof -
  have codec: "uc_new_v4 trial_codec n = Suc n" "uc_uuid_text trial_codec n = replicate n CHR ''a''" for n
    by (simp_all add: trial_codec_def)
  have begun: "sr_operation_id trial_begun = 1" "sr_phase trial_begun = BackupPending"
    "sr_operation_id trial_failed = 1"
    by (simp_all add: trial_begun_def trial_failed_def)
  have bytes: "record_canonical_bytes trial_codec trial_failed = Inr ''f''"
    using trial_failed_valid
    by (simp add: record_canonical_bytes_def bind_res_def map_err_def trial_codec_def trial_failed_def trial_begun_def)
  show ?thesis
    unfolding journal_transition_def io_bind_def [of "load_records trial_codec 0"] trial_load
    by (simp add: trial_journal_evals begun trial_transitioned is_terminal_def trial_failed_valid bytes codec
        trial_begun_journal_def trial_journal_def trial_failed_journal_def Let_def eval_nat_numeral is_ok_def
        validate_owner_file_def)
qed


lemma trial_failed_held: "held trial_codec trial_failed_journal = [trial_failed]"
proof -
  have "record_canonical_bytes trial_codec trial_failed = Inr ''f''"
    using trial_failed_valid
    by (simp add: record_canonical_bytes_def bind_res_def map_err_def trial_codec_def trial_failed_def trial_begun_def)
  then show ?thesis
    by (simp add: held_def trial_failed_journal_def record_of_def map_filter_simps is_temporary_name_def
        starts_with_def record_decode_encoded [OF trial_codec_laws])
qed


section \<open>An installed release\<close>

definition trial_platform_codec :: platform_codec where
  "trial_platform_codec =
     \<lparr>pc_payload_jcs = (\<lambda>_. Inr []), pc_receipt_jcs = (\<lambda>_. Inl Serde_error),
      pc_receipt_json = (\<lambda>_. Inl Serde_error), pc_sha = trial_sha,
      pc_uuid_text = (\<lambda>u. replicate u CHR ''a''), pc_parse_uuid = (\<lambda>t. Some (length t)),
      pc_new_v4 = Suc, pc_sqlite_backup = (\<lambda>_ _. None), pc_sqlite_integrity = (\<lambda>_. True)\<rparr>"

definition trial_services :: "unit service_runtime" where
  "trial_services =
     \<lparr>stop_services = io_return (), start_services = io_return (),
      services_are_healthy = io_return True\<rparr>"

definition trial_link :: release_link where
  "trial_link = \<lparr>rl_is_symlink = True, rl_uid = 0, rl_target = ''releases/'' @ trial_previous\<rparr>"

definition trial_installed :: "unit installed_state" where
  "trial_installed =
     \<lparr>in_directories = (\<lambda>_. None),
      in_links = [(path_components (rp_current_link runtime_paths_installed), trial_link)],
      in_staged = (\<lambda>_. True), in_backups = [], in_files = (\<lambda>_. None), in_services = (),
      in_euid = 0, in_egid = 0, in_drawn = 0, in_faults = []\<rparr>"

abbreviation trial_platform :: "unit installed_state self_update_platform" where
  "trial_platform \<equiv> installed_platform trial_platform_codec runtime_paths_installed 0 trial_services"

lemma trial_current: "current_release runtime_paths_installed trial_installed = Some trial_previous"
  by (simp add: current_release_def trial_installed_def trial_link_def
      link_digest_release [OF trial_digests(1), simplified])

lemma trial_active_release: "active_release trial_platform trial_installed = (Inr trial_previous, trial_installed)"
proof -
  have "path_parent (rp_current_link runtime_paths_installed) = path_parent (rp_releases runtime_paths_installed)"
    by (simp add: path_parent_def runtime_paths_installed_def path_components_def component_of_def)
  then show ?thesis
    by (simp add: installed_platform_def active_release_checked_def read_release_link_def io_bind_def
        io_defs os_read_def os_call_def io_map_err_def trial_installed_def trial_link_def ok_or_def
        map_err_def verify_staged_def link_digest_release [OF trial_digests(1), simplified])
qed

text \<open>No database is there, so the backup of the first one fails.\<close>

lemma backup_needs_database:
  assumes "backup_database K uid operation d s = (Inr f, s')"
  shows "in_files s (path_components (sd_path d)) \<noteq> None"
  using assms
  by (auto simp: backup_database_def validate_database_source_def Let_def io_bind_Inr io_defs
      split: if_splits dest!: os_read_Inr)

lemma trial_backup: "fst (backup_state trial_platform u d trial_installed) = Inl ''state_backup_failed''"
proof -
  obtain first others where ds: "rp_databases runtime_paths_installed = first # others"
    by (simp add: runtime_paths_installed_def installed_state_databases_def)
  have absent: "os_exists (backup_meta operation) trial_installed = (Inr False, trial_installed)" for operation
    by (simp add: os_exists_def os_read_def os_call_def io_defs io_bind_def ok_or_def backup_meta_def
        trial_installed_def)
  have done_write: "os_write f s = (Inr (), f s)" if "in_faults s = []" for f and s :: "unit installed_state"
    using that by (simp add: os_write_def os_call_def io_bind_def io_defs)
  have "\<nexists>x s'. create_backup trial_platform_codec runtime_paths_installed 0 u d trial_installed = (Inr x, s')"
    by (auto simp: create_backup_def write_backup_def Let_def io_bind_Inr done_write io_defs trial_installed_def
        update_backup_def io_on_error_def ds dest!: backup_needs_database
        split: prod.splits sum.splits if_splits)
  then have "\<nexists>x s'. backup_state_checked trial_platform_codec runtime_paths_installed 0 u d trial_installed = (Inr x, s')"
    by (simp add: backup_state_checked_def Let_def io_bind_Inr absent)
  then show ?thesis
    by (cases "backup_state_checked trial_platform_codec runtime_paths_installed 0 u d trial_installed")
      (auto simp: installed_platform_def io_map_err_def map_err_def split: sum.split)
qed

definition trial_world :: "unit installed_state update_world" where
  "trial_world = \<lparr>uw_journal = trial_journal, uw_platform = trial_installed\<rparr>"

lemma trial_apply:
  "uw_journal (snd (apply_update trial_codec 0 trial_platform trial_candidate 5 trial_world)) = trial_begun_journal"
proof -
  obtain s where s: "backup_state trial_platform 1 trial_candidate trial_installed = (Inl ''state_backup_failed'', s)"
    using trial_backup [of 1 trial_candidate]
    by (cases "backup_state trial_platform 1 trial_candidate trial_installed") simp
  have begun: "sr_phase trial_begun = BackupPending" "sr_operation_id trial_begun = 1"
    "sr_candidate_release_digest trial_begun = trial_candidate"
    "sr_previous_release_digest trial_begun = trial_previous"
    by (simp_all add: trial_begun_def)
  show ?thesis
    by (simp add: apply_update_def in_journal_def on_platform_def io_zoom_def io_bind_def io_map_err_def
        map_err_def trial_world_def trial_journal_active trial_active_release trial_journal_begin
        numeral_eq_Suc advance_def begun s [simplified])
qed

end
