(* ===== verification/Self_Update_Install.thy ===== *)
theory Self_Update_Install
  imports Self_Update_Samples
begin

text \<open>
  What the first installation leaves on the machine, on success and on every failure: the order in
  which the two pointers appear.
\<close>

section \<open>Initial pointers\<close>

definition names_release :: "string \<Rightarrow> evidence_digest \<Rightarrow> (path_key \<times> release_link) list \<Rightarrow> bool" where
  "names_release link d ls \<longleftrightarrow>
     Option.bind (map_of ls (path_components link)) (\<lambda>l. link_digest (rl_target l)) = Some d"

lemma reconcile_link_entries_keeps:
  "list_all (\<lambda>(path, _). path \<noteq> []) entries \<Longrightarrow>
   io_keeps (\<lambda>s :: 'r installed_state. agree L (in_links s)) (reconcile_link_entries K root uid entries)"
proof (induction entries)
  case (Cons entry entries)
  obtain path l where entry: "entry = (path, l)" by (cases entry)
  then have path: "path \<noteq> []" and IH: "io_keeps (\<lambda>s :: 'r installed_state. agree L (in_links s)) (reconcile_link_entries K root uid entries)"
    using Cons by simp_all
  note first = frames_first [where g = in_links and P = "agree L", OF frames_call(1)]
    ensure_first [where P = "\<lambda>s. agree L (in_links s)"]
  show ?case
  proof (cases "strip_prefix ''.link-'' (component_text (last path))")
    case None
    show ?thesis
      unfolding entry reconcile_link_entries.simps Let_def None option.case
      by (rule first(1), rule first(2), rule IH) simp_all
  next
    case (Some name)
    then have "temporary_key path"
      using path by (simp add: temporary_key_def strip_prefix_def starts_with_def split: if_splits)
    note remove = remove_link_keeps [OF this, of L]
    have rest: "io_keeps (\<lambda>s :: 'r installed_state. agree L (in_links s))
        (io_bind (reconcile_link_entries K root uid entries) (\<lambda>_. io_return True))"
      by (rule io_triple_bind [OF IH]) (simp add: io_triple_return)
    have removed: "io_keeps (\<lambda>s :: 'r installed_state. agree L (in_links s)) (io_bind (remove_link path) (\<lambda>_.
        io_bind (reconcile_link_entries K root uid entries) (\<lambda>_. io_return True)))"
      by (rule io_triple_bind [OF remove rest])
    show ?thesis
      unfolding entry reconcile_link_entries.simps Let_def Some option.case
      by (rule first(1), rule first(2), rule first(2), rule first(1), rule first(2), rule first(1),
          rule first(2), rule removed) simp_all
  qed
qed (simp add: io_triple_return)

lemma reconcile_links_keep:
  "io_keeps (\<lambda>s :: 'r installed_state. agree L (in_links s)) (reconcile_release_link_temporaries K root uid)"
proof -
  note first = frames_first [where g = in_links and P = "agree L"]
  have finish: "io_keeps (\<lambda>s :: 'r installed_state. agree L (in_links s)) (io_when b os_call)" for b
    by (rule io_triple_when, rule frames_triple [OF frames_call(1), of "agree L"]) simp
  have "io_keeps (\<lambda>s :: 'r installed_state. agree L (in_links s))
      (io_bind (reconcile_link_entries K root uid (filter (\<lambda>(path, _). path \<noteq> [] \<and> butlast path = root) entries))
        (\<lambda>removed. io_when removed os_call))" for entries
    by (rule io_triple_bind [OF reconcile_link_entries_keeps finish]) (auto simp: list_all_iff)
  then have "io_keeps (\<lambda>s :: 'r installed_state. agree L (in_links s))
      (io_bind (io_get (\<lambda>s. filter (\<lambda>(path, _). path \<noteq> [] \<and> butlast path = root) (in_links s))) (\<lambda>entries.
       io_bind (reconcile_link_entries K root uid entries) (\<lambda>removed. io_when removed os_call)))"
    unfolding io_triple_def io_bind_def [of "io_get _"] io_get_def by simp
  then show ?thesis
    unfolding reconcile_release_link_temporaries_def by (rule first [OF frames_call(1)]) simp
qed

text \<open>The pointers while they are initialised: \<open>current\<close> only together with its rollback target.\<close>

definition guarded :: "runtime_paths \<Rightarrow> evidence_digest \<Rightarrow> (path_key \<times> release_link) list \<Rightarrow> bool" where
  "guarded paths d ls \<longleftrightarrow>
     map_of ls (path_components (rp_current_link paths)) = None \<or>
     names_release (rp_current_link paths) d ls \<and> names_release (rp_last_known_good_link paths) d ls"

abbreviation installed_current :: string where
  "installed_current \<equiv> rp_current_link runtime_paths_installed"

abbreviation installed_lkg :: string where
  "installed_lkg \<equiv> rp_last_known_good_link runtime_paths_installed"

lemma guarded_agree:
  "agree L ls \<Longrightarrow> guarded runtime_paths_installed d ls = guarded runtime_paths_installed d L"
  by (simp add: guarded_def names_release_def agree_def installed_not_temporary)

lemma names_release_pointed:
  "pointed (path_components link) d uid L ls \<Longrightarrow> names_release link d ls"
  by (auto simp: names_release_def pointed_def link_digest_release [simplified])

lemma names_release_other:
  "pointed (path_components installed_current) d uid L ls \<Longrightarrow>
   names_release installed_lkg e ls = names_release installed_lkg e L"
  "pointed (path_components installed_lkg) d uid L ls \<Longrightarrow>
   map_of ls (path_components installed_current) = map_of L (path_components installed_current)"
  using installed_not_temporary installed_distinct by (auto simp: names_release_def pointed_def)

lemma switch_lkg_first:
  "io_triple (\<lambda>s. map_of (in_links s) (path_components installed_current) = None)
    (switch_release_link K installed_lkg releases d uid)
    (\<lambda>_ s. map_of (in_links s) (path_components installed_current) = None \<and> names_release installed_lkg d (in_links s))
    (\<lambda>_ s. guarded runtime_paths_installed d (in_links s))"
proof (rule io_tripleI)
  fix s x s' assume s: "map_of (in_links s) (path_components installed_current) = None"
    "switch_release_link K installed_lkg releases d uid s = (Inr x, s')"
  have "agree (in_links s) (in_links s)" by (simp add: agree_def)
  note io_tripleD_ok [OF switch_release_link_rule [OF installed_not_temporary(2)] this s(2)]
  then show "map_of (in_links s') (path_components installed_current) = None \<and> names_release installed_lkg d (in_links s')"
    using s(1) names_release_other(2) names_release_pointed by metis
next
  fix s e s' assume s: "map_of (in_links s) (path_components installed_current) = None"
    "switch_release_link K installed_lkg releases d uid s = (Inl e, s')"
  have "agree (in_links s) (in_links s)" by (simp add: agree_def)
  note io_tripleD_err [OF switch_release_link_rule [OF installed_not_temporary(2)] this s(2)]
  then have "map_of (in_links s') (path_components installed_current) = None"
    using s(1) names_release_other(2) installed_not_temporary(1) unfolding agree_def by metis
  then show "guarded runtime_paths_installed d (in_links s')" by (simp add: guarded_def)
qed

lemma switch_current_second:
  "io_triple (\<lambda>s. map_of (in_links s) (path_components installed_current) = None \<and> names_release installed_lkg d (in_links s))
    (switch_release_link K installed_current releases d uid)
    (\<lambda>_ s. names_release installed_current d (in_links s) \<and> names_release installed_lkg d (in_links s))
    (\<lambda>_ s. guarded runtime_paths_installed d (in_links s))"
proof (rule io_tripleI)
  fix s x s' assume s: "map_of (in_links s) (path_components installed_current) = None \<and> names_release installed_lkg d (in_links s)"
    "switch_release_link K installed_current releases d uid s = (Inr x, s')"
  have "agree (in_links s) (in_links s)" by (simp add: agree_def)
  note io_tripleD_ok [OF switch_release_link_rule [OF installed_not_temporary(1)] this s(2)]
  then show "names_release installed_current d (in_links s') \<and> names_release installed_lkg d (in_links s')"
    using s(1) names_release_other(1) names_release_pointed by metis
next
  fix s e s' assume s: "map_of (in_links s) (path_components installed_current) = None \<and> names_release installed_lkg d (in_links s)"
    "switch_release_link K installed_current releases d uid s = (Inl e, s')"
  have "agree (in_links s) (in_links s)" by (simp add: agree_def)
  note io_tripleD_err [OF switch_release_link_rule [OF installed_not_temporary(1)] this s(2)]
  then consider "agree (in_links s) (in_links s')"
    | "pointed (path_components installed_current) d uid (in_links s) (in_links s')" by blast
  then show "guarded runtime_paths_installed d (in_links s')"
  proof cases
    case 1
    then show ?thesis using s(1) by (simp add: guarded_agree) (simp add: guarded_def)
  next
    case 2
    then show ?thesis
      using s(1) names_release_other(1) names_release_pointed unfolding guarded_def by metis
  qed
qed

lemma read_release_link_ok:
  assumes "read_release_link link releases uid s = (Inr d, s')"
  shows "names_release link d (in_links s)"
  using assms
  by (auto simp: read_release_link_def io_bind_Inr io_defs names_release_def ok_or_def
      split: if_splits option.splits dest!: os_read_Inr)

lemma read_optional_ok:
  assumes "read_optional_release_link link releases uid s = (Inr x, s')"
  shows "case x of None \<Rightarrow> map_of (in_links s) (path_components link) = None
    | Some d \<Rightarrow> names_release link d (in_links s)"
  using assms
  by (auto simp: read_optional_release_link_def io_bind_Inr io_defs
      split: option.splits dest!: read_release_link_ok os_call_cases)

text \<open>A call that reads the links, with what it says of them.\<close>

lemma reads_first:
  assumes "frames in_links m" "\<And>s x s'. m s = (Inr x, s') \<Longrightarrow> R x (in_links s)"
    and "\<And>x. io_triple (\<lambda>s. P (in_links s) \<and> R x (in_links s)) (f x) Q E" "\<And>e s. P (in_links s) \<Longrightarrow> E e s"
  shows "io_triple (\<lambda>s. P (in_links s)) (io_bind m f) Q E"
proof (rule io_triple_bind [OF _ assms(3)], rule io_tripleI)
  fix s x s' assume s: "P (in_links s)" "m s = (Inr x, s')"
  then show "P (in_links s') \<and> R x (in_links s')"
    using assms(2) [OF s(2)] framesD [OF assms(1) s(2)] by simp
next
  fix s e s' assume s: "P (in_links s)" "m s = (Inl e, s')"
  then show "E e s'" using framesD [OF assms(1) s(2)] assms(4) by simp
qed

lemma frames_read_releases:
  "frames in_links (read_current_release paths uid)" "frames in_links (read_last_known_good_release paths uid)"
  unfolding read_current_release_def read_last_known_good_release_def
  by (intro frames_bind frames_basic frames_reads frames_call)+

lemma initialize_switches:
  assumes "case current of None \<Rightarrow> map_of L (path_components installed_current) = None
      | Some c \<Rightarrow> names_release installed_current c L"
    and "case lkg of None \<Rightarrow> True | Some c \<Rightarrow> names_release installed_lkg c L"
    and "guarded runtime_paths_installed d L"
  shows "io_triple (\<lambda>s. in_links s = L)
    (if current = None \<and> lkg = None then
       io_bind (switch_release_link K installed_lkg releases d uid) (\<lambda>_.
         switch_release_link K installed_current releases d uid)
     else if current = None \<and> lkg = Some d then switch_release_link K installed_current releases d uid
     else if current = Some d \<and> lkg = Some d then io_return ()
     else io_fail UnsafeReleasePointer)
    (\<lambda>_ s. names_release installed_current d (in_links s) \<and> names_release installed_lkg d (in_links s))
    (\<lambda>_ s. guarded runtime_paths_installed d (in_links s))"
proof (rule io_triple_if)
  assume none: "current = None \<and> lkg = None"
  show "io_triple (\<lambda>s. in_links s = L)
    (io_bind (switch_release_link K installed_lkg releases d uid) (\<lambda>_.
         switch_release_link K installed_current releases d uid))
    (\<lambda>_ s. names_release installed_current d (in_links s) \<and> names_release installed_lkg d (in_links s))
    (\<lambda>_ s. guarded runtime_paths_installed d (in_links s))"
    by (rule io_triple_weaken [OF io_triple_bind [OF switch_lkg_first switch_current_second]])
      (use assms(1) none in auto)
next
  show "io_triple (\<lambda>s. in_links s = L)
    (if current = None \<and> lkg = Some d then switch_release_link K installed_current releases d uid
     else if current = Some d \<and> lkg = Some d then io_return ()
     else io_fail UnsafeReleasePointer)
    (\<lambda>_ s. names_release installed_current d (in_links s) \<and> names_release installed_lkg d (in_links s))
    (\<lambda>_ s. guarded runtime_paths_installed d (in_links s))"
    by (intro io_triple_if io_triple_return io_triple_fail io_triple_weaken [OF switch_current_second])
      (use assms in auto)
qed

lemma reconcile_guarded:
  "io_keeps (\<lambda>s. guarded runtime_paths_installed d (in_links s)) (reconcile_release_link_temporaries K root uid)"
  by (rule io_tripleI)
    (auto simp: guarded_agree agree_def
      dest: io_tripleD_ok [OF reconcile_links_keep, rotated] io_tripleD_err [OF reconcile_links_keep, rotated]
        guarded_agree [of "in_links _", THEN iffD2])

lemma links_fixed:
  assumes "\<And>L. G L \<Longrightarrow> io_triple (\<lambda>s. in_links s = L) m Q E"
  shows "io_triple (\<lambda>s. G (in_links s)) m Q E"
  using assms unfolding io_triple_def by simp

lemma initialize_release_pointers_rule:
  "io_triple (\<lambda>s. guarded runtime_paths_installed d (in_links s))
    (initialize_release_pointers K runtime_paths_installed uid d)
    (\<lambda>_ s. names_release installed_current d (in_links s) \<and> names_release installed_lkg d (in_links s))
    (\<lambda>_ s. guarded runtime_paths_installed d (in_links s))"
    (is "io_triple ?G _ (\<lambda>_. ?B) (\<lambda>_. ?G)")
proof -
  have finish: "io_triple ?B
      (io_bind (read_current_release runtime_paths_installed uid) (\<lambda>c.
       if c \<noteq> d then io_fail UnsafeReleasePointer
       else io_bind (read_last_known_good_release runtime_paths_installed uid) (\<lambda>l.
         if l \<noteq> d then io_fail UnsafeReleasePointer else io_return ()))) (\<lambda>_. ?B) (\<lambda>_. ?G)"
    by (intro frames_first [where P = "\<lambda>ls. names_release installed_current d ls \<and> names_release installed_lkg d ls"]
        frames_read_releases io_triple_if io_triple_return io_triple_fail) (simp_all add: guarded_def)
  let ?read = "\<lambda>link. read_optional_release_link link (rp_releases runtime_paths_installed) uid"
  let ?R = "\<lambda>link x ls. case x of None \<Rightarrow> map_of ls (path_components link) = None
    | Some c \<Rightarrow> names_release link c ls"
  let ?switch = "\<lambda>link. switch_release_link K link (rp_releases runtime_paths_installed) d uid"
  let ?run = "\<lambda>current lkg.
      if current = None \<and> lkg = None then io_bind (?switch installed_lkg) (\<lambda>_. ?switch installed_current)
      else if current = None \<and> lkg = Some d then ?switch installed_current
      else if current = Some d \<and> lkg = Some d then io_return ()
      else io_fail UnsafeReleasePointer"
  have run: "io_triple (\<lambda>s. (in_links s = L \<and> ?R installed_current current (in_links s)) \<and>
        ?R installed_lkg lkg (in_links s))
      (io_bind (?run current lkg) (\<lambda>_.
       io_bind (read_current_release runtime_paths_installed uid) (\<lambda>c.
       if c \<noteq> d then io_fail UnsafeReleasePointer
       else io_bind (read_last_known_good_release runtime_paths_installed uid) (\<lambda>l.
         if l \<noteq> d then io_fail UnsafeReleasePointer else io_return ())))) (\<lambda>_. ?B) (\<lambda>_. ?G)"
    if "guarded runtime_paths_installed d L" for L current lkg
  proof (rule io_triple_assuming [where A = "?R installed_current current L \<and> ?R installed_lkg lkg L"])
    assume R: "?R installed_current current L \<and> ?R installed_lkg lkg L"
    have "io_triple (\<lambda>s. in_links s = L) (?run current lkg) (\<lambda>_. ?B) (\<lambda>_. ?G)"
      by (rule initialize_switches) (use R that in \<open>auto split: option.splits\<close>)
    then show ?thesis by (rule io_triple_weaken [OF io_triple_bind [OF _ finish]]) auto
  qed auto
  show ?thesis
    unfolding initialize_release_pointers_def Let_def
  proof (rule frames_first [OF frames_basic(3)], rule io_triple_bind [OF reconcile_guarded], rule links_fixed)
    fix L assume L: "guarded runtime_paths_installed d L"
    show "io_triple (\<lambda>s. in_links s = L) (io_bind (verify_staged d) (\<lambda>_.
        io_bind (?read installed_current) (\<lambda>current. io_bind (?read installed_lkg) (\<lambda>lkg.
        io_bind (?run current lkg) (\<lambda>_.
        io_bind (read_current_release runtime_paths_installed uid) (\<lambda>c.
        if c \<noteq> d then io_fail UnsafeReleasePointer
        else io_bind (read_last_known_good_release runtime_paths_installed uid) (\<lambda>l.
          if l \<noteq> d then io_fail UnsafeReleasePointer else io_return ()))))))) (\<lambda>_. ?B) (\<lambda>_. ?G)"
      by (rule frames_first [where P = "\<lambda>ls. ls = L", OF frames_reads(1) [OF frames_call(1)]],
          rule reads_first [where P = "\<lambda>ls. ls = L" and R = "?R installed_current",
            OF frames_reads(4) [OF frames_call(1)] read_optional_ok], assumption,
          rule reads_first [where P = "\<lambda>ls. ls = L \<and> ?R installed_current _ ls" and R = "?R installed_lkg",
            OF frames_reads(4) [OF frames_call(1)] read_optional_ok], assumption,
          rule run [OF L]) (use L in auto)
  qed
qed

end
