(* ===== verification/Self_Update_Restore.thy ===== *)
theory Self_Update_Restore
  imports Self_Update_Install
begin

text \<open>
  The databases after a restoration: each is replaced as a whole, by the bytes its backup holds, and
  a restoration that fails on the way leaves every database either as it was or restored.
\<close>

definition scratch_key :: "path_key \<Rightarrow> bool" where
  "scratch_key k \<longleftrightarrow> k \<noteq> [] \<and>
     (starts_with ''.self-update-'' (component_text (last k)) \<or>
      strip_suffix ''-wal'' (component_text (last k)) \<noteq> None \<or>
      strip_suffix ''-shm'' (component_text (last k)) \<noteq> None)"

definition disk :: "'r installed_state \<Rightarrow> (string \<times> backup_directory) list \<times> (path_key \<Rightarrow> private_file option)" where
  "disk s = (in_backups s, in_files s)"

text \<open>The backups are \<open>B\<close>, and the files are \<open>F\<close> but for the scratch files.\<close>

definition files_at ::
  "(string \<times> backup_directory) list \<Rightarrow> (path_key \<Rightarrow> private_file option) \<Rightarrow>
   (string \<times> backup_directory) list \<times> (path_key \<Rightarrow> private_file option) \<Rightarrow> bool" where
  "files_at B F d \<longleftrightarrow> fst d = B \<and> (\<forall>k. \<not> scratch_key k \<longrightarrow> snd d k = F k)"

definition copied ::
  "(string \<times> backup_directory) list \<Rightarrow> (path_key \<Rightarrow> private_file option) \<Rightarrow> path_key \<Rightarrow> string \<Rightarrow>
   (string \<times> backup_directory) list \<times> (path_key \<Rightarrow> private_file option) \<Rightarrow> bool" where
  "copied B F t bytes d \<longleftrightarrow> files_at B F d \<and> map_option pf_bytes (snd d t) = Some bytes"

definition replaced ::
  "(string \<times> backup_directory) list \<Rightarrow> (path_key \<Rightarrow> private_file option) \<Rightarrow> path_key \<Rightarrow> string \<Rightarrow>
   (string \<times> backup_directory) list \<times> (path_key \<Rightarrow> private_file option) \<Rightarrow> bool" where
  "replaced B F k bytes d \<longleftrightarrow> (\<exists>f. pf_bytes f = bytes \<and> files_at B (F(k \<mapsto> f)) d)"

lemma frames_disk: "frames disk os_call"
  by (rule frames_os_call) (simp add: disk_def)

lemma disk_update [simp]:
  "disk (s\<lparr>in_files := fs\<rparr>) = (in_backups s, fs)" "fst (disk s) = in_backups s" "snd (disk s) = in_files s"
  by (simp_all add: disk_def)

lemma files_at_scratch: "scratch_key t \<Longrightarrow> files_at B F (b, f(t := x)) = files_at B F (b, f)"
  by (auto simp: files_at_def)

lemma remove_path_keeps:
  assumes "\<And>b f. P (b, f) \<Longrightarrow> P (b, f(t := None))"
  shows "io_keeps (\<lambda>s. P (disk s)) (remove_path t)"
  unfolding remove_path_def os_write_def
  by (rule frames_first [OF frames_disk], rule io_triple_modify)
    (simp_all add: disk_def assms del: fun_upd_apply)

lemma sidecar_keeps:
  assumes "\<And>b f. P (b, f) \<Longrightarrow> P (b, f(path_components (database @ suffix) := None))"
  shows "io_keeps (\<lambda>s. P (disk s)) (remove_database_sidecar database suffix)"
proof -
  note first = frames_first [where g = disk and P = P]
  show ?thesis
    unfolding remove_database_sidecar_def Let_def
    by (intro first frames_disk frames_basic io_triple_option io_triple_return remove_path_keeps assms)
qed

lemma write_file_keeps:
  assumes "\<And>b f x g. P (b, f) \<Longrightarrow> f t = Some x \<Longrightarrow> P (b, f(t \<mapsto> upd g x))"
  shows "io_keeps (\<lambda>s. P (disk s)) (write_file t upd)"
proof -
  have "io_triple (\<lambda>s. P (disk s) \<and> in_files s t = Some x)
      (io_modify (\<lambda>s. s\<lparr>in_files := (in_files s)(t := map_option (upd s) (in_files s t))\<rparr>))
      (\<lambda>_ s. P (disk s)) (\<lambda>_ s. P (disk s))" for x
    by (rule io_triple_modify) (auto simp: disk_def intro: assms)
  moreover have "io_triple (\<lambda>s. P (disk s)) (os_read (\<lambda>s. in_files s t))
      (\<lambda>x s. P (disk s) \<and> in_files s t = Some x) (\<lambda>_ s. P (disk s))"
    by (rule os_read_triple) (simp add: disk_def)
  ultimately show ?thesis unfolding write_file_def by (rule io_triple_bind [rotated])
qed

text \<open>The copy next to the database takes its place.\<close>

lemma replace_database_rule:
  assumes t: "scratch_key t" "t \<noteq> path_components (sd_path d @ ''-wal'')" "t \<noteq> path_components (sd_path d @ ''-shm'')"
    and sidecars: "scratch_key (path_components (sd_path d @ ''-wal''))" "scratch_key (path_components (sd_path d @ ''-shm''))"
  shows "io_triple (\<lambda>s :: 'r installed_state. copied B F t bytes (disk s)) (replace_database K d b target t)
    (\<lambda>_ s. replaced B F (path_components (sd_path d)) bytes (disk s))
    (\<lambda>_ s. files_at B F (disk s) \<or> replaced B F (path_components (sd_path d)) bytes (disk s))"
    (is "io_triple ?C _ (\<lambda>_. ?R) (\<lambda>_. ?E)")
proof -
  let ?k = "path_components (sd_path d)"
  note first = frames_first [where g = disk and P = "copied B F t bytes"]
  have E: "copied B F t bytes x \<Longrightarrow> files_at B F x \<or> replaced B F ?k bytes x" for x
    by (simp add: copied_def)
  have weak: "io_keeps ?C m \<Longrightarrow> io_triple ?C m (\<lambda>_. ?C) (\<lambda>_. ?E)" for m :: "('r, 'x) installed_io"
    by (erule io_triple_weaken) (simp_all add: E)
  have wal: "io_triple ?C (remove_database_sidecar (sd_path d) ''-wal'') (\<lambda>_. ?C) (\<lambda>_. ?E)"
    and shm: "io_triple ?C (remove_database_sidecar (sd_path d) ''-shm'') (\<lambda>_. ?C) (\<lambda>_. ?E)"
    by (rule weak, rule sidecar_keeps, use t sidecars in \<open>simp add: copied_def files_at_scratch\<close>)+
  have owner: "io_triple ?C (io_map_err (\<lambda>_. Runtime_Errno) (write_file t (\<lambda>_ f.
      f\<lparr>pf_uid := pf_uid target, pf_gid := pf_gid target\<rparr>))) (\<lambda>_. ?C) (\<lambda>_. ?E)"
    by (rule weak, rule io_triple_map_err, rule write_file_keeps)
      (use t(1) in \<open>auto simp: copied_def files_at_scratch\<close>)
  have mode: "io_triple ?C (write_file t (\<lambda>_ f. f\<lparr>pf_mode := pf_mode target\<rparr>)) (\<lambda>_. ?C) (\<lambda>_. ?E)"
    by (rule weak, rule write_file_keeps) (use t(1) in \<open>auto simp: copied_def files_at_scratch\<close>)
  have found: "io_triple ?C (os_read (\<lambda>s. in_files s t))
      (\<lambda>f s. copied B F t bytes (disk s) \<and> in_files s t = Some f) (\<lambda>_. ?E)"
    by (rule io_triple_weaken [OF os_read_triple [of ?C]]) (auto simp: disk_def [of "_\<lparr>in_faults := _\<rparr>"] disk_def E)
  have renamed: "files_at B (F(?k \<mapsto> f)) (b, g(t := None, ?k \<mapsto> f))" if "files_at B F (b, g)" for b g f
    using that t(1) by (auto simp: files_at_def)
  have rename: "io_triple ?C (io_bind (os_read (\<lambda>s. in_files s t)) (\<lambda>f.
       io_modify (\<lambda>s. s\<lparr>in_files := (in_files s)(t := None, ?k := Some f)\<rparr>))) (\<lambda>_. ?R) (\<lambda>_. ?E)"
    by (rule io_triple_bind [OF found], rule io_triple_modify)
      (auto simp: copied_def replaced_def disk_def intro!: exI renamed)
  have sync: "io_triple ?R sync_directory (\<lambda>_. ?R) (\<lambda>_. ?E)"
    by (rule io_triple_weaken [OF frames_triple [OF frames_reads(6) [OF frames_disk], of "replaced B F ?k bytes"]]) simp_all
  have rest: "io_triple ?C
      (io_bind (remove_database_sidecar (sd_path d) ''-wal'') (\<lambda>_.
       io_bind (remove_database_sidecar (sd_path d) ''-shm'') (\<lambda>_.
       io_bind (io_map_err (\<lambda>_. Runtime_Errno) (write_file t (\<lambda>_ f.
         f\<lparr>pf_uid := pf_uid target, pf_gid := pf_gid target\<rparr>))) (\<lambda>_.
       io_bind (write_file t (\<lambda>_ f. f\<lparr>pf_mode := pf_mode target\<rparr>)) (\<lambda>_.
       io_bind (io_bind (os_read (\<lambda>s. in_files s t)) (\<lambda>f.
         io_modify (\<lambda>s. s\<lparr>in_files := (in_files s)(t := None, ?k := Some f)\<rparr>))) (\<lambda>_.
       sync_directory)))))) (\<lambda>_. ?R) (\<lambda>_. ?E)"
    by (rule io_triple_bind [OF wal io_triple_bind [OF shm io_triple_bind [OF owner
          io_triple_bind [OF mode io_triple_bind [OF rename sync]]]]])
  show ?thesis
    unfolding replace_database_def
    by (rule first [OF frames_reads(10) [OF frames_disk]], rule first [OF frames_reads(15) [OF frames_disk]])
      (auto split: prod.split intro!: ensure_first rest E)
qed

definition backup_bytes :: "(string \<times> backup_directory) list \<Rightarrow> string \<Rightarrow> string \<Rightarrow> string option" where
  "backup_bytes B operation name =
     map_option pf_bytes (Option.bind (map_of B operation) (\<lambda>b. map_of (bk_files b) (backup_name name)))"

definition from_backup ::
  "(string \<times> backup_directory) list \<Rightarrow> (path_key \<Rightarrow> private_file option) \<Rightarrow> string \<Rightarrow> state_database \<Rightarrow>
   (string \<times> backup_directory) list \<times> (path_key \<Rightarrow> private_file option) \<Rightarrow> bool" where
  "from_backup B F operation d x \<longleftrightarrow>
     (\<exists>bytes. backup_bytes B operation (sd_name d) = Some bytes \<and>
        replaced B F (path_components (sd_path d)) bytes x)"

lemma copy_rule:
  assumes "scratch_key t"
  shows "io_triple (\<lambda>s. files_at B F (disk s)) (write_file t (\<lambda>_ x. x\<lparr>pf_bytes := bytes\<rparr>))
    (\<lambda>_ s. copied B F t bytes (disk s)) (\<lambda>_ s. files_at B F (disk s))"
proof -
  have "io_triple (\<lambda>s. files_at B F (disk s) \<and> in_files s t = Some x)
      (io_modify (\<lambda>s. s\<lparr>in_files := (in_files s)(t := map_option (\<lambda>x. x\<lparr>pf_bytes := bytes\<rparr>) (in_files s t))\<rparr>))
      (\<lambda>_ s. copied B F t bytes (disk s)) (\<lambda>_ s. files_at B F (disk s))" for x
    by (rule io_triple_modify) (use assms in \<open>auto simp: disk_def copied_def files_at_def\<close>)
  moreover have "io_triple (\<lambda>s. files_at B F (disk s)) (os_read (\<lambda>s. in_files s t))
      (\<lambda>x s. files_at B F (disk s) \<and> in_files s t = Some x) (\<lambda>_ s. files_at B F (disk s))"
    by (rule os_read_triple) (simp add: disk_def)
  ultimately show ?thesis unfolding write_file_def by (rule io_triple_bind [rotated])
qed

lemma cleanup_keeps:
  assumes "\<And>b f. P (b, f) \<Longrightarrow> P (b, f(t := None))"
  shows "io_keeps (\<lambda>s. P (disk s)) (remove_open_file_if_still_named t)"
  unfolding remove_open_file_if_still_named_def
  by (rule io_triple_ignore, rule frames_first [OF frames_os_read [OF frames_disk]], rule io_triple_when,
      rule remove_path_keeps) (simp_all add: assms)

lemma replaced_scratch: "scratch_key t \<Longrightarrow> replaced B F k bytes (b, f(t := x)) = replaced B F k bytes (b, f)"
  by (simp add: replaced_def files_at_scratch)

text \<open>Scratch names are told apart from a database and its sidecars.\<close>

definition apart :: "state_database \<Rightarrow> bool" where
  "apart d \<longleftrightarrow> \<not> scratch_key (path_components (sd_path d)) \<and>
     scratch_key (path_components (sd_path d @ ''-wal'')) \<and> scratch_key (path_components (sd_path d @ ''-shm'')) \<and>
     \<not> starts_with ''.self-update-'' (component_text (last (path_components (sd_path d @ ''-wal'')))) \<and>
     \<not> starts_with ''.self-update-'' (component_text (last (path_components (sd_path d @ ''-shm''))))"

lemma temporary_scratch:
  assumes "apart d"
  shows "scratch_key (parent @ [Normal (''.self-update-'' @ name)])"
    "parent @ [Normal (''.self-update-'' @ name)] \<noteq> path_components (sd_path d @ ''-wal'')"
    "parent @ [Normal (''.self-update-'' @ name)] \<noteq> path_components (sd_path d @ ''-shm'')"
proof -
  have last: "starts_with ''.self-update-'' (component_text (last (parent @ [Normal (''.self-update-'' @ name)])))"
    by (simp add: starts_with_def)
  then show "scratch_key (parent @ [Normal (''.self-update-'' @ name)])"
    by (simp add: scratch_key_def)
  show "parent @ [Normal (''.self-update-'' @ name)] \<noteq> path_components (sd_path d @ ''-wal'')"
    "parent @ [Normal (''.self-update-'' @ name)] \<noteq> path_components (sd_path d @ ''-shm'')"
    using assms last unfolding apart_def by metis+
qed

lemma copied_database_rule:
  assumes d: "apart d" and t: "t = parent @ [Normal (''.self-update-'' @ name)]"
  shows "io_triple (\<lambda>s :: 'r installed_state. files_at B F (disk s))
    (io_bind (os_write (\<lambda>s. s\<lparr>in_files := (in_files s)(t \<mapsto> new_private_file [] s)\<rparr>)) (\<lambda>_.
     io_bind (write_file t (\<lambda>_ x. x\<lparr>pf_bytes := bytes\<rparr>)) (\<lambda>_.
     io_bind os_call (\<lambda>_.
     io_on_error (replace_database K d b target t) (remove_open_file_if_still_named t)))))
    (\<lambda>_ s. replaced B F (path_components (sd_path d)) bytes (disk s))
    (\<lambda>_ s. files_at B F (disk s) \<or> replaced B F (path_components (sd_path d)) bytes (disk s))"
    (is "io_triple ?A _ (\<lambda>_. ?R) (\<lambda>_. ?E)")
proof -
  note scratch = temporary_scratch [OF d, of parent name, folded t]
  have created: "io_keeps ?A (os_write (\<lambda>s. s\<lparr>in_files := (in_files s)(t \<mapsto> new_private_file [] s)\<rparr>))"
    unfolding os_write_def
    by (rule frames_first [OF frames_disk], rule io_triple_modify)
      (use scratch(1) in \<open>auto simp: files_at_def\<close>)
  have created': "io_triple ?A (os_write (\<lambda>s. s\<lparr>in_files := (in_files s)(t \<mapsto> new_private_file [] s)\<rparr>))
      (\<lambda>_. ?A) (\<lambda>_. ?E)"
    by (rule io_triple_weaken [OF created]) simp_all
  have copied: "io_triple ?A (write_file t (\<lambda>_ x. x\<lparr>pf_bytes := bytes\<rparr>))
      (\<lambda>_ s. copied B F t bytes (disk s)) (\<lambda>_. ?E)"
    by (rule io_triple_weaken [OF copy_rule [OF scratch(1), of B F bytes]]) simp_all
  have sidecars: "scratch_key (path_components (sd_path d @ ''-wal''))" "scratch_key (path_components (sd_path d @ ''-shm''))"
    using d unfolding apart_def by blast+
  have cleanup: "io_keeps ?E (remove_open_file_if_still_named t)"
    by (rule cleanup_keeps) (simp only: files_at_scratch [OF scratch(1)] replaced_scratch [OF scratch(1)])
  have replace: "io_triple (\<lambda>s :: 'r installed_state. copied B F t bytes (disk s))
      (io_on_error (replace_database K d b target t) (remove_open_file_if_still_named t)) (\<lambda>_. ?R) (\<lambda>_. ?E)"
    by (rule io_triple_on_error [OF replace_database_rule [OF scratch sidecars] cleanup])
  have "io_triple (\<lambda>s :: 'r installed_state. copied B F t bytes (disk s)) (io_bind os_call (\<lambda>_.
      io_on_error (replace_database K d b target t) (remove_open_file_if_still_named t))) (\<lambda>_. ?R) (\<lambda>_. ?E)"
    by (rule frames_first [OF frames_disk replace]) (simp add: copied_def)
  then show ?thesis by (rule io_triple_bind [OF created' io_triple_bind [OF copied]])
qed

lemma io_triple_prod:
  "(\<And>a b. io_triple P (h a b) Q E) \<Longrightarrow> io_triple P (case p of (a, b) \<Rightarrow> h a b) Q E"
  by (cases p) simp

lemma restore_database_rule:
  assumes d: "apart d"
  shows "io_triple (\<lambda>s :: 'r installed_state. files_at B F (disk s))
    (restore_database K uid operation d b u)
    (\<lambda>_ s. from_backup B F operation d (disk s))
    (\<lambda>_ s. files_at B F (disk s) \<or> from_backup B F operation d (disk s))"
    (is "io_triple ?A _ (\<lambda>_. ?R) (\<lambda>_. ?E)")
proof -
  note first = frames_first [where g = disk and P = "files_at B F"]
  note ensure = ensure_first [where P = ?A]
  have reconcile: "io_triple ?A (reconcile_restore_temporary t uid target n) (\<lambda>_. ?A) (\<lambda>_. ?E)"
    if "scratch_key t" for t target n
  proof -
    have "io_keeps ?A (reconcile_restore_temporary t uid target n)"
      unfolding reconcile_restore_temporary_def Let_def
      by (intro first frames_disk frames_basic io_triple_option io_triple_if io_triple_return io_triple_fail
          remove_path_keeps) (simp_all add: files_at_scratch that)
    then show ?thesis by (rule io_triple_weaken) simp_all
  qed
  have found: "io_triple ?A (os_read (find_backup_file operation (backup_name (sd_name d))))
      (\<lambda>f s. backup_bytes B operation (sd_name d) = Some (pf_bytes f) \<and> files_at B F (disk s)) (\<lambda>_. ?E)"
    by (rule io_triple_weaken [OF os_read_triple [of ?A]])
      (auto simp: disk_def files_at_def find_backup_file_def backup_bytes_def)
  have copy: "io_triple (\<lambda>s :: 'r installed_state. backup_bytes B operation (sd_name d) = Some bytes \<and> files_at B F (disk s))
     (io_bind (io_get (\<lambda>s. in_files s (parent @ [Normal (''.self-update-'' @ name)]))) (\<lambda>existing.
      io_bind (io_ensure (existing = None) Runtime_Io) (\<lambda>_.
      io_bind (os_write (\<lambda>s. s\<lparr>in_files := (in_files s)(parent @ [Normal (''.self-update-'' @ name)] \<mapsto> new_private_file [] s)\<rparr>)) (\<lambda>_.
      io_bind (write_file (parent @ [Normal (''.self-update-'' @ name)]) (\<lambda>_ x. x\<lparr>pf_bytes := bytes\<rparr>)) (\<lambda>_.
      io_bind os_call (\<lambda>_.
      io_on_error (replace_database K d b target (parent @ [Normal (''.self-update-'' @ name)]))
        (remove_open_file_if_still_named (parent @ [Normal (''.self-update-'' @ name)])))))))) (\<lambda>_. ?R) (\<lambda>_. ?E)"
    for bytes parent name target
  proof (rule io_triple_assume, rule first [OF frames_basic(4)], rule ensure,
      rule io_triple_weaken [OF copied_database_rule [OF d refl]])
  qed (auto simp: from_backup_def)
  show ?thesis
    unfolding restore_database_def Let_def
    by (rule first [OF frames_reads(11) [OF frames_disk]], rule first [OF frames_reads(8) [OF frames_disk]],
        rule io_triple_prod, rule ensure, rule first [OF frames_basic(3)],
        rule io_triple_bind [OF reconcile [OF temporary_scratch(1) [OF d]] io_triple_bind [OF found copy]])
      simp_all
qed

text \<open>All databases of a list; and a part of them, where a call failed.\<close>

definition database_key :: "state_database \<Rightarrow> path_key" where
  "database_key d = path_components (sd_path d)"

definition restored_copy :: "(string \<times> backup_directory) list \<Rightarrow> string \<Rightarrow> state_database \<Rightarrow>
    (path_key \<Rightarrow> private_file option) \<Rightarrow> bool" where
  "restored_copy B operation d F \<longleftrightarrow>
     backup_bytes B operation (sd_name d) \<noteq> None \<and>
     map_option pf_bytes (F (database_key d)) = backup_bytes B operation (sd_name d)"

definition all_restored ::
  "(string \<times> backup_directory) list \<Rightarrow> (path_key \<Rightarrow> private_file option) \<Rightarrow> string \<Rightarrow> state_database list \<Rightarrow>
   (string \<times> backup_directory) list \<times> (path_key \<Rightarrow> private_file option) \<Rightarrow> bool" where
  "all_restored B F operation ds x \<longleftrightarrow>
     fst x = B \<and> (\<forall>k. \<not> scratch_key k \<longrightarrow> k \<notin> database_key ` set ds \<longrightarrow> snd x k = F k) \<and>
     (\<forall>d \<in> set ds. restored_copy B operation d (snd x))"

definition some_restored ::
  "(string \<times> backup_directory) list \<Rightarrow> (path_key \<Rightarrow> private_file option) \<Rightarrow> string \<Rightarrow> state_database list \<Rightarrow>
   (string \<times> backup_directory) list \<times> (path_key \<Rightarrow> private_file option) \<Rightarrow> bool" where
  "some_restored B F operation ds x \<longleftrightarrow>
     fst x = B \<and> (\<forall>k. \<not> scratch_key k \<longrightarrow> k \<notin> database_key ` set ds \<longrightarrow> snd x k = F k) \<and>
     (\<forall>d \<in> set ds. snd x (database_key d) = F (database_key d) \<or> restored_copy B operation d (snd x))"

lemma io_triple_ex:
  assumes "\<And>x. io_triple (P x) m Q E"
  shows "io_triple (\<lambda>s. \<exists>x. P x s) m Q E"
  by (rule io_tripleI) (auto dest: io_tripleD_ok [OF assms] io_tripleD_err [OF assms])

lemma all_some_restored: "all_restored B F operation ds x \<Longrightarrow> some_restored B F operation ds x"
  by (auto simp: all_restored_def some_restored_def)

lemma restored_Cons:
  assumes "apart d" "database_key d \<notin> database_key ` set ds"
    and "backup_bytes B operation (sd_name d) = Some (pf_bytes f)"
  shows "all_restored B (F(database_key d \<mapsto> f)) operation ds x \<Longrightarrow> all_restored B F operation (d # ds) x"
    "some_restored B (F(database_key d \<mapsto> f)) operation ds x \<Longrightarrow> some_restored B F operation (d # ds) x"
proof -
  have k: "\<not> scratch_key (database_key d)" using assms(1) by (simp add: apart_def database_key_def)
  have other: "database_key e \<noteq> database_key d" if "e \<in> set ds" for e
    using assms(2) that by (metis imageI)
  show "all_restored B (F(database_key d \<mapsto> f)) operation ds x \<Longrightarrow> all_restored B F operation (d # ds) x"
    using k assms(2,3) by (auto simp: all_restored_def restored_copy_def)
  assume x: "some_restored B (F(database_key d \<mapsto> f)) operation ds x"
  then have "snd x (database_key d) = Some f" using k assms(2) by (auto simp: some_restored_def)
  then have "restored_copy B operation d (snd x)" using assms(3) by (simp add: restored_copy_def)
  with x other show "some_restored B F operation (d # ds) x"
    by (auto simp: some_restored_def)
qed

lemma restore_each_rule:
  assumes "list_all apart ds" "distinct (map database_key ds)"
  shows "io_triple (\<lambda>s :: 'r installed_state. files_at B F (disk s))
    (io_each (\<lambda>d.
       io_bind (io_lift (ok_or (find (\<lambda>f. bf_name f = sd_name d) (br_files receipt)) InvalidBackupReceipt)) (\<lambda>b.
       restore_database K uid operation d b (br_operation_id receipt))) ds)
    (\<lambda>_ s. all_restored B F operation ds (disk s)) (\<lambda>_ s. some_restored B F operation ds (disk s))"
  using assms
proof (induction ds arbitrary: F)
  case Nil
  then show ?case by (auto simp: all_restored_def files_at_def intro!: io_triple_return)
next
  case (Cons d ds)
  let ?body = "\<lambda>d. io_bind (io_lift (ok_or (find (\<lambda>f. bf_name f = sd_name d) (br_files receipt))
      InvalidBackupReceipt)) (\<lambda>b. restore_database K uid operation d b (br_operation_id receipt))"
  let ?E = "\<lambda>s :: 'r installed_state. some_restored B F operation (d # ds) (disk s)"
  have d: "apart d" "database_key d \<notin> database_key ` set ds" using Cons.prems by auto
  have k: "\<not> scratch_key (database_key d)" using d(1) by (simp add: apart_def database_key_def)
  have start: "some_restored B F operation (d # ds) x" if "files_at B F x" for x
    using that Cons.prems by (auto simp: some_restored_def files_at_def list_all_iff apart_def database_key_def)
  have one: "some_restored B F operation (d # ds) x" if x: "from_backup B F operation d x" for x
  proof -
    obtain f where f: "backup_bytes B operation (sd_name d) = Some (pf_bytes f)"
      "files_at B (F(database_key d \<mapsto> f)) x"
      using x by (auto simp: from_backup_def replaced_def database_key_def)
    have "some_restored B (F(database_key d \<mapsto> f)) operation ds x"
      using f(2) Cons.prems by (auto simp: some_restored_def files_at_def list_all_iff apart_def database_key_def)
    then show ?thesis by (rule restored_Cons(2) [OF d f(1)])
  qed
  have body: "io_triple (\<lambda>s :: 'r installed_state. files_at B F (disk s)) (?body d)
      (\<lambda>_ s. from_backup B F operation d (disk s)) (\<lambda>_. ?E)"
    by (rule frames_first [OF frames_basic(3)], rule io_triple_weaken [OF restore_database_rule [OF d(1), of B F]])
      (auto intro: start one)
  have rest: "io_triple (\<lambda>s :: 'r installed_state. from_backup B F operation d (disk s)) (io_each ?body ds)
      (\<lambda>_ s. all_restored B F operation (d # ds) (disk s)) (\<lambda>_. ?E)"
  proof -
    have "io_triple (\<lambda>s :: 'r installed_state. \<exists>f. backup_bytes B operation (sd_name d) = Some (pf_bytes f) \<and>
          files_at B (F(database_key d \<mapsto> f)) (disk s)) (io_each ?body ds)
        (\<lambda>_ s. all_restored B F operation (d # ds) (disk s)) (\<lambda>_. ?E)"
    proof (rule io_triple_ex, rule io_triple_assume)
      fix f :: private_file assume f: "backup_bytes B operation (sd_name d) = Some (pf_bytes f)"
      show "io_triple (\<lambda>s :: 'r installed_state. files_at B (F(database_key d \<mapsto> f)) (disk s)) (io_each ?body ds)
        (\<lambda>_ s. all_restored B F operation (d # ds) (disk s)) (\<lambda>_. ?E)"
        by (rule io_triple_weaken [OF Cons.IH [of "F(database_key d \<mapsto> f)"]],
            use Cons.prems in simp, use Cons.prems in simp, assumption,
            erule restored_Cons(1) [OF d f], erule restored_Cons(2) [OF d f])
    qed
    then show ?thesis by (rule io_triple_weaken) (auto simp: from_backup_def replaced_def database_key_def)
  qed
  show ?case unfolding io_each.simps by (rule io_triple_bind [OF body rest])
qed

lemma installed_databases_apart:
  "list_all apart installed_state_databases" "distinct (map database_key installed_state_databases)"
  by (simp_all add: installed_state_databases_def apart_def scratch_key_def database_key_def path_components_def
      component_of_def starts_with_def strip_suffix_def)


section \<open>The receipt\<close>

definition holds_receipt ::
  "platform_codec \<Rightarrow> evidence_digest \<Rightarrow> (string \<times> backup_directory) list \<Rightarrow> string \<Rightarrow> bool" where
  "holds_receipt K digest B operation \<longleftrightarrow>
     (case Option.bind (map_of B operation) (\<lambda>b. map_of (bk_files b) state_backup_receipt_file) of
        None \<Rightarrow> False
      | Some f \<Rightarrow>
          (case receipt_decode_canonical K (pf_bytes f) of Inl _ \<Rightarrow> False
           | Inr r \<Rightarrow> br_receipt_digest r = digest))"

lemma read_backup_receipt_ok:
  assumes "read_backup_receipt K uid operation s = (Inr r, s')"
  shows "holds_receipt K (br_receipt_digest r) (in_backups s) operation"
  using assms
  by (auto simp: read_backup_receipt_def read_private_file_def io_bind_Inr io_defs holds_receipt_def
      find_backup_file_def split: if_splits dest!: os_read_Inr os_call_cases)

lemma find_receipt_in_ok:
  "find_receipt_in K uid digest operations found s = (Inr (Some (operation, r)), s') \<Longrightarrow>
   found = Some (operation, r) \<or>
   operation \<in> set operations \<and> holds_receipt K digest (in_backups s) operation"
proof (induction operations arbitrary: found s)
  case (Cons o' operations)
  from Cons.prems obtain meta s1 s2 s3 r' where read:
    "os_call s = (Inr (), s1)" "os_read (backup_meta o') s1 = (Inr meta, s2)"
    "read_backup_receipt K uid o' s2 = (Inr r', s3)"
    and rest: "(if br_receipt_digest r' = digest then
        if found \<noteq> None then io_fail BackupConflict
        else find_receipt_in K uid digest operations (Some (o', r'))
      else find_receipt_in K uid digest operations found) s3 = (Inr (Some (operation, r)), s')"
    by (auto simp: io_bind_Inr io_defs split: if_splits)
  have B: "in_backups s2 = in_backups s" "in_backups s3 = in_backups s"
    using framesD [OF frames_call(3) read(1)] framesD [OF frames_os_read [OF frames_call(3)] read(2)]
      framesD [OF frames_reads(12) [OF frames_call(3)] read(3)] by simp_all
  note here = read_backup_receipt_ok [OF read(3), unfolded B(1)]
  show ?case
    using rest here Cons.IH [of "Some (o', r')" s3] Cons.IH [of found s3] B(2)
    by (auto simp: io_fail_def split: if_splits)
qed (simp add: io_return_def)

lemma find_backup_receipt_ok:
  assumes "find_backup_receipt K uid digest s = (Inr (operation, r), s')"
  shows "operation \<in> fst ` set (in_backups s)" "holds_receipt K digest (in_backups s) operation"
proof -
  obtain s1 where s1: "os_call s = (Inr (), s1)"
    "find_receipt_in K uid digest (map fst (in_backups s1)) None s1 = (Inr (Some (operation, r)), s')"
    using assms
    by (auto simp: find_backup_receipt_def io_bind_Inr io_defs ok_or_def split: option.splits)
  have "in_backups s1 = in_backups s" by (rule framesD [OF frames_call(3) s1(1)])
  with find_receipt_in_ok [OF s1(2)]
  show "operation \<in> fst ` set (in_backups s)" "holds_receipt K digest (in_backups s) operation" by simp_all
qed

lemma frames_switch_disk: "frames disk (switch_release_link K link releases d uid)"
  unfolding switch_release_link_def symlink_def remove_link_def runtime_new_v4_def Let_def
  by (intro frame_rules frames_disk) (simp_all add: disk_def)

lemma restore_release_rule:
  fixes R :: "'r service_runtime"
  assumes "disk s = (B, F)"
  shows "case restore_release_checked K runtime_paths_installed uid R previous digest s of
      (Inr _, s') \<Rightarrow> \<exists>operation. operation \<in> fst ` set B \<and> holds_receipt K digest B operation \<and>
        all_restored B F operation installed_state_databases (disk s')
    | (Inl _, s') \<Rightarrow> files_at B F (disk s') \<or> (\<exists>operation. operation \<in> fst ` set B \<and>
        holds_receipt K digest B operation \<and> some_restored B F operation installed_state_databases (disk s'))"
proof -
  let ?ok = "\<lambda>operation. operation \<in> fst ` set B \<and> holds_receipt K digest B operation"
  let ?Q = "\<lambda>s :: 'r installed_state. \<exists>operation. ?ok operation \<and> all_restored B F operation installed_state_databases (disk s)"
  let ?E = "\<lambda>s :: 'r installed_state. files_at B F (disk s) \<or> (\<exists>operation. ?ok operation \<and>
      some_restored B F operation installed_state_databases (disk s))"
  note reads = frames_reads [OF frames_disk]
  note first = frames_first [where g = disk and P = "files_at B F"]
  have found: "io_triple (\<lambda>s :: 'r installed_state. files_at B F (disk s)) (find_backup_receipt K uid digest)
      (\<lambda>x s. ?ok (fst x) \<and> files_at B F (disk s)) (\<lambda>_. ?E)"
  proof (rule io_tripleI)
    fix t t' :: "'r installed_state" and x assume t: "files_at B F (disk t)" "find_backup_receipt K uid digest t = (Inr x, t')"
    moreover have "disk t' = disk t" by (rule framesD [OF reads(14) t(2)])
    ultimately show "?ok (fst x) \<and> files_at B F (disk t')"
      using find_backup_receipt_ok [of K uid digest t "fst x" "snd x" t']
      by (cases x) (simp add: files_at_def)
  next
    fix t t' :: "'r installed_state" and e assume "files_at B F (disk t)" "find_backup_receipt K uid digest t = (Inl e, t')"
    then show "?E t'" using framesD [OF reads(14)] by metis
  qed
  have stop: "frames disk (io_map_err Runtime_Platform (call_services (stop_services R)))"
    by (intro frame_rules) (simp add: disk_def)
  have switch: "io_triple ?Q (switch_release_link K link releases previous uid) (\<lambda>_. ?Q) (\<lambda>_. ?E)" for link releases
    by (rule io_triple_weaken [OF frames_triple [OF frames_switch_disk,
          of "\<lambda>x. \<exists>operation. ?ok operation \<and> all_restored B F operation installed_state_databases x"]])
      (blast intro: all_some_restored)+
  have ds: "rp_databases runtime_paths_installed = installed_state_databases"
    by (simp add: runtime_paths_installed_def)
  have rest: "io_triple (\<lambda>s :: 'r installed_state. ?ok operation \<and> files_at B F (disk s))
     (io_bind (verify_backup_files K runtime_paths_installed uid operation receipt) (\<lambda>_.
      io_bind (io_map_err Runtime_Platform (call_services (stop_services R))) (\<lambda>_.
      io_bind (io_each (\<lambda>database.
         io_bind (io_lift (ok_or (find (\<lambda>f. bf_name f = sd_name database) (br_files receipt))
           InvalidBackupReceipt)) (\<lambda>backup.
         restore_database K uid operation database backup (br_operation_id receipt)))
        (rp_databases runtime_paths_installed)) (\<lambda>_.
      switch_release_link K (rp_current_link runtime_paths_installed) (rp_releases runtime_paths_installed) previous uid))))
     (\<lambda>_. ?Q) (\<lambda>_. ?E)" for operation receipt
  proof (rule io_triple_assume, unfold ds, rule first [OF reads(13)], rule first [OF stop],
      rule io_triple_bind [OF _ switch])
    assume ok: "?ok operation"
    show "io_triple (\<lambda>s :: 'r installed_state. files_at B F (disk s)) (io_each (\<lambda>database.
         io_bind (io_lift (ok_or (find (\<lambda>f. bf_name f = sd_name database) (br_files receipt))
           InvalidBackupReceipt)) (\<lambda>backup.
         restore_database K uid operation database backup (br_operation_id receipt))) installed_state_databases)
        (\<lambda>_. ?Q) (\<lambda>_. ?E)"
      by (rule io_triple_weaken [OF restore_each_rule [OF installed_databases_apart, of B F]]) (use ok in blast)+
  qed blast+
  have rule: "io_triple (\<lambda>s. files_at B F (disk s))
      (restore_release_checked K runtime_paths_installed uid R previous digest) (\<lambda>_. ?Q) (\<lambda>_. ?E)"
    unfolding restore_release_checked_def
    by (rule first [OF reads(1)], rule io_triple_bind [OF found])
      (simp only: split_beta rest, blast)
  have start: "files_at B F (disk s)" using assms by (simp add: files_at_def)
  obtain r s' where m: "restore_release_checked K runtime_paths_installed uid R previous digest s = (r, s')"
    by (cases "restore_release_checked K runtime_paths_installed uid R previous digest s")
  show ?thesis
    using io_tripleD_ok [OF rule start] io_tripleD_err [OF rule start] m by (cases r) auto
qed

end
