(* ===== verification/Self_Update_Properties.thy ===== *)
theory Self_Update_Properties
  imports Self_Update_Restore
begin

text \<open>
  The properties of the self-update: its journal (\<open>self_update.rs\<close>), its coordinator, its recovery
  entry points (\<open>self_update_recovery.rs\<close>) and the installed platform (\<open>self_update_runtime.rs\<close>).
\<close>

section \<open>The journal\<close>

lemma reachable_history:
  assumes "codec_laws C" "journal_reachable C uid j"
  shows "(history_step C)\<^sup>*\<^sup>* [] (held C j)" "settled C uid (held C j) j" "sound_history (held C j)"
proof -
  obtain hs where hs: "(history_step C)\<^sup>*\<^sup>* [] hs" "settled C uid hs j" "sound_history hs"
    by (rule journal_okE [OF reachable_ok [OF assms]])
  have "held C j = hs" using hs(2) by (simp add: settled_def)
  with hs show "(history_step C)\<^sup>*\<^sup>* [] (held C j)" "settled C uid (held C j) j" "sound_history (held C j)"
    by simp_all
qed

lemma calm_fails: "failing True K E"
  by (simp add: failing_def)

lemma journal_open_calm:
  assumes C: "codec_laws C" and hs: "sound_history hs"
  shows "io_triple (state_at True (\<lambda>j. settled C uid hs j \<and> \<not> jr_locked j)) (journal_open C uid)
    (\<lambda>_. state_at True (settled C uid hs)) (\<lambda>_ _. False)"
proof -
  let ?U = "\<lambda>j. settled C uid hs j \<and> \<not> jr_locked j"
  have framed: "framed ?U" by (simp add: framed_def)
  have valid: "io_triple (state_at True ?U) (validate_directory uid 448) (\<lambda>_. state_at True ?U) (\<lambda>_ _. False)"
    unfolding validate_directory_def
    by (rule sys_bind [OF framed calm_fails], rule get_bind, rule io_triple_ensure)
      (auto simp: state_at_def settled_def sound_directory_def)
  have lock: "io_triple (state_at True ?U)
      (io_modify (\<lambda>j. j\<lparr>jr_locked := True, jr_same_inode := True\<rparr>)) (\<lambda>_. state_at True (settled C uid hs))
      (\<lambda>_ _. False)"
    by (rule modify_rule) (auto simp: settled_def sound_directory_def held_def calm_def)
  have load: "io_triple (state_at True (settled C uid hs)) (io_bind (load_records C uid) (\<lambda>_. io_return ()))
      (\<lambda>_. state_at True (settled C uid hs)) (\<lambda>_ _. False)"
    by (rule load_records_bind [OF C hs calm_fails]) (rule io_triple_return)
  have rest: "io_triple (state_at True (\<lambda>j. ?U j \<and> jr_locked j = b))
      (io_bind (io_ensure (\<not> b) JournalAlreadyOpen) (\<lambda>_.
       io_bind (io_modify (\<lambda>j. j\<lparr>jr_locked := True, jr_same_inode := True\<rparr>)) (\<lambda>_.
       io_bind (load_records C uid) (\<lambda>_. io_return ()))))
      (\<lambda>_. state_at True (settled C uid hs)) (\<lambda>_ _. False)" for b
  proof (rule ensure_bind)
    show "io_triple (state_at True (\<lambda>j. ?U j \<and> jr_locked j = b))
        (io_bind (io_modify (\<lambda>j. j\<lparr>jr_locked := True, jr_same_inode := True\<rparr>)) (\<lambda>_.
         io_bind (load_records C uid) (\<lambda>_. io_return ())))
        (\<lambda>_. state_at True (settled C uid hs)) (\<lambda>_ _. False)"
      by (rule io_triple_weaken [OF io_triple_bind [OF lock load]]) (auto simp: state_at_def)
  qed auto
  show ?thesis
    unfolding journal_open_def
    by (rule io_triple_bind [OF valid], rule sys_bind [OF framed calm_fails], rule get_bind, rule rest)
qed

lemma journal_records_calm:
  assumes C: "codec_laws C" and hs: "sound_history hs"
  shows "io_triple (state_at True (settled C uid hs)) (journal_records C uid)
    (\<lambda>rs _. mset rs = mset hs) (\<lambda>_ _. False)"
  unfolding journal_records_def
  by (rule load_records_bind [OF C hs calm_fails], rule io_triple_return) (simp add: loaded_def)

text \<open>
  C4: A restarted process can always open its journal. Whatever operations ran before, whichever of
  their system calls failed and wherever the process died, opening the directory again with a
  working file system succeeds, and reading it back gives exactly the records it holds.
\<close>

theorem restart_opens_journal:
  assumes "codec_laws C" "journal_reachable C uid j"
  shows "case journal_open C uid (j\<lparr>jr_locked := False, jr_faults := []\<rparr>) of (r, j') \<Rightarrow>
    r = Inr () \<and> held C j' = held C j \<and>
    (case fst (journal_records C uid j') of Inl _ \<Rightarrow> False | Inr rs \<Rightarrow> mset rs = mset (held C j))"
proof -
  let ?j = "j\<lparr>jr_locked := False, jr_faults := []\<rparr>" and ?hs = "held C j"
  obtain r j' where opened: "journal_open C uid ?j = (r, j')" by (cases "journal_open C uid ?j")
  note hs = reachable_history [OF assms]
  have start: "state_at True (\<lambda>j. settled C uid ?hs j \<and> \<not> jr_locked j) ?j"
    using hs(2) by (simp add: state_at_def calm_def)
  note rule = journal_open_calm [OF assms(1) hs(3)]
  have r: "r = Inr ()"
    using io_tripleD_err [OF rule start] opened by (cases r) auto
  then have j': "state_at True (settled C uid ?hs) j'"
    using io_tripleD_ok [OF rule start] opened by simp
  obtain rs j'' where read: "journal_records C uid j' = (rs, j'')" by (cases "journal_records C uid j'")
  have "case rs of Inl _ \<Rightarrow> False | Inr rs \<Rightarrow> mset rs = mset ?hs"
    using io_tripleD_ok [OF journal_records_calm [OF assms(1) hs(3)] j']
      io_tripleD_err [OF journal_records_calm [OF assms(1) hs(3)] j'] read
    by (cases rs) auto
  then show ?thesis using r j' opened read by (simp add: state_at_def settled_def)
qed

theorem restart_opens_journal_witness:
  "case journal_open trial_codec 0 (trial_begun_journal\<lparr>jr_locked := False, jr_faults := []\<rparr>) of (r, j') \<Rightarrow>
    r = Inr () \<and> held trial_codec j' = [trial_begun]"
proof -
  have "journal_reachable trial_codec 0 trial_begun_journal"
    using journal_reachable.begun [OF trial_reachable, of trial_candidate trial_previous 5]
    by (simp add: trial_journal_begin)
  from restart_opens_journal [OF trial_codec_laws this] show ?thesis
    by (auto simp: trial_held split: prod.splits)
qed

text \<open>
  C11: The journal refines a list of records under the abstract steps. In every reachable directory
  the records it holds come from the empty history by such steps: an update starts only when all
  earlier ones are resolved, a record moves only along the phases, a reconciled one is rolled back,
  and the oldest resolved one is forgotten when the journal is full. A failing operation, too, takes
  the history along these steps or leaves it.
\<close>

theorem journal_refines_history:
  assumes "codec_laws C" "journal_reachable C uid j"
  shows "(history_step C)\<^sup>*\<^sup>* [] (held C j) \<and> sound_history (held C j) \<and>
    (history_step C)\<^sup>*\<^sup>* (held C j) (held C (snd (journal_begin C uid candidate previous now j))) \<and>
    (history_step C)\<^sup>*\<^sup>* (held C j) (held C (snd (journal_transition C uid r phase backup reason now j))) \<and>
    (history_step C)\<^sup>*\<^sup>* (held C j) (held C (snd (mark_recovered_rollback C uid r now j)))"
proof -
  let ?hs = "held C j"
  note hs = reachable_history [OF assms]
  have start: "state_at False (settled C uid ?hs) j" using hs(2) by (simp add: state_at_def calm_def)
  have evolves: "(history_step C)\<^sup>*\<^sup>* ?hs (held C (snd (m j)))"
    if m: "io_triple (state_at False (settled C uid ?hs)) m (\<lambda>_. evolved C uid ?hs) (\<lambda>_. evolved C uid ?hs)"
    for m :: "'a journal_io"
  proof -
    obtain r j' where j': "m j = (r, j')" by (cases "m j")
    then have "evolved C uid ?hs j'"
      using io_tripleD_ok [OF m start] io_tripleD_err [OF m start] by (cases r) auto
    then show ?thesis using j' by (auto simp: evolved_def settled_def)
  qed
  show ?thesis
    using hs(1,3) evolves [OF operations_evolve(3) [OF assms(1) hs(3)]]
      evolves [OF operations_evolve(4) [OF assms(1) hs(3)]]
      evolves [OF operations_evolve(5) [OF assms(1) hs(3)]] by simp
qed

theorem journal_refines_history_witness:
  "(history_step trial_codec)\<^sup>*\<^sup>* [] [trial_begun]"
proof -
  have "journal_reachable trial_codec 0 trial_begun_journal"
    using journal_reachable.begun [OF trial_reachable, of trial_candidate trial_previous 5]
    by (simp add: trial_journal_begin)
  from journal_refines_history [OF trial_codec_laws this] show ?thesis by (simp add: trial_held)
qed

text \<open>
  C8: A transition is atomic. Whichever of its system calls fails, the directory afterwards holds
  the records it held, or those with the one record replaced by its successor, and never a torn or
  missing one; a success means the replacement.
\<close>

theorem transition_is_atomic:
  assumes "codec_laws C" "journal_reachable C uid j"
  shows "case journal_transition C uid r phase backup reason now j of
    (Inr n, j') \<Rightarrow> r \<in> set (held C j) \<and> record_transitioned C r phase backup reason now = Inr n \<and>
      held C j' = put (held C j) n
  | (Inl _, j') \<Rightarrow> held C j' = held C j \<or>
      (case record_transitioned C r phase backup reason now of Inl _ \<Rightarrow> False
       | Inr n \<Rightarrow> r \<in> set (held C j) \<and> held C j' = put (held C j) n)"
proof -
  note hs = reachable_history [OF assms]
  have start: "state_at False (settled C uid (held C j)) j" using hs(2) by (simp add: state_at_def calm_def)
  note rule = journal_transition_rule [OF assms(1) hs(3), of False uid r phase backup reason now]
  obtain res j' where m: "journal_transition C uid r phase backup reason now j = (res, j')"
    by (cases "journal_transition C uid r phase backup reason now j")
  show ?thesis
  proof (cases res)
    case (Inl e)
    then show ?thesis
      using io_tripleD_err [OF rule start, of e j'] m by (auto simp: settled_def)
  next
    case (Inr n)
    then show ?thesis
      using io_tripleD_ok [OF rule start, of n j'] m by (auto simp: state_at_def settled_def)
  qed
qed

theorem transition_is_atomic_witness:
  "case journal_transition trial_codec 0 trial_begun Succeeded None None 7 trial_begun_journal of
     (Inr n, j') \<Rightarrow> False | (Inl _, j') \<Rightarrow> held trial_codec j' = [trial_begun]"
proof -
  have "journal_reachable trial_codec 0 trial_begun_journal"
    using journal_reachable.begun [OF trial_reachable, of trial_candidate trial_previous 5]
    by (simp add: trial_journal_begin)
  moreover have "record_transitioned trial_codec trial_begun Succeeded None None 7 = Inl InvalidJournalTransition"
  proof -
    have "sr_phase trial_begun = BackupPending" by (simp add: trial_begun_def)
    then show ?thesis
      by (simp add: record_transitioned_def trial_canonical bind_res_def valid_phase_transition_def)
  qed
  ultimately show ?thesis
    using transition_is_atomic [OF trial_codec_laws, of 0 trial_begun_journal trial_begun Succeeded None None 7]
    by (auto simp: trial_held split: prod.splits sum.splits)
qed

lemma reconcile_unresolved: "r \<in> set hs \<Longrightarrow> sr_phase r = NeedsReconcile \<Longrightarrow> \<not> list_all resolved hs"
  by (auto simp: list_all_iff resolved_def intro!: bexI [of _ r])

lemma stuck_stays:
  assumes "history_step C hs hs'" "sound_history hs" "r \<in> set hs"
    and "sr_phase r = NeedsReconcile" "sr_backup_receipt_digest r = None"
  shows "r \<in> set hs'"
proof -
  have same: "q = r" if "q \<in> set hs" "sr_operation_id q = sr_operation_id r" for q
    using assms(2,3) that by (auto simp: sound_history_def distinct_map dest: inj_onD)
  have unresolved: "\<not> list_all resolved hs" by (rule reconcile_unresolved [OF assms(3,4)])
  show ?thesis
    using assms(1)
  proof cases
    case (advance q phase backup reason now n)
    then have "sr_operation_id n \<noteq> sr_operation_id r"
      using record_transitioned_Inr(2) [OF advance(4)] same [of q] assms(4) by (auto simp: is_terminal_def)
    with assms(3) advance(1) show ?thesis by (simp add: mem_put)
  next
    case (recover q now n)
    then have "sr_operation_id n \<noteq> sr_operation_id r"
      using record_transitioned_Inr(2) [OF recover(5)] same [of q] assms(5) by auto
    with assms(3) recover(1) show ?thesis by (simp add: mem_put)
  qed (use unresolved in auto)
qed

lemma stuck_remains:
  assumes "(history_step C)\<^sup>*\<^sup>* hs hs'" "sound_history hs" "r \<in> set hs"
    and "sr_phase r = NeedsReconcile" "sr_backup_receipt_digest r = None"
  shows "r \<in> set hs'"
  using assms(1)
proof (induction rule: rtranclp_induct)
  case (step y z)
  show ?case
    by (rule stuck_stays [OF step(2) histories_sound [OF step(1) assms(2)] step(3) assms(4,5)])
qed (rule assms(3))

text \<open>
  C32: An update that needs reconciliation and has no backup blocks the journal for good. No
  operation of the journal, whatever its arguments and whichever of its calls fail, removes or
  changes its record, and no new update can begin while it is there.
\<close>

theorem unrecoverable_update_blocks_journal:
  assumes C: "codec_laws C" and "journal_reachable C uid j" "r \<in> set (held C j)"
    and "sr_phase r = NeedsReconcile" "sr_backup_receipt_digest r = None"
  shows "is_ok (fst (journal_begin C uid candidate previous now j)) = False \<and>
    r \<in> set (held C (snd (journal_begin C uid candidate previous now j))) \<and>
    r \<in> set (held C (snd (journal_transition C uid q phase backup reason now j))) \<and>
    r \<in> set (held C (snd (mark_recovered_rollback C uid q now j)))"
proof -
  note hs = reachable_history [OF assms(1,2)]
  have start: "state_at False (settled C uid (held C j)) j" using hs(2) by (simp add: state_at_def calm_def)
  have unresolved: "\<not> list_all resolved (held C j)" by (rule reconcile_unresolved [OF assms(3,4)])
  have "\<not> is_ok (fst (journal_begin C uid candidate previous now j))"
    using io_tripleD_ok [OF journal_begin_rule [OF C hs(3)] start] unresolved
    by (cases "journal_begin C uid candidate previous now j") (auto simp: is_ok_def split: sum.splits)
  moreover have "r \<in> set (held C (snd (m j)))"
    if m: "io_triple (state_at False (settled C uid (held C j))) m (\<lambda>_. evolved C uid (held C j))
      (\<lambda>_. evolved C uid (held C j))" for m :: "'a journal_io"
  proof -
    obtain x j' where j': "m j = (x, j')" by (cases "m j")
    then have "evolved C uid (held C j) j'"
      using io_tripleD_ok [OF m start] io_tripleD_err [OF m start] by (cases x) auto
    then show ?thesis
      using j' stuck_remains [OF _ hs(3) assms(3-5)] by (auto simp: evolved_def settled_def)
  qed
  note kept = this
  ultimately show ?thesis
    using kept [OF operations_evolve(3) [OF C hs(3)]] kept [OF operations_evolve(4) [OF C hs(3)]]
      kept [OF operations_evolve(5) [OF C hs(3)]] by simp
qed

theorem unrecoverable_update_blocks_journal_witness:
  "is_ok (fst (journal_begin trial_codec 0 trial_candidate trial_previous 9 trial_failed_journal)) = False"
proof -
  have "journal_reachable trial_codec 0 trial_begun_journal"
    using journal_reachable.begun [OF trial_reachable, of trial_candidate trial_previous 5]
    by (simp add: trial_journal_begin)
  then have reachable: "journal_reachable trial_codec 0 trial_failed_journal"
    using journal_reachable.transition [of trial_codec 0 trial_begun_journal trial_begun NeedsReconcile None
        "Some ''active_release_changed''" 5]
    by (simp only: trial_journal_transition snd_conv)
  have "trial_failed \<in> set (held trial_codec trial_failed_journal)"
    by (simp add: trial_failed_held)
  from unrecoverable_update_blocks_journal [OF trial_codec_laws reachable this]
  show ?thesis by (simp add: trial_failed_def trial_begun_def)
qed


section \<open>The coordinator\<close>

text \<open>
  C31: The coordinator's loop ends. Every step that succeeds moves the record to a phase closer to a
  terminal one, so that seven rounds are enough from any record: with any larger bound, the sixteen
  of the code among them, an update gives the same result and leaves the same world, and the error
  for an exhausted loop is never the reason it stops.
\<close>

theorem update_loop_is_bounded:
  assumes "7 \<le> k"
  shows "apply_loop C uid P now_ms k record w = apply_loop C uid P now_ms 16 record w"
proof -
  have "phase_rank (sr_phase record) < 7" by (cases "sr_phase record") simp_all
  then show ?thesis using assms by (intro apply_loop_enough) simp_all
qed

theorem update_loop_is_bounded_witness:
  "apply_loop trial_codec 0 trial_platform 5 7 trial_begun trial_world =
   apply_loop trial_codec 0 trial_platform 5 16 trial_begun trial_world"
  by (rule update_loop_is_bounded) simp

text \<open>
  C6: The \<open>current\<close> pointer always fits the journal. In every world that updates, resumptions,
  recoveries and restarts reach, with any call failing, while nothing else moves it, at most one update is unresolved, and the
  pointer of the installed platform names the release its phase calls for: the previous one before
  the switch and after a rollback, the candidate from the switch to the end.
\<close>

theorem pointer_fits_journal:
  assumes "codec_laws C"
    and "update_reachable C uid (installed_platform K runtime_paths_installed owner R)
      (current_release runtime_paths_installed) w"
  shows "fits (held C (uw_journal w)) (current_release runtime_paths_installed (uw_platform w))"
  using installed.reachable_steady [OF assms] by (auto simp: steady_def world_def settled_def)

theorem pointer_fits_journal_witness:
  "uw_journal (snd (apply_update trial_codec 0 trial_platform trial_candidate 5 trial_world)) =
     trial_begun_journal \<and>
   current_release runtime_paths_installed
     (uw_platform (snd (apply_update trial_codec 0 trial_platform trial_candidate 5 trial_world))) =
     Some trial_previous"
proof -
  let ?w = "snd (apply_update trial_codec 0 trial_platform trial_candidate 5 trial_world)"
  have "update_reachable trial_codec 0 trial_platform (current_release runtime_paths_installed) trial_world"
    unfolding trial_world_def by (rule update_reachable.initial) (simp_all add: trial_journal_def)
  from pointer_fits_journal [OF trial_codec_laws update_reachable.updated [OF this, of trial_candidate 5]]
  have "fits [trial_begun] (current_release runtime_paths_installed (uw_platform ?w))"
    by (simp add: trial_apply trial_held)
  then show ?thesis
    by (simp add: trial_apply fits_def pointer_fits.simps) (simp add: trial_begun_def resolved_def)
qed

text \<open>
  C2: The outcome of an update tells which release runs. While nothing else moves the pointer: when an update ends, its record is in the
  journal with that outcome, and the pointer fits it: after \<open>Succeeded\<close> the candidate is current,
  after \<open>RolledBack\<close> the previous release is, and \<open>NeedsReconcile\<close> is reached only with the previous
  release current, a backup at hand and the reason that the rollback was unhealthy. An update that
  fails on the way leaves a journal and a pointer from which it can be resumed.
\<close>

theorem update_outcome_names_release:
  assumes "codec_laws C"
    and "update_reachable C uid (installed_platform K runtime_paths_installed owner R)
      (current_release runtime_paths_installed) w"
  shows "case apply_update C uid (installed_platform K runtime_paths_installed owner R) candidate now_ms w of
      (Inr outcome, w') \<Rightarrow>
        list_ex (\<lambda>r. terminal_outcome (sr_phase r) = Some outcome \<and>
          sr_candidate_release_digest r = candidate \<and>
          pointer_fits r (current_release runtime_paths_installed (uw_platform w')))
          (held C (uw_journal w'))
    | (Inl _, w') \<Rightarrow> fits (held C (uw_journal w')) (current_release runtime_paths_installed (uw_platform w'))"
proof -
  let ?P = "installed_platform K runtime_paths_installed owner R"
  note start = installed.reachable_steady [OF assms]
  note rule = installed.apply_update_ends [OF assms(1), of uid K owner R candidate now_ms]
  obtain r w' where m: "apply_update C uid ?P candidate now_ms w = (r, w')"
    by (cases "apply_update C uid ?P candidate now_ms w")
  show ?thesis
  proof (cases r)
    case (Inl e)
    then show ?thesis
      using io_tripleD_err [OF rule start, of e w'] m by (auto simp: steady_def world_def settled_def)
  next
    case (Inr outcome)
    then show ?thesis
      using io_tripleD_ok [OF rule start, of outcome w'] m
      by (auto simp: installed.ended_def installed.standing_def world_def settled_def list_ex_iff)
  qed
qed

theorem update_outcome_names_release_witness:
  "case apply_update trial_codec 0 trial_platform trial_candidate 5 trial_world of
     (Inr outcome, w') \<Rightarrow> list_ex (\<lambda>r. terminal_outcome (sr_phase r) = Some outcome) [trial_begun]
   | (Inl _, w') \<Rightarrow> fits [trial_begun] (current_release runtime_paths_installed (uw_platform w'))"
proof -
  have "update_reachable trial_codec 0 trial_platform (current_release runtime_paths_installed) trial_world"
    unfolding trial_world_def by (rule update_reachable.initial) (simp_all add: trial_journal_def)
  from update_outcome_names_release [OF trial_codec_laws this, of trial_candidate 5] trial_apply
  show ?thesis by (auto simp: trial_held split: prod.splits sum.splits)
qed



section \<open>The installed platform\<close>

text \<open>
  C12: \<open>current\<close> is never visible before its rollback target. From a machine without a \<open>current\<close> link,
  or with both pointers in place, initialising the pointers leaves, at every point where a call may
  fail or the process may die, either no \<open>current\<close> link or both links naming the release; when it
  succeeds, both name it.
\<close>

theorem current_never_before_rollback_target:
  assumes "guarded runtime_paths_installed d (in_links s)"
  shows "case initialize_release_pointers K runtime_paths_installed uid d s of
      (Inl _, s') \<Rightarrow> guarded runtime_paths_installed d (in_links s')
    | (Inr _, s') \<Rightarrow> names_release (rp_current_link runtime_paths_installed) d (in_links s') \<and>
        names_release (rp_last_known_good_link runtime_paths_installed) d (in_links s')"
proof -
  obtain r s' where m: "initialize_release_pointers K runtime_paths_installed uid d s = (r, s')"
    by (cases "initialize_release_pointers K runtime_paths_installed uid d s")
  show ?thesis
    using io_tripleD_ok [OF initialize_release_pointers_rule assms] m
      io_tripleD_err [OF initialize_release_pointers_rule assms]
    by (cases r) auto
qed

theorem current_never_before_rollback_target_witness:
  "case initialize_release_pointers trial_platform_codec runtime_paths_installed 0 trial_candidate
      (trial_installed\<lparr>in_links := []\<rparr>) of
     (Inl _, s') \<Rightarrow> guarded runtime_paths_installed trial_candidate (in_links s')
   | (Inr _, s') \<Rightarrow> names_release (rp_current_link runtime_paths_installed) trial_candidate (in_links s') \<and>
       names_release (rp_last_known_good_link runtime_paths_installed) trial_candidate (in_links s')"
  by (rule current_never_before_rollback_target) (simp add: guarded_def)

lemma listed_backup:
  "operation \<in> fst ` set B \<Longrightarrow> P operation \<Longrightarrow> list_ex (\<lambda>(operation, _). P operation) B"
  by (force simp: list_ex_iff)

lemma failed_restoration:
  assumes "restore_release_checked K runtime_paths_installed uid R previous digest s = (Inl e, s')"
  shows "list_all (\<lambda>d. in_files s' (database_key d) = in_files s (database_key d) \<or>
    list_ex (\<lambda>(operation, _). restored_copy (in_backups s) operation d (in_files s')) (in_backups s))
    installed_state_databases"
proof -
  have keys: "\<not> scratch_key (database_key d)" if "d \<in> set installed_state_databases" for d
    using installed_databases_apart(1) that by (auto simp: list_all_iff apart_def database_key_def)
  consider "files_at (in_backups s) (in_files s) (disk s')"
    | operation where "operation \<in> fst ` set (in_backups s)"
        "some_restored (in_backups s) (in_files s) operation installed_state_databases (disk s')"
    using restore_release_rule [OF disk_def [of s], where K = K and uid = uid and R = R and
        previous = previous and digest = digest] assms by auto
  then show ?thesis
  proof cases
    case 1
    then show ?thesis using keys by (auto simp: list_all_iff files_at_def)
  next
    case 2
    then show ?thesis
      using listed_backup [OF 2(1)] by (auto simp: list_all_iff some_restored_def)
  qed
qed

lemma finished_restoration:
  assumes "restore_release_checked K runtime_paths_installed uid R previous digest s = (Inr x, s')"
  shows "current_release runtime_paths_installed s' = Some previous"
    "list_ex (\<lambda>(operation, _). holds_receipt K digest (in_backups s) operation \<and>
       list_all (\<lambda>d. restored_copy (in_backups s) operation d (in_files s')) installed_state_databases)
       (in_backups s)"
proof -
  show "current_release runtime_paths_installed s' = Some previous"
    using restore_moves_current(2) assms unfolding lands_def by blast
  obtain operation where o': "operation \<in> fst ` set (in_backups s)"
    "holds_receipt K digest (in_backups s) operation"
    "all_restored (in_backups s) (in_files s) operation installed_state_databases (disk s')"
    using restore_release_rule [OF disk_def [of s], where K = K and uid = uid and R = R and
        previous = previous and digest = digest] assms by auto
  show "list_ex (\<lambda>(operation, _). holds_receipt K digest (in_backups s) operation \<and>
       list_all (\<lambda>d. restored_copy (in_backups s) operation d (in_files s')) installed_state_databases)
       (in_backups s)"
    by (rule listed_backup [OF o'(1)]) (use o' in \<open>auto simp: list_all_iff all_restored_def\<close>)
qed


end
